(* ===== verification/Prelude.thy ===== *)
theory Prelude
  imports Main "HOL-Library.Product_Lexorder"
begin

text \<open>
  The vocabulary the other theories share: identifiers and times, the results of fallible
  operations, tables as lists of rows with their lemma collections, and decimal printing
  (\<^verbatim>\<open>%d\<close> of Go's \<^verbatim>\<open>fmt\<close>).
\<close>

section \<open>Names and results\<close>

text \<open>
  A \<^verbatim>\<open>uuid.UUID\<close> is 16 bytes compared for equality and, in two \<^verbatim>\<open>ORDER BY\<close>
  clauses, for order; it is modelled by the number those bytes spell. A Go string is a sequence
  of bytes, as is HOL's \<open>string\<close>. A \<^verbatim>\<open>time.Time\<close> is a number of microseconds, the
  resolution of PostgreSQL's \<^verbatim>\<open>timestamptz\<close>.
\<close>

type_synonym uuid = nat
type_synonym time = int

named_theorems table_simps \<open>lookups, updates and deletions on tables\<close>
named_theorems result_simps \<open>eliminating the error branch of a fallible operation\<close>

text \<open>Keeping the error of a failed result, and reading the value of a successful one.\<close>

definition bindR :: "'e + 'a \<Rightarrow> ('a \<Rightarrow> 'e + 'b) \<Rightarrow> 'e + 'b" where
  "bindR m f = (case m of Inl e \<Rightarrow> Inl e | Inr x \<Rightarrow> f x)"

lemma bindR_simps [simp]:
  "bindR (Inl e) f = Inl e"
  "bindR (Inr x) f = f x"
  by (simp_all add: bindR_def)

lemma bindR_Inr_iff [result_simps]: "bindR m f = Inr y \<longleftrightarrow> (\<exists>x. m = Inr x \<and> f x = Inr y)"
  by (cases m) auto

lemma bindR_Inl_iff [result_simps]:
  "bindR m f = Inl e \<longleftrightarrow> m = Inl e \<or> (\<exists>x. m = Inr x \<and> f x = Inl e)"
  by (cases m) auto

section \<open>Tables\<close>

text \<open>
  A table is the list of its rows in the order they were inserted. \<open>find_row\<close> is a
  \<^verbatim>\<open>:one\<close> query, \<open>update_rows\<close> an \<^verbatim>\<open>UPDATE ... WHERE\<close>, \<open>delete_rows\<close> a
  \<^verbatim>\<open>DELETE ... WHERE\<close>.
\<close>

definition find_row :: "('r \<Rightarrow> bool) \<Rightarrow> 'r list \<Rightarrow> 'r option" where
  "find_row p t = List.find p t"

definition update_rows :: "('r \<Rightarrow> bool) \<Rightarrow> ('r \<Rightarrow> 'r) \<Rightarrow> 'r list \<Rightarrow> 'r list" where
  "update_rows p f t = map (\<lambda>r. if p r then f r else r) t"

definition delete_rows :: "('r \<Rightarrow> bool) \<Rightarrow> 'r list \<Rightarrow> 'r list" where
  "delete_rows p t = filter (\<lambda>r. \<not> p r) t"

lemma find_row_None [table_simps]: "find_row p t = None \<longleftrightarrow> (\<forall>r \<in> set t. \<not> p r)"
  by (auto simp: find_row_def find_None_iff)

lemma find_row_SomeD: "find_row p t = Some r \<Longrightarrow> r \<in> set t \<and> p r"
  by (auto simp: find_row_def find_Some_iff)

lemma find_row_Nil [simp]: "find_row p [] = None"
  by (simp add: find_row_def)

lemma find_row_Cons [simp]: "find_row p (r # t) = (if p r then Some r else find_row p t)"
  by (simp add: find_row_def)

lemma find_row_append:
  "find_row p (s @ t) = (case find_row p s of None \<Rightarrow> find_row p t | Some r \<Rightarrow> Some r)"
  by (induction s) auto

lemma find_row_cong: "(\<And>r. r \<in> set t \<Longrightarrow> p r = q r) \<Longrightarrow> find_row p t = find_row q t"
  by (induction t) auto

lemma set_update_rows [table_simps]:
  "set (update_rows p f t) = (\<lambda>r. if p r then f r else r) ` set t"
  by (simp add: update_rows_def)

lemma set_delete_rows [table_simps]: "set (delete_rows p t) = {r \<in> set t. \<not> p r}"
  by (auto simp: delete_rows_def)

lemma length_update_rows [simp]: "length (update_rows p f t) = length t"
  by (simp add: update_rows_def)

lemma update_rows_Nil [simp]: "update_rows p f [] = []"
  by (simp add: update_rows_def)

lemma update_rows_Cons [simp]:
  "update_rows p f (r # t) = (if p r then f r else r) # update_rows p f t"
  by (simp add: update_rows_def)

lemma delete_rows_Nil [simp]: "delete_rows p [] = []"
  by (simp add: delete_rows_def)

lemma delete_rows_Cons [simp]:
  "delete_rows p (r # t) = (if p r then delete_rows p t else r # delete_rows p t)"
  by (simp add: delete_rows_def)

lemma map_update_rows_same:
  "(\<And>r. r \<in> set t \<Longrightarrow> p r \<Longrightarrow> k (f r) = k r) \<Longrightarrow> map k (update_rows p f t) = map k t"
  by (induction t) auto

lemma update_rows_none: "(\<And>r. r \<in> set t \<Longrightarrow> \<not> p r) \<Longrightarrow> update_rows p f t = t"
  by (induction t) auto

lemma delete_rows_none: "(\<And>r. r \<in> set t \<Longrightarrow> \<not> p r) \<Longrightarrow> delete_rows p t = t"
  by (induction t) auto

lemma find_row_update_rows:
  assumes "\<And>r. q (f r) = q r"
  shows "find_row q (update_rows p f t) = map_option (\<lambda>r. if p r then f r else r) (find_row q t)"
  using assms by (induction t) auto

lemma find_row_update_gone:
  "(\<And>r. p r \<Longrightarrow> \<not> q (f r)) \<Longrightarrow> (\<And>r. q r \<Longrightarrow> p r) \<Longrightarrow> find_row q (update_rows p f t) = None"
  by (induction t) auto

lemma find_row_delete_rows:
  "(\<And>r. q r \<Longrightarrow> \<not> p r) \<Longrightarrow> find_row q (delete_rows p t) = find_row q t"
  by (induction t) auto

text \<open>A primary key: no two rows of the table share it.\<close>

definition pkey :: "('r \<Rightarrow> 'k) \<Rightarrow> 'r list \<Rightarrow> bool" where
  "pkey k t \<longleftrightarrow> distinct (map k t)"

lemma pkey_Nil [simp]: "pkey k []"
  by (simp add: pkey_def)

lemma pkey_append1 [table_simps]: "pkey k (t @ [r]) \<longleftrightarrow> pkey k t \<and> k r \<notin> k ` set t"
  by (auto simp: pkey_def)

lemma pkey_delete: "pkey k t \<Longrightarrow> pkey k (delete_rows p t)"
  by (simp add: pkey_def delete_rows_def distinct_map_filter)

lemma pkey_update: "(\<And>r. k (f r) = k r) \<Longrightarrow> pkey k (update_rows p f t) = pkey k t"
  by (simp add: pkey_def map_update_rows_same)

lemma pkey_unique: "pkey k t \<Longrightarrow> r \<in> set t \<Longrightarrow> s \<in> set t \<Longrightarrow> k r = k s \<Longrightarrow> r = s"
  by (auto simp: pkey_def distinct_map dest: inj_onD)

lemma find_row_pkey:
  assumes "pkey k t" "r \<in> set t"
  shows "find_row (\<lambda>x. k x = k r) t = Some r"
proof (cases "find_row (\<lambda>x. k x = k r) t")
  case None
  with assms(2) show ?thesis by (auto simp: find_row_None)
next
  case (Some s)
  then have "s \<in> set t" "k s = k r" by (auto dest: find_row_SomeD)
  with assms have "s = r" by (blast intro: pkey_unique)
  with Some show ?thesis by simp
qed

text \<open>A join of three tables, as a list comprehension over nested selections.\<close>

lemma set_comprehension:
  "set [f p t m. p \<leftarrow> xs, P p, t \<leftarrow> ys, Q p t, m \<leftarrow> zs, R p t m] =
     {f p t m |p t m. p \<in> set xs \<and> P p \<and> t \<in> set ys \<and> Q p t \<and> m \<in> set zs \<and> R p t m}"
  by (force split: if_splits)

section \<open>Ordering results\<close>

text \<open>
  \<^verbatim>\<open>ORDER BY\<close> on numbers and times is \<open>sort_key\<close>; rows that tie keep the table's
  order. Text is ordered by a comparison.
\<close>

fun insert_by :: "('a \<Rightarrow> 'a \<Rightarrow> bool) \<Rightarrow> 'a \<Rightarrow> 'a list \<Rightarrow> 'a list" where
  "insert_by le x [] = [x]"
| "insert_by le x (y # ys) = (if le x y then x # y # ys else y # insert_by le x ys)"

definition sort_by :: "('a \<Rightarrow> 'a \<Rightarrow> bool) \<Rightarrow> 'a list \<Rightarrow> 'a list" where
  "sort_by le xs = foldr (insert_by le) xs []"

lemma set_insert_by [simp]: "set (insert_by le x ys) = insert x (set ys)"
  by (induction ys) auto

lemma set_sort_by [simp]: "set (sort_by le xs) = set xs"
  by (induction xs) (auto simp: sort_by_def)

lemma length_insert_by [simp]: "length (insert_by le x ys) = Suc (length ys)"
  by (induction ys) auto

lemma length_sort_by [simp]: "length (sort_by le xs) = length xs"
  by (induction xs) (auto simp: sort_by_def)

text \<open>Where a value first occurs in a list, counted from 0.\<close>

fun position :: "'a list \<Rightarrow> 'a \<Rightarrow> nat option" where
  "position [] x = None"
| "position (y # ys) x = (if x = y then Some 0 else map_option Suc (position ys x))"

lemma position_None [simp]: "position xs x = None \<longleftrightarrow> x \<notin> set xs"
  by (induction xs) auto

lemma position_nth: "position xs x = Some n \<Longrightarrow> n < length xs \<and> xs ! n = x"
  by (induction xs arbitrary: n) (auto split: if_splits)

lemma position_distinct: "distinct xs \<Longrightarrow> n < length xs \<Longrightarrow> position xs (xs ! n) = Some n"
proof (induction xs arbitrary: n)
  case (Cons x xs)
  then show ?case by (cases n) auto
qed simp

section \<open>Decimal numerals\<close>

definition digit_char :: "nat \<Rightarrow> char" where
  "digit_char n = char_of (48 + n)"

fun show_nat :: "nat \<Rightarrow> string" where
  "show_nat n = (if n < 10 then [digit_char n] else show_nat (n div 10) @ [digit_char (n mod 10)])"

declare show_nat.simps [simp del]

definition show_int :: "int \<Rightarrow> string" where
  "show_int i = (if i < 0 then CHR ''-'' # show_nat (nat (- i)) else show_nat (nat i))"

lemma show_nat_nonempty: "show_nat n \<noteq> []"
  by (subst show_nat.simps) simp

end
