(* ===== verification/GoText.thy ===== *)
theory GoText
  imports Prelude
begin

text \<open>
  Text as Go has it: a \<^verbatim>\<open>string\<close> is a sequence of bytes that usually, but not
  necessarily, is UTF-8. This theory models the standard library routines the handlers apply to
  text (\<^verbatim>\<open>unicode/utf8\<close>, \<^verbatim>\<open>strings\<close>), the length rules of
  \<^verbatim>\<open>internal/api/projects.go\<close>, and the text rules of PostgreSQL that mirror them.
\<close>

section \<open>Bytes and runes\<close>

abbreviation byte :: "char \<Rightarrow> nat" where
  "byte c \<equiv> of_char c"

definition cont_byte :: "char \<Rightarrow> bool" where
  "cont_byte c = (0x80 \<le> byte c \<and> byte c \<le> 0xBF)"

text \<open>The range the second byte of a sequence must lie in, given the first (RFC 3629).\<close>

definition second_ok :: "char \<Rightarrow> char \<Rightarrow> bool" where
  "second_ok b c =
     (if byte b = 0xE0 then 0xA0 \<le> byte c \<and> byte c \<le> 0xBF
      else if byte b = 0xED then 0x80 \<le> byte c \<and> byte c \<le> 0x9F
      else if byte b = 0xF0 then 0x90 \<le> byte c \<and> byte c \<le> 0xBF
      else if byte b = 0xF4 then 0x80 \<le> byte c \<and> byte c \<le> 0x8F
      else cont_byte c)"

definition lead2 :: "char \<Rightarrow> bool" where
  "lead2 b = (0xC2 \<le> byte b \<and> byte b \<le> 0xDF)"

definition lead3 :: "char \<Rightarrow> bool" where
  "lead3 b = (0xE0 \<le> byte b \<and> byte b \<le> 0xEF)"

definition lead4 :: "char \<Rightarrow> bool" where
  "lead4 b = (0xF0 \<le> byte b \<and> byte b \<le> 0xF4)"

text \<open>
  How the text begins: \<open>Some n\<close> when its first \<open>n\<close> bytes encode one rune, \<open>None\<close> when they
  encode none, which Go reads as one replacement rune of width 1.
\<close>

definition rune_at :: "string \<Rightarrow> nat option" where
  "rune_at s = (case s of
     [] \<Rightarrow> None
   | b # s1 \<Rightarrow>
       if byte b < 0x80 then Some 1
       else case s1 of
         [] \<Rightarrow> None
       | c # s2 \<Rightarrow>
           if lead2 b then (if cont_byte c then Some 2 else None)
           else if lead3 b \<and> second_ok b c then
             (case s2 of [] \<Rightarrow> None | d # s3 \<Rightarrow> if cont_byte d then Some 3 else None)
           else if lead4 b \<and> second_ok b c then
             (case s2 of
                d # e # s4 \<Rightarrow> if cont_byte d \<and> cont_byte e then Some 4 else None
              | _ \<Rightarrow> None)
           else None)"

definition rune_width :: "string \<Rightarrow> nat" where
  "rune_width s = (case rune_at s of None \<Rightarrow> 1 | Some n \<Rightarrow> n)"

lemma rune_width_pos: "0 < rune_width s"
  by (auto simp: rune_width_def rune_at_def split: option.splits list.splits if_splits)

lemma rune_at_le: "rune_at s = Some n \<Longrightarrow> 0 < n \<and> n \<le> 4 \<and> n \<le> length s"
  by (auto simp: rune_at_def split: list.splits if_splits)

lemma rune_width_le: "rune_width s \<le> 4"
  by (auto simp: rune_width_def dest: rune_at_le split: option.splits)

text \<open>\<^verbatim>\<open>utf8.RuneCountInString\<close>.\<close>

function rune_count :: "string \<Rightarrow> nat" where
  "rune_count s = (if s = [] then 0 else Suc (rune_count (drop (rune_width s) s)))"
  by pat_completeness auto
termination
  by (relation "measure length") (auto simp: rune_width_pos)

declare rune_count.simps [simp del]

lemma rune_count_Nil [simp]: "rune_count [] = 0"
  by (simp add: rune_count.simps)

lemma rune_count_zero [simp]: "rune_count s = 0 \<longleftrightarrow> s = []"
  by (simp add: rune_count.simps [of s])

lemma rune_count_le_length: "rune_count s \<le> length s"
proof (induction s rule: rune_count.induct)
  case (1 s)
  show ?case
  proof (cases "s = []")
    case False
    then have "rune_count (drop (rune_width s) s) \<le> length s - rune_width s"
      using 1 by simp
    with False rune_width_pos [of s] show ?thesis
      by (subst rune_count.simps) (cases s, auto)
  qed simp
qed

lemma length_le_rune_count: "length s \<le> 4 * rune_count s"
proof (induction s rule: rune_count.induct)
  case (1 s)
  show ?case
  proof (cases "s = []")
    case False
    then have "length s - rune_width s \<le> 4 * rune_count (drop (rune_width s) s)"
      using 1 by simp
    with False rune_width_le [of s] show ?thesis
      by (simp add: rune_count.simps [of s])
  qed simp
qed

lemma rune_count_ascii: "\<forall>c \<in> set s. byte c < 0x80 \<Longrightarrow> rune_count s = length s"
proof (induction s)
  case (Cons c s)
  then have "rune_width (c # s) = 1"
    by (simp add: rune_width_def rune_at_def)
  with Cons show ?case by (simp add: rune_count.simps [of "c # s"])
qed simp

section \<open>Trimming\<close>

text \<open>The UTF-8 encodings of the runes with \<^verbatim>\<open>unicode.IsSpace\<close>.\<close>

definition space_runes :: "string list" where
  "space_runes =
     [[CHR 0x09], [CHR 0x0A], [CHR 0x0B], [CHR 0x0C], [CHR 0x0D], [CHR 0x20],
      [CHR 0xC2, CHR 0x85], [CHR 0xC2, CHR 0xA0],
      [CHR 0xE1, CHR 0x9A, CHR 0x80]]
     @ map (\<lambda>n. [CHR 0xE2, CHR 0x80, n])
         [CHR 0x80, CHR 0x81, CHR 0x82, CHR 0x83, CHR 0x84, CHR 0x85, CHR 0x86, CHR 0x87, CHR 0x88,
          CHR 0x89, CHR 0x8A, CHR 0xA8, CHR 0xA9, CHR 0xAF]
     @ [[CHR 0xE2, CHR 0x81, CHR 0x9F], [CHR 0xE3, CHR 0x80, CHR 0x80]]"

definition is_prefix :: "string \<Rightarrow> string \<Rightarrow> bool" where
  "is_prefix p s = (take (length p) s = p)"

lemma is_prefix_Nil [simp]: "is_prefix [] s"
  by (simp add: is_prefix_def)

lemma is_prefix_Cons [simp]:
  "is_prefix (a # p) s = (case s of [] \<Rightarrow> False | b # s' \<Rightarrow> a = b \<and> is_prefix p s')"
  by (auto simp: is_prefix_def split: list.splits)

definition leading_space :: "string list \<Rightarrow> string \<Rightarrow> string option" where
  "leading_space sp s = List.find (\<lambda>p. is_prefix p s) sp"

lemma space_runes_nonempty: "p \<in> set space_runes \<Longrightarrow> p \<noteq> []"
  by (auto simp: space_runes_def)

text \<open>
  Dropping the encodings \<open>sp\<close> from the left. Reading from the right is the same walk over the
  reversed bytes and the reversed encodings: \<^verbatim>\<open>utf8.DecodeLastRune\<close> finds a multi-byte rune
  at the end exactly when its encoding is a suffix.
\<close>

function drop_spaces :: "string list \<Rightarrow> string \<Rightarrow> string" where
  "drop_spaces sp s = (case leading_space sp s of
     None \<Rightarrow> s
   | Some p \<Rightarrow> if p = [] \<or> s = [] then s else drop_spaces sp (drop (length p) s))"
  by pat_completeness auto
termination
  by (relation "measure (length \<circ> snd)") auto

declare drop_spaces.simps [simp del]

definition TrimSpace :: "string \<Rightarrow> string" where
  "TrimSpace s = rev (drop_spaces (map rev space_runes) (rev (drop_spaces space_runes s)))"

lemma drop_spaces_suffix: "\<exists>p. s = p @ drop_spaces sp s"
proof (induction sp s rule: drop_spaces.induct)
  case (1 sp s)
  show ?case
  proof (cases "leading_space sp s")
    case None
    then show ?thesis by (simp add: drop_spaces.simps [of sp s])
  next
    case (Some p)
    show ?thesis
    proof (cases "p = [] \<or> s = []")
      case False
      with 1 Some obtain q where "drop (length p) s = q @ drop_spaces sp (drop (length p) s)"
        by blast
      then have "s = (take (length p) s @ q) @ drop_spaces sp (drop (length p) s)"
        by (metis append_assoc append_take_drop_id)
      moreover have "drop_spaces sp s = drop_spaces sp (drop (length p) s)"
      using Some False by (subst drop_spaces.simps) simp
    ultimately show ?thesis by metis
    qed (simp add: Some drop_spaces.simps [of sp s])
  qed
qed

lemma drop_spaces_length: "length (drop_spaces sp s) \<le> length s"
  using drop_spaces_suffix [of s sp] by (metis length_append le_add2)

lemma TrimSpace_infix: "\<exists>p q. s = p @ TrimSpace s @ q"
proof -
  obtain p where p: "s = p @ drop_spaces space_runes s" using drop_spaces_suffix by blast
  obtain q where "rev (drop_spaces space_runes s) =
      q @ drop_spaces (map rev space_runes) (rev (drop_spaces space_runes s))"
    using drop_spaces_suffix by blast
  then have "drop_spaces space_runes s = TrimSpace s @ rev q"
    unfolding TrimSpace_def by (metis rev_append rev_rev_ident)
  with p show ?thesis by metis
qed

lemma set_TrimSpace: "set (TrimSpace s) \<subseteq> set s"
  using TrimSpace_infix [of s] by (metis Un_iff set_append subsetI)

lemma drop_spaces_leading:
  assumes "[] \<notin> set sp"
  shows "leading_space sp (drop_spaces sp s) = None \<or> drop_spaces sp s = []"
  using assms
proof (induction sp s rule: drop_spaces.induct)
  case (1 sp s)
  show ?case
  proof (cases "leading_space sp s")
    case None
    then show ?thesis by (simp add: drop_spaces.simps [of sp s])
  next
    case (Some p)
    then have "p \<in> set sp" by (auto simp: leading_space_def find_Some_iff)
    with 1 have "p \<noteq> []" by auto
    then show ?thesis
    proof (cases "s = []")
      case True
      with Some \<open>p \<noteq> []\<close> show ?thesis by (subst (2) drop_spaces.simps) simp
    next
      case False
      with Some \<open>p \<noteq> []\<close> have "drop_spaces sp s = drop_spaces sp (drop (length p) s)"
        by (subst drop_spaces.simps) simp
      with 1 Some False \<open>p \<noteq> []\<close> show ?thesis by simp
    qed
  qed
qed

lemma leading_space_append: "leading_space sp (s @ t) = None \<Longrightarrow> leading_space sp s = None"
  by (auto simp: leading_space_def find_None_iff is_prefix_def)

section \<open>Case\<close>

text \<open>
  \<^verbatim>\<open>strings.ToLower\<close> maps ASCII text byte by byte; for other text it consults the Unicode
  tables, which are the parameter \<open>uni\<close>.
\<close>

definition ascii_lower :: "char \<Rightarrow> char" where
  "ascii_lower c = (if 65 \<le> byte c \<and> byte c \<le> 90 then char_of (byte c + 32) else c)"

definition is_ascii :: "string \<Rightarrow> bool" where
  "is_ascii s = (\<forall>c \<in> set s. byte c < 0x80)"

definition ToLower :: "(string \<Rightarrow> string) \<Rightarrow> string \<Rightarrow> string" where
  "ToLower uni s = (if is_ascii s then map ascii_lower s else uni s)"

lemma ascii_lower_idem [simp]: "ascii_lower (ascii_lower c) = ascii_lower c"
  by (auto simp: ascii_lower_def)

section \<open>Length rules\<close>

definition validateTrimmedLength :: "string \<Rightarrow> string \<Rightarrow> nat \<Rightarrow> nat \<Rightarrow> string + string" where
  "validateTrimmedLength field raw minLength maxLength =
     (let v = TrimSpace raw; n = rune_count v in
      if n < minLength then Inl (field @ '' is required'')
      else if n > maxLength then
        Inl (field @ '' must be at most '' @ show_nat maxLength @ '' characters'')
      else Inr v)"

definition validateName :: "string \<Rightarrow> nat \<Rightarrow> nat \<Rightarrow> string + string" where
  "validateName raw minLength maxLength = validateTrimmedLength ''name'' raw minLength maxLength"

lemma validateTrimmedLength_Inr [result_simps]:
  "validateTrimmedLength field raw lo hi = Inr v \<longleftrightarrow>
     v = TrimSpace raw \<and> lo \<le> rune_count v \<and> rune_count v \<le> hi"
  by (auto simp: validateTrimmedLength_def Let_def)

lemma validateName_Inr [result_simps]:
  "validateName raw lo hi = Inr v \<longleftrightarrow> v = TrimSpace raw \<and> lo \<le> rune_count v \<and> rune_count v \<le> hi"
  by (simp add: validateName_def validateTrimmedLength_Inr)

section \<open>PostgreSQL text\<close>

text \<open>
  A \<^verbatim>\<open>text\<close> value is valid UTF-8 without a zero byte; any other parameter is refused with
  SQLSTATE 22021. \<^verbatim>\<open>trim\<close> strips the ASCII space only, \<^verbatim>\<open>length\<close> counts characters.
\<close>

function valid_utf8 :: "string \<Rightarrow> bool" where
  "valid_utf8 s = (s = [] \<or>
     (case rune_at s of None \<Rightarrow> False | Some n \<Rightarrow> n \<noteq> 0 \<and> valid_utf8 (drop n s)))"
  by pat_completeness auto
termination
  by (relation "measure length") (auto dest: rune_at_le)

declare valid_utf8.simps [simp del]

definition pg_text :: "string \<Rightarrow> bool" where
  "pg_text s = (CHR 0x00 \<notin> set s \<and> valid_utf8 s)"

definition pg_trim :: "string \<Rightarrow> string" where
  "pg_trim s = rev (dropWhile (\<lambda>c. c = CHR '' '') (rev (dropWhile (\<lambda>c. c = CHR '' '') s)))"

definition pg_name_ok :: "nat \<Rightarrow> string \<Rightarrow> bool" where
  "pg_name_ok hi s = (1 \<le> rune_count (pg_trim s) \<and> rune_count (pg_trim s) \<le> hi)"

lemma dropWhile_no_leading: "(\<And>c r. s = c # r \<Longrightarrow> \<not> P c) \<Longrightarrow> dropWhile P s = s"
  by (cases s) auto

lemma space_in_space_runes: "[CHR '' ''] \<in> set space_runes"
  by (simp add: space_runes_def)

lemma leading_space_no_blank: "leading_space sp (CHR '' '' # r) \<noteq> None" if "[CHR '' ''] \<in> set sp"
proof -
  have "is_prefix [CHR '' ''] (CHR '' '' # r)" by simp
  with that show ?thesis unfolding leading_space_def find_None_iff by blast
qed

lemma pg_trim_TrimSpace: "pg_trim (TrimSpace s) = TrimSpace s"
proof -
  let ?l = "drop_spaces space_runes s"
  let ?r = "drop_spaces (map rev space_runes) (rev ?l)"
  have ne: "[] \<notin> set space_runes" "[] \<notin> set (map rev space_runes)"
    using space_runes_nonempty by auto
  have sp: "[CHR '' ''] \<in> set (map rev space_runes)"
    using space_in_space_runes by (force simp: image_iff)
  have l: "leading_space space_runes ?l = None \<or> ?l = []"
    by (rule drop_spaces_leading [OF ne(1)])
  have r: "leading_space (map rev space_runes) ?r = None \<or> ?r = []"
    by (rule drop_spaces_leading [OF ne(2)])
  obtain q where q: "rev ?l = q @ ?r" using drop_spaces_suffix by blast
  then have lq: "?l = rev ?r @ rev q" by (metis rev_append rev_rev_ident)
  have right: "dropWhile (\<lambda>c. c = CHR '' '') ?r = ?r"
    using r by (intro dropWhile_no_leading) (metis leading_space_no_blank [OF sp] list.distinct(1))
  have left: "dropWhile (\<lambda>c. c = CHR '' '') (rev ?r) = rev ?r"
  proof (rule dropWhile_no_leading)
    fix c x assume c: "rev ?r = c # x"
    with lq have "?l \<noteq> []" by simp
    with l have "leading_space space_runes (rev ?r) = None"
      using lq by (metis leading_space_append)
    with c show "c \<noteq> CHR '' ''"
      by (metis leading_space_no_blank [OF space_in_space_runes])
  qed
  show ?thesis unfolding pg_trim_def TrimSpace_def left rev_rev_ident right ..
qed

lemma validated_name_ok:
  assumes "validateName raw 1 hi = Inr v" shows "pg_name_ok hi v"
  using assms by (auto simp: validateName_Inr pg_name_ok_def pg_trim_TrimSpace)

end
