(* ===== verification/Json.thy ===== *)
theory Json
  imports GoText
begin

text \<open>
  JSON at the level the handlers see it: values after \<^verbatim>\<open>encoding/json\<close> has scanned the
  text, and the decoding of an object into a Go struct, as \<^verbatim>\<open>readJSON\<close> of
  \<^verbatim>\<open>internal/api/json.go\<close> performs it.
\<close>

section \<open>Values\<close>

text \<open>
  An object keeps its members in document order, duplicates included. Strings are decoded (the
  escapes are gone), an integer literal is \<open>JInt\<close>, any other number literal \<open>JFrac\<close>.
\<close>

datatype json =
    JNull
  | JBool bool
  | JInt int
  | JFrac string
  | JStr string
  | JArr "json list"
  | JObj "(string \<times> json) list"

text \<open>
  A \<^verbatim>\<open>json.RawMessage\<close> field: \<open>None\<close> when its key is absent (length 0), otherwise the
  value; the text \<^verbatim>\<open>null\<close> is \<open>Some JNull\<close>.
\<close>

type_synonym raw_message = "json option"

text \<open>
  \<^verbatim>\<open>json.Unmarshal\<close> into a \<^verbatim>\<open>map[string]json.RawMessage\<close>: the last member of a
  name wins. \<open>obj_names\<close> is the sorted list of the map's keys.
\<close>

definition obj_lookup :: "(string \<times> json) list \<Rightarrow> string \<Rightarrow> json option" where
  "obj_lookup kvs k = map_of (rev kvs) k"

fun bytes_le :: "string \<Rightarrow> string \<Rightarrow> bool" where
  "bytes_le [] t = True"
| "bytes_le (c # s) [] = False"
| "bytes_le (c # s) (d # t) = (byte c < byte d \<or> (c = d \<and> bytes_le s t))"

fun insert_name :: "string \<Rightarrow> string list \<Rightarrow> string list" where
  "insert_name x [] = [x]"
| "insert_name x (y # ys) = (if x = y then y # ys else if bytes_le x y then x # y # ys else y # insert_name x ys)"

definition obj_names :: "(string \<times> json) list \<Rightarrow> string list" where
  "obj_names kvs = foldr insert_name (map fst kvs) []"

lemma set_insert_name [simp]: "set (insert_name x ys) = insert x (set ys)"
  by (induction ys) auto

lemma set_obj_names [simp]: "set (obj_names kvs) = fst ` set kvs"
  by (induction kvs) (auto simp: obj_names_def)

lemma bytes_le_refl [simp]: "bytes_le s s"
  by (induction s) auto

lemma bytes_le_total: "bytes_le s t \<or> bytes_le t s"
proof (induction s t rule: bytes_le.induct)
  case (3 c s d t)
  then show ?case by (metis bytes_le.simps(3) linorder_cases of_char_eq_iff)
qed auto

lemma bytes_le_trans: "bytes_le s t \<Longrightarrow> bytes_le t u \<Longrightarrow> bytes_le s u"
proof (induction s t arbitrary: u rule: bytes_le.induct)
  case (3 c s d t)
  then show ?case by (cases u) auto
qed auto

lemma bytes_le_Nil [simp]: "bytes_le s [] \<longleftrightarrow> s = []"
  by (cases s) auto

lemma bytes_le_antisym: "bytes_le s t \<Longrightarrow> bytes_le t s \<Longrightarrow> s = t"
  by (induction s t rule: bytes_le.induct) auto

section \<open>Decoding into a struct\<close>

text \<open>
  What reading and scanning the request body yields: too large (\<^verbatim>\<open>http.MaxBytesReader\<close>),
  empty, cut short, malformed at an offset, unreadable, or a value that ends at an offset,
  with or without trailing data.
\<close>

datatype body_in =
    BTooLarge
  | BEmpty
  | BUnexpectedEOF
  | BSyntax nat
  | BReadErr string
  | BJson json nat bool

text \<open>
  A struct field: its JSON name and how a value is stored in it, \<open>None\<close> for a value of the
  wrong type.
\<close>

type_synonym 's field = "string \<times> (json \<Rightarrow> 's \<Rightarrow> 's option)"

datatype decode_error = UnknownField string | WrongTypeField string | WrongTypeAt nat

definition fString :: "(string \<Rightarrow> 's \<Rightarrow> 's) \<Rightarrow> json \<Rightarrow> 's \<Rightarrow> 's option" where
  "fString set_it j s = (case j of JStr v \<Rightarrow> Some (set_it v s) | JNull \<Rightarrow> Some s | _ \<Rightarrow> None)"

definition fOptString :: "(string option \<Rightarrow> 's \<Rightarrow> 's) \<Rightarrow> json \<Rightarrow> 's \<Rightarrow> 's option" where
  "fOptString set_it j s =
     (case j of JStr v \<Rightarrow> Some (set_it (Some v) s) | JNull \<Rightarrow> Some (set_it None s) | _ \<Rightarrow> None)"

definition fOptBool :: "(bool option \<Rightarrow> 's \<Rightarrow> 's) \<Rightarrow> json \<Rightarrow> 's \<Rightarrow> 's option" where
  "fOptBool set_it j s =
     (case j of JBool v \<Rightarrow> Some (set_it (Some v) s) | JNull \<Rightarrow> Some (set_it None s) | _ \<Rightarrow> None)"

definition int32_ok :: "int \<Rightarrow> bool" where
  "int32_ok i = (- 2147483648 \<le> i \<and> i \<le> 2147483647)"

definition fOptInt32 :: "(int option \<Rightarrow> 's \<Rightarrow> 's) \<Rightarrow> json \<Rightarrow> 's \<Rightarrow> 's option" where
  "fOptInt32 set_it j s =
     (case j of JInt i \<Rightarrow> (if int32_ok i then Some (set_it (Some i) s) else None)
      | JNull \<Rightarrow> Some (set_it None s) | _ \<Rightarrow> None)"

definition fRaw :: "(raw_message \<Rightarrow> 's \<Rightarrow> 's) \<Rightarrow> json \<Rightarrow> 's \<Rightarrow> 's option" where
  "fRaw set_it j s = Some (set_it (Some j) s)"

text \<open>
  A \<^verbatim>\<open>[]string\<close>. A \<^verbatim>\<open>null\<close> element leaves the slot as it is: the element of an
  earlier list under the same key, or the empty string.
\<close>

fun decode_strings :: "string list \<Rightarrow> json list \<Rightarrow> string list option" where
  "decode_strings old [] = Some []"
| "decode_strings old (j # js) =
     (case decode_strings (tl old) js of
        None \<Rightarrow> None
      | Some vs \<Rightarrow>
          (case j of
             JStr v \<Rightarrow> Some (v # vs)
           | JNull \<Rightarrow> Some ((if old = [] then [] else hd old) # vs)
           | _ \<Rightarrow> None))"

definition fStrings :: "('s \<Rightarrow> string list) \<Rightarrow> (string list \<Rightarrow> 's \<Rightarrow> 's) \<Rightarrow> json \<Rightarrow> 's \<Rightarrow> 's option" where
  "fStrings get set_it j s =
     (case j of
        JArr js \<Rightarrow> map_option (\<lambda>vs. set_it vs s) (decode_strings (get s) js)
      | JNull \<Rightarrow> Some (set_it [] s)
      | _ \<Rightarrow> None)"

text \<open>
  Keys match a field name exactly, or else up to Unicode case folding; the only non-ASCII runes
  that fold to ASCII letters are U+017F (to \<^verbatim>\<open>s\<close>) and U+212A (to \<^verbatim>\<open>k\<close>).
\<close>

fun fold_key :: "string \<Rightarrow> string" where
  "fold_key [] = []"
| "fold_key (c # s) =
     (case s of
        d # s' \<Rightarrow>
          if byte c = 0xC5 \<and> byte d = 0xBF then CHR ''s'' # fold_key s'
          else (case s' of
             e # s'' \<Rightarrow>
               if byte c = 0xE2 \<and> byte d = 0x84 \<and> byte e = 0xAA then CHR ''k'' # fold_key s''
               else ascii_lower c # fold_key s
           | [] \<Rightarrow> ascii_lower c # fold_key s)
      | [] \<Rightarrow> [ascii_lower c])"

definition find_field :: "'s field list \<Rightarrow> string \<Rightarrow> 's field option" where
  "find_field fs k =
     (case List.find (\<lambda>f. fst f = k) fs of
        Some f \<Rightarrow> Some f
      | None \<Rightarrow> List.find (\<lambda>f. fold_key (fst f) = fold_key k) fs)"

text \<open>Decoding goes on after an error; the first error is the one reported.\<close>

fun decode_members ::
  "'s field list \<Rightarrow> (string \<times> json) list \<Rightarrow> 's \<Rightarrow> decode_error option \<Rightarrow> decode_error + 's" where
  "decode_members fs [] s err = (case err of None \<Rightarrow> Inr s | Some e \<Rightarrow> Inl e)"
| "decode_members fs ((k, j) # kvs) s err =
     (case find_field fs k of
        None \<Rightarrow> decode_members fs kvs s (case err of None \<Rightarrow> Some (UnknownField k) | Some e \<Rightarrow> Some e)
      | Some f \<Rightarrow>
          (case snd f j s of
             None \<Rightarrow>
               decode_members fs kvs s
                 (case err of None \<Rightarrow> Some (WrongTypeField (fst f)) | Some e \<Rightarrow> Some e)
           | Some s' \<Rightarrow> decode_members fs kvs s' err))"

definition decode_struct :: "'s field list \<Rightarrow> 's \<Rightarrow> json \<Rightarrow> nat \<Rightarrow> decode_error + 's" where
  "decode_struct fs zero j off =
     (case j of
        JNull \<Rightarrow> Inr zero
      | JObj kvs \<Rightarrow> decode_members fs kvs zero None
      | _ \<Rightarrow> Inl (WrongTypeAt off))"

lemma decode_members_error: "decode_members fs kvs s (Some e) = Inl e"
  by (induction kvs arbitrary: s) (auto split: option.splits)

lemma decode_members_known:
  "decode_members fs kvs s err = Inr s' \<Longrightarrow> (k, j) \<in> set kvs \<Longrightarrow> find_field fs k \<noteq> None"
proof (induction kvs arbitrary: s err)
  case (Cons kv kvs)
  obtain k' j' where kv: "kv = (k', j')" by (cases kv)
  from Cons.prems kv show ?case
    by (auto simp: decode_members_error split: option.splits dest: Cons.IH)
qed simp

end
