(* ===== verification/Schema.thy ===== *)
theory Schema
  imports Json
begin

text \<open>
  The data of the program: the row types of \<^verbatim>\<open>internal/db/models.go\<close>, the database as
  the list of rows of each table, the errors of the \<^verbatim>\<open>db\<close> and \<^verbatim>\<open>authz\<close>
  packages, the constraints the migrations declare and the cascades of their foreign keys.
\<close>

section \<open>Rows\<close>

record Team =
  t_id :: uuid
  t_name :: string
  t_owner_id :: uuid
  t_created_at :: time

record TeamMember =
  m_team_id :: uuid
  m_user_id :: uuid
  m_all_projects :: bool
  m_created_at :: time

record TeamInvitation =
  i_id :: uuid
  i_team_id :: uuid
  i_email :: string
  i_invited_by :: uuid
  i_status :: string
  i_created_at :: time
  i_responded_at :: "time option"

record Project =
  p_id :: uuid
  p_team_id :: uuid
  p_name :: string
  p_owner_id :: uuid
  p_sort_order :: int
  p_created_at :: time

record ProjectAccess =
  a_project_id :: uuid
  a_user_id :: uuid
  a_created_at :: time

record User =
  u_id :: uuid
  u_email :: string
  u_password_hash :: string
  u_name :: string
  u_created_at :: time

record Session =
  s_token_hash :: string
  s_user_id :: uuid
  s_created_at :: time
  s_expires_at :: time

text \<open>
  Folders and requests carry the same settings; the \<^verbatim>\<open>auth_*\<close> columns are one record,
  and it sits in the record of all the settings of a node.
\<close>

record auth_config =
  auth_type :: string
  auth_bearer_token :: string
  auth_basic_username :: string
  auth_basic_password :: string
  auth_api_key_name :: string
  auth_api_key_value :: string
  auth_api_key_in :: string
  auth_jwt_algorithm :: string
  auth_jwt_secret :: string
  auth_jwt_secret_base64 :: bool
  auth_jwt_payload :: string
  auth_jwt_add_to :: string
  auth_jwt_name :: string
  auth_jwt_prefix :: string

record node_settings =
  follow_redirects :: string
  auth_cfg :: auth_config
  pre_script :: string
  post_script :: string
  proxy_mode :: string
  proxy_id :: "uuid option"

text \<open>The column defaults of the migrations.\<close>

definition default_auth :: auth_config where
  "default_auth = \<lparr> auth_type = ''inherit'', auth_bearer_token = [], auth_basic_username = [],
     auth_basic_password = [], auth_api_key_name = [], auth_api_key_value = [],
     auth_api_key_in = ''header'', auth_jwt_algorithm = ''HS256'', auth_jwt_secret = [],
     auth_jwt_secret_base64 = False, auth_jwt_payload = [], auth_jwt_add_to = ''header'',
     auth_jwt_name = [], auth_jwt_prefix = [] \<rparr>"

definition default_settings :: node_settings where
  "default_settings = \<lparr> follow_redirects = ''inherit'', auth_cfg = default_auth, pre_script = [],
     post_script = [], proxy_mode = ''inherit'', proxy_id = None \<rparr>"

record Folder =
  f_id :: uuid
  f_project_id :: uuid
  f_parent_id :: "uuid option"
  f_name :: string
  f_sort_order :: int
  f_created_at :: time
  f_settings :: node_settings

record Environment =
  e_id :: uuid
  e_project_id :: uuid
  e_name :: string
  e_sort_order :: int
  e_created_at :: time

record EnvironmentVariable =
  v_id :: uuid
  v_environment_id :: uuid
  v_key :: string
  v_type :: string
  v_value :: "string option"
  v_sort_order :: int
  v_created_at :: time

record Request =
  r_id :: uuid
  r_project_id :: uuid
  r_folder_id :: "uuid option"
  r_name :: string
  r_method :: string
  r_url :: string
  r_headers :: json
  r_query_params :: json
  r_body :: json
  r_sort_order :: int
  r_created_at :: time
  r_updated_at :: time
  r_response_filter :: string
  r_settings :: node_settings

record Proxy =
  x_id :: uuid
  x_project_id :: uuid
  x_name :: string
  x_proxy_type :: string
  x_host :: string
  x_port :: int
  x_username :: string
  x_bypass :: string
  x_sort_order :: int
  x_created_at :: time

record RequestExample =
  ex_id :: uuid
  ex_request_id :: uuid
  ex_name :: string
  ex_status :: int
  ex_headers :: json
  ex_content_type :: string
  ex_body :: "string option"
  ex_body_size :: int
  ex_sort_order :: int
  ex_created_at :: time
  ex_updated_at :: time

record WebhookEndpoint =
  w_id :: uuid
  w_project_id :: uuid
  w_name :: string
  w_slug :: string
  w_domain :: string
  w_resp_status :: int
  w_resp_headers :: json
  w_resp_body :: string
  w_created_by :: uuid
  w_created_at :: time

record WebhookCapture =
  c_id :: int
  c_endpoint_id :: uuid
  c_method :: string
  c_path :: string
  c_query :: string
  c_headers :: json
  c_content_type :: string
  c_body :: "string option"
  c_body_size :: int
  c_body_truncated :: bool
  c_source_ip :: string
  c_received_at :: time

section \<open>The database\<close>

text \<open>
  \<open>pg_lower\<close> and \<open>pg_le\<close> are PostgreSQL's \<^verbatim>\<open>lower()\<close> and text order under the database's collation;
  \<open>capture_seq\<close> the last value of the captures' \<^verbatim>\<open>bigserial\<close>.
\<close>

record db =
  users :: "User list"
  sessions :: "Session list"
  teams :: "Team list"
  team_members :: "TeamMember list"
  team_invitations :: "TeamInvitation list"
  projects :: "Project list"
  project_access :: "ProjectAccess list"
  folders :: "Folder list"
  environments :: "Environment list"
  environment_variables :: "EnvironmentVariable list"
  requests :: "Request list"
  proxies :: "Proxy list"
  request_examples :: "RequestExample list"
  webhook_endpoints :: "WebhookEndpoint list"
  webhook_captures :: "WebhookCapture list"
  capture_seq :: int
  pg_lower :: "string \<Rightarrow> string"
  pg_le :: "string \<Rightarrow> string \<Rightarrow> bool"

definition empty_db :: "(string \<Rightarrow> string) \<Rightarrow> db" where
  "empty_db low = \<lparr> users = [], sessions = [], teams = [], team_members = [], team_invitations = [],
     projects = [], project_access = [], folders = [], environments = [],
     environment_variables = [], requests = [], proxies = [], request_examples = [],
     webhook_endpoints = [], webhook_captures = [], capture_seq = 0, pg_lower = low,
     pg_le = bytes_le \<rparr>"

section \<open>Errors\<close>

text \<open>
  The errors the \<^verbatim>\<open>db\<close> and \<^verbatim>\<open>authz\<close> packages and the handlers pass around:
  the sentinels, a \<^verbatim>\<open>pgconn.PgError\<close> with its SQLSTATE and constraint, a failure of
  the connection (or a cancelled context), \<^verbatim>\<open>api.badRequestError\<close>, and
  \<^verbatim>\<open>fmt.Errorf\<close> with \<^verbatim>\<open>%w\<close>.
\<close>

datatype goerr =
    ErrNoRows
  | PgError string string
  | ConnFail string
  | ErrInvalidParentFolder
  | ErrFolderCycle
  | ErrInvalidRequestFolder
  | ErrWebhookQuota
  | ErrProxyNotInProject
  | ErrNotMember
  | ErrNotOwner
  | ErrNoProjectAccess
  | ErrNotProjectManager
  | ErrNoFolderAccess
  | ErrNoEnvironmentAccess
  | ErrNoVariableAccess
  | ErrNoRequestAccess
  | ErrNoWebhookAccess
  | ErrNoProxyAccess
  | ErrNoExampleAccess
  | PlainError string
  | BadRequest string
  | Wrapped string goerr

text \<open>\<^verbatim>\<open>errors.Is\<close> and \<^verbatim>\<open>errors.As\<close> look through the wrappers.\<close>

fun root :: "goerr \<Rightarrow> goerr" where
  "root (Wrapped s e) = root e"
| "root e = e"

definition errors_is :: "goerr \<Rightarrow> goerr \<Rightarrow> bool" where
  "errors_is e target = (root e = target)"

fun as_pg_error :: "goerr \<Rightarrow> (string \<times> string) option" where
  "as_pg_error (Wrapped s e) = as_pg_error e"
| "as_pg_error (PgError code con) = Some (code, con)"
| "as_pg_error e = None"

lemma errors_is_Wrapped [simp]: "errors_is (Wrapped s e) t = errors_is e t"
  by (simp add: errors_is_def)

lemma root_root [simp]: "root (root e) = root e"
  by (induction e) auto

section \<open>Constraints\<close>

definition not_null_violation :: goerr where
  "not_null_violation = PgError ''23502'' []"

definition foreign_key_violation :: "string \<Rightarrow> goerr" where
  "foreign_key_violation con = PgError ''23503'' con"

definition unique_violation :: "string \<Rightarrow> goerr" where
  "unique_violation con = PgError ''23505'' con"

definition check_violation :: "string \<Rightarrow> goerr" where
  "check_violation con = PgError ''23514'' con"

definition out_of_range :: goerr where
  "out_of_range = PgError ''22003'' []"

definition bad_encoding :: goerr where
  "bad_encoding = PgError ''22021'' []"

text \<open>
  \<open>require c e k\<close> is the statement that fails with \<open>e\<close> unless \<open>c\<close>. The text parameters of a
  statement are checked when they are bound, before anything else.
\<close>

definition require :: "bool \<Rightarrow> goerr \<Rightarrow> (goerr + 'a) \<Rightarrow> goerr + 'a" where
  "require c e k = (if c then k else Inl e)"

definition with_texts :: "string list \<Rightarrow> (goerr + 'a) \<Rightarrow> goerr + 'a" where
  "with_texts ts k = require (list_all pg_text ts) bad_encoding k"

lemma require_Inr [result_simps]: "require c e k = Inr x \<longleftrightarrow> c \<and> k = Inr x"
  by (simp add: require_def)

lemma require_Inl [result_simps]: "require c e k = Inl f \<longleftrightarrow> (\<not> c \<and> f = e) \<or> (c \<and> k = Inl f)"
  by (auto simp: require_def)

lemma require_True [simp]: "require True e k = k"
  by (simp add: require_def)

lemma with_texts_Inr [result_simps]:
  "with_texts ts k = Inr x \<longleftrightarrow> list_all pg_text ts \<and> k = Inr x"
  by (simp add: with_texts_def require_Inr)

text \<open>\<^verbatim>\<open>COALESCE(MAX(sort_order) + 1, 0)\<close> on an \<^verbatim>\<open>integer\<close> column.\<close>

definition next_order :: "int list \<Rightarrow> goerr + int" where
  "next_order xs =
     (if xs = [] then Inr 0
      else require (int32_ok (Max (set xs) + 1)) out_of_range (Inr (Max (set xs) + 1)))"

lemma next_order_Inr:
  "next_order xs = Inr n \<Longrightarrow> \<forall>x \<in> set xs. x < n"
  by (force simp: next_order_def require_Inr split: if_splits dest: Max_ge [OF finite_set])

lemma next_order_int32: "next_order xs = Inr n \<Longrightarrow> int32_ok n"
  by (auto simp: next_order_def require_Inr int32_ok_def split: if_splits)

definition team_exists :: "uuid \<Rightarrow> db \<Rightarrow> bool" where
  "team_exists i d = (i \<in> t_id ` set (teams d))"

definition user_exists :: "uuid \<Rightarrow> db \<Rightarrow> bool" where
  "user_exists i d = (i \<in> u_id ` set (users d))"

definition project_exists :: "uuid \<Rightarrow> db \<Rightarrow> bool" where
  "project_exists i d = (i \<in> p_id ` set (projects d))"

section \<open>Cascades\<close>

text \<open>
  \<^verbatim>\<open>ON DELETE CASCADE\<close> and \<^verbatim>\<open>ON DELETE SET NULL\<close>: deleting the rows a
  predicate selects takes the rows that reference them along.
\<close>

definition delete_requests :: "(Request \<Rightarrow> bool) \<Rightarrow> db \<Rightarrow> db" where
  "delete_requests p d =
     (let gone = r_id ` {r \<in> set (requests d). p r} in
      d\<lparr> requests := delete_rows p (requests d),
         request_examples := delete_rows (\<lambda>x. ex_request_id x \<in> gone) (request_examples d) \<rparr>)"

text \<open>
  The subtree of a set of folders, grown one level at a time. As many rounds as there are folders
  reach the deepest of them.
\<close>

definition folder_children :: "Folder list \<Rightarrow> uuid set \<Rightarrow> uuid set" where
  "folder_children fs s =
     f_id ` {f \<in> set fs. case f_parent_id f of None \<Rightarrow> False | Some i \<Rightarrow> i \<in> s}"

definition folder_subtree :: "Folder list \<Rightarrow> uuid set \<Rightarrow> uuid set" where
  "folder_subtree fs s = ((\<lambda>t. t \<union> folder_children fs t) ^^ length fs) s"

definition delete_folders :: "uuid set \<Rightarrow> db \<Rightarrow> db" where
  "delete_folders ids d =
     (let gone = folder_subtree (folders d) ids in
      delete_requests (\<lambda>r. case r_folder_id r of None \<Rightarrow> False | Some i \<Rightarrow> i \<in> gone)
        (d\<lparr> folders := delete_rows (\<lambda>f. f_id f \<in> gone) (folders d) \<rparr>))"

definition delete_environments :: "(Environment \<Rightarrow> bool) \<Rightarrow> db \<Rightarrow> db" where
  "delete_environments p d =
     (let gone = e_id ` {e \<in> set (environments d). p e} in
      d\<lparr> environments := delete_rows p (environments d),
         environment_variables :=
           delete_rows (\<lambda>v. v_environment_id v \<in> gone) (environment_variables d) \<rparr>)"

definition delete_endpoints :: "(WebhookEndpoint \<Rightarrow> bool) \<Rightarrow> db \<Rightarrow> db" where
  "delete_endpoints p d =
     (let gone = w_id ` {w \<in> set (webhook_endpoints d). p w} in
      d\<lparr> webhook_endpoints := delete_rows p (webhook_endpoints d),
         webhook_captures := delete_rows (\<lambda>c. c_endpoint_id c \<in> gone) (webhook_captures d) \<rparr>)"

definition unset_proxy :: "uuid set \<Rightarrow> node_settings \<Rightarrow> node_settings" where
  "unset_proxy gone s =
     (case proxy_id s of
        None \<Rightarrow> s
      | Some i \<Rightarrow> if i \<in> gone then s\<lparr> proxy_id := None \<rparr> else s)"

definition delete_proxies :: "(Proxy \<Rightarrow> bool) \<Rightarrow> db \<Rightarrow> db" where
  "delete_proxies p d =
     (let gone = x_id ` {x \<in> set (proxies d). p x} in
      d\<lparr> proxies := delete_rows p (proxies d),
         folders := map (\<lambda>f. f\<lparr> f_settings := unset_proxy gone (f_settings f) \<rparr>) (folders d),
         requests := map (\<lambda>r. r\<lparr> r_settings := unset_proxy gone (r_settings r) \<rparr>) (requests d) \<rparr>)"

definition delete_projects :: "(Project \<Rightarrow> bool) \<Rightarrow> db \<Rightarrow> db" where
  "delete_projects p d =
     (let gone = p_id ` {x \<in> set (projects d). p x};
          d = d\<lparr> projects := delete_rows p (projects d),
                 project_access := delete_rows (\<lambda>a. a_project_id a \<in> gone) (project_access d) \<rparr>;
          d = delete_folders (f_id ` {f \<in> set (folders d). f_project_id f \<in> gone}) d;
          d = delete_requests (\<lambda>r. r_project_id r \<in> gone) d;
          d = delete_environments (\<lambda>e. e_project_id e \<in> gone) d;
          d = delete_endpoints (\<lambda>w. w_project_id w \<in> gone) d
      in delete_proxies (\<lambda>x. x_project_id x \<in> gone) d)"

definition delete_teams :: "(Team \<Rightarrow> bool) \<Rightarrow> db \<Rightarrow> db" where
  "delete_teams p d =
     (let gone = t_id ` {t \<in> set (teams d). p t} in
      delete_projects (\<lambda>x. p_team_id x \<in> gone)
        (d\<lparr> teams := delete_rows p (teams d),
            team_members := delete_rows (\<lambda>m. m_team_id m \<in> gone) (team_members d),
            team_invitations := delete_rows (\<lambda>i. i_team_id i \<in> gone) (team_invitations d) \<rparr>))"

end
