(* ===== verification/World.thy ===== *)
theory World
  imports Schema
begin

text \<open>
  How the server reaches its database: one statement at a time through the pool, or several in a
  transaction (\<^verbatim>\<open>Store.inTx\<close> of \<^verbatim>\<open>internal/db/store.go\<close>). A world holds the
  committed database and the environment's choices (what fails, what other sessions write in
  between, the values of \<^verbatim>\<open>gen_random_uuid()\<close> and \<^verbatim>\<open>now()\<close>). The
  functions of packages that are not part of the repository are a record of their own.
\<close>

section \<open>Functions from outside\<close>

text \<open>
  \<open>uuid_parse\<close> and \<open>uuid_string\<close> are \<^verbatim>\<open>github.com/google/uuid\<close>; \<open>fmt_time\<close> is
  \<^verbatim>\<open>time.Time\<close>'s JSON form (it depends on the session's time zone); \<open>go_quote\<close> is
  \<^verbatim>\<open>%q\<close>; \<open>lower_uni\<close> the Unicode half of \<^verbatim>\<open>strings.ToLower\<close>;
  \<open>parse_address\<close> is \<^verbatim>\<open>mail.ParseAddress\<close>; \<open>hash_token\<close> is SHA-256;
  \<open>driver_text\<close> is the message of an error that comes from the driver.
\<close>

record lib =
  uuid_parse :: "string \<Rightarrow> uuid option"
  uuid_string :: "uuid \<Rightarrow> string"
  fmt_time :: "time \<Rightarrow> string"
  go_quote :: "string \<Rightarrow> string"
  lower_uni :: "string \<Rightarrow> string"
  parse_address :: "string \<Rightarrow> string option"
  hash_token :: "string \<Rightarrow> string"
  driver_text :: "goerr \<Rightarrow> string"

text \<open>The text of an error, as \<^verbatim>\<open>err.Error()\<close> returns it, for the errors whose text is
  ever sent; the others count as the driver's.\<close>

fun err_text :: "lib \<Rightarrow> goerr \<Rightarrow> string" where
  "err_text L (Wrapped s e) = s @ err_text L e"
| "err_text L (PlainError s) = s"
| "err_text L (BadRequest s) = s"
| "err_text L ErrProxyNotInProject = ''proxy.proxy_id is not a proxy of this project''"
| "err_text L ErrInvalidParentFolder = ''parent folder does not exist in this project''"
| "err_text L ErrFolderCycle = ''a folder cannot be moved into itself or its own subfolder''"
| "err_text L ErrInvalidRequestFolder = ''folder_id is not a folder of this project''"
| "err_text L ErrWebhookQuota = ''webhook endpoint quota reached''"
| "err_text L e = driver_text L e"

section \<open>Worlds\<close>

text \<open>
  A statement or commit is \<open>Healthy\<close>; or \<open>Refused\<close>, it fails without effect; or \<open>AckLost\<close>, the
  server carries it out and the client is told of an error.
\<close>

datatype outcome = Healthy | Refused goerr | AckLost goerr

record stamp =
  new_id :: uuid
  now :: time

record world =
  dbs :: db
  tick :: nat
  fault :: "nat \<Rightarrow> outcome"
  others :: "nat \<Rightarrow> db \<Rightarrow> db"
  gen_uuid :: "nat \<Rightarrow> uuid"
  clock :: "nat \<Rightarrow> time"
  in_tx :: "nat option"

type_synonym 'a query = "stamp \<Rightarrow> db \<Rightarrow> goerr + 'a \<times> db"

text \<open>A query that only reads.\<close>

definition reading :: "(db \<Rightarrow> goerr + 'a) \<Rightarrow> 'a query" where
  "reading f s d = (case f d of Inl e \<Rightarrow> Inl e | Inr x \<Rightarrow> Inr (x, d))"

text \<open>\<^verbatim>\<open>now()\<close> is the start of the transaction for every statement in it.\<close>

definition stamp_of :: "world \<Rightarrow> stamp" where
  "stamp_of w = \<lparr> new_id = gen_uuid w (tick w),
     now = clock w (case in_tx w of None \<Rightarrow> tick w | Some m \<Rightarrow> m) \<rparr>"

text \<open>
  One statement. Outside a transaction the writes other sessions committed since the last step
  come first; a statement that fails changes nothing.
\<close>

definition arrive :: "world \<Rightarrow> world" where
  "arrive w = w\<lparr> tick := Suc (tick w),
     dbs := (if in_tx w = None then others w (tick w) (dbs w) else dbs w) \<rparr>"

definition exec :: "'a query \<Rightarrow> world \<Rightarrow> (goerr + 'a) \<times> world" where
  "exec q w =
     (let w1 = arrive w; ran = q (stamp_of w) (dbs w1) in
      case fault w (tick w) of
        Refused e \<Rightarrow> (Inl e, w1)
      | AckLost e \<Rightarrow> (Inl e, (case ran of Inl _ \<Rightarrow> w1 | Inr (x, d) \<Rightarrow> w1\<lparr> dbs := d \<rparr>))
      | Healthy \<Rightarrow>
          (case ran of
             Inl e \<Rightarrow> (Inl e, w1)
           | Inr (x, d) \<Rightarrow> (Inr x, w1\<lparr> dbs := d \<rparr>)))"

text \<open>
  \<^verbatim>\<open>Store.inTx\<close>: begin, run the body, roll back unless it succeeds, commit. The statements
  of one transaction run without interference (as if serializable); the interleavings that
  \<^verbatim>\<open>READ COMMITTED\<close> allows are not part of this model.
\<close>

definition inTx :: "(world \<Rightarrow> (goerr + 'a) \<times> world) \<Rightarrow> world \<Rightarrow> (goerr + 'a) \<times> world" where
  "inTx body w =
     (let w1 = arrive w; d0 = dbs w1 in
      case fault w (tick w) of
        Refused e \<Rightarrow> (Inl (Wrapped ''begin transaction: '' e), w1)
      | AckLost e \<Rightarrow> (Inl (Wrapped ''begin transaction: '' e), w1)
      | Healthy \<Rightarrow>
          (case body (w1\<lparr> in_tx := Some (tick w) \<rparr>) of
             (Inl e, w2) \<Rightarrow> (Inl e, w2\<lparr> in_tx := in_tx w, dbs := d0 \<rparr>)
           | (Inr x, w2) \<Rightarrow>
               (let w3 = w2\<lparr> in_tx := in_tx w, tick := Suc (tick w2) \<rparr> in
                case fault w2 (tick w2) of
                  Healthy \<Rightarrow> (Inr x, w3)
                | Refused e \<Rightarrow> (Inl (Wrapped ''commit transaction: '' e), w3\<lparr> dbs := d0 \<rparr>)
                | AckLost e \<Rightarrow> (Inl (Wrapped ''commit transaction: '' e), w3))))"

section \<open>The shape of a run\<close>

text \<open>What no operation changes, and the two kinds of environment the lemmas speak about.\<close>

definition same_env :: "world \<Rightarrow> world \<Rightarrow> bool" where
  "same_env w v \<longleftrightarrow> fault v = fault w \<and> others v = others w \<and>
     gen_uuid v = gen_uuid w \<and> clock v = clock w \<and> in_tx v = in_tx w"

definition isolated :: "world \<Rightarrow> bool" where
  "isolated w \<longleftrightarrow> (\<forall>n d. others w n d = d)"

definition quiet :: "world \<Rightarrow> bool" where
  "quiet w \<longleftrightarrow> isolated w \<and> (\<forall>n. fault w n = Healthy)"

definition fair :: "world \<Rightarrow> bool" where
  "fair w \<longleftrightarrow> isolated w \<and> (\<forall>n e. fault w n \<noteq> AckLost e)"

lemma same_env_refl [simp]: "same_env w w"
  by (simp add: same_env_def)

lemma same_env_trans [trans]: "same_env u v \<Longrightarrow> same_env v w \<Longrightarrow> same_env u w"
  by (simp add: same_env_def)

lemma same_env_simps [simp]:
  "same_env w (v\<lparr> dbs := d \<rparr>) = same_env w v"
  "same_env w (v\<lparr> tick := n \<rparr>) = same_env w v"
  by (simp_all add: same_env_def)

lemma same_env_isolated: "same_env w v \<Longrightarrow> isolated v = isolated w"
  by (simp add: same_env_def isolated_def)

lemma same_env_quiet: "same_env w v \<Longrightarrow> quiet v = quiet w"
  by (simp add: same_env_def isolated_def quiet_def)

lemma same_env_in_tx: "same_env w v \<Longrightarrow> in_tx v = in_tx w"
  by (simp add: same_env_def)

lemma quiet_isolated [intro]: "quiet w \<Longrightarrow> isolated w"
  by (simp add: quiet_def)

lemma quiet_fault: "quiet w \<Longrightarrow> fault w n = Healthy"
  by (simp add: quiet_def)

lemma arrive_simps [simp]:
  "fault (arrive w) = fault w" "others (arrive w) = others w"
  "gen_uuid (arrive w) = gen_uuid w" "clock (arrive w) = clock w" "in_tx (arrive w) = in_tx w"
  "tick (arrive w) = Suc (tick w)" "same_env w (arrive w)"
  by (simp_all add: arrive_def same_env_def)

lemma arrive_isolated: "isolated w \<Longrightarrow> dbs (arrive w) = dbs w"
  by (simp add: arrive_def isolated_def)

lemma exec_env: "exec q w = (r, v) \<Longrightarrow> same_env w v"
  by (auto simp: exec_def Let_def split: outcome.splits sum.splits prod.splits)

lemma exec_result:
  assumes "exec q w = (Inr x, v)"
  shows "\<exists>d. q (stamp_of w) (dbs (arrive w)) = Inr (x, d) \<and> dbs v = d"
  using assms by (auto simp: exec_def Let_def split: outcome.splits sum.splits prod.splits)

lemma exec_failed:
  assumes "exec q w = (Inl e, v)"
  shows "dbs v = dbs (arrive w) \<or>
    (\<exists>x d. q (stamp_of w) (dbs (arrive w)) = Inr (x, d) \<and> dbs v = d)"
  using assms by (auto simp: exec_def Let_def split: outcome.splits sum.splits prod.splits)

text \<open>An error leaves the database alone, or it is the acknowledgement that was lost.\<close>

lemma exec_Inl:
  assumes "exec q w = (Inl e, v)"
  shows "dbs v = dbs (arrive w) \<or>
    (\<exists>x f. q (stamp_of w) (dbs (arrive w)) = Inr (x, dbs v) \<and> fault w (tick w) = AckLost f)"
  using assms by (auto simp: exec_def Let_def split: outcome.splits sum.splits prod.splits)

lemma exec_quiet:
  assumes "quiet w"
  shows "exec q w =
    (case q (stamp_of w) (dbs w) of
       Inl e \<Rightarrow> (Inl e, w\<lparr> tick := Suc (tick w) \<rparr>)
     | Inr (x, d) \<Rightarrow> (Inr x, w\<lparr> tick := Suc (tick w), dbs := d \<rparr>))"
proof -
  have "arrive w = w\<lparr> tick := Suc (tick w) \<rparr>"
    using assms by (simp add: arrive_def quiet_def isolated_def)
  then show ?thesis
    using assms by (simp add: exec_def quiet_fault Let_def split: sum.splits prod.splits)
qed

lemma reading_Inr: "reading f s d = Inr (x, d') \<longleftrightarrow> f d = Inr x \<and> d' = d"
  by (auto simp: reading_def split: sum.splits)

lemma reading_Inl: "reading f s d = Inl e \<longleftrightarrow> f d = Inl e"
  by (auto simp: reading_def split: sum.splits)

lemma exec_reading_dbs:
  assumes "exec (reading f) w = (r, v)" "isolated w"
  shows "dbs v = dbs w"
  using assms arrive_isolated [OF assms(2)]
  by (auto simp: exec_def Let_def reading_def split: outcome.splits sum.splits prod.splits)

lemma exec_reading_Inr:
  assumes "exec (reading f) w = (Inr x, v)" "isolated w"
  shows "f (dbs w) = Inr x"
  using exec_result [OF assms(1)] arrive_isolated [OF assms(2)] by (simp add: reading_Inr)

text \<open>Queries that leave the database as it is; \<open>readonly_intros\<close> collects them.\<close>

definition readonly :: "'a query \<Rightarrow> bool" where
  "readonly q \<longleftrightarrow> (\<forall>s d x d'. q s d = Inr (x, d') \<longrightarrow> d' = d)"

named_theorems readonly_intros \<open>the queries that only read\<close>

lemma readonly_reading [readonly_intros]: "readonly (reading f)"
  by (simp add: readonly_def reading_Inr)

lemma exec_readonly:
  assumes "exec q w = (r, v)" "readonly q"
  shows "dbs v = dbs (arrive w)"
  using assms
  by (auto simp: exec_def Let_def readonly_def split: outcome.splits sum.splits prod.splits)

lemma exec_readonly_isolated:
  assumes "exec q w = (r, v)" "readonly q" "isolated w"
  shows "dbs v = dbs w \<and> isolated v"
  using exec_readonly [OF assms(1,2)] exec_env [OF assms(1)] assms(3)
  by (simp add: arrive_isolated same_env_isolated)

lemma quiet_update [simp]:
  "quiet (w\<lparr> tick := n \<rparr>) = quiet w" "quiet (w\<lparr> dbs := d \<rparr>) = quiet w"
  "quiet (w\<lparr> in_tx := t \<rparr>) = quiet w"
  "isolated (w\<lparr> tick := n \<rparr>) = isolated w" "isolated (w\<lparr> dbs := d \<rparr>) = isolated w"
  "isolated (w\<lparr> in_tx := t \<rparr>) = isolated w"
  by (simp_all add: quiet_def isolated_def)

lemma exec_reading_quiet:
  "quiet w \<Longrightarrow> exec (reading f) w = (f (dbs w), w\<lparr> tick := Suc (tick w) \<rparr>)"
  by (auto simp: exec_quiet reading_def split: sum.splits)

section \<open>Transactions\<close>

lemma inTx_quiet:
  assumes "quiet w" "\<And>v r v'. body v = (r, v') \<Longrightarrow> same_env v v'"
  shows "inTx body w =
    (case body (w\<lparr> tick := Suc (tick w), in_tx := Some (tick w) \<rparr>) of
       (Inl e, v) \<Rightarrow> (Inl e, v\<lparr> in_tx := in_tx w, dbs := dbs w \<rparr>)
     | (Inr x, v) \<Rightarrow> (Inr x, v\<lparr> in_tx := in_tx w, tick := Suc (tick v) \<rparr>))"
proof -
  have a: "arrive w = w\<lparr> tick := Suc (tick w) \<rparr>"
    using assms(1) by (simp add: arrive_def quiet_def isolated_def)
  obtain r v where b: "body (w\<lparr> tick := Suc (tick w), in_tx := Some (tick w) \<rparr>) = (r, v)"
    by fastforce
  have "quiet v" using assms(2) [OF b] same_env_quiet assms(1) by (metis quiet_update(1,3))
  then show ?thesis
    using assms(1) by (simp add: inTx_def Let_def quiet_fault a b split: sum.splits)
qed

text \<open>
  All or nothing: after a transaction the database is what it was when the transaction began, or
  what the body made of it, and a success means the latter.
\<close>

lemma inTx_atomic:
  assumes "inTx body w = (r, v)"
  shows "dbs v = dbs (arrive w) \<or>
    (\<exists>x u. body ((arrive w)\<lparr> in_tx := Some (tick w) \<rparr>) = (Inr x, u) \<and> dbs v = dbs u)"
  using assms
  by (auto simp: inTx_def Let_def split: outcome.splits sum.splits prod.splits)

lemma inTx_cases:
  assumes "inTx body w = (r, v)"
  obtains (aborted) e where "r = Inl e" "dbs v = dbs (arrive w)"
  | (committed) x u where "body ((arrive w)\<lparr> in_tx := Some (tick w) \<rparr>) = (Inr x, u)"
      "dbs v = dbs u" "r = Inr x \<or> (\<exists>e. r = Inl e)"
  using assms
  by (auto simp: inTx_def Let_def split: outcome.splits sum.splits prod.splits)

text \<open>A statement of a transaction sees the database as the statements before it left it.\<close>

lemma exec_in_tx:
  assumes "exec q w = (Inr x, v)" "in_tx w = Some m"
  obtains s d where "now s = clock w m" "q s (dbs w) = Inr (x, d)" "dbs v = d" "in_tx v = Some m"
    "clock v = clock w"
proof -
  have "dbs (arrive w) = dbs w" using assms(2) by (simp add: arrive_def)
  with exec_result [OF assms(1)] exec_env [OF assms(1)] assms(2) show ?thesis
    by (intro that [of "stamp_of w"]) (auto simp: stamp_of_def same_env_def)
qed

lemma exec_tx_Inr:
  "exec q w = (Inr x, v) \<Longrightarrow> in_tx w = Some m \<Longrightarrow>
     \<exists>s. now s = clock w m \<and> q s (dbs w) = Inr (x, dbs v) \<and> in_tx v = Some m \<and> clock v = clock w"
  by (rule exec_in_tx) auto

lemma inTx_Inr:
  assumes "inTx body w = (Inr x, v)"
  shows "\<exists>u. body ((arrive w)\<lparr> in_tx := Some (tick w) \<rparr>) = (Inr x, u) \<and> dbs v = dbs u"
  using assms
  by (auto simp: inTx_def Let_def split: outcome.splits sum.splits prod.splits)

lemma inTx_Inl_fair:
  assumes "inTx body w = (Inl e, v)" "\<And>n f. fault w n \<noteq> AckLost f"
    "\<And>u r u'. body u = (r, u') \<Longrightarrow> same_env u u'"
  shows "dbs v = dbs (arrive w)"
proof (cases "body ((arrive w)\<lparr> in_tx := Some (tick w) \<rparr>)")
  case (Pair r u)
  then have "fault u = fault w"
    using assms(3) [OF Pair] by (simp add: same_env_def)
  with assms Pair show ?thesis
    by (auto simp: inTx_def Let_def split: outcome.splits sum.splits)
qed

lemma inTx_env:
  assumes "inTx body w = (r, v)" "\<And>u s u'. body u = (s, u') \<Longrightarrow> same_env u u'"
  shows "same_env w v"
proof (cases "body ((arrive w)\<lparr> in_tx := Some (tick w) \<rparr>)")
  case (Pair s u)
  from assms(2) [OF this] have "fault u = fault w" "others u = others w"
    "gen_uuid u = gen_uuid w" "clock u = clock w"
    by (simp_all add: same_env_def)
  with assms(1) Pair show ?thesis
    by (auto simp: inTx_def Let_def same_env_def split: outcome.splits sum.splits)
qed

section \<open>Relations every run keeps\<close>

text \<open>
  A program maps a world to a result and a world. \<open>runs R f\<close> says that the worlds before and after
  \<open>f\<close> are always related. For a reflexive and transitive \<open>R\<close> that follows from the statements of a
  program by its control flow alone, which is what the rules of the locale are for.
\<close>

definition runs :: "(world \<Rightarrow> world \<Rightarrow> bool) \<Rightarrow> (world \<Rightarrow> 'r \<times> world) \<Rightarrow> bool" where
  "runs R f \<longleftrightarrow> (\<forall>w. R w (snd (f w)))"

lemma runsD: "runs R f \<Longrightarrow> f w = (r, v) \<Longrightarrow> R w v"
  by (metis runs_def snd_conv)

named_theorems runs_intros \<open>control flow rules for relations every run keeps\<close>

locale step_rel =
  fixes R :: "world \<Rightarrow> world \<Rightarrow> bool"
  assumes refl_R: "R w w"
    and trans_R: "R u v \<Longrightarrow> R v w \<Longrightarrow> R u w"
begin

lemma runs_return: "runs R (\<lambda>w. (x, w))"
  by (simp add: runs_def refl_R)

lemma runs_bind: "runs R f \<Longrightarrow> (\<And>r. runs R (g r)) \<Longrightarrow> runs R (\<lambda>w. case f w of (r, w) \<Rightarrow> g r w)"
  unfolding runs_def by (auto split: prod.splits intro: trans_R)

lemma runs_if: "runs R f \<Longrightarrow> runs R g \<Longrightarrow> runs R (\<lambda>w. if c w then f w else g w)"
  by (simp add: runs_def)

lemma runs_let: "(\<And>x. runs R (f x)) \<Longrightarrow> runs R (\<lambda>w. let x = y in f x w)"
  by simp

lemma runs_sum:
  "(\<And>e. runs R (f e)) \<Longrightarrow> (\<And>x. runs R (g x)) \<Longrightarrow> runs R (\<lambda>w. case s of Inl e \<Rightarrow> f e w | Inr x \<Rightarrow> g x w)"
  by (cases s) auto

lemma runs_option:
  "runs R f \<Longrightarrow> (\<And>x. runs R (g x)) \<Longrightarrow> runs R (\<lambda>w. case s of None \<Rightarrow> f w | Some x \<Rightarrow> g x w)"
  by (cases s) auto

lemma runs_prod: "(\<And>x y. runs R (f x y)) \<Longrightarrow> runs R (\<lambda>w. case p of (x, y) \<Rightarrow> f x y w)"
  by (cases p) auto

end

text \<open>
  Three such relations: the environment stays; nothing is written; a relation \<open>P\<close> on databases is
  kept, provided the statements of the others, run in between, keep it too.
\<close>

definition unchanged :: "world \<Rightarrow> world \<Rightarrow> bool" where
  "unchanged w v \<longleftrightarrow> same_env w v \<and> (isolated w \<longrightarrow> dbs v = dbs w)"

definition others_keep :: "(db \<Rightarrow> db \<Rightarrow> bool) \<Rightarrow> world \<Rightarrow> bool" where
  "others_keep P w \<longleftrightarrow> (\<forall>n d. P d (others w n d))"

definition keeping :: "(db \<Rightarrow> db \<Rightarrow> bool) \<Rightarrow> world \<Rightarrow> world \<Rightarrow> bool" where
  "keeping P w v \<longleftrightarrow> same_env w v \<and> (others_keep P w \<longrightarrow> P (dbs w) (dbs v))"

interpretation env: step_rel same_env
  by unfold_locales (auto intro: same_env_trans)

interpretation unch: step_rel unchanged
  by unfold_locales (auto simp: unchanged_def same_env_isolated intro: same_env_trans)

lemma runs_env_exec: "runs same_env (exec q)"
  by (metis exec_env prod.collapse runs_def)

lemma runs_unchanged_exec: "readonly q \<Longrightarrow> runs unchanged (exec q)"
  unfolding runs_def unchanged_def by (metis exec_env exec_readonly_isolated prod.collapse)

lemma unchanged_env: "unchanged w v \<Longrightarrow> same_env w v"
  by (simp add: unchanged_def)

lemma runs_env_of_unchanged: "runs unchanged f \<Longrightarrow> runs same_env f"
  by (simp add: runs_def unchanged_def)

lemma runs_env_inTx:
  assumes "runs same_env body" shows "runs same_env (inTx body)"
  unfolding runs_def
proof
  fix w
  obtain r v where "inTx body w = (r, v)" by fastforce
  with inTx_env [OF this] assms show "same_env w (snd (inTx body w))" by (simp add: runsD)
qed

lemma inTx_Inl:
  assumes "inTx body w = (Inl e, v)" "runs same_env body"
  shows "dbs v = dbs (arrive w) \<or>
    (\<exists>x u. body ((arrive w)\<lparr> in_tx := Some (tick w) \<rparr>) = (Inr x, u) \<and> dbs v = dbs u \<and>
       (\<exists>n f. fault w n = AckLost f))"
proof (cases "body ((arrive w)\<lparr> in_tx := Some (tick w) \<rparr>)")
  case (Pair r u)
  then have "fault u = fault w"
    using runsD [OF assms(2) Pair] by (simp add: same_env_def)
  with assms(1) Pair show ?thesis
    by (fastforce simp: inTx_def Let_def split: outcome.splits sum.splits)
qed

text \<open>
  A relation on databases that is reflexive and transitive gives one on worlds. A statement keeps it
  when its effect does, and a transaction does when its body does, since a transaction that fails
  leaves the database as it found it or as the body made it.
\<close>

definition preserves :: "(db \<Rightarrow> db \<Rightarrow> bool) \<Rightarrow> 'a query \<Rightarrow> bool" where
  "preserves P q \<longleftrightarrow> (\<forall>s d x d'. q s d = Inr (x, d') \<longrightarrow> P d d')"

lemma same_env_others_keep: "same_env w v \<Longrightarrow> others_keep P v = others_keep P w"
  by (simp add: same_env_def others_keep_def)

locale db_rel =
  fixes P :: "db \<Rightarrow> db \<Rightarrow> bool"
  assumes refl_P: "P d d"
    and trans_P: "P d e \<Longrightarrow> P e f \<Longrightarrow> P d f"
begin

lemma step_rel_keeping: "step_rel (keeping P)"
  by unfold_locales (auto simp: keeping_def refl_P same_env_others_keep intro: same_env_trans trans_P)

lemma arrive_keeps: "others_keep P w \<Longrightarrow> P (dbs w) (dbs (arrive w))"
  by (auto simp: arrive_def others_keep_def refl_P)

lemma runs_exec:
  assumes "preserves P q" shows "runs (keeping P) (exec q)"
  unfolding runs_def keeping_def
proof (intro allI conjI impI)
  fix w
  obtain r v where e: "exec q w = (r, v)" by fastforce
  show "same_env w (snd (exec q w))" using exec_env [OF e] e by simp
  assume "others_keep P w"
  then have a: "P (dbs w) (dbs (arrive w))" by (rule arrive_keeps)
  have "dbs v = dbs (arrive w) \<or> P (dbs (arrive w)) (dbs v)"
  proof (cases r)
    case (Inl x)
    with exec_failed [of q w x v] e assms show ?thesis unfolding preserves_def by auto
  next
    case (Inr x)
    with exec_result [of q w x v] e assms show ?thesis unfolding preserves_def by auto
  qed
  with a show "P (dbs w) (dbs (snd (exec q w)))" by (auto simp: e intro: trans_P)
qed

lemma runs_inTx:
  assumes "runs (keeping P) body" shows "runs (keeping P) (inTx body)"
  unfolding runs_def keeping_def
proof (intro allI conjI impI)
  fix w
  obtain r v where e: "inTx body w = (r, v)" by fastforce
  have "runs same_env body" using assms by (simp add: runs_def keeping_def)
  from runsD [OF runs_env_inTx [OF this] e] show "same_env w (snd (inTx body w))" by (simp add: e)
  assume o: "others_keep P w"
  then have a: "P (dbs w) (dbs (arrive w))" by (rule arrive_keeps)
  from e show "P (dbs w) (dbs (snd (inTx body w)))"
  proof (rule inTx_cases)
    fix x u
    assume "body ((arrive w)\<lparr> in_tx := Some (tick w) \<rparr>) = (Inr x, u)" "dbs v = dbs u"
    with runsD [OF assms, of "(arrive w)\<lparr> in_tx := Some (tick w) \<rparr>"] o show ?thesis
      by (auto simp: keeping_def others_keep_def e intro: trans_P [OF a])
  qed (simp add: a e)
qed

end

end
