(* ===== verification/TeamQueries.thy ===== *)
theory TeamQueries
  imports World
begin

text \<open>
  The statements on users, sessions, teams, memberships and invitations:
  \<^verbatim>\<open>users.sql.go\<close>, \<^verbatim>\<open>sessions.sql.go\<close>, \<^verbatim>\<open>teams.sql.go\<close> and
  \<^verbatim>\<open>invitations.sql.go\<close> of \<^verbatim>\<open>internal/db\<close>, one definition per query with
  the constraints of its table.
\<close>

section \<open>Users and sessions\<close>

definition CreateUser :: "string \<Rightarrow> string \<Rightarrow> string \<Rightarrow> User query" where
  "CreateUser email password_hash name s d =
     with_texts [email, password_hash, name]
       (require (email = pg_lower d email) (check_violation ''users_email_lowercase'')
       (require (new_id s \<notin> u_id ` set (users d)) (unique_violation ''users_pkey'')
       (require (email \<notin> u_email ` set (users d)) (unique_violation ''users_email_key'')
         (let u = \<lparr> u_id = new_id s, u_email = email, u_password_hash = password_hash, u_name = name,
                    u_created_at = now s \<rparr>
          in Inr (u, d\<lparr> users := users d @ [u] \<rparr>)))))"

definition GetUserByEmail :: "string \<Rightarrow> User query" where
  "GetUserByEmail email = reading (\<lambda>d. with_texts [email]
     (case find_row (\<lambda>u. u_email u = email) (users d) of None \<Rightarrow> Inl ErrNoRows | Some u \<Rightarrow> Inr u))"

definition GetUserByID :: "uuid \<Rightarrow> User query" where
  "GetUserByID i = reading (\<lambda>d.
     case find_row (\<lambda>u. u_id u = i) (users d) of None \<Rightarrow> Inl ErrNoRows | Some u \<Rightarrow> Inr u)"

definition CreateSession :: "string \<Rightarrow> uuid \<Rightarrow> time \<Rightarrow> Session query" where
  "CreateSession token_hash user_id expires_at s d =
     require (token_hash \<notin> s_token_hash ` set (sessions d)) (unique_violation ''sessions_pkey'')
     (require (user_exists user_id d) (foreign_key_violation ''sessions_user_id_fkey'')
       (let x = \<lparr> s_token_hash = token_hash, s_user_id = user_id, s_created_at = now s,
                  s_expires_at = expires_at \<rparr>
        in Inr (x, d\<lparr> sessions := sessions d @ [x] \<rparr>)))"

definition DeleteExpiredSessions :: "nat query" where
  "DeleteExpiredSessions s d =
     (let kept = delete_rows (\<lambda>x. s_expires_at x \<le> now s) (sessions d) in
      Inr (length (sessions d) - length kept, d\<lparr> sessions := kept \<rparr>))"

definition DeleteSession :: "string \<Rightarrow> unit query" where
  "DeleteSession token_hash s d =
     Inr ((), d\<lparr> sessions := delete_rows (\<lambda>x. s_token_hash x = token_hash) (sessions d) \<rparr>)"

definition GetSessionByTokenHash :: "string \<Rightarrow> (Session \<times> User) query" where
  "GetSessionByTokenHash token_hash s = reading (\<lambda>d.
     case [(x, u). x \<leftarrow> sessions d, s_token_hash x = token_hash \<and> now s < s_expires_at x,
                   u \<leftarrow> users d, u_id u = s_user_id x] of
       [] \<Rightarrow> Inl ErrNoRows
     | row # _ \<Rightarrow> Inr row) s"

section \<open>Teams and memberships\<close>

definition CreateTeam :: "string \<Rightarrow> uuid \<Rightarrow> Team query" where
  "CreateTeam name owner_id s d =
     with_texts [name]
       (require (pg_name_ok 100 name) (check_violation ''teams_name_length'')
       (require (new_id s \<notin> t_id ` set (teams d)) (unique_violation ''teams_pkey'')
       (require (user_exists owner_id d) (foreign_key_violation ''teams_owner_id_fkey'')
         (let t = \<lparr> t_id = new_id s, t_name = name, t_owner_id = owner_id, t_created_at = now s \<rparr>
          in Inr (t, d\<lparr> teams := teams d @ [t] \<rparr>)))))"

definition is_member :: "uuid \<Rightarrow> uuid \<Rightarrow> TeamMember \<Rightarrow> bool" where
  "is_member team_id user_id m = (m_team_id m = team_id \<and> m_user_id m = user_id)"

definition CreateTeamMember :: "uuid \<Rightarrow> uuid \<Rightarrow> bool \<Rightarrow> TeamMember query" where
  "CreateTeamMember team_id user_id all_projects s d =
     require (find_row (is_member team_id user_id) (team_members d) = None)
       (unique_violation ''team_members_pkey'')
     (require (team_exists team_id d) (foreign_key_violation ''team_members_team_id_fkey'')
     (require (user_exists user_id d) (foreign_key_violation ''team_members_user_id_fkey'')
       (let m = \<lparr> m_team_id = team_id, m_user_id = user_id, m_all_projects = all_projects,
                  m_created_at = now s \<rparr>
        in Inr (m, d\<lparr> team_members := team_members d @ [m] \<rparr>))))"

definition CreateTeamMemberIfAbsent :: "uuid \<Rightarrow> uuid \<Rightarrow> unit query" where
  "CreateTeamMemberIfAbsent team_id user_id s d =
     (if find_row (is_member team_id user_id) (team_members d) \<noteq> None then Inr ((), d)
      else
        require (team_exists team_id d) (foreign_key_violation ''team_members_team_id_fkey'')
        (require (user_exists user_id d) (foreign_key_violation ''team_members_user_id_fkey'')
          (Inr ((), d\<lparr> team_members := team_members d @
             [\<lparr> m_team_id = team_id, m_user_id = user_id, m_all_projects = True,
                m_created_at = now s \<rparr>] \<rparr>))))"

definition DeleteTeam :: "uuid \<Rightarrow> unit query" where
  "DeleteTeam i s d = Inr ((), delete_teams (\<lambda>t. t_id t = i) d)"

definition DeleteTeamMember :: "uuid \<Rightarrow> uuid \<Rightarrow> nat query" where
  "DeleteTeamMember team_id user_id s d =
     (let kept = delete_rows (is_member team_id user_id) (team_members d) in
      Inr (length (team_members d) - length kept, d\<lparr> team_members := kept \<rparr>))"

definition GetTeamByID :: "uuid \<Rightarrow> Team query" where
  "GetTeamByID i = reading (\<lambda>d.
     case find_row (\<lambda>t. t_id t = i) (teams d) of None \<Rightarrow> Inl ErrNoRows | Some t \<Rightarrow> Inr t)"

definition GetTeamMember :: "uuid \<Rightarrow> uuid \<Rightarrow> TeamMember query" where
  "GetTeamMember team_id user_id = reading (\<lambda>d.
     case find_row (is_member team_id user_id) (team_members d) of
       None \<Rightarrow> Inl ErrNoRows | Some m \<Rightarrow> Inr m)"

record ListTeamMembersRow =
  lm_user_id :: uuid
  lm_email :: string
  lm_name :: string
  lm_all_projects :: bool

definition ListTeamMembers :: "uuid \<Rightarrow> ListTeamMembersRow list query" where
  "ListTeamMembers team_id = reading (\<lambda>d. Inr
     (sort_by (\<lambda>a b. pg_le d (lm_email a) (lm_email b))
       [\<lparr> lm_user_id = m_user_id m, lm_email = u_email u, lm_name = u_name u,
          lm_all_projects = m_all_projects m \<rparr>.
        m \<leftarrow> team_members d, m_team_id m = team_id, u \<leftarrow> users d, u_id u = m_user_id m]))"

definition ListTeamsForUser :: "uuid \<Rightarrow> (Team \<times> nat) list query" where
  "ListTeamsForUser user_id = reading (\<lambda>d. Inr
     (filter (\<lambda>(t, n). n \<noteq> 0)
       (map (\<lambda>t. (t, length [(a, b). a \<leftarrow> team_members d, is_member (t_id t) user_id a,
                                     b \<leftarrow> team_members d, m_team_id b = t_id t]))
         (sort_key t_created_at (teams d)))))"

definition UpdateTeamName :: "uuid \<Rightarrow> string \<Rightarrow> Team query" where
  "UpdateTeamName i name s d =
     with_texts [name]
       (case find_row (\<lambda>t. t_id t = i) (teams d) of
          None \<Rightarrow> Inl ErrNoRows
        | Some t \<Rightarrow>
            require (pg_name_ok 100 name) (check_violation ''teams_name_length'')
              (Inr (t\<lparr> t_name := name \<rparr>,
                 d\<lparr> teams := update_rows (\<lambda>t. t_id t = i) (\<lambda>t. t\<lparr> t_name := name \<rparr>) (teams d) \<rparr>)))"

section \<open>Invitations\<close>

text \<open>The values of \<^verbatim>\<open>internal/db/invitations.go\<close>.\<close>

definition InvitationPending :: string where "InvitationPending = ''pending''"
definition InvitationAccepted :: string where "InvitationAccepted = ''accepted''"
definition InvitationRejected :: string where "InvitationRejected = ''rejected''"

definition CreateInvitation :: "uuid \<Rightarrow> string \<Rightarrow> uuid \<Rightarrow> TeamInvitation query" where
  "CreateInvitation team_id email invited_by s d =
     with_texts [email]
       (require (email = pg_lower d email) (check_violation ''team_invitations_email_lowercase'')
       (require (new_id s \<notin> i_id ` set (team_invitations d)) (unique_violation ''team_invitations_pkey'')
       (require (find_row (\<lambda>i. i_team_id i = team_id \<and> i_email i = email \<and> i_status i = InvitationPending)
                  (team_invitations d) = None)
         (unique_violation ''team_invitations_pending_team_email_idx'')
       (require (team_exists team_id d) (foreign_key_violation ''team_invitations_team_id_fkey'')
       (require (user_exists invited_by d) (foreign_key_violation ''team_invitations_invited_by_fkey'')
         (let i = \<lparr> i_id = new_id s, i_team_id = team_id, i_email = email, i_invited_by = invited_by,
                    i_status = InvitationPending, i_created_at = now s, i_responded_at = None \<rparr>
          in Inr (i, d\<lparr> team_invitations := team_invitations d @ [i] \<rparr>)))))))"

definition DeleteInvitation :: "uuid \<Rightarrow> unit query" where
  "DeleteInvitation i s d =
     Inr ((), d\<lparr> team_invitations := delete_rows (\<lambda>x. i_id x = i) (team_invitations d) \<rparr>)"

definition GetInvitationByID :: "uuid \<Rightarrow> TeamInvitation query" where
  "GetInvitationByID i = reading (\<lambda>d.
     case find_row (\<lambda>x. i_id x = i) (team_invitations d) of None \<Rightarrow> Inl ErrNoRows | Some x \<Rightarrow> Inr x)"

definition IsEmailTeamMember :: "uuid \<Rightarrow> string \<Rightarrow> bool query" where
  "IsEmailTeamMember team_id email = reading (\<lambda>d. with_texts [email]
     (Inr (\<exists>m \<in> set (team_members d). m_team_id m = team_id \<and>
             (\<exists>u \<in> set (users d). u_id u = m_user_id m \<and> u_email u = email))))"

record ListPendingInvitationsForEmailRow =
  li_id :: uuid
  li_created_at :: time
  li_team_id :: uuid
  li_team_name :: string
  li_inviter_name :: string
  li_inviter_email :: string

definition ListPendingInvitationsForEmail ::
  "string \<Rightarrow> ListPendingInvitationsForEmailRow list query" where
  "ListPendingInvitationsForEmail email = reading (\<lambda>d. with_texts [email] (Inr
     (sort_key li_created_at
       [\<lparr> li_id = i_id i, li_created_at = i_created_at i, li_team_id = t_id t, li_team_name = t_name t,
          li_inviter_name = u_name u, li_inviter_email = u_email u \<rparr>.
        i \<leftarrow> team_invitations d, i_email i = email \<and> i_status i = InvitationPending,
        t \<leftarrow> teams d, t_id t = i_team_id i, u \<leftarrow> users d, u_id u = i_invited_by i])))"

definition ListPendingInvitationsForTeam :: "uuid \<Rightarrow> (uuid \<times> string \<times> time) list query" where
  "ListPendingInvitationsForTeam team_id = reading (\<lambda>d. Inr
     (map (\<lambda>i. (i_id i, i_email i, i_created_at i))
       (sort_key i_created_at
         (filter (\<lambda>i. i_team_id i = team_id \<and> i_status i = InvitationPending)
           (team_invitations d)))))"

definition UpdateInvitationStatus :: "uuid \<Rightarrow> string \<Rightarrow> TeamInvitation query" where
  "UpdateInvitationStatus i status s d =
     with_texts [status]
       (case find_row (\<lambda>x. i_id x = i \<and> i_status x = InvitationPending) (team_invitations d) of
          None \<Rightarrow> Inl ErrNoRows
        | Some x \<Rightarrow>
            require (status \<in> {InvitationPending, InvitationAccepted, InvitationRejected})
              (check_violation ''team_invitations_status'')
              (Inr (x\<lparr> i_status := status, i_responded_at := Some (now s) \<rparr>,
                 d\<lparr> team_invitations :=
                   update_rows (\<lambda>x. i_id x = i \<and> i_status x = InvitationPending)
                     (\<lambda>x. x\<lparr> i_status := status, i_responded_at := Some (now s) \<rparr>)
                     (team_invitations d) \<rparr>)))"

lemma readonly_GetSessionByTokenHash [readonly_intros]: "readonly (GetSessionByTokenHash h)"
  by (simp add: readonly_def GetSessionByTokenHash_def reading_Inr)

lemma readonly_team_queries [readonly_intros]:
  "readonly (GetUserByEmail e)" "readonly (GetUserByID i)" "readonly (GetTeamByID i)"
  "readonly (GetTeamMember i j)" "readonly (ListTeamMembers i)" "readonly (ListTeamsForUser i)"
  "readonly (GetInvitationByID i)" "readonly (IsEmailTeamMember i e)"
  "readonly (ListPendingInvitationsForEmail e)" "readonly (ListPendingInvitationsForTeam i)"
  by (simp_all add: GetUserByEmail_def GetUserByID_def GetTeamByID_def GetTeamMember_def
    ListTeamMembers_def ListTeamsForUser_def GetInvitationByID_def IsEmailTeamMember_def
    ListPendingInvitationsForEmail_def ListPendingInvitationsForTeam_def readonly_reading)

end
