(* ===== verification/ProjectQueries.thy ===== *)
theory ProjectQueries
  imports TeamQueries
begin

text \<open>
  The statements on projects and explicit grants: \<^verbatim>\<open>projects.sql.go\<close> and
  \<^verbatim>\<open>project_access.sql.go\<close> of \<^verbatim>\<open>internal/db\<close>.
\<close>

section \<open>Projects\<close>

text \<open>
  \<^verbatim>\<open>FROM unnest(ids) WITH ORDINALITY\<close>: a row whose id is in the list gets its position;
  of several positions PostgreSQL uses one, here the first.
\<close>

definition BulkUpdateProjectOrder :: "uuid \<Rightarrow> uuid list \<Rightarrow> unit query" where
  "BulkUpdateProjectOrder team_id project_ids s d =
     Inr ((), d\<lparr> projects :=
       map (\<lambda>p. case position project_ids (p_id p) of
                   None \<Rightarrow> p
                 | Some n \<Rightarrow> if p_team_id p = team_id then p\<lparr> p_sort_order := int n + 1 \<rparr> else p)
         (projects d) \<rparr>)"

definition CountProjectsInTeam :: "uuid \<Rightarrow> uuid list \<Rightarrow> nat query" where
  "CountProjectsInTeam team_id project_ids = reading (\<lambda>d. Inr
     (length (filter (\<lambda>p. p_team_id p = team_id \<and> p_id p \<in> set project_ids) (projects d))))"

definition CreateProject :: "uuid \<Rightarrow> string \<Rightarrow> uuid \<Rightarrow> Project query" where
  "CreateProject team_id name owner_id s d =
     with_texts [name]
       (bindR (next_order (map p_sort_order (filter (\<lambda>p. p_team_id p = team_id) (projects d)))) (\<lambda>n.
        require (pg_name_ok 100 name) (check_violation ''projects_name_length'')
       (require (new_id s \<notin> p_id ` set (projects d)) (unique_violation ''projects_pkey'')
       (require (team_exists team_id d) (foreign_key_violation ''projects_team_id_fkey'')
       (require (user_exists owner_id d) (foreign_key_violation ''projects_owner_id_fkey'')
         (let p = \<lparr> p_id = new_id s, p_team_id = team_id, p_name = name, p_owner_id = owner_id,
                    p_sort_order = n, p_created_at = now s \<rparr>
          in Inr (p, d\<lparr> projects := projects d @ [p] \<rparr>)))))))"

definition DeleteProject :: "uuid \<Rightarrow> unit query" where
  "DeleteProject i s d = Inr ((), delete_projects (\<lambda>p. p_id p = i) d)"

definition GetProjectByID :: "uuid \<Rightarrow> Project query" where
  "GetProjectByID i = reading (\<lambda>d.
     case find_row (\<lambda>p. p_id p = i) (projects d) of None \<Rightarrow> Inl ErrNoRows | Some p \<Rightarrow> Inr p)"

text \<open>The project, and the owner of its team.\<close>

definition rows_for_user :: "uuid \<Rightarrow> uuid \<Rightarrow> db \<Rightarrow> (Project \<times> uuid) list" where
  "rows_for_user project_id user_id d =
     [(p, t_owner_id t).
      p \<leftarrow> projects d, p_id p = project_id,
      t \<leftarrow> teams d, t_id t = p_team_id p,
      m \<leftarrow> team_members d, m_team_id m = p_team_id p \<and> m_user_id m = user_id \<and>
        (m_all_projects m \<or> t_owner_id t = user_id \<or> p_owner_id p = user_id \<or>
         (\<exists>a \<in> set (project_access d). a_project_id a = p_id p \<and> a_user_id a = user_id))]"

definition GetProjectForUser :: "uuid \<Rightarrow> uuid \<Rightarrow> (Project \<times> uuid) query" where
  "GetProjectForUser project_id user_id = reading (\<lambda>d.
     case rows_for_user project_id user_id d of [] \<Rightarrow> Inl ErrNoRows | row # _ \<Rightarrow> Inr row)"

definition ListAccessibleProjects :: "uuid \<Rightarrow> uuid \<Rightarrow> Project list query" where
  "ListAccessibleProjects team_id user_id = reading (\<lambda>d. Inr
     (sort_key (\<lambda>p. (p_sort_order p, p_created_at p))
       [p. p \<leftarrow> projects d, p_team_id p = team_id,
           t \<leftarrow> teams d, t_id t = p_team_id p,
           m \<leftarrow> team_members d, m_team_id m = p_team_id p \<and> m_user_id m = user_id \<and>
             (m_all_projects m \<or> t_owner_id t = user_id \<or> p_owner_id p = user_id \<or>
              (\<exists>a \<in> set (project_access d). a_project_id a = p_id p \<and> a_user_id a = user_id))]))"

definition ListTeamProjectIDs :: "uuid \<Rightarrow> uuid list query" where
  "ListTeamProjectIDs team_id = reading (\<lambda>d. Inr
     (map p_id (filter (\<lambda>p. p_team_id p = team_id) (projects d))))"

text \<open>
  A lock changes no row: what it excludes are the writes of other sessions, which a transaction
  of this model never sees.
\<close>

definition LockProject :: "uuid \<Rightarrow> unit query" where
  "LockProject i = reading (\<lambda>d. Inr ())"

definition UpdateProjectName :: "uuid \<Rightarrow> string \<Rightarrow> Project query" where
  "UpdateProjectName i name s d =
     with_texts [name]
       (case find_row (\<lambda>p. p_id p = i) (projects d) of
          None \<Rightarrow> Inl ErrNoRows
        | Some p \<Rightarrow>
            require (pg_name_ok 100 name) (check_violation ''projects_name_length'')
              (Inr (p\<lparr> p_name := name \<rparr>,
                 d\<lparr> projects := update_rows (\<lambda>p. p_id p = i) (\<lambda>p. p\<lparr> p_name := name \<rparr>) (projects d) \<rparr>)))"

section \<open>Grants\<close>

definition CountTeamMembersInList :: "uuid \<Rightarrow> uuid list \<Rightarrow> nat query" where
  "CountTeamMembersInList team_id user_ids = reading (\<lambda>d. Inr
     (length (filter (\<lambda>m. m_team_id m = team_id \<and> m_user_id m \<in> set user_ids) (team_members d))))"

definition DeleteAllProjectAccess :: "uuid \<Rightarrow> unit query" where
  "DeleteAllProjectAccess project_id s d =
     Inr ((), d\<lparr> project_access := delete_rows (\<lambda>a. a_project_id a = project_id) (project_access d) \<rparr>)"

definition DeleteAllUserAccessInTeam :: "uuid \<Rightarrow> uuid \<Rightarrow> unit query" where
  "DeleteAllUserAccessInTeam user_id team_id s d =
     Inr ((), d\<lparr> project_access :=
       delete_rows (\<lambda>a. a_user_id a = user_id \<and>
           (\<exists>p \<in> set (projects d). a_project_id a = p_id p \<and> p_team_id p = team_id))
         (project_access d) \<rparr>)"

text \<open>
  \<^verbatim>\<open>INSERT ... ON CONFLICT (project_id, user_id) DO NOTHING\<close> for a list of pairs: the
  references of the pairs that are inserted must exist.
\<close>

definition is_grant :: "uuid \<Rightarrow> uuid \<Rightarrow> ProjectAccess \<Rightarrow> bool" where
  "is_grant project_id user_id a = (a_project_id a = project_id \<and> a_user_id a = user_id)"

fun insert_grants :: "time \<Rightarrow> (uuid \<times> uuid) list \<Rightarrow> ProjectAccess list \<Rightarrow> ProjectAccess list" where
  "insert_grants at [] t = t"
| "insert_grants at ((p, u) # ps) t =
     insert_grants at ps
       (if find_row (is_grant p u) t \<noteq> None then t
        else t @ [\<lparr> a_project_id = p, a_user_id = u, a_created_at = at \<rparr>])"

definition grant_pairs :: "(uuid \<times> uuid) list \<Rightarrow> unit query" where
  "grant_pairs ps s d =
     (let new = filter (\<lambda>(p, u). find_row (is_grant p u) (project_access d) = None) ps in
      require (\<forall>(p, u) \<in> set new. project_exists p d) (foreign_key_violation ''project_access_project_id_fkey'')
      (require (\<forall>(p, u) \<in> set new. user_exists u d) (foreign_key_violation ''project_access_user_id_fkey'')
        (Inr ((), d\<lparr> project_access := insert_grants (now s) ps (project_access d) \<rparr>))))"

definition GrantProjectAccess :: "uuid \<Rightarrow> uuid list \<Rightarrow> unit query" where
  "GrantProjectAccess project_id user_ids = grant_pairs (map (\<lambda>u. (project_id, u)) user_ids)"

definition GrantUserProjectAccess :: "uuid list \<Rightarrow> uuid \<Rightarrow> unit query" where
  "GrantUserProjectAccess project_ids user_id = grant_pairs (map (\<lambda>p. (p, user_id)) project_ids)"

record ListProjectAccessUsersRow =
  la_user_id :: uuid
  la_email :: string
  la_name :: string

definition ListProjectAccessUsers :: "uuid \<Rightarrow> ListProjectAccessUsersRow list query" where
  "ListProjectAccessUsers project_id = reading (\<lambda>d. Inr
     (sort_by (\<lambda>a b. pg_le d (la_email a) (la_email b))
       [\<lparr> la_user_id = a_user_id a, la_email = u_email u, la_name = u_name u \<rparr>.
        a \<leftarrow> project_access d, a_project_id a = project_id, u \<leftarrow> users d, u_id u = a_user_id a]))"

definition ListUserAccessibleProjectIDs :: "uuid \<Rightarrow> uuid \<Rightarrow> uuid list query" where
  "ListUserAccessibleProjectIDs user_id team_id = reading (\<lambda>d. Inr
     (map p_id
       (sort_key (\<lambda>p. (p_sort_order p, p_created_at p))
         [p. a \<leftarrow> project_access d, a_user_id a = user_id,
             p \<leftarrow> projects d, p_id p = a_project_id a \<and> p_team_id p = team_id])))"

definition UpdateMemberAllProjects :: "uuid \<Rightarrow> uuid \<Rightarrow> bool \<Rightarrow> TeamMember query" where
  "UpdateMemberAllProjects team_id user_id all_projects s d =
     (case find_row (is_member team_id user_id) (team_members d) of
        None \<Rightarrow> Inl ErrNoRows
      | Some m \<Rightarrow>
          Inr (m\<lparr> m_all_projects := all_projects \<rparr>,
            d\<lparr> team_members :=
              update_rows (is_member team_id user_id) (\<lambda>m. m\<lparr> m_all_projects := all_projects \<rparr>)
                (team_members d) \<rparr>))"

lemma readonly_project_queries [readonly_intros]:
  "readonly (CountProjectsInTeam i is)" "readonly (GetProjectByID i)"
  "readonly (GetProjectForUser i j)" "readonly (ListAccessibleProjects i j)"
  "readonly (ListTeamProjectIDs i)" "readonly (LockProject i)"
  "readonly (CountTeamMembersInList i is)" "readonly (ListProjectAccessUsers i)"
  "readonly (ListUserAccessibleProjectIDs i j)"
  by (simp_all add: CountProjectsInTeam_def GetProjectByID_def GetProjectForUser_def
    ListAccessibleProjects_def ListTeamProjectIDs_def LockProject_def CountTeamMembersInList_def
    ListProjectAccessUsers_def ListUserAccessibleProjectIDs_def readonly_reading)

section \<open>What the grant statements leave\<close>

definition grants :: "ProjectAccess list \<Rightarrow> (uuid \<times> uuid) set" where
  "grants t = (\<lambda>a. (a_project_id a, a_user_id a)) ` set t"

lemma mem_grants: "(p, u) \<in> grants t \<longleftrightarrow> (\<exists>a \<in> set t. a_project_id a = p \<and> a_user_id a = u)"
  by (auto simp: grants_def)

lemma find_grant_iff: "find_row (is_grant p u) t \<noteq> None \<longleftrightarrow> (p, u) \<in> grants t"
  by (auto simp: find_row_None is_grant_def grants_def image_iff)

lemma grants_insert: "grants (insert_grants at ps t) = set ps \<union> grants t"
proof (induction at ps t rule: insert_grants.induct)
  case (2 at p u ps t)
  then show ?case using find_grant_iff [of p u t] by (auto simp: grants_def)
qed simp

lemma grant_pairs_Inr:
  "grant_pairs ps s d = Inr (x, d') \<Longrightarrow>
     d' = d\<lparr> project_access := project_access d' \<rparr> \<and>
     grants (project_access d') = set ps \<union> grants (project_access d)"
  by (auto simp: grant_pairs_def Let_def require_Inr grants_insert)

end
