(* ===== verification/FolderQueries.thy ===== *)
theory FolderQueries
  imports ProjectQueries
begin

text \<open>
  The settings folders and requests share (\<^verbatim>\<open>internal/db/node_settings.go\<close>,
  \<^verbatim>\<open>proxies.go\<close>) with their partial update, and the statements of
  \<^verbatim>\<open>folders.sql.go\<close>, among them the recursive ancestor query behind the cycle check.
\<close>

section \<open>Node settings\<close>

definition ToggleSettingValues :: "string list" where
  "ToggleSettingValues = [''inherit'', ''global'', ''on'', ''off'']"

definition AuthTypes :: "string list" where
  "AuthTypes = [''inherit'', ''none'', ''bearer'', ''basic'', ''api_key'', ''jwt'']"

definition APIKeyPlacements :: "string list" where
  "APIKeyPlacements = [''header'', ''query'']"

definition JWTAlgorithms :: "string list" where
  "JWTAlgorithms = [''HS256'', ''HS384'', ''HS512'']"

definition JWTPlacements :: "string list" where
  "JWTPlacements = [''header'', ''query'']"

definition ProxyTypes :: "string list" where
  "ProxyTypes = [''http'', ''https'', ''socks5'']"

definition ProxyModes :: "string list" where
  "ProxyModes = [''inherit'', ''global'', ''none'', ''proxy'']"

text \<open>\<open>coalesce\<close> is SQL's: \<^verbatim>\<open>NULL\<close> keeps the current value.\<close>

definition coalesce :: "'a option \<Rightarrow> 'a \<Rightarrow> 'a" where
  "coalesce new old = (case new of None \<Rightarrow> old | Some v \<Rightarrow> v)"

lemma coalesce_simps [simp]: "coalesce None v = v" "coalesce (Some x) v = x"
  by (simp_all add: coalesce_def)

text \<open>
  The optional \<^verbatim>\<open>Auth*\<close> parameters of \<^verbatim>\<open>UpdateFolder\<close> and
  \<^verbatim>\<open>UpdateRequest\<close>, and the other settings both statements take.
\<close>

record auth_params =
  ap_type :: "string option"
  ap_bearer_token :: "string option"
  ap_basic_username :: "string option"
  ap_basic_password :: "string option"
  ap_api_key_name :: "string option"
  ap_api_key_value :: "string option"
  ap_api_key_in :: "string option"
  ap_jwt_algorithm :: "string option"
  ap_jwt_secret :: "string option"
  ap_jwt_secret_base64 :: "bool option"
  ap_jwt_payload :: "string option"
  ap_jwt_add_to :: "string option"
  ap_jwt_name :: "string option"
  ap_jwt_prefix :: "string option"

definition no_auth_params :: auth_params where
  "no_auth_params = \<lparr> ap_type = None, ap_bearer_token = None, ap_basic_username = None,
     ap_basic_password = None, ap_api_key_name = None, ap_api_key_value = None,
     ap_api_key_in = None, ap_jwt_algorithm = None, ap_jwt_secret = None,
     ap_jwt_secret_base64 = None, ap_jwt_payload = None, ap_jwt_add_to = None,
     ap_jwt_name = None, ap_jwt_prefix = None \<rparr>"

record settings_params =
  sp_follow_redirects :: "string option"
  sp_auth :: auth_params
  sp_pre_script :: "string option"
  sp_post_script :: "string option"
  sp_proxy_mode :: "string option"
  sp_set_proxy :: bool
  sp_proxy_id :: "uuid option"

definition merge_auth :: "auth_params \<Rightarrow> auth_config \<Rightarrow> auth_config" where
  "merge_auth p c = \<lparr>
     auth_type = coalesce (ap_type p) (auth_type c),
     auth_bearer_token = coalesce (ap_bearer_token p) (auth_bearer_token c),
     auth_basic_username = coalesce (ap_basic_username p) (auth_basic_username c),
     auth_basic_password = coalesce (ap_basic_password p) (auth_basic_password c),
     auth_api_key_name = coalesce (ap_api_key_name p) (auth_api_key_name c),
     auth_api_key_value = coalesce (ap_api_key_value p) (auth_api_key_value c),
     auth_api_key_in = coalesce (ap_api_key_in p) (auth_api_key_in c),
     auth_jwt_algorithm = coalesce (ap_jwt_algorithm p) (auth_jwt_algorithm c),
     auth_jwt_secret = coalesce (ap_jwt_secret p) (auth_jwt_secret c),
     auth_jwt_secret_base64 = coalesce (ap_jwt_secret_base64 p) (auth_jwt_secret_base64 c),
     auth_jwt_payload = coalesce (ap_jwt_payload p) (auth_jwt_payload c),
     auth_jwt_add_to = coalesce (ap_jwt_add_to p) (auth_jwt_add_to c),
     auth_jwt_name = coalesce (ap_jwt_name p) (auth_jwt_name c),
     auth_jwt_prefix = coalesce (ap_jwt_prefix p) (auth_jwt_prefix c) \<rparr>"

definition merge_settings :: "settings_params \<Rightarrow> node_settings \<Rightarrow> node_settings" where
  "merge_settings p s = \<lparr>
     follow_redirects = coalesce (sp_follow_redirects p) (follow_redirects s),
     auth_cfg = merge_auth (sp_auth p) (auth_cfg s),
     pre_script = coalesce (sp_pre_script p) (pre_script s),
     post_script = coalesce (sp_post_script p) (post_script s),
     proxy_mode = coalesce (sp_proxy_mode p) (proxy_mode s),
     proxy_id = (if sp_set_proxy p then sp_proxy_id p else proxy_id s) \<rparr>"

definition opt_texts :: "string option list \<Rightarrow> string list" where
  "opt_texts xs = concat (map (\<lambda>x. case x of None \<Rightarrow> [] | Some s \<Rightarrow> [s]) xs)"

definition settings_texts :: "settings_params \<Rightarrow> string list" where
  "settings_texts p = opt_texts
     [sp_follow_redirects p, ap_type (sp_auth p), ap_bearer_token (sp_auth p),
      ap_basic_username (sp_auth p), ap_basic_password (sp_auth p), ap_api_key_name (sp_auth p),
      ap_api_key_value (sp_auth p), ap_api_key_in (sp_auth p), ap_jwt_algorithm (sp_auth p),
      ap_jwt_secret (sp_auth p), ap_jwt_payload (sp_auth p), ap_jwt_add_to (sp_auth p),
      ap_jwt_name (sp_auth p), ap_jwt_prefix (sp_auth p), sp_pre_script p, sp_post_script p,
      sp_proxy_mode p]"

text \<open>
  The \<^verbatim>\<open>CHECK\<close> constraints on the settings, named after the table. The first
  constraint that fails, in the order of their names, is the one reported.
\<close>

definition checks :: "(bool \<times> string) list \<Rightarrow> (goerr + 'a) \<Rightarrow> goerr + 'a" where
  "checks cs k = (case List.find (\<lambda>(b, c). \<not> b) cs of None \<Rightarrow> k | Some (b, c) \<Rightarrow> Inl (check_violation c))"

lemma checks_Inr [result_simps]: "checks cs k = Inr x \<longleftrightarrow> (\<forall>(b, c) \<in> set cs. b) \<and> k = Inr x"
  by (induction cs) (auto simp: checks_def)

definition settings_checks :: "string \<Rightarrow> node_settings \<Rightarrow> (bool \<times> string) list" where
  "settings_checks table s =
     [(auth_api_key_in (auth_cfg s) \<in> set APIKeyPlacements, table @ ''_auth_api_key_in''),
      (auth_jwt_add_to (auth_cfg s) \<in> set JWTPlacements, table @ ''_auth_jwt_add_to''),
      (auth_jwt_algorithm (auth_cfg s) \<in> set JWTAlgorithms, table @ ''_auth_jwt_algorithm''),
      (rune_count (auth_jwt_payload (auth_cfg s)) \<le> 8192, table @ ''_auth_jwt_payload_length''),
      (auth_type (auth_cfg s) \<in> set AuthTypes, table @ ''_auth_type''),
      (follow_redirects s \<in> set ToggleSettingValues, table @ ''_follow_redirects''),
      (rune_count (post_script s) \<le> 32768, table @ ''_post_script_length''),
      (rune_count (pre_script s) \<le> 32768, table @ ''_pre_script_length''),
      (proxy_mode s \<in> set ProxyModes, table @ ''_proxy_mode'')]"

definition proxy_exists :: "uuid option \<Rightarrow> db \<Rightarrow> bool" where
  "proxy_exists i d = (case i of None \<Rightarrow> True | Some j \<Rightarrow> j \<in> x_id ` set (proxies d))"

definition folder_exists :: "uuid option \<Rightarrow> db \<Rightarrow> bool" where
  "folder_exists i d = (case i of None \<Rightarrow> True | Some j \<Rightarrow> j \<in> f_id ` set (folders d))"

section \<open>Folders\<close>

definition folder_siblings :: "uuid \<Rightarrow> uuid option \<Rightarrow> Folder list \<Rightarrow> Folder list" where
  "folder_siblings project_id parent_id fs =
     filter (\<lambda>f. f_project_id f = project_id \<and> f_parent_id f = parent_id) fs"

definition BulkUpdateFolderOrder :: "uuid \<Rightarrow> uuid option \<Rightarrow> uuid list \<Rightarrow> unit query" where
  "BulkUpdateFolderOrder project_id parent_id folder_ids s d =
     Inr ((), d\<lparr> folders :=
       map (\<lambda>f. case position folder_ids (f_id f) of
                   None \<Rightarrow> f
                 | Some n \<Rightarrow>
                     if f_project_id f = project_id \<and> f_parent_id f = parent_id
                     then f\<lparr> f_sort_order := int n + 1 \<rparr> else f)
         (folders d) \<rparr>)"

definition CreateFolder :: "uuid \<Rightarrow> uuid option \<Rightarrow> string \<Rightarrow> Folder query" where
  "CreateFolder project_id parent_id name s d =
     with_texts [name]
       (bindR (next_order (map f_sort_order (folder_siblings project_id parent_id (folders d)))) (\<lambda>n.
        require (pg_name_ok 100 name) (check_violation ''folders_name_length'')
       (require (new_id s \<notin> f_id ` set (folders d)) (unique_violation ''folders_pkey'')
       (require (project_exists project_id d) (foreign_key_violation ''folders_project_id_fkey'')
       (require (folder_exists parent_id d) (foreign_key_violation ''folders_parent_id_fkey'')
         (let f = \<lparr> f_id = new_id s, f_project_id = project_id, f_parent_id = parent_id, f_name = name,
                    f_sort_order = n, f_created_at = now s, f_settings = default_settings \<rparr>
          in Inr (f, d\<lparr> folders := folders d @ [f] \<rparr>)))))))"

definition DeleteFolder :: "uuid \<Rightarrow> unit query" where
  "DeleteFolder i s d = Inr ((), if i \<in> f_id ` set (folders d) then delete_folders {i} d else d)"

definition GetFolderByID :: "uuid \<Rightarrow> Folder query" where
  "GetFolderByID i = reading (\<lambda>d.
     case find_row (\<lambda>f. f_id f = i) (folders d) of None \<Rightarrow> Inl ErrNoRows | Some f \<Rightarrow> Inr f)"

text \<open>
  \<^verbatim>\<open>WITH RECURSIVE ancestors ... UNION\<close>: rows join the result until a round adds none.
  \<^verbatim>\<open>UNION\<close> drops rows that are in the result already, so the rounds end even on a cyclic
  table; the measure counts the rows still missing.
\<close>

definition link :: "Folder \<Rightarrow> uuid \<times> uuid option" where
  "link f = (f_id f, f_parent_id f)"

definition parents_of :: "Folder list \<Rightarrow> (uuid \<times> uuid option) list \<Rightarrow> (uuid \<times> uuid option) list" where
  "parents_of fs work = map link (filter (\<lambda>f. \<exists>r \<in> set work. snd r = Some (f_id f)) fs)"

function ancestors_loop ::
  "Folder list \<Rightarrow> (uuid \<times> uuid option) list \<Rightarrow> (uuid \<times> uuid option) list \<Rightarrow> (uuid \<times> uuid option) list" where
  "ancestors_loop fs done_rows work =
     (let fresh = filter (\<lambda>r. r \<notin> set done_rows) (parents_of fs work) in
      if fresh = [] then done_rows else ancestors_loop fs (done_rows @ fresh) fresh)"
  by pat_completeness auto
termination
proof (relation "measure (\<lambda>(fs, done_rows, work). card (link ` set fs - set done_rows))")
  fix fs :: "Folder list" and done_rows work fresh
  assume fresh: "fresh = filter (\<lambda>r. r \<notin> set done_rows) (parents_of fs work)" "fresh \<noteq> []"
  then obtain r where "r \<in> set fresh" by (metis last_in_set)
  then have r: "r \<in> link ` set fs - set done_rows"
    using fresh(1) by (auto simp: parents_of_def)
  then have "link ` set fs - set (done_rows @ fresh) \<subset> link ` set fs - set done_rows"
    using \<open>r \<in> set fresh\<close> by auto
  then have "card (link ` set fs - set (done_rows @ fresh)) < card (link ` set fs - set done_rows)"
    by (intro psubset_card_mono) auto
  then show "((fs, done_rows @ fresh, fresh), (fs, done_rows, work))
      \<in> measure (\<lambda>(fs, done_rows, work). card (link ` set fs - set done_rows))"
    by simp
qed simp

declare ancestors_loop.simps [simp del]

definition ancestors :: "Folder list \<Rightarrow> uuid \<Rightarrow> (uuid \<times> uuid option) list" where
  "ancestors fs folder_id =
     (let base = map link (filter (\<lambda>f. f_id f = folder_id) fs) in ancestors_loop fs base base)"

definition IsDescendant :: "uuid \<Rightarrow> uuid \<Rightarrow> bool query" where
  "IsDescendant root_id folder_id = reading (\<lambda>d. Inr
     (\<exists>r \<in> set (ancestors (folders d) folder_id). fst r = root_id))"

text \<open>\<^verbatim>\<open>ORDER BY parent_id NULLS FIRST, sort_order, created_at\<close>.\<close>

definition nulls_first :: "uuid option \<Rightarrow> nat" where
  "nulls_first i = (case i of None \<Rightarrow> 0 | Some n \<Rightarrow> Suc n)"

definition ListFoldersByProject :: "uuid \<Rightarrow> Folder list query" where
  "ListFoldersByProject project_id = reading (\<lambda>d. Inr
     (sort_key (\<lambda>f. (nulls_first (f_parent_id f), f_sort_order f, f_created_at f))
       (filter (\<lambda>f. f_project_id f = project_id) (folders d))))"

definition ListSiblingFolderIDs :: "uuid \<Rightarrow> uuid option \<Rightarrow> uuid list query" where
  "ListSiblingFolderIDs project_id parent_id = reading (\<lambda>d. Inr
     (map f_id (sort_key (\<lambda>f. (f_sort_order f, f_created_at f))
       (folder_siblings project_id parent_id (folders d)))))"

definition UpdateFolder :: "uuid \<Rightarrow> string option \<Rightarrow> settings_params \<Rightarrow> Folder query" where
  "UpdateFolder i name p s d =
     with_texts (opt_texts [name] @ settings_texts p)
       (case find_row (\<lambda>f. f_id f = i) (folders d) of
          None \<Rightarrow> Inl ErrNoRows
        | Some f \<Rightarrow>
            (let upd = (\<lambda>f. f\<lparr> f_name := coalesce name (f_name f),
                               f_settings := merge_settings p (f_settings f) \<rparr>) in
             checks (settings_checks ''folders'' (f_settings (upd f)))
            (require (pg_name_ok 100 (f_name (upd f))) (check_violation ''folders_name_length'')
            (require (proxy_exists (proxy_id (f_settings (upd f))) d)
                (foreign_key_violation ''folders_proxy_id_fkey'')
              (Inr (upd f, d\<lparr> folders := update_rows (\<lambda>f. f_id f = i) upd (folders d) \<rparr>))))))"

definition UpdateFolderParent :: "uuid \<Rightarrow> uuid option \<Rightarrow> int option \<Rightarrow> Folder query" where
  "UpdateFolderParent i parent_id sort_order s d =
     (case find_row (\<lambda>f. f_id f = i) (folders d) of
        None \<Rightarrow> Inl ErrNoRows
      | Some f \<Rightarrow>
          bindR (case sort_order of
                   Some n \<Rightarrow> Inr n
                 | None \<Rightarrow>
                     next_order (map f_sort_order
                       (filter (\<lambda>g. f_id g \<noteq> i)
                         (folder_siblings (f_project_id f) parent_id (folders d))))) (\<lambda>n.
          require (folder_exists parent_id d) (foreign_key_violation ''folders_parent_id_fkey'')
            (let upd = (\<lambda>f. f\<lparr> f_parent_id := parent_id, f_sort_order := n \<rparr>) in
             Inr (upd f, d\<lparr> folders := update_rows (\<lambda>f. f_id f = i) upd (folders d) \<rparr>))))"

lemma readonly_folder_queries [readonly_intros]:
  "readonly (GetFolderByID i)" "readonly (IsDescendant i j)" "readonly (ListFoldersByProject i)"
  "readonly (ListSiblingFolderIDs i k)"
  by (simp_all add: GetFolderByID_def IsDescendant_def ListFoldersByProject_def
    ListSiblingFolderIDs_def readonly_reading)

section \<open>The ancestor query is reachability\<close>

definition parent_rel :: "Folder list \<Rightarrow> (uuid \<times> uuid) set" where
  "parent_rel fs = {(f_id f, q) | f q. f \<in> set fs \<and> f_parent_id f = Some q \<and> q \<in> f_id ` set fs}"

definition row_ids :: "(uuid \<times> uuid option) list \<Rightarrow> uuid set" where
  "row_ids rows = fst ` set rows"

lemma row_ids_simps [simp]: "row_ids [] = {}" "row_ids (xs @ ys) = row_ids xs \<union> row_ids ys"
  by (auto simp: row_ids_def)

lemma link_pkey:
  assumes "pkey f_id fs" "r \<in> link ` set fs" "f \<in> set fs" "f_id f = fst r"
  shows "r = link f"
  using assms by (auto simp: link_def dest: pkey_unique)

lemma parents_of_ids:
  assumes pk: "pkey f_id fs" and work: "set work \<subseteq> link ` set fs"
  shows "row_ids (parents_of fs work) = parent_rel fs `` row_ids work"
proof
  show "row_ids (parents_of fs work) \<subseteq> parent_rel fs `` row_ids work"
  proof
    fix q assume "q \<in> row_ids (parents_of fs work)"
    then obtain g r where g: "g \<in> set fs" "r \<in> set work" "snd r = Some (f_id g)" "q = f_id g"
      by (auto simp: row_ids_def parents_of_def link_def)
    moreover from g(2) work obtain f where "f \<in> set fs" "r = link f" by auto
    ultimately have "(fst r, q) \<in> parent_rel fs"
      by (auto simp: parent_rel_def link_def)
    with g(2) show "q \<in> parent_rel fs `` row_ids work" by (auto simp: row_ids_def)
  qed
  show "parent_rel fs `` row_ids work \<subseteq> row_ids (parents_of fs work)"
  proof
    fix q assume "q \<in> parent_rel fs `` row_ids work"
    then obtain i where "i \<in> row_ids work" and iq: "(i, q) \<in> parent_rel fs" by blast
    then obtain r where r0: "r \<in> set work" "i = fst r" by (auto simp: row_ids_def)
    from iq obtain f g where f: "f \<in> set fs" "f_id f = i" "f_parent_id f = Some q"
        "g \<in> set fs" "q = f_id g"
      unfolding parent_rel_def by auto
    have "r \<in> link ` set fs" using r0(1) work by blast
    moreover have "f_id f = fst r" using f(2) r0(2) by simp
    ultimately have "r = link f" using f(1) by (intro link_pkey [OF pk])
    then have "snd r = Some (f_id g)" using f(3,5) by (simp add: link_def)
    with r0(1) f(4) have "link g \<in> set (parents_of fs work)" by (auto simp: parents_of_def)
    then have "fst (link g) \<in> row_ids (parents_of fs work)" unfolding row_ids_def by (rule imageI)
    then show "q \<in> row_ids (parents_of fs work)" using f(5) by (simp add: link_def)
  qed
qed

lemma reach_absorb: "A \<subseteq> R `` B \<Longrightarrow> B \<subseteq> C \<Longrightarrow> R\<^sup>* `` (C \<union> A) = R\<^sup>* `` C"
  by (blast intro: converse_rtrancl_into_rtrancl)

lemma ancestors_loop_ids:
  assumes "pkey f_id fs" "set done_rows \<subseteq> link ` set fs" "set work \<subseteq> set done_rows"
    "parent_rel fs `` (row_ids done_rows - row_ids work) \<subseteq> row_ids done_rows"
  shows "row_ids (ancestors_loop fs done_rows work) = (parent_rel fs)\<^sup>* `` row_ids done_rows"
  using assms
proof (induction fs done_rows work rule: ancestors_loop.induct)
  case (1 fs done_rows work)
  let ?fresh = "filter (\<lambda>r. r \<notin> set done_rows) (parents_of fs work)"
  have new: "parent_rel fs `` row_ids work = row_ids (parents_of fs work)"
    using "1.prems" by (intro parents_of_ids [symmetric]) auto
  have split: "row_ids (parents_of fs work) \<subseteq> row_ids done_rows \<union> row_ids ?fresh"
    by (auto simp: row_ids_def)
  have closed: "parent_rel fs `` row_ids done_rows \<subseteq> row_ids done_rows \<union> row_ids ?fresh"
    using "1.prems"(4) new split by blast
  show ?case
  proof (cases "?fresh = []")
    case True
    have "parent_rel fs `` row_ids done_rows \<subseteq> row_ids done_rows"
      using closed unfolding True by simp
    then have "(parent_rel fs)\<^sup>* `` row_ids done_rows = row_ids done_rows"
      by (rule Image_closed_trancl)
    with True show ?thesis by (subst ancestors_loop.simps) (simp add: Let_def)
  next
    case False
    have "row_ids (ancestors_loop fs (done_rows @ ?fresh) ?fresh)
        = (parent_rel fs)\<^sup>* `` row_ids (done_rows @ ?fresh)"
    proof (rule "1.IH" [OF refl False "1.prems"(1)])
      show "set (done_rows @ ?fresh) \<subseteq> link ` set fs"
        using "1.prems"(2) by (auto simp: parents_of_def)
      show "parent_rel fs `` (row_ids (done_rows @ ?fresh) - row_ids ?fresh) \<subseteq> row_ids (done_rows @ ?fresh)"
        using closed by auto
    qed simp
    moreover have "row_ids ?fresh \<subseteq> parent_rel fs `` row_ids work"
      unfolding new by (auto simp: row_ids_def)
    moreover have "row_ids work \<subseteq> row_ids done_rows"
      using "1.prems"(3) by (auto simp: row_ids_def)
    ultimately have "row_ids (ancestors_loop fs (done_rows @ ?fresh) ?fresh)
        = (parent_rel fs)\<^sup>* `` row_ids done_rows"
      by (simp add: reach_absorb)
    with False show ?thesis by (subst ancestors_loop.simps) (simp add: Let_def)
  qed
qed

lemma ancestors_reachable:
  assumes "pkey f_id fs" "i \<in> f_id ` set fs"
  shows "row_ids (ancestors fs i) = (parent_rel fs)\<^sup>* `` {i}"
proof -
  let ?b = "map link (filter (\<lambda>f. f_id f = i) fs)"
  have "row_ids (map link (filter (\<lambda>f. f_id f = i) fs)) = {i}"
    using assms(2) by (auto simp: row_ids_def link_def image_iff)
  moreover have "set ?b \<subseteq> link ` set fs" by auto
  ultimately show ?thesis
    using ancestors_loop_ids [OF assms(1), of ?b ?b] by (simp add: ancestors_def Let_def)
qed

lemma IsDescendant_iff:
  assumes "pkey f_id (folders d)" "folder_id \<in> f_id ` set (folders d)"
  shows "IsDescendant root_id folder_id s d =
    Inr ((folder_id, root_id) \<in> (parent_rel (folders d))\<^sup>*, d)"
proof -
  have "(\<exists>r \<in> set (ancestors (folders d) folder_id). fst r = root_id) \<longleftrightarrow>
      root_id \<in> row_ids (ancestors (folders d) folder_id)"
    by (auto simp: row_ids_def)
  also have "\<dots> \<longleftrightarrow> (folder_id, root_id) \<in> (parent_rel (folders d))\<^sup>*"
    by (simp add: ancestors_reachable [OF assms])
  finally show ?thesis by (simp add: IsDescendant_def reading_def)
qed

end
