(* ===== verification/RequestQueries.thy ===== *)
theory RequestQueries
  imports FolderQueries
begin

text \<open>
  The statements on requests and their saved examples: \<^verbatim>\<open>requests.sql.go\<close> and
  \<^verbatim>\<open>request_examples.sql.go\<close> of \<^verbatim>\<open>internal/db\<close>.
\<close>

section \<open>Requests\<close>

definition RequestMethods :: "string list" where
  "RequestMethods = [''GET'', ''POST'', ''PUT'', ''PATCH'', ''DELETE'', ''HEAD'', ''OPTIONS'']"

text \<open>A \<^verbatim>\<open>jsonb\<close> value holds no zero character (SQLSTATE 22P05).\<close>

fun pg_jsonb :: "json \<Rightarrow> bool" where
  "pg_jsonb (JStr s) = pg_text s"
| "pg_jsonb (JArr js) = list_all pg_jsonb js"
| "pg_jsonb (JObj kvs) = list_all (\<lambda>(k, j). pg_text k \<and> pg_jsonb j) kvs"
| "pg_jsonb j = True"

definition with_jsonb :: "json option list \<Rightarrow> (goerr + 'a) \<Rightarrow> goerr + 'a" where
  "with_jsonb js k =
     require (list_all (\<lambda>j. case j of None \<Rightarrow> True | Some v \<Rightarrow> pg_jsonb v) js) (PgError ''22P05'' []) k"

lemma with_jsonb_Inr [result_simps]:
  "with_jsonb js k = Inr x \<longleftrightarrow>
     list_all (\<lambda>j. case j of None \<Rightarrow> True | Some v \<Rightarrow> pg_jsonb v) js \<and> k = Inr x"
  by (simp add: with_jsonb_def require_Inr)

definition request_siblings :: "uuid \<Rightarrow> uuid option \<Rightarrow> Request list \<Rightarrow> Request list" where
  "request_siblings project_id folder_id rs =
     filter (\<lambda>r. r_project_id r = project_id \<and> r_folder_id r = folder_id) rs"

definition request_checks :: "Request \<Rightarrow> (bool \<times> string) list" where
  "request_checks r =
     [(r_method r \<in> set RequestMethods, ''requests_method''),
      (pg_name_ok 100 (r_name r), ''requests_name_length''),
      (rune_count (r_response_filter r) \<le> 2048, ''requests_response_filter_length''),
      (rune_count (r_url r) \<le> 8192, ''requests_url_length'')]"

definition BulkUpdateRequestOrder :: "uuid \<Rightarrow> uuid option \<Rightarrow> uuid list \<Rightarrow> unit query" where
  "BulkUpdateRequestOrder project_id folder_id request_ids s d =
     Inr ((), d\<lparr> requests :=
       map (\<lambda>r. case position request_ids (r_id r) of
                   None \<Rightarrow> r
                 | Some n \<Rightarrow>
                     if r_project_id r = project_id \<and> r_folder_id r = folder_id
                     then r\<lparr> r_sort_order := int n \<rparr> else r)
         (requests d) \<rparr>)"

text \<open>The columns the statement does not name take the defaults of the migrations.\<close>

definition CreateRequest :: "uuid \<Rightarrow> uuid option \<Rightarrow> string \<Rightarrow> string \<Rightarrow> string \<Rightarrow> Request query" where
  "CreateRequest project_id folder_id name rmethod url s d =
     with_texts [name, rmethod, url]
       (bindR (next_order (map r_sort_order (request_siblings project_id folder_id (requests d)))) (\<lambda>n.
        let r = \<lparr> r_id = new_id s, r_project_id = project_id, r_folder_id = folder_id, r_name = name,
                  r_method = rmethod, r_url = url, r_headers = JArr [], r_query_params = JArr [],
                  r_body = JObj [(''type'', JStr ''none'')], r_sort_order = n, r_created_at = now s,
                  r_updated_at = now s, r_response_filter = [], r_settings = default_settings \<rparr> in
        checks (request_checks r)
       (require (new_id s \<notin> r_id ` set (requests d)) (unique_violation ''requests_pkey'')
       (require (project_exists project_id d) (foreign_key_violation ''requests_project_id_fkey'')
       (require (folder_exists folder_id d) (foreign_key_violation ''requests_folder_id_fkey'')
         (Inr (r, d\<lparr> requests := requests d @ [r] \<rparr>)))))))"

definition DeleteRequest :: "uuid \<Rightarrow> unit query" where
  "DeleteRequest i s d = Inr ((), delete_requests (\<lambda>r. r_id r = i) d)"

definition GetRequestByID :: "uuid \<Rightarrow> Request query" where
  "GetRequestByID i = reading (\<lambda>d.
     case find_row (\<lambda>r. r_id r = i) (requests d) of None \<Rightarrow> Inl ErrNoRows | Some r \<Rightarrow> Inr r)"

text \<open>
  The list rows are the requests and their number of examples; the columns the statement leaves
  out (headers, query parameters, body, scripts) are dropped by the handler's response.
\<close>

definition ListRequestsByProject :: "uuid \<Rightarrow> (Request \<times> nat) list query" where
  "ListRequestsByProject project_id = reading (\<lambda>d. Inr
     (map (\<lambda>r. (r, length (filter (\<lambda>x. ex_request_id x = r_id r) (request_examples d))))
       (sort_key (\<lambda>r. (nulls_first (r_folder_id r), r_sort_order r, r_created_at r))
         (filter (\<lambda>r. r_project_id r = project_id) (requests d)))))"

definition ListSiblingRequestIDs :: "uuid \<Rightarrow> uuid option \<Rightarrow> uuid list query" where
  "ListSiblingRequestIDs project_id folder_id = reading (\<lambda>d. Inr
     (map r_id (sort_key (\<lambda>r. (r_sort_order r, r_created_at r))
       (request_siblings project_id folder_id (requests d)))))"

record UpdateRequestParams =
  up_name :: "string option"
  up_method :: "string option"
  up_url :: "string option"
  up_headers :: raw_message
  up_query_params :: raw_message
  up_body :: raw_message
  up_response_filter :: "string option"
  up_settings :: settings_params

definition UpdateRequest :: "uuid \<Rightarrow> UpdateRequestParams \<Rightarrow> Request query" where
  "UpdateRequest i p s d =
     with_texts (opt_texts [up_name p, up_method p, up_url p, up_response_filter p]
         @ settings_texts (up_settings p))
    (with_jsonb [up_headers p, up_query_params p, up_body p]
       (case find_row (\<lambda>r. r_id r = i) (requests d) of
          None \<Rightarrow> Inl ErrNoRows
        | Some r \<Rightarrow>
            (let upd = (\<lambda>r. r\<lparr> r_name := coalesce (up_name p) (r_name r),
                               r_method := coalesce (up_method p) (r_method r),
                               r_url := coalesce (up_url p) (r_url r),
                               r_headers := coalesce (up_headers p) (r_headers r),
                               r_query_params := coalesce (up_query_params p) (r_query_params r),
                               r_body := coalesce (up_body p) (r_body r),
                               r_response_filter := coalesce (up_response_filter p) (r_response_filter r),
                               r_settings := merge_settings (up_settings p) (r_settings r),
                               r_updated_at := now s \<rparr>) in
             checks (settings_checks ''requests'' (r_settings (upd r)) @ request_checks (upd r))
            (require (proxy_exists (proxy_id (r_settings (upd r))) d)
                (foreign_key_violation ''requests_proxy_id_fkey'')
              (Inr (upd r, d\<lparr> requests := update_rows (\<lambda>r. r_id r = i) upd (requests d) \<rparr>))))))"

definition UpdateRequestFolder :: "uuid \<Rightarrow> uuid option \<Rightarrow> int option \<Rightarrow> Request query" where
  "UpdateRequestFolder i folder_id sort_order s d =
     (case find_row (\<lambda>r. r_id r = i) (requests d) of
        None \<Rightarrow> Inl ErrNoRows
      | Some r \<Rightarrow>
          bindR (case sort_order of
                   Some n \<Rightarrow> Inr n
                 | None \<Rightarrow>
                     next_order (map r_sort_order
                       (filter (\<lambda>g. r_id g \<noteq> i)
                         (request_siblings (r_project_id r) folder_id (requests d))))) (\<lambda>n.
          require (folder_exists folder_id d) (foreign_key_violation ''requests_folder_id_fkey'')
            (let upd = (\<lambda>r. r\<lparr> r_folder_id := folder_id, r_sort_order := n, r_updated_at := now s \<rparr>) in
             Inr (upd r, d\<lparr> requests := update_rows (\<lambda>r. r_id r = i) upd (requests d) \<rparr>))))"

section \<open>Saved examples\<close>

definition BulkUpdateRequestExampleOrder :: "uuid \<Rightarrow> uuid list \<Rightarrow> unit query" where
  "BulkUpdateRequestExampleOrder request_id example_ids s d =
     Inr ((), d\<lparr> request_examples :=
       map (\<lambda>x. case position example_ids (ex_id x) of
                   None \<Rightarrow> x
                 | Some n \<Rightarrow> if ex_request_id x = request_id then x\<lparr> ex_sort_order := int n \<rparr> else x)
         (request_examples d) \<rparr>)"

definition CountRequestExamples :: "uuid \<Rightarrow> nat query" where
  "CountRequestExamples request_id = reading (\<lambda>d. Inr
     (length (filter (\<lambda>x. ex_request_id x = request_id) (request_examples d))))"

definition example_checks :: "RequestExample \<Rightarrow> (bool \<times> string) list" where
  "example_checks x =
     [(ex_body_size x = int (length (coalesce (ex_body x) [])) \<and> ex_body_size x \<le> 1048576,
       ''request_examples_body_size''),
      (pg_name_ok 100 (ex_name x), ''request_examples_name_length''),
      (100 \<le> ex_status x \<and> ex_status x \<le> 599, ''request_examples_status'')]"

definition CreateRequestExample ::
  "uuid \<Rightarrow> string \<Rightarrow> int \<Rightarrow> json \<Rightarrow> string \<Rightarrow> string option \<Rightarrow> int \<Rightarrow> RequestExample query" where
  "CreateRequestExample request_id name status headers content_type body body_size s d =
     with_texts [name, content_type]
    (with_jsonb [Some headers]
       (bindR (next_order (map ex_sort_order
                (filter (\<lambda>x. ex_request_id x = request_id) (request_examples d)))) (\<lambda>n.
        let x = \<lparr> ex_id = new_id s, ex_request_id = request_id, ex_name = name, ex_status = status,
                  ex_headers = headers, ex_content_type = content_type, ex_body = body,
                  ex_body_size = body_size, ex_sort_order = n, ex_created_at = now s,
                  ex_updated_at = now s \<rparr> in
        checks (example_checks x)
       (require (new_id s \<notin> ex_id ` set (request_examples d)) (unique_violation ''request_examples_pkey'')
       (require (request_id \<in> r_id ` set (requests d))
           (foreign_key_violation ''request_examples_request_id_fkey'')
         (Inr (x, d\<lparr> request_examples := request_examples d @ [x] \<rparr>)))))))"

definition DeleteRequestExample :: "uuid \<Rightarrow> unit query" where
  "DeleteRequestExample i s d =
     Inr ((), d\<lparr> request_examples := delete_rows (\<lambda>x. ex_id x = i) (request_examples d) \<rparr>)"

definition GetRequestExampleByID :: "uuid \<Rightarrow> RequestExample query" where
  "GetRequestExampleByID i = reading (\<lambda>d.
     case find_row (\<lambda>x. ex_id x = i) (request_examples d) of None \<Rightarrow> Inl ErrNoRows | Some x \<Rightarrow> Inr x)"

definition ListRequestExampleIDsForUpdate :: "uuid \<Rightarrow> uuid list query" where
  "ListRequestExampleIDsForUpdate request_id = reading (\<lambda>d. Inr
     (map ex_id (sort_key (\<lambda>x. (ex_sort_order x, ex_created_at x))
       (filter (\<lambda>x. ex_request_id x = request_id) (request_examples d)))))"

definition ListRequestExampleSummaries :: "uuid \<Rightarrow> RequestExample list query" where
  "ListRequestExampleSummaries request_id = reading (\<lambda>d. Inr
     (sort_key (\<lambda>x. (ex_sort_order x, ex_created_at x))
       (filter (\<lambda>x. ex_request_id x = request_id) (request_examples d))))"

record UpdateRequestExampleParams =
  xp_name :: "string option"
  xp_status :: "int option"
  xp_headers :: raw_message
  xp_content_type :: "string option"
  xp_set_body :: bool
  xp_body :: "string option"
  xp_body_size :: int

definition UpdateRequestExample :: "uuid \<Rightarrow> UpdateRequestExampleParams \<Rightarrow> RequestExample query" where
  "UpdateRequestExample i p s d =
     with_texts (opt_texts [xp_name p, xp_content_type p])
    (with_jsonb [xp_headers p]
       (case find_row (\<lambda>x. ex_id x = i) (request_examples d) of
          None \<Rightarrow> Inl ErrNoRows
        | Some x \<Rightarrow>
            (let upd = (\<lambda>x. x\<lparr> ex_name := coalesce (xp_name p) (ex_name x),
                               ex_status := coalesce (xp_status p) (ex_status x),
                               ex_headers := coalesce (xp_headers p) (ex_headers x),
                               ex_content_type := coalesce (xp_content_type p) (ex_content_type x),
                               ex_body := (if xp_set_body p then xp_body p else ex_body x),
                               ex_body_size := (if xp_set_body p then xp_body_size p else ex_body_size x),
                               ex_updated_at := now s \<rparr>) in
             checks (example_checks (upd x))
               (Inr (upd x, d\<lparr> request_examples :=
                  update_rows (\<lambda>x. ex_id x = i) upd (request_examples d) \<rparr>)))))"

lemma readonly_request_queries [readonly_intros]:
  "readonly (GetRequestByID i)" "readonly (ListRequestsByProject i)"
  "readonly (ListSiblingRequestIDs i k)" "readonly (CountRequestExamples i)"
  "readonly (GetRequestExampleByID i)" "readonly (ListRequestExampleIDsForUpdate i)"
  "readonly (ListRequestExampleSummaries i)"
  by (simp_all add: GetRequestByID_def ListRequestsByProject_def ListSiblingRequestIDs_def
    CountRequestExamples_def GetRequestExampleByID_def ListRequestExampleIDsForUpdate_def
    ListRequestExampleSummaries_def readonly_reading)

end
