(* ===== verification/WebhookQueries.thy ===== *)
theory WebhookQueries
  imports RequestQueries
begin

text \<open>
  The statements on webhook endpoints and their captures: \<^verbatim>\<open>webhooks.sql.go\<close> of
  \<^verbatim>\<open>internal/db\<close>.
\<close>

definition CountWebhookEndpointsInProject :: "uuid \<Rightarrow> nat query" where
  "CountWebhookEndpointsInProject project_id = reading (\<lambda>d. Inr
     (length (filter (\<lambda>w. w_project_id w = project_id) (webhook_endpoints d))))"

definition endpoint_checks :: "WebhookEndpoint \<Rightarrow> (bool \<times> string) list" where
  "endpoint_checks w =
     [(pg_name_ok 100 (w_name w), ''webhook_endpoints_name_length''),
      (rune_count (w_resp_body w) \<le> 65536, ''webhook_endpoints_resp_body_length''),
      (100 \<le> w_resp_status w \<and> w_resp_status w \<le> 599, ''webhook_endpoints_resp_status'')]"

definition CreateWebhookEndpoint ::
  "uuid \<Rightarrow> string \<Rightarrow> string \<Rightarrow> string \<Rightarrow> uuid \<Rightarrow> WebhookEndpoint query" where
  "CreateWebhookEndpoint project_id name slug domain created_by s d =
     with_texts [name, slug, domain]
       (let w = \<lparr> w_id = new_id s, w_project_id = project_id, w_name = name, w_slug = slug,
                  w_domain = domain, w_resp_status = 200, w_resp_headers = JArr [],
                  w_resp_body = ''ok'', w_created_by = created_by, w_created_at = now s \<rparr> in
        checks (endpoint_checks w)
       (require (new_id s \<notin> w_id ` set (webhook_endpoints d)) (unique_violation ''webhook_endpoints_pkey'')
       (require (slug \<notin> w_slug ` set (webhook_endpoints d)) (unique_violation ''webhook_endpoints_slug_key'')
       (require (project_exists project_id d) (foreign_key_violation ''webhook_endpoints_project_id_fkey'')
       (require (user_exists created_by d) (foreign_key_violation ''webhook_endpoints_created_by_fkey'')
         (Inr (w, d\<lparr> webhook_endpoints := webhook_endpoints d @ [w] \<rparr>)))))))"

definition DeleteWebhookCaptures :: "uuid \<Rightarrow> unit query" where
  "DeleteWebhookCaptures endpoint_id s d =
     Inr ((), d\<lparr> webhook_captures :=
       delete_rows (\<lambda>c. c_endpoint_id c = endpoint_id) (webhook_captures d) \<rparr>)"

definition DeleteWebhookEndpoint :: "uuid \<Rightarrow> unit query" where
  "DeleteWebhookEndpoint i s d = Inr ((), delete_endpoints (\<lambda>w. w_id w = i) d)"

definition GetWebhookCapture :: "int \<Rightarrow> uuid \<Rightarrow> WebhookCapture query" where
  "GetWebhookCapture i endpoint_id = reading (\<lambda>d.
     case find_row (\<lambda>c. c_id c = i \<and> c_endpoint_id c = endpoint_id) (webhook_captures d) of
       None \<Rightarrow> Inl ErrNoRows | Some c \<Rightarrow> Inr c)"

definition GetWebhookEndpointByID :: "uuid \<Rightarrow> WebhookEndpoint query" where
  "GetWebhookEndpointByID i = reading (\<lambda>d.
     case find_row (\<lambda>w. w_id w = i) (webhook_endpoints d) of None \<Rightarrow> Inl ErrNoRows | Some w \<Rightarrow> Inr w)"

definition GetWebhookEndpointBySlug :: "string \<Rightarrow> WebhookEndpoint query" where
  "GetWebhookEndpointBySlug slug = reading (\<lambda>d. with_texts [slug]
     (case find_row (\<lambda>w. w_slug w = slug) (webhook_endpoints d) of None \<Rightarrow> Inl ErrNoRows | Some w \<Rightarrow> Inr w))"

record InsertWebhookCaptureParams =
  cp_endpoint_id :: uuid
  cp_method :: string
  cp_path :: string
  cp_query :: string
  cp_headers :: json
  cp_content_type :: string
  cp_body :: "string option"
  cp_body_size :: int
  cp_body_truncated :: bool
  cp_source_ip :: string

text \<open>
  The id comes from the table's sequence. A statement that fails would consume a value as well;
  the gaps that leaves are not modelled.
\<close>

definition InsertWebhookCapture :: "InsertWebhookCaptureParams \<Rightarrow> int query" where
  "InsertWebhookCapture p s d =
     with_texts [cp_method p, cp_path p, cp_query p, cp_content_type p, cp_source_ip p]
    (with_jsonb [Some (cp_headers p)]
       (require (cp_endpoint_id p \<in> w_id ` set (webhook_endpoints d))
           (foreign_key_violation ''webhook_captures_endpoint_id_fkey'')
         (let i = capture_seq d + 1;
              c = \<lparr> c_id = i, c_endpoint_id = cp_endpoint_id p, c_method = cp_method p,
                    c_path = cp_path p, c_query = cp_query p, c_headers = cp_headers p,
                    c_content_type = cp_content_type p, c_body = cp_body p,
                    c_body_size = cp_body_size p, c_body_truncated = cp_body_truncated p,
                    c_source_ip = cp_source_ip p, c_received_at = now s \<rparr>
          in Inr (i, d\<lparr> webhook_captures := webhook_captures d @ [c], capture_seq := i \<rparr>))))"

definition ListWebhookCapturesAfter :: "uuid \<Rightarrow> int \<Rightarrow> nat \<Rightarrow> WebhookCapture list query" where
  "ListWebhookCapturesAfter endpoint_id after max_rows = reading (\<lambda>d. Inr
     (take max_rows (sort_key c_id
       (filter (\<lambda>c. c_endpoint_id c = endpoint_id \<and> after < c_id c) (webhook_captures d)))))"

definition ListWebhookEndpointsByProject :: "uuid \<Rightarrow> WebhookEndpoint list query" where
  "ListWebhookEndpointsByProject project_id = reading (\<lambda>d. Inr
     (sort_key (\<lambda>w. (w_created_at w, w_id w))
       (filter (\<lambda>w. w_project_id w = project_id) (webhook_endpoints d))))"

text \<open>
  The subquery is the capture at the given offset among the endpoint's captures, newest first;
  with fewer captures it is \<^verbatim>\<open>NULL\<close> and nothing is deleted.
\<close>

definition PruneWebhookCaptures :: "uuid \<Rightarrow> nat \<Rightarrow> unit query" where
  "PruneWebhookCaptures endpoint_id oldest_kept_offset s d =
     (let newest_first = rev (sort_key c_id
            (filter (\<lambda>c. c_endpoint_id c = endpoint_id) (webhook_captures d))) in
      Inr ((), d\<lparr> webhook_captures :=
        (if oldest_kept_offset < length newest_first then
           delete_rows (\<lambda>c. c_endpoint_id c = endpoint_id \<and>
               c_id c < c_id (newest_first ! oldest_kept_offset)) (webhook_captures d)
         else webhook_captures d) \<rparr>))"

record UpdateWebhookEndpointParams =
  wp_name :: "string option"
  wp_domain :: "string option"
  wp_resp_status :: "int option"
  wp_resp_headers :: raw_message
  wp_resp_body :: "string option"

definition UpdateWebhookEndpoint :: "uuid \<Rightarrow> UpdateWebhookEndpointParams \<Rightarrow> WebhookEndpoint query" where
  "UpdateWebhookEndpoint i p s d =
     with_texts (opt_texts [wp_name p, wp_domain p, wp_resp_body p])
    (with_jsonb [wp_resp_headers p]
       (case find_row (\<lambda>w. w_id w = i) (webhook_endpoints d) of
          None \<Rightarrow> Inl ErrNoRows
        | Some w \<Rightarrow>
            (let upd = (\<lambda>w. w\<lparr> w_name := coalesce (wp_name p) (w_name w),
                               w_domain := coalesce (wp_domain p) (w_domain w),
                               w_resp_status := coalesce (wp_resp_status p) (w_resp_status w),
                               w_resp_headers := coalesce (wp_resp_headers p) (w_resp_headers w),
                               w_resp_body := coalesce (wp_resp_body p) (w_resp_body w) \<rparr>) in
             checks (endpoint_checks (upd w))
               (Inr (upd w, d\<lparr> webhook_endpoints :=
                  update_rows (\<lambda>w. w_id w = i) upd (webhook_endpoints d) \<rparr>)))))"

lemma readonly_webhook_queries [readonly_intros]:
  "readonly (CountWebhookEndpointsInProject i)" "readonly (GetWebhookCapture n i)"
  "readonly (GetWebhookEndpointByID i)" "readonly (GetWebhookEndpointBySlug t)"
  "readonly (ListWebhookCapturesAfter i n k)" "readonly (ListWebhookEndpointsByProject i)"
  by (simp_all add: CountWebhookEndpointsInProject_def GetWebhookCapture_def
    GetWebhookEndpointByID_def GetWebhookEndpointBySlug_def ListWebhookCapturesAfter_def
    ListWebhookEndpointsByProject_def readonly_reading)

section \<open>What pruning keeps\<close>

definition captures_of :: "uuid \<Rightarrow> db \<Rightarrow> WebhookCapture list" where
  "captures_of endpoint_id d = filter (\<lambda>c. c_endpoint_id c = endpoint_id) (webhook_captures d)"

lemma sorted_nth_less_iff:
  fixes xs :: "int list"
  assumes "sorted xs" "distinct xs" "i < length xs" "j < length xs"
  shows "xs ! i < xs ! j \<longleftrightarrow> i < j"
proof -
  have "sorted_wrt (<) xs" using assms(1,2) by (simp add: strict_sorted_iff)
  then have up: "k < l \<Longrightarrow> l < length xs \<Longrightarrow> xs ! k < xs ! l" for k l
    by (rule sorted_wrt_nth_less)
  show ?thesis
    using up [of i j] up [of j i] assms(3,4) by (cases i j rule: linorder_cases) auto
qed

lemma length_filter_sort_key: "length (filter P (sort_key k xs)) = length (filter P xs)"
  by (metis filter_sort length_sort)

text \<open>Of a list of distinct numbers, those not below the one at place \<open>n\<close> from the top are \<open>Suc n\<close>.\<close>

lemma length_filter_ge_nth:
  fixes xs :: "int list"
  assumes "sorted xs" "distinct xs" "n < length xs"
  shows "length (filter (\<lambda>x. \<not> x < rev xs ! n) xs) = Suc n"
proof -
  let ?m = "length xs - Suc n"
  have rev: "rev xs ! n = xs ! ?m" using assms(3) by (simp add: rev_nth)
  have "filter (\<lambda>x. \<not> x < xs ! ?m) xs = drop ?m xs"
  proof -
    have "filter (\<lambda>x. \<not> x < xs ! ?m) (take ?m xs @ drop ?m xs) = [] @ drop ?m xs"
    proof (subst filter_append, rule arg_cong2 [where f = append])
      show "filter (\<lambda>x. \<not> x < xs ! ?m) (take ?m xs) = []"
        using assms sorted_nth_less_iff [OF assms(1,2), of _ ?m]
        by (auto simp: filter_empty_conv in_set_conv_nth)
      show "filter (\<lambda>x. \<not> x < xs ! ?m) (drop ?m xs) = drop ?m xs"
        using assms sorted_nth_less_iff [OF assms(1,2), of _ ?m]
        by (auto simp: filter_id_conv in_set_conv_nth)
    qed
    then show ?thesis by simp
  qed
  with rev assms(3) show ?thesis by simp
qed

lemma filter_delete_rows:
  "filter p (delete_rows (\<lambda>r. p r \<and> q r) t) = filter (\<lambda>r. \<not> q r) (filter p t)"
  by (induction t) auto

lemma prune_bound:
  assumes "PruneWebhookCaptures i n s d = Inr ((), d')" "pkey c_id (webhook_captures d)"
  shows "length (captures_of i d') \<le> Suc n"
proof -
  let ?own = "captures_of i d"
  let ?xs = "map c_id (sort_key c_id ?own)"
  have pk: "distinct (map c_id ?own)"
    using assms(2) by (auto simp: captures_of_def pkey_def distinct_map_filter)
  have xs: "sorted ?xs" "distinct ?xs"
    using pk by (simp_all add: distinct_map)
  show ?thesis
  proof (cases "n < length ?own")
    case False
    with assms(1) have "captures_of i d' = ?own"
      by (auto simp: PruneWebhookCaptures_def Let_def captures_of_def)
    with False show ?thesis by simp
  next
    case True
    let ?c = "rev (sort_key c_id ?own) ! n"
    have c: "c_id ?c = rev ?xs ! n" using True by (simp add: rev_nth)
    have "webhook_captures d' =
        delete_rows (\<lambda>c. c_endpoint_id c = i \<and> c_id c < c_id ?c) (webhook_captures d)"
      using assms(1) True
      by (simp add: PruneWebhookCaptures_def Let_def flip: captures_of_def) (drule sym, simp)
    then have "captures_of i d' = filter (\<lambda>c. \<not> c_id c < c_id ?c) ?own"
      by (simp add: captures_of_def filter_delete_rows)
    then have "length (captures_of i d') = length (filter (\<lambda>c. \<not> c_id c < c_id ?c) (sort_key c_id ?own))"
      by (simp add: length_filter_sort_key)
    also have "\<dots> = length (filter (\<lambda>x. \<not> x < rev ?xs ! n) ?xs)"
      unfolding c by (simp add: filter_map o_def)
    also have "\<dots> = Suc n"
      using xs True by (intro length_filter_ge_nth) auto
    finally show ?thesis by simp
  qed
qed

end
