(* ===== verification/EnvironmentQueries.thy ===== *)
theory EnvironmentQueries
  imports FolderQueries
begin

text \<open>
  The statements on environments, their variables and proxies: \<^verbatim>\<open>environments.sql.go\<close>
  and \<^verbatim>\<open>proxies.sql.go\<close> of \<^verbatim>\<open>internal/db\<close>.
\<close>

section \<open>Environments\<close>

definition VariableRegular :: string where "VariableRegular = ''regular''"
definition VariableSecret :: string where "VariableSecret = ''secret''"

definition BulkUpdateEnvironmentOrder :: "uuid \<Rightarrow> uuid list \<Rightarrow> unit query" where
  "BulkUpdateEnvironmentOrder project_id environment_ids s d =
     Inr ((), d\<lparr> environments :=
       map (\<lambda>e. case position environment_ids (e_id e) of
                   None \<Rightarrow> e
                 | Some n \<Rightarrow> if e_project_id e = project_id then e\<lparr> e_sort_order := int n \<rparr> else e)
         (environments d) \<rparr>)"

text \<open>The unique index on \<^verbatim>\<open>(project_id, lower(name))\<close>, for a row other than \<open>i\<close>.\<close>

definition env_name_free :: "uuid \<Rightarrow> uuid \<Rightarrow> string \<Rightarrow> db \<Rightarrow> bool" where
  "env_name_free i project_id name d =
     (\<forall>e \<in> set (environments d). e_id e \<noteq> i \<longrightarrow> e_project_id e = project_id \<longrightarrow>
        pg_lower d (e_name e) \<noteq> pg_lower d name)"

definition CreateEnvironment :: "uuid \<Rightarrow> string \<Rightarrow> Environment query" where
  "CreateEnvironment project_id name s d =
     with_texts [name]
       (bindR (next_order (map e_sort_order
                (filter (\<lambda>e. e_project_id e = project_id) (environments d)))) (\<lambda>n.
        require (pg_name_ok 100 name) (check_violation ''environments_name_length'')
       (require (new_id s \<notin> e_id ` set (environments d)) (unique_violation ''environments_pkey'')
       (require (env_name_free (new_id s) project_id name d)
           (unique_violation ''environments_project_name_idx'')
       (require (project_exists project_id d) (foreign_key_violation ''environments_project_id_fkey'')
         (let e = \<lparr> e_id = new_id s, e_project_id = project_id, e_name = name, e_sort_order = n,
                    e_created_at = now s \<rparr>
          in Inr (e, d\<lparr> environments := environments d @ [e] \<rparr>)))))))"

definition DeleteEnvironment :: "uuid \<Rightarrow> unit query" where
  "DeleteEnvironment i s d = Inr ((), delete_environments (\<lambda>e. e_id e = i) d)"

definition GetEnvironmentByID :: "uuid \<Rightarrow> Environment query" where
  "GetEnvironmentByID i = reading (\<lambda>d.
     case find_row (\<lambda>e. e_id e = i) (environments d) of None \<Rightarrow> Inl ErrNoRows | Some e \<Rightarrow> Inr e)"

definition ListEnvironmentIDsForUpdate :: "uuid \<Rightarrow> uuid list query" where
  "ListEnvironmentIDsForUpdate project_id = reading (\<lambda>d. Inr
     (map e_id (sort_key (\<lambda>e. (e_sort_order e, e_created_at e))
       (filter (\<lambda>e. e_project_id e = project_id) (environments d)))))"

definition ListEnvironmentsByProject :: "uuid \<Rightarrow> Environment list query" where
  "ListEnvironmentsByProject project_id = reading (\<lambda>d. Inr
     (sort_key (\<lambda>e. (e_sort_order e, e_created_at e))
       (filter (\<lambda>e. e_project_id e = project_id) (environments d))))"

definition UpdateEnvironmentName :: "uuid \<Rightarrow> string \<Rightarrow> Environment query" where
  "UpdateEnvironmentName i name s d =
     with_texts [name]
       (case find_row (\<lambda>e. e_id e = i) (environments d) of
          None \<Rightarrow> Inl ErrNoRows
        | Some e \<Rightarrow>
            require (pg_name_ok 100 name) (check_violation ''environments_name_length'')
           (require (env_name_free i (e_project_id e) name d)
              (unique_violation ''environments_project_name_idx'')
             (Inr (e\<lparr> e_name := name \<rparr>,
                d\<lparr> environments :=
                  update_rows (\<lambda>e. e_id e = i) (\<lambda>e. e\<lparr> e_name := name \<rparr>) (environments d) \<rparr>))))"

section \<open>Variables\<close>

definition BulkUpdateVariableOrder :: "uuid \<Rightarrow> uuid list \<Rightarrow> unit query" where
  "BulkUpdateVariableOrder environment_id variable_ids s d =
     Inr ((), d\<lparr> environment_variables :=
       map (\<lambda>v. case position variable_ids (v_id v) of
                   None \<Rightarrow> v
                 | Some n \<Rightarrow> if v_environment_id v = environment_id then v\<lparr> v_sort_order := int n \<rparr> else v)
         (environment_variables d) \<rparr>)"

definition var_key_free :: "uuid \<Rightarrow> uuid \<Rightarrow> string \<Rightarrow> db \<Rightarrow> bool" where
  "var_key_free i environment_id key d =
     (\<forall>v \<in> set (environment_variables d). v_id v \<noteq> i \<longrightarrow> v_environment_id v = environment_id \<longrightarrow>
        pg_lower d (v_key v) \<noteq> pg_lower d key)"

definition variable_checks :: "EnvironmentVariable \<Rightarrow> (bool \<times> string) list" where
  "variable_checks v =
     [(pg_name_ok 200 (v_key v), ''environment_variables_key_length''),
      (v_type v \<noteq> VariableSecret \<or> v_value v = None, ''environment_variables_secret_no_value''),
      (v_type v \<in> {VariableRegular, VariableSecret}, ''environment_variables_type'')]"

definition CreateVariable ::
  "uuid \<Rightarrow> string \<Rightarrow> string \<Rightarrow> string option \<Rightarrow> EnvironmentVariable query" where
  "CreateVariable environment_id key vtype val s d =
     with_texts (opt_texts [Some key, Some vtype, val])
       (bindR (next_order (map v_sort_order
                (filter (\<lambda>v. v_environment_id v = environment_id) (environment_variables d)))) (\<lambda>n.
        let v = \<lparr> v_id = new_id s, v_environment_id = environment_id, v_key = key, v_type = vtype,
                  v_value = val, v_sort_order = n, v_created_at = now s \<rparr> in
        checks (variable_checks v)
       (require (new_id s \<notin> v_id ` set (environment_variables d))
           (unique_violation ''environment_variables_pkey'')
       (require (var_key_free (new_id s) environment_id key d)
           (unique_violation ''environment_variables_environment_key_idx'')
       (require (environment_id \<in> e_id ` set (environments d))
           (foreign_key_violation ''environment_variables_environment_id_fkey'')
         (Inr (v, d\<lparr> environment_variables := environment_variables d @ [v] \<rparr>)))))))"

definition DeleteVariable :: "uuid \<Rightarrow> unit query" where
  "DeleteVariable i s d =
     Inr ((), d\<lparr> environment_variables := delete_rows (\<lambda>v. v_id v = i) (environment_variables d) \<rparr>)"

definition GetVariableByID :: "uuid \<Rightarrow> EnvironmentVariable query" where
  "GetVariableByID i = reading (\<lambda>d.
     case find_row (\<lambda>v. v_id v = i) (environment_variables d) of None \<Rightarrow> Inl ErrNoRows | Some v \<Rightarrow> Inr v)"

definition ListVariableIDsForUpdate :: "uuid \<Rightarrow> uuid list query" where
  "ListVariableIDsForUpdate environment_id = reading (\<lambda>d. Inr
     (map v_id (sort_key (\<lambda>v. (v_sort_order v, v_created_at v))
       (filter (\<lambda>v. v_environment_id v = environment_id) (environment_variables d)))))"

definition ListVariablesByEnvironment :: "uuid \<Rightarrow> EnvironmentVariable list query" where
  "ListVariablesByEnvironment environment_id = reading (\<lambda>d. Inr
     (sort_key (\<lambda>v. (v_sort_order v, v_created_at v))
       (filter (\<lambda>v. v_environment_id v = environment_id) (environment_variables d))))"

text \<open>
  The merge of \<^verbatim>\<open>UpdateVariable\<close>: a variable that ends up secret ends up with no value.
\<close>

definition merge_variable ::
  "string option \<Rightarrow> string option \<Rightarrow> bool \<Rightarrow> string option \<Rightarrow> EnvironmentVariable \<Rightarrow> EnvironmentVariable" where
  "merge_variable key vtype set_value val v =
     v\<lparr> v_key := coalesce key (v_key v),
        v_type := coalesce vtype (v_type v),
        v_value := (if coalesce vtype (v_type v) = ''secret'' then None
                    else if set_value then val else v_value v) \<rparr>"

definition UpdateVariable ::
  "uuid \<Rightarrow> string option \<Rightarrow> string option \<Rightarrow> bool \<Rightarrow> string option \<Rightarrow> EnvironmentVariable query" where
  "UpdateVariable i key vtype set_value val s d =
     with_texts (opt_texts [key, vtype, val])
       (case find_row (\<lambda>v. v_id v = i) (environment_variables d) of
          None \<Rightarrow> Inl ErrNoRows
        | Some v \<Rightarrow>
            (let upd = merge_variable key vtype set_value val in
             checks (variable_checks (upd v))
            (require (var_key_free i (v_environment_id v) (v_key (upd v)) d)
                (unique_violation ''environment_variables_environment_key_idx'')
              (Inr (upd v, d\<lparr> environment_variables :=
                 update_rows (\<lambda>v. v_id v = i) upd (environment_variables d) \<rparr>)))))"

section \<open>Proxies\<close>

definition BulkUpdateProxyOrder :: "uuid \<Rightarrow> uuid list \<Rightarrow> unit query" where
  "BulkUpdateProxyOrder project_id proxy_ids s d =
     Inr ((), d\<lparr> proxies :=
       map (\<lambda>x. case position proxy_ids (x_id x) of
                   None \<Rightarrow> x
                 | Some n \<Rightarrow> if x_project_id x = project_id then x\<lparr> x_sort_order := int n \<rparr> else x)
         (proxies d) \<rparr>)"

definition proxy_name_free :: "uuid \<Rightarrow> uuid \<Rightarrow> string \<Rightarrow> db \<Rightarrow> bool" where
  "proxy_name_free i project_id name d =
     (\<forall>x \<in> set (proxies d). x_id x \<noteq> i \<longrightarrow> x_project_id x = project_id \<longrightarrow>
        pg_lower d (x_name x) \<noteq> pg_lower d name)"

definition proxy_checks :: "Proxy \<Rightarrow> (bool \<times> string) list" where
  "proxy_checks x =
     [(1 \<le> rune_count (x_host x) \<and> rune_count (x_host x) \<le> 255, ''proxies_host_length''),
      (pg_name_ok 100 (x_name x), ''proxies_name_length''),
      (1 \<le> x_port x \<and> x_port x \<le> 65535, ''proxies_port''),
      (x_proxy_type x \<in> set ProxyTypes, ''proxies_proxy_type'')]"

definition CreateProxy ::
  "uuid \<Rightarrow> string \<Rightarrow> string \<Rightarrow> string \<Rightarrow> int \<Rightarrow> string \<Rightarrow> string \<Rightarrow> Proxy query" where
  "CreateProxy project_id name proxy_type host port username bypass s d =
     with_texts [name, proxy_type, host, username, bypass]
       (bindR (next_order (map x_sort_order
                (filter (\<lambda>x. x_project_id x = project_id) (proxies d)))) (\<lambda>n.
        let x = \<lparr> x_id = new_id s, x_project_id = project_id, x_name = name, x_proxy_type = proxy_type,
                  x_host = host, x_port = port, x_username = username, x_bypass = bypass,
                  x_sort_order = n, x_created_at = now s \<rparr> in
        checks (proxy_checks x)
       (require (new_id s \<notin> x_id ` set (proxies d)) (unique_violation ''proxies_pkey'')
       (require (proxy_name_free (new_id s) project_id name d)
           (unique_violation ''proxies_project_name_idx'')
       (require (project_exists project_id d) (foreign_key_violation ''proxies_project_id_fkey'')
         (Inr (x, d\<lparr> proxies := proxies d @ [x] \<rparr>)))))))"

definition DeleteProxy :: "uuid \<Rightarrow> unit query" where
  "DeleteProxy i s d = Inr ((), delete_proxies (\<lambda>x. x_id x = i) d)"

definition GetProxyByID :: "uuid \<Rightarrow> Proxy query" where
  "GetProxyByID i = reading (\<lambda>d.
     case find_row (\<lambda>x. x_id x = i) (proxies d) of None \<Rightarrow> Inl ErrNoRows | Some x \<Rightarrow> Inr x)"

definition ListProxiesByProject :: "uuid \<Rightarrow> Proxy list query" where
  "ListProxiesByProject project_id = reading (\<lambda>d. Inr
     (sort_key (\<lambda>x. (x_sort_order x, x_created_at x))
       (filter (\<lambda>x. x_project_id x = project_id) (proxies d))))"

definition ListProxyIDsForUpdate :: "uuid \<Rightarrow> uuid list query" where
  "ListProxyIDsForUpdate project_id = reading (\<lambda>d. Inr
     (map x_id (sort_key (\<lambda>x. (x_sort_order x, x_created_at x))
       (filter (\<lambda>x. x_project_id x = project_id) (proxies d)))))"

record UpdateProxyParams =
  pp_name :: "string option"
  pp_proxy_type :: "string option"
  pp_host :: "string option"
  pp_port :: "int option"
  pp_username :: "string option"
  pp_bypass :: "string option"

definition UpdateProxy :: "uuid \<Rightarrow> UpdateProxyParams \<Rightarrow> Proxy query" where
  "UpdateProxy i p s d =
     with_texts (opt_texts [pp_name p, pp_proxy_type p, pp_host p, pp_username p, pp_bypass p])
       (case find_row (\<lambda>x. x_id x = i) (proxies d) of
          None \<Rightarrow> Inl ErrNoRows
        | Some x \<Rightarrow>
            (let upd = (\<lambda>x. x\<lparr> x_name := coalesce (pp_name p) (x_name x),
                               x_proxy_type := coalesce (pp_proxy_type p) (x_proxy_type x),
                               x_host := coalesce (pp_host p) (x_host x),
                               x_port := coalesce (pp_port p) (x_port x),
                               x_username := coalesce (pp_username p) (x_username x),
                               x_bypass := coalesce (pp_bypass p) (x_bypass x) \<rparr>) in
             checks (proxy_checks (upd x))
            (require (proxy_name_free i (x_project_id x) (x_name (upd x)) d)
                (unique_violation ''proxies_project_name_idx'')
              (Inr (upd x, d\<lparr> proxies := update_rows (\<lambda>x. x_id x = i) upd (proxies d) \<rparr>)))))"

lemma readonly_environment_queries [readonly_intros]:
  "readonly (GetEnvironmentByID i)" "readonly (ListEnvironmentIDsForUpdate i)"
  "readonly (ListEnvironmentsByProject i)" "readonly (GetVariableByID i)"
  "readonly (ListVariableIDsForUpdate i)" "readonly (ListVariablesByEnvironment i)"
  "readonly (GetProxyByID i)" "readonly (ListProxiesByProject i)" "readonly (ListProxyIDsForUpdate i)"
  by (simp_all add: GetEnvironmentByID_def ListEnvironmentIDsForUpdate_def
    ListEnvironmentsByProject_def GetVariableByID_def ListVariableIDsForUpdate_def
    ListVariablesByEnvironment_def GetProxyByID_def ListProxiesByProject_def
    ListProxyIDsForUpdate_def readonly_reading)

end
