(* ===== verification/Authz.thy ===== *)
theory Authz
  imports WebhookQueries EnvironmentQueries
begin

text \<open>
  The permission checks of \<^verbatim>\<open>internal/authz/authz.go\<close>, one definition per method of
  \<^verbatim>\<open>Checker\<close>, and what they decide.
\<close>

section \<open>The checks\<close>

definition RequireTeamMember :: "uuid \<Rightarrow> uuid \<Rightarrow> world \<Rightarrow> (goerr + TeamMember) \<times> world" where
  "RequireTeamMember team_id user_id w =
     (case exec (GetTeamMember team_id user_id) w of
        (Inl err, w) \<Rightarrow>
          if errors_is err ErrNoRows then (Inl ErrNotMember, w)
          else (Inl (Wrapped ''looking up team membership: '' err), w)
      | (Inr member, w) \<Rightarrow> (Inr member, w))"

definition RequireTeamOwner :: "uuid \<Rightarrow> uuid \<Rightarrow> world \<Rightarrow> (goerr + Team) \<times> world" where
  "RequireTeamOwner team_id user_id w =
     (case RequireTeamMember team_id user_id w of
        (Inl err, w) \<Rightarrow> (Inl err, w)
      | (Inr _, w) \<Rightarrow>
          (case exec (GetTeamByID team_id) w of
             (Inl err, w) \<Rightarrow>
               if errors_is err ErrNoRows then (Inl ErrNotMember, w)
               else (Inl (Wrapped ''looking up team: '' err), w)
           | (Inr team, w) \<Rightarrow>
               if t_owner_id team \<noteq> user_id then (Inl ErrNotOwner, w) else (Inr team, w)))"

record ProjectAccessResult =
  pa_project :: Project
  pa_can_manage :: bool

definition RequireProjectAccess ::
  "uuid \<Rightarrow> uuid \<Rightarrow> world \<Rightarrow> (goerr + ProjectAccessResult) \<times> world" where
  "RequireProjectAccess project_id user_id w =
     (case exec (GetProjectForUser project_id user_id) w of
        (Inl err, w) \<Rightarrow>
          if errors_is err ErrNoRows then (Inl ErrNoProjectAccess, w)
          else (Inl (Wrapped ''looking up project access: '' err), w)
      | (Inr (project, team_owner_id), w) \<Rightarrow>
          (Inr \<lparr> pa_project = project,
                 pa_can_manage = (team_owner_id = user_id \<or> p_owner_id project = user_id) \<rparr>, w))"

definition RequireProjectManage :: "uuid \<Rightarrow> uuid \<Rightarrow> world \<Rightarrow> (goerr + Project) \<times> world" where
  "RequireProjectManage project_id user_id w =
     (case RequireProjectAccess project_id user_id w of
        (Inl err, w) \<Rightarrow> (Inl err, w)
      | (Inr access, w) \<Rightarrow>
          if \<not> pa_can_manage access then (Inl ErrNotProjectManager, w)
          else (Inr (pa_project access), w))"

definition RequireFolderAccess :: "uuid \<Rightarrow> uuid \<Rightarrow> world \<Rightarrow> (goerr + Folder) \<times> world" where
  "RequireFolderAccess folder_id user_id w =
     (case exec (GetFolderByID folder_id) w of
        (Inl err, w) \<Rightarrow>
          if errors_is err ErrNoRows then (Inl ErrNoFolderAccess, w)
          else (Inl (Wrapped ''looking up folder: '' err), w)
      | (Inr folder, w) \<Rightarrow>
          (case RequireProjectAccess (f_project_id folder) user_id w of
             (Inl err, w) \<Rightarrow>
               if errors_is err ErrNoProjectAccess then (Inl ErrNoFolderAccess, w) else (Inl err, w)
           | (Inr _, w) \<Rightarrow> (Inr folder, w)))"

definition RequireEnvironmentAccess :: "uuid \<Rightarrow> uuid \<Rightarrow> world \<Rightarrow> (goerr + Environment) \<times> world" where
  "RequireEnvironmentAccess environment_id user_id w =
     (case exec (GetEnvironmentByID environment_id) w of
        (Inl err, w) \<Rightarrow>
          if errors_is err ErrNoRows then (Inl ErrNoEnvironmentAccess, w)
          else (Inl (Wrapped ''looking up environment: '' err), w)
      | (Inr environment, w) \<Rightarrow>
          (case RequireProjectAccess (e_project_id environment) user_id w of
             (Inl err, w) \<Rightarrow>
               if errors_is err ErrNoProjectAccess then (Inl ErrNoEnvironmentAccess, w) else (Inl err, w)
           | (Inr _, w) \<Rightarrow> (Inr environment, w)))"

definition RequireVariableAccess ::
  "uuid \<Rightarrow> uuid \<Rightarrow> world \<Rightarrow> (goerr + EnvironmentVariable) \<times> world" where
  "RequireVariableAccess variable_id user_id w =
     (case exec (GetVariableByID variable_id) w of
        (Inl err, w) \<Rightarrow>
          if errors_is err ErrNoRows then (Inl ErrNoVariableAccess, w)
          else (Inl (Wrapped ''looking up variable: '' err), w)
      | (Inr variable, w) \<Rightarrow>
          (case RequireEnvironmentAccess (v_environment_id variable) user_id w of
             (Inl err, w) \<Rightarrow>
               if errors_is err ErrNoEnvironmentAccess then (Inl ErrNoVariableAccess, w) else (Inl err, w)
           | (Inr _, w) \<Rightarrow> (Inr variable, w)))"

definition RequireRequestAccess :: "uuid \<Rightarrow> uuid \<Rightarrow> world \<Rightarrow> (goerr + Request) \<times> world" where
  "RequireRequestAccess request_id user_id w =
     (case exec (GetRequestByID request_id) w of
        (Inl err, w) \<Rightarrow>
          if errors_is err ErrNoRows then (Inl ErrNoRequestAccess, w)
          else (Inl (Wrapped ''looking up request: '' err), w)
      | (Inr request, w) \<Rightarrow>
          (case RequireProjectAccess (r_project_id request) user_id w of
             (Inl err, w) \<Rightarrow>
               if errors_is err ErrNoProjectAccess then (Inl ErrNoRequestAccess, w) else (Inl err, w)
           | (Inr _, w) \<Rightarrow> (Inr request, w)))"

definition RequireWebhookAccess :: "uuid \<Rightarrow> uuid \<Rightarrow> world \<Rightarrow> (goerr + WebhookEndpoint) \<times> world" where
  "RequireWebhookAccess endpoint_id user_id w =
     (case exec (GetWebhookEndpointByID endpoint_id) w of
        (Inl err, w) \<Rightarrow>
          if errors_is err ErrNoRows then (Inl ErrNoWebhookAccess, w)
          else (Inl (Wrapped ''looking up webhook endpoint: '' err), w)
      | (Inr endpoint, w) \<Rightarrow>
          (case RequireProjectAccess (w_project_id endpoint) user_id w of
             (Inl err, w) \<Rightarrow>
               if errors_is err ErrNoProjectAccess then (Inl ErrNoWebhookAccess, w) else (Inl err, w)
           | (Inr _, w) \<Rightarrow> (Inr endpoint, w)))"

definition RequireProxyAccess :: "uuid \<Rightarrow> uuid \<Rightarrow> world \<Rightarrow> (goerr + Proxy) \<times> world" where
  "RequireProxyAccess i user_id w =
     (case exec (GetProxyByID i) w of
        (Inl err, w) \<Rightarrow>
          if errors_is err ErrNoRows then (Inl ErrNoProxyAccess, w)
          else (Inl (Wrapped ''looking up proxy: '' err), w)
      | (Inr proxy, w) \<Rightarrow>
          (case RequireProjectAccess (x_project_id proxy) user_id w of
             (Inl err, w) \<Rightarrow>
               if errors_is err ErrNoProjectAccess then (Inl ErrNoProxyAccess, w) else (Inl err, w)
           | (Inr _, w) \<Rightarrow> (Inr proxy, w)))"

definition RequireExampleAccess :: "uuid \<Rightarrow> uuid \<Rightarrow> world \<Rightarrow> (goerr + RequestExample) \<times> world" where
  "RequireExampleAccess example_id user_id w =
     (case exec (GetRequestExampleByID example_id) w of
        (Inl err, w) \<Rightarrow>
          if errors_is err ErrNoRows then (Inl ErrNoExampleAccess, w)
          else (Inl (Wrapped ''looking up example: '' err), w)
      | (Inr example, w) \<Rightarrow>
          (case RequireRequestAccess (ex_request_id example) user_id w of
             (Inl err, w) \<Rightarrow>
               if errors_is err ErrNoRequestAccess then (Inl ErrNoExampleAccess, w) else (Inl err, w)
           | (Inr _, w) \<Rightarrow> (Inr example, w)))"

section \<open>The checks only read\<close>

lemmas unchanged_rules = unch.runs_return unch.runs_bind unch.runs_if unch.runs_let unch.runs_sum
  unch.runs_option unch.runs_prod runs_unchanged_exec readonly_intros

lemma unchanged_team_checks [runs_intros]:
  "runs unchanged (RequireTeamMember t u)" "runs unchanged (RequireTeamOwner t u)"
proof -
  show m: "runs unchanged (RequireTeamMember t u)"
    unfolding RequireTeamMember_def [abs_def] by (intro unchanged_rules)
  show "runs unchanged (RequireTeamOwner t u)"
    unfolding RequireTeamOwner_def [abs_def] by (intro unchanged_rules m)
qed

lemma unchanged_project_checks [runs_intros]:
  "runs unchanged (RequireProjectAccess p u)" "runs unchanged (RequireProjectManage p u)"
proof -
  show a: "runs unchanged (RequireProjectAccess p u)"
    unfolding RequireProjectAccess_def [abs_def] by (intro unchanged_rules)
  show "runs unchanged (RequireProjectManage p u)"
    unfolding RequireProjectManage_def [abs_def] by (intro unchanged_rules a)
qed

lemma unchanged_scoped_checks [runs_intros]:
  "runs unchanged (RequireFolderAccess i u)" "runs unchanged (RequireEnvironmentAccess i u)"
  "runs unchanged (RequireRequestAccess i u)" "runs unchanged (RequireWebhookAccess i u)"
  "runs unchanged (RequireProxyAccess i u)"
  unfolding RequireFolderAccess_def [abs_def] RequireEnvironmentAccess_def [abs_def]
    RequireRequestAccess_def [abs_def] RequireWebhookAccess_def [abs_def]
    RequireProxyAccess_def [abs_def]
  by (intro unchanged_rules unchanged_project_checks)+

lemma unchanged_nested_checks [runs_intros]:
  "runs unchanged (RequireVariableAccess i u)" "runs unchanged (RequireExampleAccess i u)"
  unfolding RequireVariableAccess_def [abs_def] RequireExampleAccess_def [abs_def]
  by (intro unchanged_rules unchanged_scoped_checks)+

section \<open>Who may open what\<close>

text \<open>
  The access rule, stated on the database: membership of the project's team, and then the
  \<^verbatim>\<open>all_projects\<close> flag, the team, the project or an explicit grant.
\<close>

definition opens :: "db \<Rightarrow> uuid \<Rightarrow> Project \<Rightarrow> Team \<Rightarrow> bool" where
  "opens d user_id p t \<longleftrightarrow> p \<in> set (projects d) \<and> t \<in> set (teams d) \<and> t_id t = p_team_id p \<and>
     (\<exists>m \<in> set (team_members d). is_member (p_team_id p) user_id m \<and>
        (m_all_projects m \<or> t_owner_id t = user_id \<or> p_owner_id p = user_id \<or>
         (p_id p, user_id) \<in> grants (project_access d)))"

definition can_open :: "db \<Rightarrow> uuid \<Rightarrow> uuid \<Rightarrow> bool" where
  "can_open d user_id project_id \<longleftrightarrow>
     (\<exists>p \<in> set (projects d). \<exists>t \<in> set (teams d). p_id p = project_id \<and> opens d user_id p t)"

definition can_manage :: "db \<Rightarrow> uuid \<Rightarrow> uuid \<Rightarrow> bool" where
  "can_manage d user_id project_id \<longleftrightarrow>
     (\<exists>p \<in> set (projects d). \<exists>t \<in> set (teams d). p_id p = project_id \<and> opens d user_id p t \<and>
        (t_owner_id t = user_id \<or> p_owner_id p = user_id))"

lemma can_manage_can_open: "can_manage d u p \<Longrightarrow> can_open d u p"
  by (auto simp: can_manage_def can_open_def)

text \<open>The levels of access as an order: no access, opening, managing.\<close>

datatype access_level = NoAccess | MayOpen | MayManage

fun level_rank :: "access_level \<Rightarrow> nat" where
  "level_rank NoAccess = 0"
| "level_rank MayOpen = 1"
| "level_rank MayManage = 2"

instantiation access_level :: linorder
begin

definition less_eq_access_level :: "access_level \<Rightarrow> access_level \<Rightarrow> bool" where
  "less_eq_access_level a b = (level_rank a \<le> level_rank b)"

definition less_access_level :: "access_level \<Rightarrow> access_level \<Rightarrow> bool" where
  "less_access_level a b = (level_rank a < level_rank b)"

instance
proof
  fix a b :: access_level
  show "a \<le> b \<Longrightarrow> b \<le> a \<Longrightarrow> a = b"
    by (cases a; cases b) (simp_all add: less_eq_access_level_def)
qed (auto simp: less_eq_access_level_def less_access_level_def)

end

definition access_of :: "db \<Rightarrow> uuid \<Rightarrow> uuid \<Rightarrow> access_level" where
  "access_of d user_id project_id =
     (if can_manage d user_id project_id then MayManage
      else if can_open d user_id project_id then MayOpen else NoAccess)"

lemma access_of_le:
  "MayOpen \<le> access_of d u p \<longleftrightarrow> can_open d u p" "MayManage \<le> access_of d u p \<longleftrightarrow> can_manage d u p"
  using can_manage_can_open [of d u p] by (auto simp: access_of_def less_eq_access_level_def)

text \<open>The keys the access rule rests on.\<close>

definition access_keys :: "db \<Rightarrow> bool" where
  "access_keys d \<longleftrightarrow> pkey t_id (teams d) \<and> pkey p_id (projects d)"

lemma set_rows_for_user:
  "(p, owner) \<in> set (rows_for_user project_id user_id d) \<longleftrightarrow>
     p_id p = project_id \<and> (\<exists>t. owner = t_owner_id t \<and> opens d user_id p t)"
  unfolding rows_for_user_def opens_def is_member_def mem_grants set_comprehension by blast

lemma rows_for_user_Nil: "rows_for_user project_id user_id d = [] \<longleftrightarrow> \<not> can_open d user_id project_id"
proof -
  have "can_open d user_id project_id \<longleftrightarrow> (\<exists>r. r \<in> set (rows_for_user project_id user_id d))"
    unfolding split_paired_Ex set_rows_for_user can_open_def opens_def by blast
  then show ?thesis by (cases "rows_for_user project_id user_id d") auto
qed

lemma for_user_Inr:
  assumes "GetProjectForUser project_id user_id s d = Inr ((p, owner), d')"
  shows "d' = d \<and> p_id p = project_id \<and> (\<exists>t. owner = t_owner_id t \<and> opens d user_id p t)"
proof -
  from assms have "d' = d" "(p, owner) \<in> set (rows_for_user project_id user_id d)"
    by (auto simp: GetProjectForUser_def reading_def split: list.splits)
  then show ?thesis by (simp add: set_rows_for_user)
qed

lemma for_user_Inl:
  "GetProjectForUser project_id user_id s d = Inl e \<longleftrightarrow>
     e = ErrNoRows \<and> \<not> can_open d user_id project_id"
  by (auto simp: GetProjectForUser_def reading_def simp flip: rows_for_user_Nil split: list.splits)

text \<open>With the keys, the row of a project the user can open is determined.\<close>

lemma opens_unique:
  assumes "access_keys d" "opens d u p t" "opens d u p' t'" "p_id p = p_id p'"
  shows "p = p' \<and> t = t'"
proof -
  from assms have mem: "p \<in> set (projects d)" "p' \<in> set (projects d)" "t \<in> set (teams d)"
      "t' \<in> set (teams d)" "t_id t = p_team_id p" "t_id t' = p_team_id p'"
      "pkey t_id (teams d)" "pkey p_id (projects d)"
    by (simp_all add: access_keys_def opens_def)
  have "p = p'" by (rule pkey_unique [OF mem(8,1,2) assms(4)])
  moreover from this mem have "t = t'" by (intro pkey_unique [OF mem(7,3,4)]) simp
  ultimately show ?thesis ..
qed

lemma manage_iff:
  assumes "access_keys d" "opens d u p t"
  shows "can_manage d u (p_id p) \<longleftrightarrow> t_owner_id t = u \<or> p_owner_id p = u"
proof -
  have "p \<in> set (projects d)" "t \<in> set (teams d)" using assms(2) by (simp_all add: opens_def)
  moreover have "q = p \<and> s = t" if "opens d u q s" "p_id q = p_id p" for q s
    using opens_unique [OF assms that(1)] that(2) by simp
  ultimately show ?thesis
    using assms(2) unfolding can_manage_def by blast
qed

section \<open>What the checks decide\<close>

lemma project_access_sound:
  assumes "isolated w" "RequireProjectAccess i u w = (Inr a, v)"
  shows "p_id (pa_project a) = i \<and> (\<exists>t. opens (dbs w) u (pa_project a) t \<and>
    pa_can_manage a = (t_owner_id t = u \<or> p_owner_id (pa_project a) = u))"
proof -
  obtain r v' where e: "exec (GetProjectForUser i u) w = (r, v')" by fastforce
  with assms(2) obtain p owner where r: "r = Inr (p, owner)"
      and a: "a = \<lparr> pa_project = p, pa_can_manage = (owner = u \<or> p_owner_id p = u) \<rparr>"
    by (auto simp: RequireProjectAccess_def split: sum.splits if_splits)
  from exec_result [OF e [unfolded r]] arrive_isolated [OF assms(1)]
  obtain d where "GetProjectForUser i u (stamp_of w) (dbs w) = Inr ((p, owner), d)" by auto
  from for_user_Inr [OF this] a show ?thesis by auto
qed

lemma project_access_can_open:
  assumes "isolated w" "RequireProjectAccess i u w = (Inr a, v)"
  shows "can_open (dbs w) u i"
  using project_access_sound [OF assms] by (auto simp: can_open_def opens_def)

lemma project_access_denied:
  assumes "quiet w" "\<not> can_open (dbs w) u i"
  shows "RequireProjectAccess i u w = (Inl ErrNoProjectAccess, w\<lparr> tick := Suc (tick w) \<rparr>)"
  using assms for_user_Inl [of i u "stamp_of w" "dbs w" ErrNoRows]
  by (simp add: RequireProjectAccess_def exec_quiet errors_is_def)

lemma project_access_granted:
  assumes "quiet w" "can_open (dbs w) u i"
  obtains a where "RequireProjectAccess i u w = (Inr a, w\<lparr> tick := Suc (tick w) \<rparr>)"
proof -
  from assms(2) for_user_Inl [of i u "stamp_of w" "dbs w"]
  obtain p owner d where q: "GetProjectForUser i u (stamp_of w) (dbs w) = Inr ((p, owner), d)"
    by (cases "GetProjectForUser i u (stamp_of w) (dbs w)") auto
  with for_user_Inr [OF q] assms(1) show ?thesis
    by (intro that) (auto simp: RequireProjectAccess_def exec_quiet)
qed

lemma project_access_level:
  assumes "quiet w" "access_keys (dbs w)"
  shows "fst (RequireProjectAccess i u w) =
    (case find_row (\<lambda>p. p_id p = i) (projects (dbs w)) of
       None \<Rightarrow> Inl ErrNoProjectAccess
     | Some p \<Rightarrow>
         (case access_of (dbs w) u i of
            NoAccess \<Rightarrow> Inl ErrNoProjectAccess
          | MayOpen \<Rightarrow> Inr \<lparr> pa_project = p, pa_can_manage = False \<rparr>
          | MayManage \<Rightarrow> Inr \<lparr> pa_project = p, pa_can_manage = True \<rparr>))"
proof (cases "can_open (dbs w) u i")
  case False
  then show ?thesis
    using can_manage_can_open [of "dbs w" u i] project_access_denied [OF assms(1) False]
    by (auto simp: access_of_def split: option.splits)
next
  case True
  then obtain a where a: "RequireProjectAccess i u w = (Inr a, w\<lparr> tick := Suc (tick w) \<rparr>)"
    using project_access_granted [OF assms(1)] by blast
  from project_access_sound [OF quiet_isolated [OF assms(1)] a] obtain t where
    t: "p_id (pa_project a) = i" "opens (dbs w) u (pa_project a) t"
      "pa_can_manage a = (t_owner_id t = u \<or> p_owner_id (pa_project a) = u)" by auto
  have "find_row (\<lambda>p. p_id p = i) (projects (dbs w)) = Some (pa_project a)"
    using find_row_pkey [of p_id "projects (dbs w)" "pa_project a"] assms(2) t
    by (simp add: access_keys_def opens_def)
  moreover have "pa_can_manage a = can_manage (dbs w) u i"
    using manage_iff [OF assms(2) t(2)] t by simp
  ultimately show ?thesis
    using a True by (cases a) (auto simp: access_of_def)
qed

section \<open>The contract of a check\<close>

text \<open>
  What a handler relies on when it calls a check: it writes nothing; a success means the caller
  may reach the object, even while other statements fail; and without failures it succeeds exactly
  then and otherwise gives the one error \<open>shut\<close>, whatever the reason.
\<close>

locale gate =
  fixes check :: "uuid \<Rightarrow> uuid \<Rightarrow> world \<Rightarrow> (goerr + 'e) \<times> world"
    and reach :: "db \<Rightarrow> uuid \<Rightarrow> uuid \<Rightarrow> bool"
    and shut :: goerr
  assumes reads: "runs unchanged (check i u)"
    and sound: "isolated w \<Longrightarrow> check i u w = (Inr e, v) \<Longrightarrow> reach (dbs w) u i"
    and denied: "quiet w \<Longrightarrow> \<not> reach (dbs w) u i \<Longrightarrow> fst (check i u w) = Inl shut"
    and granted: "quiet w \<Longrightarrow> reach (dbs w) u i \<Longrightarrow> \<exists>e. fst (check i u w) = Inr e"
    and plain: "root shut = shut"
begin

lemma verdict: "quiet w \<Longrightarrow> (\<exists>e. fst (check i u w) = Inr e) \<longleftrightarrow> reach (dbs w) u i"
  using denied granted by (metis Inl_Inr_False)

lemma no_oracle:
  "quiet w \<Longrightarrow> quiet w' \<Longrightarrow> \<not> reach (dbs w) u i \<Longrightarrow> \<not> reach (dbs w') u' j \<Longrightarrow>
     fst (check i u w) = fst (check j u' w')"
  by (simp add: denied)

lemma after: "check i u w = (r, v) \<Longrightarrow> isolated w \<Longrightarrow> dbs v = dbs w \<and> same_env w v"
  using runsD [OF reads] by (auto simp: unchanged_def)

lemma quiet_after: "check i u w = (r, v) \<Longrightarrow> quiet w \<Longrightarrow> quiet v"
  using after [of i u w r v] same_env_quiet [of w v] by (simp add: quiet_isolated)

end

locale entity_gate = gate check reach shut
  for check :: "uuid \<Rightarrow> uuid \<Rightarrow> world \<Rightarrow> (goerr + 'e) \<times> world" and reach shut +
  fixes fetch :: "db \<Rightarrow> uuid \<Rightarrow> 'e option"
  assumes fetched: "isolated w \<Longrightarrow> check i u w = (Inr e, v) \<Longrightarrow> fetch (dbs w) i = Some e"
begin

lemma missing_like_foreign:
  "quiet w \<Longrightarrow> quiet w' \<Longrightarrow> fetch (dbs w) i = None \<Longrightarrow> \<not> reach (dbs w') u' j \<Longrightarrow>
     fst (check i u w) = fst (check j u' w')"
proof -
  assume q: "quiet w" "quiet w'" and m: "fetch (dbs w) i = None" and r: "\<not> reach (dbs w') u' j"
  have "\<not> reach (dbs w) u i"
  proof
    assume "reach (dbs w) u i"
    from granted [OF q(1) this] obtain e v where "check i u w = (Inr e, v)"
      by (metis prod.collapse)
    from fetched [OF quiet_isolated [OF q(1)] this] m show False by simp
  qed
  with q r show ?thesis by (simp add: denied)
qed

end

text \<open>
  The shape of the checks on objects inside a project: look the object up, check what it belongs
  to, and give the object's own error when either fails to be there.
\<close>

definition guarded ::
  "(uuid \<Rightarrow> 'e query) \<Rightarrow> string \<Rightarrow> goerr \<Rightarrow> ('e \<Rightarrow> uuid) \<Rightarrow>
   (uuid \<Rightarrow> uuid \<Rightarrow> world \<Rightarrow> (goerr + 'a) \<times> world) \<Rightarrow> goerr \<Rightarrow>
   uuid \<Rightarrow> uuid \<Rightarrow> world \<Rightarrow> (goerr + 'e) \<times> world" where
  "guarded get msg own key check shut i u w =
     (case exec (get i) w of
        (Inl err, w) \<Rightarrow>
          if errors_is err ErrNoRows then (Inl own, w) else (Inl (Wrapped msg err), w)
      | (Inr e, w) \<Rightarrow>
          (case check (key e) u w of
             (Inl err, w) \<Rightarrow> if errors_is err shut then (Inl own, w) else (Inl err, w)
           | (Inr _, w) \<Rightarrow> (Inr e, w)))"

definition reach_via ::
  "(db \<Rightarrow> uuid \<Rightarrow> 'e option) \<Rightarrow> ('e \<Rightarrow> uuid) \<Rightarrow> (db \<Rightarrow> uuid \<Rightarrow> uuid \<Rightarrow> bool) \<Rightarrow>
   db \<Rightarrow> uuid \<Rightarrow> uuid \<Rightarrow> bool" where
  "reach_via fetch key reach d u i = (case fetch d i of None \<Rightarrow> False | Some e \<Rightarrow> reach d u (key e))"

definition by_id :: "(db \<Rightarrow> uuid \<Rightarrow> 'e option) \<Rightarrow> uuid \<Rightarrow> 'e query" where
  "by_id fetch i = reading (\<lambda>d. case fetch d i of None \<Rightarrow> Inl ErrNoRows | Some e \<Rightarrow> Inr e)"

context gate
begin

lemma guarded_gate:
  assumes get: "get = by_id fetch" and own: "root own = own"
  shows "entity_gate (guarded get msg own key check shut) (reach_via fetch key reach) own fetch"
proof
  show "runs unchanged (guarded get msg own key check shut i u)" for i u
    unfolding guarded_def [abs_def] get by_id_def by (intro unchanged_rules reads)
next
  fix w i u e v
  assume iso: "isolated w" and run: "guarded get msg own key check shut i u w = (Inr e, v)"
  obtain r w1 where g: "exec (get i) w = (r, w1)" by fastforce
  with run obtain x where r: "r = Inr x" by (cases r) (auto simp: guarded_def split: if_splits)
  have f: "fetch (dbs w) i = Some x" and w1: "dbs w1 = dbs w" "isolated w1"
    using exec_reading_Inr [OF g [unfolded r get by_id_def] iso]
      exec_readonly_isolated [OF g [unfolded get by_id_def] readonly_reading iso]
    by (auto split: option.splits)
  obtain y w2 where c: "check (key x) u w1 = (y, w2)" by fastforce
  with run g r obtain a where "y = Inr a" "e = x"
    by (cases y) (auto simp: guarded_def split: if_splits)
  with sound [OF w1(2)] c w1(1) f show "reach_via fetch key reach (dbs w) u i"
    and "fetch (dbs w) i = Some e"
    by (auto simp: reach_via_def)
next
  fix w i u
  assume q: "quiet w"
  have run: "guarded get msg own key check shut i u w =
      (case fetch (dbs w) i of
         None \<Rightarrow> (Inl own, w\<lparr> tick := Suc (tick w) \<rparr>)
       | Some e \<Rightarrow>
           (case check (key e) u (w\<lparr> tick := Suc (tick w) \<rparr>) of
              (Inl err, w) \<Rightarrow> if errors_is err shut then (Inl own, w) else (Inl err, w)
            | (Inr _, w) \<Rightarrow> (Inr e, w)))"
    by (simp add: guarded_def get by_id_def exec_reading_quiet [OF q] errors_is_def split: option.split)
  have q': "quiet (w\<lparr> tick := Suc (tick w) \<rparr>)" using q by simp
  show "\<exists>e. fst (guarded get msg own key check shut i u w) = Inr e"
    if r: "reach_via fetch key reach (dbs w) u i"
  proof -
    from r obtain e where e: "fetch (dbs w) i = Some e" "reach (dbs w) u (key e)"
      by (auto simp: reach_via_def split: option.splits)
    with granted [OF q', of u "key e"] run show ?thesis
      by (auto split: prod.splits)
  qed
  show "fst (guarded get msg own key check shut i u w) = Inl own"
    if r: "\<not> reach_via fetch key reach (dbs w) u i"
  proof (cases "fetch (dbs w) i")
    case None
    with run show ?thesis by simp
  next
    case (Some e)
    with r have "\<not> reach (dbs w) u (key e)" by (simp add: reach_via_def)
    with denied [OF q', of u "key e"] run Some show ?thesis
      by (auto simp: errors_is_def plain split: prod.splits)
  qed
qed (rule own)

end

section \<open>Every check of the package is one\<close>

definition fetch_folder :: "db \<Rightarrow> uuid \<Rightarrow> Folder option" where
  "fetch_folder d i = find_row (\<lambda>f. f_id f = i) (folders d)"

definition fetch_environment :: "db \<Rightarrow> uuid \<Rightarrow> Environment option" where
  "fetch_environment d i = find_row (\<lambda>e. e_id e = i) (environments d)"

definition fetch_variable :: "db \<Rightarrow> uuid \<Rightarrow> EnvironmentVariable option" where
  "fetch_variable d i = find_row (\<lambda>v. v_id v = i) (environment_variables d)"

definition fetch_request :: "db \<Rightarrow> uuid \<Rightarrow> Request option" where
  "fetch_request d i = find_row (\<lambda>r. r_id r = i) (requests d)"

definition fetch_endpoint :: "db \<Rightarrow> uuid \<Rightarrow> WebhookEndpoint option" where
  "fetch_endpoint d i = find_row (\<lambda>w. w_id w = i) (webhook_endpoints d)"

definition fetch_proxy :: "db \<Rightarrow> uuid \<Rightarrow> Proxy option" where
  "fetch_proxy d i = find_row (\<lambda>x. x_id x = i) (proxies d)"

definition fetch_example :: "db \<Rightarrow> uuid \<Rightarrow> RequestExample option" where
  "fetch_example d i = find_row (\<lambda>x. ex_id x = i) (request_examples d)"

lemma get_by_id:
  "GetFolderByID = by_id fetch_folder" "GetEnvironmentByID = by_id fetch_environment"
  "GetVariableByID = by_id fetch_variable" "GetRequestByID = by_id fetch_request"
  "GetWebhookEndpointByID = by_id fetch_endpoint" "GetProxyByID = by_id fetch_proxy"
  "GetRequestExampleByID = by_id fetch_example"
  by (auto simp: fun_eq_iff by_id_def GetFolderByID_def fetch_folder_def GetEnvironmentByID_def
    fetch_environment_def GetVariableByID_def fetch_variable_def GetRequestByID_def
    fetch_request_def GetWebhookEndpointByID_def fetch_endpoint_def GetProxyByID_def
    fetch_proxy_def GetRequestExampleByID_def fetch_example_def)

lemma checks_guarded:
  "RequireFolderAccess = guarded GetFolderByID ''looking up folder: '' ErrNoFolderAccess
     f_project_id RequireProjectAccess ErrNoProjectAccess"
  "RequireEnvironmentAccess = guarded GetEnvironmentByID ''looking up environment: ''
     ErrNoEnvironmentAccess e_project_id RequireProjectAccess ErrNoProjectAccess"
  "RequireVariableAccess = guarded GetVariableByID ''looking up variable: '' ErrNoVariableAccess
     v_environment_id RequireEnvironmentAccess ErrNoEnvironmentAccess"
  "RequireRequestAccess = guarded GetRequestByID ''looking up request: '' ErrNoRequestAccess
     r_project_id RequireProjectAccess ErrNoProjectAccess"
  "RequireWebhookAccess = guarded GetWebhookEndpointByID ''looking up webhook endpoint: ''
     ErrNoWebhookAccess w_project_id RequireProjectAccess ErrNoProjectAccess"
  "RequireProxyAccess = guarded GetProxyByID ''looking up proxy: '' ErrNoProxyAccess
     x_project_id RequireProjectAccess ErrNoProjectAccess"
  "RequireExampleAccess = guarded GetRequestExampleByID ''looking up example: '' ErrNoExampleAccess
     ex_request_id RequireRequestAccess ErrNoRequestAccess"
  by (auto simp: fun_eq_iff guarded_def RequireFolderAccess_def RequireEnvironmentAccess_def
    RequireVariableAccess_def RequireRequestAccess_def RequireWebhookAccess_def
    RequireProxyAccess_def RequireExampleAccess_def split: prod.splits sum.splits)

interpretation project: gate RequireProjectAccess can_open ErrNoProjectAccess
proof
  show "\<exists>e. fst (RequireProjectAccess i u w) = Inr e" if "quiet w" "can_open (dbs w) u i" for w u i
    using project_access_granted [OF that] by (metis fst_conv)
qed (auto simp: project_access_denied intro: project_access_can_open unchanged_project_checks)

interpretation folder: entity_gate RequireFolderAccess
    "reach_via fetch_folder f_project_id can_open" ErrNoFolderAccess fetch_folder
  unfolding checks_guarded by (rule project.guarded_gate) (simp_all add: get_by_id)

interpretation environment: entity_gate RequireEnvironmentAccess
    "reach_via fetch_environment e_project_id can_open" ErrNoEnvironmentAccess fetch_environment
  unfolding checks_guarded by (rule project.guarded_gate) (simp_all add: get_by_id)

interpretation request: entity_gate RequireRequestAccess
    "reach_via fetch_request r_project_id can_open" ErrNoRequestAccess fetch_request
  unfolding checks_guarded by (rule project.guarded_gate) (simp_all add: get_by_id)

interpretation endpoint: entity_gate RequireWebhookAccess
    "reach_via fetch_endpoint w_project_id can_open" ErrNoWebhookAccess fetch_endpoint
  unfolding checks_guarded by (rule project.guarded_gate) (simp_all add: get_by_id)

interpretation proxy: entity_gate RequireProxyAccess
    "reach_via fetch_proxy x_project_id can_open" ErrNoProxyAccess fetch_proxy
  unfolding checks_guarded by (rule project.guarded_gate) (simp_all add: get_by_id)

interpretation variable: entity_gate RequireVariableAccess
    "reach_via fetch_variable v_environment_id (reach_via fetch_environment e_project_id can_open)"
    ErrNoVariableAccess fetch_variable
  unfolding checks_guarded(3) by (rule environment.guarded_gate) (simp_all add: get_by_id)

interpretation example: entity_gate RequireExampleAccess
    "reach_via fetch_example ex_request_id (reach_via fetch_request r_project_id can_open)"
    ErrNoExampleAccess fetch_example
  unfolding checks_guarded(7) by (rule request.guarded_gate) (simp_all add: get_by_id)

end
