(* ===== verification/Http.thy ===== *)
theory Http
  imports Authz
begin

text \<open>
  Requests, responses and the helpers every handler uses: the envelope, codes and messages of
  \<^verbatim>\<open>internal/api/json.go\<close>, \<^verbatim>\<open>readJSON\<close> and its errors, and the
  helpers at the end of \<^verbatim>\<open>teams.go\<close>.
\<close>

section \<open>Codes and messages\<close>

definition codeBadRequest :: string where
  "codeBadRequest = ''bad_request''"
definition codeUnauthorized :: string where
  "codeUnauthorized = ''unauthorized''"
definition codeForbidden :: string where
  "codeForbidden = ''forbidden''"
definition codeNotFound :: string where
  "codeNotFound = ''not_found''"
definition codeConflict :: string where
  "codeConflict = ''conflict''"
definition codeTooLarge :: string where
  "codeTooLarge = ''payload_too_large''"
definition codeTooManyRequests :: string where
  "codeTooManyRequests = ''too_many_requests''"
definition codeInternal :: string where
  "codeInternal = ''internal_error''"
definition codeUnavailable :: string where
  "codeUnavailable = ''service_unavailable''"
definition messageInternal :: string where
  "messageInternal = ''the server encountered an unexpected problem''"
definition messageDBUnready :: string where
  "messageDBUnready = ''database is not reachable''"
definition messageAuthRequired :: string where
  "messageAuthRequired = ''authentication required''"
definition messageEmailTaken :: string where
  "messageEmailTaken = ''an account with that email already exists''"
definition messageTeamNotFound :: string where
  "messageTeamNotFound = ''team not found''"
definition messageNotTeamOwner :: string where
  "messageNotTeamOwner = ''only the team owner can do that''"
definition messageInvitationNotFound :: string where
  "messageInvitationNotFound = ''invitation not found''"
definition messageInvitationAnswered :: string where
  "messageInvitationAnswered = ''this invitation has already been answered''"
definition messageInvitationPending :: string where
  "messageInvitationPending = ''an invitation for that email is already pending''"
definition messageAlreadyMember :: string where
  "messageAlreadyMember = ''that email is already a member of this team''"
definition messageCannotInviteSelf :: string where
  "messageCannotInviteSelf = ''you cannot invite yourself''"
definition messageMemberNotFound :: string where
  "messageMemberNotFound = ''team member not found''"
definition messageCannotRemoveOwner :: string where
  "messageCannotRemoveOwner = ''the team owner cannot be removed; transfer ownership first''"
definition messageProjectNotFound :: string where
  "messageProjectNotFound = ''project not found''"
definition messageNotProjectOwner :: string where
  "messageNotProjectOwner = ''only the team owner or the project owner can do that''"
definition messageOwnerAccessFixed :: string where
  "messageOwnerAccessFixed = ''the team owner always has access to every project''"
definition messageFolderNotFound :: string where
  "messageFolderNotFound = ''folder not found''"
definition messageEnvironmentNotFound :: string where
  "messageEnvironmentNotFound = ''environment not found''"
definition messageVariableNotFound :: string where
  "messageVariableNotFound = ''variable not found''"
definition messageEnvironmentNameTaken :: string where
  "messageEnvironmentNameTaken = ''an environment with that name already exists in this project''"
definition messageVariableKeyTaken :: string where
  "messageVariableKeyTaken = ''a variable with that key already exists in this environment''"
definition messageInvalidVariableType :: string where
  "messageInvalidVariableType = ''type must be \"regular\" or \"secret\"''"
definition messageRequestNotFound :: string where
  "messageRequestNotFound = ''request not found''"
definition messageWebhookNotFound :: string where
  "messageWebhookNotFound = ''webhook endpoint not found''"
definition messageCaptureNotFound :: string where
  "messageCaptureNotFound = ''capture not found''"
definition messageProxyNotFound :: string where
  "messageProxyNotFound = ''proxy not found''"
definition messageProxyNameTaken :: string where
  "messageProxyNameTaken = ''a proxy with that name already exists in this project''"
definition messageExampleNotFound :: string where
  "messageExampleNotFound = ''example not found''"
definition messageExampleBodyTooLarge :: string where
  "messageExampleBodyTooLarge = ''example body must be at most 1MB''"
definition messageHooksNotConfigured :: string where
  "messageHooksNotConfigured = ''webhook capture is not configured on this server (HOOKS_DOMAINS)''"
definition messageSecretValue :: string where
  "messageSecretValue = ''secret values are never stored on the server; keep them in the desktop client''"
definition messageInvalidToken :: string where
  "messageInvalidToken = ''invalid or expired token''"
definition messageBadCredentials :: string where
  "messageBadCredentials = ''invalid email or password''"

definition maxRequestBody :: nat where
  "maxRequestBody = 2 * 2 ^ 20"

section \<open>Requests and responses\<close>

text \<open>
  A request as a handler sees it: the caller \<^verbatim>\<open>requireAuth\<close> put in the context, with
  the hash of its session token; the path wildcards; the query parameters; the body.
\<close>

record AuthUser =
  au_id :: uuid
  au_email :: string
  au_name :: string

record http_request =
  rq_auth :: "(AuthUser \<times> string) option"
  rq_path :: "string \<Rightarrow> string"
  rq_query :: "string \<Rightarrow> string"
  rq_body :: body_in

datatype payload = NoContent | JsonBody json | RawBody string

record response =
  rs_status :: nat
  rs_headers :: "(string \<times> string) list"
  rs_payload :: payload

definition writeJSON :: "nat \<Rightarrow> json \<Rightarrow> response" where
  "writeJSON status v = \<lparr> rs_status = status,
     rs_headers = [(''Content-Type'', ''application/json; charset=utf-8'')],
     rs_payload = JsonBody v \<rparr>"

definition writeError :: "nat \<Rightarrow> string \<Rightarrow> string \<Rightarrow> response" where
  "writeError status code message =
     writeJSON status (JObj [(''error'', JObj [(''code'', JStr code), (''message'', JStr message)])])"

text \<open>The cause is logged, which has no effect here; the client sees the same answer for every cause.\<close>

definition serverError :: "goerr \<Rightarrow> response" where
  "serverError err = writeError 500 codeInternal messageInternal"

text \<open>\<^verbatim>\<open>w.WriteHeader(http.StatusNoContent)\<close>.\<close>

definition noContent :: response where
  "noContent = \<lparr> rs_status = 204, rs_headers = [], rs_payload = NoContent \<rparr>"

section \<open>Reading a body\<close>

datatype body_error = BodyTooLarge nat | BodyError string

definition body_error_text :: "body_error \<Rightarrow> string" where
  "body_error_text e = (case e of
     BodyTooLarge limit \<Rightarrow> ''body must not be larger than '' @ show_nat limit @ '' bytes''
   | BodyError s \<Rightarrow> s)"

definition writeBodyError :: "body_error \<Rightarrow> response" where
  "writeBodyError e = (case e of
     BodyTooLarge limit \<Rightarrow> writeError 413 codeTooLarge (body_error_text e)
   | BodyError s \<Rightarrow> writeError 400 codeBadRequest s)"

definition decodeError :: "lib \<Rightarrow> decode_error \<Rightarrow> string" where
  "decodeError L e = (case e of
     UnknownField k \<Rightarrow> ''body contains unknown field '' @ go_quote L k
   | WrongTypeField f \<Rightarrow> ''body contains the wrong type for field '' @ go_quote L f
   | WrongTypeAt off \<Rightarrow> ''body contains the wrong type at character '' @ show_nat off)"

definition readJSON :: "lib \<Rightarrow> 's field list \<Rightarrow> 's \<Rightarrow> http_request \<Rightarrow> body_error + 's" where
  "readJSON L fs zero r = (case rq_body r of
     BTooLarge \<Rightarrow> Inl (BodyTooLarge maxRequestBody)
   | BEmpty \<Rightarrow> Inl (BodyError ''body must not be empty'')
   | BUnexpectedEOF \<Rightarrow> Inl (BodyError ''body contains malformed JSON'')
   | BSyntax off \<Rightarrow> Inl (BodyError (''body contains malformed JSON at character '' @ show_nat off))
   | BReadErr s \<Rightarrow> Inl (BodyError s)
   | BJson j off trailing \<Rightarrow>
       (case decode_struct fs zero j off of
          Inl e \<Rightarrow> Inl (BodyError (decodeError L e))
        | Inr s \<Rightarrow>
            if trailing then Inl (BodyError ''body must contain a single JSON value'') else Inr s))"

section \<open>Helpers of the handlers\<close>

text \<open>
  A helper that answers the request itself when it fails returns that answer on the left.
\<close>

definition UserFromContext :: "http_request \<Rightarrow> AuthUser option" where
  "UserFromContext r = map_option fst (rq_auth r)"

definition authenticatedUser :: "http_request \<Rightarrow> response + AuthUser" where
  "authenticatedUser r = (case UserFromContext r of
     None \<Rightarrow> Inl (serverError (PlainError ''handler reached without an authenticated user''))
   | Some user \<Rightarrow> Inr user)"

definition pathUUID :: "lib \<Rightarrow> http_request \<Rightarrow> string \<Rightarrow> response + uuid" where
  "pathUUID L r name = (case uuid_parse L (rq_path r name) of
     None \<Rightarrow> Inl (writeError 400 codeBadRequest (name @ '' must be a valid uuid''))
   | Some i \<Rightarrow> Inr i)"

definition writeAuthzError :: "goerr \<Rightarrow> response" where
  "writeAuthzError err =
     (if errors_is err ErrNotMember then writeError 404 codeNotFound messageTeamNotFound
      else if errors_is err ErrNotOwner then writeError 403 codeForbidden messageNotTeamOwner
      else if errors_is err ErrNoProjectAccess then writeError 404 codeNotFound messageProjectNotFound
      else if errors_is err ErrNotProjectManager then writeError 403 codeForbidden messageNotProjectOwner
      else if errors_is err ErrNoFolderAccess then writeError 404 codeNotFound messageFolderNotFound
      else if errors_is err ErrNoEnvironmentAccess then writeError 404 codeNotFound messageEnvironmentNotFound
      else if errors_is err ErrNoVariableAccess then writeError 404 codeNotFound messageVariableNotFound
      else if errors_is err ErrNoRequestAccess then writeError 404 codeNotFound messageRequestNotFound
      else if errors_is err ErrNoWebhookAccess then writeError 404 codeNotFound messageWebhookNotFound
      else if errors_is err ErrNoProxyAccess then writeError 404 codeNotFound messageProxyNotFound
      else if errors_is err ErrNoExampleAccess then writeError 404 codeNotFound messageExampleNotFound
      else serverError err)"

definition isUniqueViolation :: "goerr \<Rightarrow> bool" where
  "isUniqueViolation err = (case as_pg_error err of None \<Rightarrow> False | Some (code, con) \<Rightarrow> code = ''23505'')"

text \<open>\<^verbatim>\<open>isConstraintViolation\<close> of \<^verbatim>\<open>internal/db/webhooks.go\<close>.\<close>

definition isConstraintViolation :: "goerr \<Rightarrow> string \<Rightarrow> string \<Rightarrow> bool" where
  "isConstraintViolation err code constraint =
     (case as_pg_error err of None \<Rightarrow> False | Some (c, con) \<Rightarrow> c = code \<and> con = constraint)"

lemma errors_is_self [simp]: "root e = e \<Longrightarrow> errors_is e e"
  by (simp add: errors_is_def)

lemma status_simps [simp]:
  "rs_status (writeJSON n v) = n" "rs_status (writeError n c m) = n" "rs_status noContent = 204"
  "rs_status (serverError e) = 500"
  by (simp_all add: writeJSON_def writeError_def noContent_def serverError_def)

lemma writeBodyError_status: "rs_status (writeBodyError e) \<in> {400, 413}"
  by (simp add: writeBodyError_def split: body_error.split)

lemma pathUUID_status: "pathUUID L r n = Inl x \<Longrightarrow> rs_status x = 400"
  by (auto simp: pathUUID_def split: option.splits)

lemma authzError_status: "rs_status (writeAuthzError e) \<in> {403, 404, 500}"
  by (simp add: writeAuthzError_def)

text \<open>Every error a check can end with other than a failed statement has a client error of its own.\<close>

lemma writeAuthzError_simps [simp]:
  "writeAuthzError ErrNotMember = writeError 404 codeNotFound messageTeamNotFound"
  "writeAuthzError ErrNotOwner = writeError 403 codeForbidden messageNotTeamOwner"
  "writeAuthzError ErrNoProjectAccess = writeError 404 codeNotFound messageProjectNotFound"
  "writeAuthzError ErrNotProjectManager = writeError 403 codeForbidden messageNotProjectOwner"
  "writeAuthzError ErrNoFolderAccess = writeError 404 codeNotFound messageFolderNotFound"
  "writeAuthzError ErrNoEnvironmentAccess = writeError 404 codeNotFound messageEnvironmentNotFound"
  "writeAuthzError ErrNoVariableAccess = writeError 404 codeNotFound messageVariableNotFound"
  "writeAuthzError ErrNoRequestAccess = writeError 404 codeNotFound messageRequestNotFound"
  "writeAuthzError ErrNoWebhookAccess = writeError 404 codeNotFound messageWebhookNotFound"
  "writeAuthzError ErrNoProxyAccess = writeError 404 codeNotFound messageProxyNotFound"
  "writeAuthzError ErrNoExampleAccess = writeError 404 codeNotFound messageExampleNotFound"
  by (simp_all add: writeAuthzError_def errors_is_def)

end
