(* ===== verification/Sample.thy ===== *)
theory Sample
  imports Http
begin

text \<open>
  A small database, a world and requests at which the witnesses apply the properties: two teams,
  their members, three projects, folders nested three deep, requests, environments, a proxy and a
  webhook endpoint with captures. User 1 owns team 1, user 2 is a member of it admitted to project
  2 only, user 3 owns team 2. The outside functions are small total ones; identifiers print as
  decimal digits.
\<close>

section \<open>The outside functions\<close>

definition sampleL :: lib where
  "sampleL = \<lparr> uuid_parse = (\<lambda>s. map_of [(''1'', 1), (''2'', 2), (''3'', 3), (''4'', 4), (''5'', 5),
       (''6'', 6), (''7'', 7), (''8'', 8), (''9'', 9)] s),
     uuid_string = show_nat, fmt_time = show_int, go_quote = (\<lambda>s. CHR 0x22 # s @ [CHR 0x22]),
     lower_uni = (\<lambda>s. s), parse_address = Some, hash_token = (\<lambda>s. CHR ''h'' # s),
     driver_text = (\<lambda>e. ''database unreachable'') \<rparr>"

section \<open>The database\<close>

definition sample_folder :: "uuid \<Rightarrow> uuid option \<Rightarrow> int \<Rightarrow> Folder" where
  "sample_folder i parent n = \<lparr> f_id = i, f_project_id = 1, f_parent_id = parent, f_name = ''folder'',
     f_sort_order = n, f_created_at = int i, f_settings = default_settings \<rparr>"

definition sample_request :: "uuid \<Rightarrow> uuid option \<Rightarrow> int \<Rightarrow> Request" where
  "sample_request i folder n = \<lparr> r_id = i, r_project_id = 1, r_folder_id = folder, r_name = ''get'',
     r_method = ''GET'', r_url = ''http://a'', r_headers = JArr [], r_query_params = JArr [],
     r_body = JObj [(''type'', JStr ''none'')], r_sort_order = n, r_created_at = 0, r_updated_at = 0,
     r_response_filter = [], r_settings = default_settings \<rparr>"

definition sample_capture :: "int \<Rightarrow> WebhookCapture" where
  "sample_capture n = \<lparr> c_id = n, c_endpoint_id = 1, c_method = ''POST'', c_path = ''/'', c_query = [],
     c_headers = JArr [], c_content_type = [], c_body = None, c_body_size = 0,
     c_body_truncated = False, c_source_ip = ''10.0.0.1'', c_received_at = n \<rparr>"

definition sample_db :: db where
  "sample_db = (empty_db (\<lambda>s. s))\<lparr>
     users := [\<lparr> u_id = 1, u_email = ''a@x'', u_password_hash = [], u_name = ''ann'', u_created_at = 0 \<rparr>,
       \<lparr> u_id = 2, u_email = ''b@x'', u_password_hash = [], u_name = ''bob'', u_created_at = 0 \<rparr>,
       \<lparr> u_id = 3, u_email = ''c@x'', u_password_hash = [], u_name = ''cyd'', u_created_at = 0 \<rparr>],
     teams := [\<lparr> t_id = 1, t_name = ''one'', t_owner_id = 1, t_created_at = 0 \<rparr>,
       \<lparr> t_id = 2, t_name = ''two'', t_owner_id = 3, t_created_at = 0 \<rparr>],
     team_members := [
       \<lparr> m_team_id = 1, m_user_id = 1, m_all_projects = True, m_created_at = 0 \<rparr>,
       \<lparr> m_team_id = 1, m_user_id = 2, m_all_projects = False, m_created_at = 1 \<rparr>,
       \<lparr> m_team_id = 2, m_user_id = 3, m_all_projects = True, m_created_at = 2 \<rparr>],
     team_invitations := [\<lparr> i_id = 4, i_team_id = 1, i_email = ''c@x'', i_invited_by = 1,
       i_status = InvitationPending, i_created_at = 0, i_responded_at = None \<rparr>],
     projects := [
       \<lparr> p_id = 1, p_team_id = 1, p_name = ''p1'', p_owner_id = 1, p_sort_order = 1, p_created_at = 0 \<rparr>,
       \<lparr> p_id = 2, p_team_id = 1, p_name = ''p2'', p_owner_id = 1, p_sort_order = 2, p_created_at = 0 \<rparr>,
       \<lparr> p_id = 3, p_team_id = 2, p_name = ''p3'', p_owner_id = 3, p_sort_order = 1, p_created_at = 0 \<rparr>],
     project_access := [\<lparr> a_project_id = 2, a_user_id = 2, a_created_at = 0 \<rparr>],
     folders := [sample_folder 1 None 0, sample_folder 2 (Some 1) 0, sample_folder 3 (Some 2) 0,
       sample_folder 4 None 1],
     environments := [
       \<lparr> e_id = 1, e_project_id = 1, e_name = ''dev'', e_sort_order = 0, e_created_at = 0 \<rparr>,
       \<lparr> e_id = 2, e_project_id = 1, e_name = ''live'', e_sort_order = 1, e_created_at = 0 \<rparr>],
     environment_variables := [
       \<lparr> v_id = 1, v_environment_id = 1, v_key = ''host'', v_type = ''regular'', v_value = Some ''h'',
         v_sort_order = 0, v_created_at = 0 \<rparr>,
       \<lparr> v_id = 2, v_environment_id = 1, v_key = ''key'', v_type = ''secret'', v_value = None,
         v_sort_order = 1, v_created_at = 0 \<rparr>],
     requests := [sample_request 1 None 0, sample_request 2 (Some 2) 0, sample_request 3 (Some 2) 1],
     proxies := [\<lparr> x_id = 1, x_project_id = 1, x_name = ''out'', x_proxy_type = ''http'',
       x_host = ''proxy'', x_port = 8080, x_username = [], x_bypass = [], x_sort_order = 0,
       x_created_at = 0 \<rparr>],
     request_examples := [\<lparr> ex_id = 1, ex_request_id = 1, ex_name = ''ok'', ex_status = 200,
       ex_headers = JArr [], ex_content_type = [], ex_body = None, ex_body_size = 0, ex_sort_order = 0,
       ex_created_at = 0, ex_updated_at = 0 \<rparr>],
     webhook_endpoints := [\<lparr> w_id = 1, w_project_id = 1, w_name = ''hook'', w_slug = ''abcdefgh12'',
       w_domain = ''hooks.example'', w_resp_status = 200, w_resp_headers = JArr [], w_resp_body = ''ok'',
       w_created_by = 1, w_created_at = 0 \<rparr>],
     webhook_captures := [sample_capture 1, sample_capture 2, sample_capture 3],
     capture_seq := 3 \<rparr>"

definition sample_world :: world where
  "sample_world = \<lparr> dbs = sample_db, tick = 0, fault = (\<lambda>n. Healthy), others = (\<lambda>n d. d),
     gen_uuid = (\<lambda>n. 100 + n), clock = (\<lambda>n. 1000 + int n), in_tx = None \<rparr>"

lemma sample_quiet: "quiet sample_world" "isolated sample_world"
  by (simp_all add: quiet_def isolated_def sample_world_def)

lemma sample_arrive: "dbs (arrive sample_world) = sample_db" "dbs sample_world = sample_db"
  by (simp_all add: arrive_def sample_world_def)

lemma sample_keys: "access_keys sample_db"
  by (simp add: access_keys_def pkey_def sample_db_def)

section \<open>Requests\<close>

definition sample_user :: "uuid \<Rightarrow> AuthUser" where
  "sample_user i = \<lparr> au_id = i, au_email = (if i = 1 then ''a@x'' else if i = 2 then ''b@x'' else ''c@x''),
     au_name = ''user'' \<rparr>"

text \<open>A request of a signed-in user with given path values and a JSON body.\<close>

definition sample_req :: "uuid \<Rightarrow> (string \<times> string) list \<Rightarrow> json \<Rightarrow> http_request" where
  "sample_req user path body = \<lparr> rq_auth = Some (sample_user user, ''token''),
     rq_path = (\<lambda>k. case map_of path k of None \<Rightarrow> [] | Some v \<Rightarrow> v), rq_query = (\<lambda>k. []),
     rq_body = BJson body 0 False \<rparr>"

lemma sample_user_simps [simp]:
  "UserFromContext (sample_req u path body) = Some (sample_user u)" "au_id (sample_user u) = u"
  "rq_path (sample_req u path body) k = (case map_of path k of None \<Rightarrow> [] | Some v \<Rightarrow> v)"
  by (simp_all add: sample_req_def sample_user_def UserFromContext_def)

lemma sample_uuids [simp]:
  "uuid_parse sampleL ''1'' = Some 1" "uuid_parse sampleL ''2'' = Some 2"
  "uuid_parse sampleL ''3'' = Some 3" "uuid_parse sampleL ''4'' = Some 4"
  by (simp_all add: sampleL_def)

end
