(* ===== verification/Teams.thy ===== *)
theory Teams
  imports Http
begin

text \<open>
  Teams and their members: the transactions \<^verbatim>\<open>CreateTeamWithOwner\<close> and
  \<^verbatim>\<open>RemoveTeamMember\<close> of \<^verbatim>\<open>internal/db/store.go\<close> and the handlers of
  \<^verbatim>\<open>internal/api/teams.go\<close> and \<^verbatim>\<open>members.go\<close>.
\<close>

section \<open>Transactions\<close>

definition create_team_tx :: "string \<Rightarrow> uuid \<Rightarrow> world \<Rightarrow> (goerr + Team) \<times> world" where
  "create_team_tx name owner_id w =
     (case exec (CreateTeam name owner_id) w of
        (Inl err, w) \<Rightarrow> (Inl (Wrapped ''create team: '' err), w)
      | (Inr team, w) \<Rightarrow>
          (case exec (CreateTeamMember (t_id team) owner_id True) w of
             (Inl err, w) \<Rightarrow> (Inl (Wrapped ''create owner membership: '' err), w)
           | (Inr _, w) \<Rightarrow> (Inr team, w)))"

definition CreateTeamWithOwner :: "string \<Rightarrow> uuid \<Rightarrow> world \<Rightarrow> (goerr + Team) \<times> world" where
  "CreateTeamWithOwner name owner_id = inTx (create_team_tx name owner_id)"

definition remove_member_tx :: "uuid \<Rightarrow> uuid \<Rightarrow> world \<Rightarrow> (goerr + nat) \<times> world" where
  "remove_member_tx team_id user_id w =
     (case exec (DeleteTeamMember team_id user_id) w of
        (Inl err, w) \<Rightarrow> (Inl (Wrapped ''delete team member: '' err), w)
      | (Inr removed, w) \<Rightarrow>
          if removed = 0 then (Inr removed, w)
          else
            (case exec (DeleteAllUserAccessInTeam user_id team_id) w of
               (Inl err, w) \<Rightarrow> (Inl (Wrapped ''clear member project access: '' err), w)
             | (Inr _, w) \<Rightarrow> (Inr removed, w)))"

definition RemoveTeamMember :: "uuid \<Rightarrow> uuid \<Rightarrow> world \<Rightarrow> (goerr + nat) \<times> world" where
  "RemoveTeamMember team_id user_id = inTx (remove_member_tx team_id user_id)"

section \<open>Handlers\<close>

definition minTeamNameLength :: nat where "minTeamNameLength = 1"
definition maxTeamNameLength :: nat where "maxTeamNameLength = 100"

record teamRequest =
  tq_name :: string

definition teamRequest_fields :: "teamRequest field list" where
  "teamRequest_fields = [(''name'', fString (\<lambda>v q. q\<lparr> tq_name := v \<rparr>))]"

definition teamResponse :: "lib \<Rightarrow> Team \<Rightarrow> json" where
  "teamResponse L t = JObj [(''id'', JStr (uuid_string L (t_id t))), (''name'', JStr (t_name t))]"

definition teamSummaryResponse :: "lib \<Rightarrow> Team \<Rightarrow> nat \<Rightarrow> bool \<Rightarrow> json" where
  "teamSummaryResponse L t member_count is_owner = JObj
     [(''id'', JStr (uuid_string L (t_id t))), (''name'', JStr (t_name t)),
      (''owner_id'', JStr (uuid_string L (t_owner_id t))), (''member_count'', JInt (int member_count)),
      (''is_owner'', JBool is_owner)]"

definition teamMemberResponse :: "lib \<Rightarrow> ListTeamMembersRow \<Rightarrow> json" where
  "teamMemberResponse L m = JObj
     [(''user_id'', JStr (uuid_string L (lm_user_id m))), (''email'', JStr (lm_email m)),
      (''name'', JStr (lm_name m)), (''all_projects'', JBool (lm_all_projects m))]"

definition teamDetailResponse :: "lib \<Rightarrow> Team \<Rightarrow> bool \<Rightarrow> json list \<Rightarrow> json" where
  "teamDetailResponse L t is_owner members = JObj
     [(''id'', JStr (uuid_string L (t_id t))), (''name'', JStr (t_name t)),
      (''owner_id'', JStr (uuid_string L (t_owner_id t))),
      (''created_at'', JStr (fmt_time L (t_created_at t))), (''is_owner'', JBool is_owner),
      (''members'', JArr members)]"

definition readTeamName :: "lib \<Rightarrow> http_request \<Rightarrow> response + string" where
  "readTeamName L r = (case readJSON L teamRequest_fields \<lparr> tq_name = [] \<rparr> r of
     Inl err \<Rightarrow> Inl (writeBodyError err)
   | Inr req \<Rightarrow>
       (let name = TrimSpace (tq_name req); len = rune_count name in
        if len < minTeamNameLength then Inl (writeError 400 codeBadRequest ''name is required'')
        else if len > maxTeamNameLength then
          Inl (writeError 400 codeBadRequest
            (''name must be at most '' @ show_nat maxTeamNameLength @ '' characters''))
        else Inr name))"

definition writeTeamDetail :: "lib \<Rightarrow> Team \<Rightarrow> uuid \<Rightarrow> world \<Rightarrow> response \<times> world" where
  "writeTeamDetail L team user_id w = (case exec (ListTeamMembers (t_id team)) w of
     (Inl err, w) \<Rightarrow> (serverError err, w)
   | (Inr rows, w) \<Rightarrow>
       (writeJSON 200 (teamDetailResponse L team (t_owner_id team = user_id)
          (map (teamMemberResponse L) rows)), w))"

definition handleCreateTeam :: "lib \<Rightarrow> http_request \<Rightarrow> world \<Rightarrow> response \<times> world" where
  "handleCreateTeam L r w = (case authenticatedUser r of
     Inl resp \<Rightarrow> (resp, w)
   | Inr user \<Rightarrow> (case readTeamName L r of
       Inl resp \<Rightarrow> (resp, w)
     | Inr name \<Rightarrow> (case CreateTeamWithOwner name (au_id user) w of
         (Inl err, w) \<Rightarrow> (serverError err, w)
       | (Inr team, w) \<Rightarrow> (writeJSON 201 (teamResponse L team), w))))"

definition handleListTeams :: "lib \<Rightarrow> http_request \<Rightarrow> world \<Rightarrow> response \<times> world" where
  "handleListTeams L r w = (case authenticatedUser r of
     Inl resp \<Rightarrow> (resp, w)
   | Inr user \<Rightarrow> (case exec (ListTeamsForUser (au_id user)) w of
       (Inl err, w) \<Rightarrow> (serverError err, w)
     | (Inr rows, w) \<Rightarrow>
         (writeJSON 200 (JArr (map (\<lambda>(t, n).
            teamSummaryResponse L t n (t_owner_id t = au_id user)) rows)), w)))"

definition handleGetTeam :: "lib \<Rightarrow> http_request \<Rightarrow> world \<Rightarrow> response \<times> world" where
  "handleGetTeam L r w = (case authenticatedUser r of
     Inl resp \<Rightarrow> (resp, w)
   | Inr user \<Rightarrow> (case pathUUID L r ''id'' of
       Inl resp \<Rightarrow> (resp, w)
     | Inr team_id \<Rightarrow> (case RequireTeamMember team_id (au_id user) w of
         (Inl err, w) \<Rightarrow> (writeAuthzError err, w)
       | (Inr _, w) \<Rightarrow> (case exec (GetTeamByID team_id) w of
           (Inl err, w) \<Rightarrow> (serverError err, w)
         | (Inr team, w) \<Rightarrow> writeTeamDetail L team (au_id user) w))))"

definition handleUpdateTeam :: "lib \<Rightarrow> http_request \<Rightarrow> world \<Rightarrow> response \<times> world" where
  "handleUpdateTeam L r w = (case authenticatedUser r of
     Inl resp \<Rightarrow> (resp, w)
   | Inr user \<Rightarrow> (case pathUUID L r ''id'' of
       Inl resp \<Rightarrow> (resp, w)
     | Inr team_id \<Rightarrow> (case readTeamName L r of
         Inl resp \<Rightarrow> (resp, w)
       | Inr name \<Rightarrow> (case RequireTeamOwner team_id (au_id user) w of
           (Inl err, w) \<Rightarrow> (writeAuthzError err, w)
         | (Inr _, w) \<Rightarrow> (case exec (UpdateTeamName team_id name) w of
             (Inl err, w) \<Rightarrow> (serverError err, w)
           | (Inr team, w) \<Rightarrow> writeTeamDetail L team (au_id user) w)))))"

definition handleDeleteTeam :: "lib \<Rightarrow> http_request \<Rightarrow> world \<Rightarrow> response \<times> world" where
  "handleDeleteTeam L r w = (case authenticatedUser r of
     Inl resp \<Rightarrow> (resp, w)
   | Inr user \<Rightarrow> (case pathUUID L r ''id'' of
       Inl resp \<Rightarrow> (resp, w)
     | Inr team_id \<Rightarrow> (case RequireTeamOwner team_id (au_id user) w of
         (Inl err, w) \<Rightarrow> (writeAuthzError err, w)
       | (Inr _, w) \<Rightarrow> (case exec (DeleteTeam team_id) w of
           (Inl err, w) \<Rightarrow> (serverError err, w)
         | (Inr _, w) \<Rightarrow> (noContent, w)))))"

text \<open>Removal by the owner and leaving are the same write under different permissions.\<close>

definition handleDeleteTeamMember :: "lib \<Rightarrow> http_request \<Rightarrow> world \<Rightarrow> response \<times> world" where
  "handleDeleteTeamMember L r w = (case authenticatedUser r of
     Inl resp \<Rightarrow> (resp, w)
   | Inr user \<Rightarrow> (case pathUUID L r ''team_id'' of
       Inl resp \<Rightarrow> (resp, w)
     | Inr team_id \<Rightarrow> (case pathUUID L r ''user_id'' of
         Inl resp \<Rightarrow> (resp, w)
       | Inr target_id \<Rightarrow> (case RequireTeamMember team_id (au_id user) w of
           (Inl err, w) \<Rightarrow> (writeAuthzError err, w)
         | (Inr _, w) \<Rightarrow> (case exec (GetTeamByID team_id) w of
             (Inl err, w) \<Rightarrow> (serverError err, w)
           | (Inr team, w) \<Rightarrow>
               if target_id = t_owner_id team then
                 (writeError 400 codeBadRequest messageCannotRemoveOwner, w)
               else if t_owner_id team \<noteq> au_id user \<and> target_id \<noteq> au_id user then
                 (writeError 404 codeNotFound messageMemberNotFound, w)
               else (case RemoveTeamMember team_id target_id w of
                   (Inl err, w) \<Rightarrow> (serverError err, w)
                 | (Inr removed, w) \<Rightarrow>
                     if removed = 0 then (writeError 404 codeNotFound messageMemberNotFound, w)
                     else (noContent, w)))))))"

section \<open>The transactions are atomic\<close>

lemma env_exec [runs_intros]: "runs same_env (exec q)"
  by (rule runs_env_exec)

lemmas env_rules = env.runs_return env.runs_bind env.runs_if env.runs_let env.runs_sum
  env.runs_option env.runs_prod env_exec runs_env_inTx

lemma env_team_transactions [runs_intros]:
  "runs same_env (CreateTeamWithOwner n u)" "runs same_env (RemoveTeamMember t u)"
  unfolding CreateTeamWithOwner_def create_team_tx_def [abs_def] RemoveTeamMember_def
    remove_member_tx_def [abs_def]
  by (intro env_rules)+

text \<open>What creating a team makes of the database.\<close>

definition new_team :: "string \<Rightarrow> uuid \<Rightarrow> uuid \<Rightarrow> time \<Rightarrow> db \<Rightarrow> db" where
  "new_team name owner_id i at d = d\<lparr>
     teams := teams d @ [\<lparr> t_id = i, t_name = name, t_owner_id = owner_id, t_created_at = at \<rparr>],
     team_members := team_members d @
       [\<lparr> m_team_id = i, m_user_id = owner_id, m_all_projects = True, m_created_at = at \<rparr>] \<rparr>"

lemma create_team_tx_effect:
  assumes "in_tx w = Some m" "create_team_tx name owner_id w = (Inr team, v)"
  shows "dbs v = new_team name owner_id (t_id team) (t_created_at team) (dbs w) \<and>
    t_name team = name \<and> t_owner_id team = owner_id \<and> user_exists owner_id (dbs w) \<and>
    t_id team \<notin> t_id ` set (teams (dbs w)) \<and> pg_name_ok 100 name"
proof -
  obtain w1 where 1: "exec (CreateTeam name owner_id) w = (Inr team, w1)"
    using assms(2) by (auto simp: create_team_tx_def split: prod.splits sum.splits)
  with assms(2) obtain x where 2: "exec (CreateTeamMember (t_id team) owner_id True) w1 = (Inr x, v)"
    by (auto simp: create_team_tx_def split: prod.splits sum.splits)
  obtain s d where s: "now s = clock w m" "CreateTeam name owner_id s (dbs w) = Inr (team, d)"
      "dbs w1 = d" "in_tx w1 = Some m" "clock w1 = clock w"
    by (rule exec_in_tx [OF 1 assms(1)])
  obtain s' d' where s': "now s' = clock w1 m"
      "CreateTeamMember (t_id team) owner_id True s' (dbs w1) = Inr (x, d')" "dbs v = d'"
    by (rule exec_in_tx [OF 2 s(4)])
  from s(2) have d: "d = dbs w\<lparr> teams := teams (dbs w) @ [team] \<rparr>"
    and team: "t_name team = name" "t_owner_id team = owner_id" "t_created_at team = now s"
      "user_exists owner_id (dbs w)" "t_id team \<notin> t_id ` set (teams (dbs w))" "pg_name_ok 100 name"
    by (auto simp: CreateTeam_def require_Inr with_texts_Inr Let_def)
  from s'(2) have d': "d' = d\<lparr> team_members := team_members d @
      [\<lparr> m_team_id = t_id team, m_user_id = owner_id, m_all_projects = True, m_created_at = now s' \<rparr>] \<rparr>"
    unfolding s(3) by (auto simp: CreateTeamMember_def require_Inr Let_def)
  have "team = \<lparr> t_id = t_id team, t_name = name, t_owner_id = owner_id, t_created_at = t_created_at team \<rparr>"
    using team by (cases team) simp
  with d d' s s' team show ?thesis by (simp add: new_team_def)
qed

lemma create_team_effect:
  assumes "CreateTeamWithOwner name owner_id w = (r, v)"
  obtains (nothing) e where "r = Inl e" "dbs v = dbs (arrive w)"
  | (both) t where "dbs v = new_team name owner_id (t_id t) (t_created_at t) (dbs (arrive w))"
      "t_name t = name" "t_owner_id t = owner_id" "user_exists owner_id (dbs (arrive w))"
      "t_id t \<notin> t_id ` set (teams (dbs (arrive w)))" "pg_name_ok 100 name"
      "r = Inr t \<or> (\<exists>e. r = Inl e)"
proof (rule inTx_cases [OF assms [unfolded CreateTeamWithOwner_def]])
  fix t u
  assume "create_team_tx name owner_id ((arrive w)\<lparr> in_tx := Some (tick w) \<rparr>) = (Inr t, u)"
    "dbs v = dbs u" "r = Inr t \<or> (\<exists>e. r = Inl e)"
  with create_team_tx_effect [OF _ this(1), of "tick w"] both [of t] show thesis by simp
qed (rule nothing)

text \<open>What removing a member makes of the database.\<close>

definition without_member :: "uuid \<Rightarrow> uuid \<Rightarrow> db \<Rightarrow> db" where
  "without_member team_id user_id d = d\<lparr>
     team_members := delete_rows (is_member team_id user_id) (team_members d),
     project_access := delete_rows (\<lambda>a. a_user_id a = user_id \<and>
         (\<exists>p \<in> set (projects d). a_project_id a = p_id p \<and> p_team_id p = team_id))
       (project_access d) \<rparr>"

definition in_team :: "uuid \<Rightarrow> uuid \<Rightarrow> db \<Rightarrow> bool" where
  "in_team team_id user_id d \<longleftrightarrow> (\<exists>m \<in> set (team_members d). is_member team_id user_id m)"

lemma delete_rows_shrinks:
  "length t - length (delete_rows p t) = 0 \<longleftrightarrow> \<not> (\<exists>r \<in> set t. p r)"
proof -
  have "length (delete_rows p t) \<le> length t" by (simp add: delete_rows_def)
  moreover have "length (delete_rows p t) = length t \<longleftrightarrow> (\<forall>r \<in> set t. \<not> p r)"
    unfolding delete_rows_def by (metis filter_True length_filter_less less_irrefl)
  ultimately show ?thesis by auto
qed

lemma remove_member_tx_effect:
  assumes "in_tx w = Some m" "remove_member_tx team_id user_id w = (Inr removed, v)"
  shows "dbs v = (if in_team team_id user_id (dbs w) then without_member team_id user_id (dbs w) else dbs w) \<and>
    (removed = 0 \<longleftrightarrow> \<not> in_team team_id user_id (dbs w))"
proof -
  obtain n w1 where 1: "exec (DeleteTeamMember team_id user_id) w = (Inr n, w1)"
    using assms(2) by (auto simp: remove_member_tx_def split: prod.splits sum.splits)
  obtain s d where s: "DeleteTeamMember team_id user_id s (dbs w) = Inr (n, d)" "dbs w1 = d"
      "in_tx w1 = Some m" by (rule exec_in_tx [OF 1 assms(1)])
  have d: "d = dbs w\<lparr> team_members := delete_rows (is_member team_id user_id) (team_members (dbs w)) \<rparr>"
    and n: "n = 0 \<longleftrightarrow> \<not> in_team team_id user_id (dbs w)"
    using s(1) delete_rows_shrinks [of "team_members (dbs w)" "is_member team_id user_id"]
    by (auto simp: DeleteTeamMember_def Let_def in_team_def)
  show ?thesis
  proof (cases "n = 0")
    case True
    with assms(2) 1 have "v = w1" "removed = n" by (auto simp: remove_member_tx_def)
    moreover have "d = dbs w"
      using n True unfolding d in_team_def by (simp add: delete_rows_none)
    ultimately show ?thesis using n True s(2) by simp
  next
    case False
    with assms(2) 1 obtain w2 where 2: "exec (DeleteAllUserAccessInTeam user_id team_id) w1 = (Inr (), w2)"
      and r: "v = w2" "removed = n"
      by (auto simp: remove_member_tx_def split: prod.splits sum.splits)
    obtain s' d' where s': "DeleteAllUserAccessInTeam user_id team_id s' (dbs w1) = Inr ((), d')" "dbs w2 = d'"
      by (rule exec_in_tx [OF 2 s(3)])
    have "d' = without_member team_id user_id (dbs w)"
      using s'(1) unfolding s(2) d by (simp add: DeleteAllUserAccessInTeam_def without_member_def)
    with r s'(2) n False show ?thesis by simp
  qed
qed

lemma remove_member_effect:
  assumes "RemoveTeamMember team_id user_id w = (r, v)"
  shows "dbs v = dbs (arrive w) \<or>
     in_team team_id user_id (dbs (arrive w)) \<and> dbs v = without_member team_id user_id (dbs (arrive w))"
    and "r = Inr n \<Longrightarrow> n \<noteq> 0 \<Longrightarrow>
      in_team team_id user_id (dbs (arrive w)) \<and> dbs v = without_member team_id user_id (dbs (arrive w))"
proof -
  note tx = inTx_cases [OF assms [unfolded RemoveTeamMember_def]]
  have eff: "dbs u = (if in_team team_id user_id (dbs (arrive w))
       then without_member team_id user_id (dbs (arrive w)) else dbs (arrive w)) \<and>
     (k = 0 \<longleftrightarrow> \<not> in_team team_id user_id (dbs (arrive w)))"
    if "remove_member_tx team_id user_id ((arrive w)\<lparr> in_tx := Some (tick w) \<rparr>) = (Inr k, u)" for k u
    using remove_member_tx_effect [OF _ that, of "tick w"] by simp
  show "dbs v = dbs (arrive w) \<or>
     in_team team_id user_id (dbs (arrive w)) \<and> dbs v = without_member team_id user_id (dbs (arrive w))"
    by (rule tx) (auto dest!: eff split: if_splits)
  show "in_team team_id user_id (dbs (arrive w)) \<and> dbs v = without_member team_id user_id (dbs (arrive w))"
    if "r = Inr n" "n \<noteq> 0"
    using that by (rule_tac tx) (auto dest!: eff split: if_splits)
qed

lemma remove_member_unclear:
  assumes "RemoveTeamMember team_id user_id w = (r, v)" "dbs v \<noteq> dbs (arrive w)"
  shows "(\<exists>n. r = Inr n \<and> n \<noteq> 0) \<or> (\<exists>e. r = Inl e) \<and> (\<exists>n f. fault w n = AckLost f)"
proof (cases r)
  case (Inl e)
  have "runs same_env (remove_member_tx team_id user_id)"
    unfolding remove_member_tx_def [abs_def] by (intro env_rules)
  from inTx_Inl [OF assms(1) [unfolded RemoveTeamMember_def Inl] this] assms(2) Inl
  show ?thesis by auto
next
  case (Inr n)
  from inTx_Inr [OF assms(1) [unfolded RemoveTeamMember_def Inr]] obtain u where
    u: "remove_member_tx team_id user_id ((arrive w)\<lparr> in_tx := Some (tick w) \<rparr>) = (Inr n, u)" "dbs v = dbs u"
    by blast
  with remove_member_tx_effect [OF _ u(1), of "tick w"] assms(2) Inr show ?thesis
    by (auto split: if_splits)
qed

section \<open>The team checks\<close>

lemma unchangedD: "runs unchanged f \<Longrightarrow> f w = (r, v) \<Longrightarrow> isolated w \<Longrightarrow> dbs v = dbs w \<and> isolated v"
  using runsD [of unchanged f w r v] same_env_isolated [of w v] by (simp add: unchanged_def)

definition owns_team :: "uuid \<Rightarrow> uuid \<Rightarrow> db \<Rightarrow> bool" where
  "owns_team team_id user_id d \<longleftrightarrow> in_team team_id user_id d \<and>
     (\<exists>t \<in> set (teams d). t_id t = team_id \<and> t_owner_id t = user_id)"

lemma find_member: "find_row (is_member t u) (team_members d) = None \<longleftrightarrow> \<not> in_team t u d"
  by (auto simp: find_row_None in_team_def)

lemma team_member_sound:
  assumes "isolated w" "RequireTeamMember t u w = (Inr m, v)"
  shows "in_team t u (dbs w) \<and> dbs v = dbs w \<and> isolated v"
proof -
  obtain x w1 where e: "exec (GetTeamMember t u) w = (Inr x, w1)"
    using assms(2) by (auto simp: RequireTeamMember_def split: prod.splits sum.splits if_splits)
  have "find_row (is_member t u) (team_members (dbs w)) = Some x"
    using exec_reading_Inr [OF e [unfolded GetTeamMember_def] assms(1)] by (auto split: option.splits)
  then have "in_team t u (dbs w)" using find_member [of t u "dbs w"] by auto
  with unchangedD [OF unchanged_team_checks(1) assms(2,1)] show ?thesis by simp
qed

lemma team_member_quiet:
  assumes "quiet w"
  shows "RequireTeamMember t u w =
    ((case find_row (is_member t u) (team_members (dbs w)) of None \<Rightarrow> Inl ErrNotMember | Some m \<Rightarrow> Inr m),
     w\<lparr> tick := Suc (tick w) \<rparr>)"
  by (auto simp: RequireTeamMember_def GetTeamMember_def exec_reading_quiet [OF assms] errors_is_def
    split: option.splits)

lemma team_owner_sound:
  assumes "isolated w" "RequireTeamOwner t u w = (Inr team, v)"
  shows "owns_team t u (dbs w) \<and> team \<in> set (teams (dbs w)) \<and> t_id team = t \<and> t_owner_id team = u \<and>
    dbs v = dbs w \<and> isolated v"
proof -
  obtain m w1 where 1: "RequireTeamMember t u w = (Inr m, w1)"
    using assms(2) by (auto simp: RequireTeamOwner_def split: prod.splits sum.splits)
  note s = team_member_sound [OF assms(1) 1]
  with assms(2) 1 obtain w2 where 2: "exec (GetTeamByID t) w1 = (Inr team, w2)" and own: "t_owner_id team = u"
    by (auto simp: RequireTeamOwner_def split: prod.splits sum.splits if_splits)
  have "find_row (\<lambda>x. t_id x = t) (teams (dbs w)) = Some team"
    using exec_reading_Inr [OF 2 [unfolded GetTeamByID_def]] s by (auto split: option.splits)
  then have "team \<in> set (teams (dbs w))" "t_id team = t" by (auto dest: find_row_SomeD)
  with s own unchangedD [OF unchanged_team_checks(2) assms(2,1)] show ?thesis
    by (auto simp: owns_team_def)
qed

lemma team_owner_quiet:
  assumes "quiet w"
  shows "fst (RequireTeamOwner t u w) =
    (case find_row (is_member t u) (team_members (dbs w)) of
       None \<Rightarrow> Inl ErrNotMember
     | Some m \<Rightarrow>
         (case find_row (\<lambda>x. t_id x = t) (teams (dbs w)) of
            None \<Rightarrow> Inl ErrNotMember
          | Some team \<Rightarrow> if t_owner_id team = u then Inr team else Inl ErrNotOwner))"
proof -
  have q: "quiet (w\<lparr> tick := Suc (tick w) \<rparr>)" using assms by simp
  show ?thesis
    by (auto simp: RequireTeamOwner_def team_member_quiet [OF assms] GetTeamByID_def
      exec_reading_quiet [OF q] errors_is_def split: option.splits)
qed

section \<open>Who changes what\<close>

lemma unchanged_writeTeamDetail [runs_intros]: "runs unchanged (writeTeamDetail L t u)"
  unfolding writeTeamDetail_def [abs_def] by (intro unchanged_rules)

lemma update_team_by_owner:
  assumes "isolated w" "handleUpdateTeam L r w = (resp, v)" "dbs v \<noteq> dbs w"
  shows "\<exists>user i. UserFromContext r = Some user \<and> uuid_parse L (rq_path r ''id'') = Some i \<and>
    owns_team i (au_id user) (dbs w)"
proof -
  from assms(2,3) obtain user i name t w1 where
    u: "UserFromContext r = Some user" "uuid_parse L (rq_path r ''id'') = Some i"
    and o: "RequireTeamOwner i (au_id user) w = (Inr t, w1)"
    by (auto simp: handleUpdateTeam_def authenticatedUser_def pathUUID_def
      split: sum.splits option.splits prod.splits
      dest: unchangedD [OF unchanged_team_checks(2) _ assms(1)])
  with team_owner_sound [OF assms(1) o] show ?thesis by blast
qed

lemma delete_team_by_owner:
  assumes "isolated w" "handleDeleteTeam L r w = (resp, v)" "dbs v \<noteq> dbs w"
  shows "\<exists>user i. UserFromContext r = Some user \<and> uuid_parse L (rq_path r ''id'') = Some i \<and>
    owns_team i (au_id user) (dbs w)"
proof -
  from assms(2,3) obtain user i t w1 where
    u: "UserFromContext r = Some user" "uuid_parse L (rq_path r ''id'') = Some i"
    and o: "RequireTeamOwner i (au_id user) w = (Inr t, w1)"
    by (auto simp: handleDeleteTeam_def authenticatedUser_def pathUUID_def
      split: sum.splits option.splits prod.splits
      dest: unchangedD [OF unchanged_team_checks(2) _ assms(1)])
  with team_owner_sound [OF assms(1) o] show ?thesis by blast
qed

text \<open>
  The cases of a removal, whatever fails on the way: nothing is written and the answer is not 204,
  or a caller who may do it removes a member, or that happens and only the answer is an error.
\<close>

lemma delete_member_effect:
  assumes "isolated w" "handleDeleteTeamMember L r w = (resp, v)"
  obtains (kept) "dbs v = dbs w" "rs_status resp \<noteq> 204"
  | (removed) user team_id target t where "UserFromContext r = Some user"
      "uuid_parse L (rq_path r ''team_id'') = Some team_id"
      "uuid_parse L (rq_path r ''user_id'') = Some target"
      "in_team team_id (au_id user) (dbs w)" "t \<in> set (teams (dbs w))" "t_id t = team_id"
      "target \<noteq> t_owner_id t" "t_owner_id t = au_id user \<or> target = au_id user"
      "in_team team_id target (dbs w)" "dbs v = without_member team_id target (dbs w)"
      "rs_status resp = 204 \<or> rs_status resp = 500 \<and> (\<exists>n f. fault w n = AckLost f)"
proof (cases "\<exists>user team_id target m w1 t w2 x.
    UserFromContext r = Some user \<and> uuid_parse L (rq_path r ''team_id'') = Some team_id \<and>
    uuid_parse L (rq_path r ''user_id'') = Some target \<and>
    RequireTeamMember team_id (au_id user) w = (Inr m, w1) \<and>
    exec (GetTeamByID team_id) w1 = (Inr t, w2) \<and> target \<noteq> t_owner_id t \<and>
    (t_owner_id t = au_id user \<or> target = au_id user) \<and> RemoveTeamMember team_id target w2 = (x, v) \<and>
    (rs_status resp = 204 \<longrightarrow> (\<exists>n. x = Inr n \<and> n \<noteq> 0)) \<and>
    (case x of Inl e \<Rightarrow> rs_status resp = 500 | Inr n \<Rightarrow> n \<noteq> 0 \<longrightarrow> rs_status resp = 204)")
  case True
  then obtain user team_id target m w1 t w2 x where
    u: "UserFromContext r = Some user" "uuid_parse L (rq_path r ''team_id'') = Some team_id"
      "uuid_parse L (rq_path r ''user_id'') = Some target" and
    m: "RequireTeamMember team_id (au_id user) w = (Inr m, w1)" and
    t: "exec (GetTeamByID team_id) w1 = (Inr t, w2)" and
    ok: "target \<noteq> t_owner_id t" "t_owner_id t = au_id user \<or> target = au_id user" and
    x: "RemoveTeamMember team_id target w2 = (x, v)" and
    st: "rs_status resp = 204 \<longrightarrow> (\<exists>n. x = Inr n \<and> n \<noteq> 0)"
      "case x of Inl e \<Rightarrow> rs_status resp = 500 | Inr n \<Rightarrow> n \<noteq> 0 \<longrightarrow> rs_status resp = 204" by blast
  note s = team_member_sound [OF assms(1) m]
  have w2: "dbs w2 = dbs w" "isolated w2"
    using exec_readonly_isolated [OF t] s by (auto simp: readonly_team_queries)
  have "find_row (\<lambda>x. t_id x = team_id) (teams (dbs w)) = Some t"
    using exec_reading_Inr [OF t [unfolded GetTeamByID_def]] s by (auto split: option.splits)
  then have tt: "t \<in> set (teams (dbs w))" "t_id t = team_id" by (auto dest: find_row_SomeD)
  have a: "dbs (arrive w2) = dbs w" using w2 by (simp add: arrive_isolated)
  have "same_env w w1" using runsD [OF unchanged_team_checks(1) m] by (simp add: unchanged_def)
  with exec_env [OF t] have env: "fault w2 = fault w" by (simp add: same_env_def)
  show thesis
  proof (cases "dbs v = dbs w \<and> rs_status resp \<noteq> 204")
    case False
    then have e: "in_team team_id target (dbs w) \<and> dbs v = without_member team_id target (dbs w)"
      using remove_member_effect [OF x] st unfolding a by auto
    have "rs_status resp = 204 \<or> rs_status resp = 500 \<and> (\<exists>n f. fault w n = AckLost f)"
      using False remove_member_unclear [OF x] st unfolding a env by auto
    with u s tt ok e show thesis by (intro removed) auto
  qed (rule kept, auto)
next
  case False
  have e: "runs unchanged (exec (GetTeamByID i))" for i
    by (intro runs_unchanged_exec readonly_intros)
  from assms(2) False have "dbs v = dbs w \<and> rs_status resp \<noteq> 204"
    by (auto simp: handleDeleteTeamMember_def authenticatedUser_def pathUUID_def writeAuthzError_def
      split: sum.splits option.splits prod.splits if_splits
      dest!: unchangedD [OF unchanged_team_checks(1) _ assms(1)] unchangedD [OF e])
  then show thesis using kept by blast
qed

end
