(* ===== verification/Invitations.thy ===== *)
theory Invitations
  imports Teams
begin

text \<open>
  Invitations: the transaction \<^verbatim>\<open>AcceptInvitation\<close> of \<^verbatim>\<open>internal/db/store.go\<close>
  and the handlers of \<^verbatim>\<open>internal/api/invitations.go\<close>, with the email rules of
  \<^verbatim>\<open>auth.go\<close> they use.
\<close>

section \<open>Emails\<close>

definition maxEmailLength :: nat where "maxEmailLength = 254"

definition normalizeEmail :: "lib \<Rightarrow> string \<Rightarrow> string" where
  "normalizeEmail L raw = ToLower (lower_uni L) (TrimSpace raw)"

definition validateEmail :: "lib \<Rightarrow> string \<Rightarrow> string option" where
  "validateEmail L email =
     (if email = [] then Some ''email is required''
      else if length email > maxEmailLength then
        Some (''email must be at most '' @ show_nat maxEmailLength @ '' characters'')
      else (case parse_address L email of
          None \<Rightarrow> Some ''email is not a valid address''
        | Some address \<Rightarrow>
            if address \<noteq> email then Some ''email is not a valid address'' else None))"

section \<open>Accepting\<close>

definition accept_tx :: "uuid \<Rightarrow> uuid \<Rightarrow> world \<Rightarrow> (goerr + TeamInvitation) \<times> world" where
  "accept_tx invitation_id user_id w =
     (case exec (UpdateInvitationStatus invitation_id InvitationAccepted) w of
        (Inl err, w) \<Rightarrow> (Inl err, w)
      | (Inr invitation, w) \<Rightarrow>
          (case exec (CreateTeamMemberIfAbsent (i_team_id invitation) user_id) w of
             (Inl err, w) \<Rightarrow> (Inl (Wrapped ''add invitee to team: '' err), w)
           | (Inr _, w) \<Rightarrow> (Inr invitation, w)))"

definition AcceptInvitation :: "uuid \<Rightarrow> uuid \<Rightarrow> world \<Rightarrow> (goerr + TeamInvitation) \<times> world" where
  "AcceptInvitation invitation_id user_id = inTx (accept_tx invitation_id user_id)"

section \<open>Handlers\<close>

record invitationRequest =
  iq_email :: string

definition invitationRequest_fields :: "invitationRequest field list" where
  "invitationRequest_fields = [(''email'', fString (\<lambda>v q. q\<lparr> iq_email := v \<rparr>))]"

definition invitationResponse :: "lib \<Rightarrow> TeamInvitation \<Rightarrow> json" where
  "invitationResponse L i = JObj
     [(''id'', JStr (uuid_string L (i_id i))), (''team_id'', JStr (uuid_string L (i_team_id i))),
      (''email'', JStr (i_email i)), (''status'', JStr (i_status i)),
      (''created_at'', JStr (fmt_time L (i_created_at i)))]"

definition teamInvitationResponse :: "lib \<Rightarrow> uuid \<times> string \<times> time \<Rightarrow> json" where
  "teamInvitationResponse L row = (case row of (i, email, at) \<Rightarrow> JObj
     [(''id'', JStr (uuid_string L i)), (''email'', JStr email), (''created_at'', JStr (fmt_time L at))])"

definition invitationTeamRef :: "lib \<Rightarrow> uuid \<Rightarrow> string \<Rightarrow> json" where
  "invitationTeamRef L i name = JObj [(''id'', JStr (uuid_string L i)), (''name'', JStr name)]"

definition myInvitationResponse :: "lib \<Rightarrow> ListPendingInvitationsForEmailRow \<Rightarrow> json" where
  "myInvitationResponse L row = JObj
     [(''id'', JStr (uuid_string L (li_id row))),
      (''team'', invitationTeamRef L (li_team_id row) (li_team_name row)),
      (''invited_by'', JObj [(''name'', JStr (li_inviter_name row)), (''email'', JStr (li_inviter_email row))]),
      (''created_at'', JStr (fmt_time L (li_created_at row)))]"

definition acceptInvitationResponse :: "lib \<Rightarrow> TeamInvitation \<Rightarrow> Team \<Rightarrow> json" where
  "acceptInvitationResponse L i t = JObj
     [(''id'', JStr (uuid_string L (i_id i))), (''status'', JStr (i_status i)),
      (''team'', invitationTeamRef L (t_id t) (t_name t))]"

definition rejectInvitationResponse :: "lib \<Rightarrow> TeamInvitation \<Rightarrow> json" where
  "rejectInvitationResponse L i = JObj
     [(''id'', JStr (uuid_string L (i_id i))), (''status'', JStr (i_status i))]"

definition handleCreateInvitation :: "lib \<Rightarrow> http_request \<Rightarrow> world \<Rightarrow> response \<times> world" where
  "handleCreateInvitation L r w = (case authenticatedUser r of
     Inl resp \<Rightarrow> (resp, w)
   | Inr user \<Rightarrow> (case pathUUID L r ''team_id'' of
       Inl resp \<Rightarrow> (resp, w)
     | Inr team_id \<Rightarrow> (case RequireTeamOwner team_id (au_id user) w of
         (Inl err, w) \<Rightarrow> (writeAuthzError err, w)
       | (Inr _, w) \<Rightarrow> (case readJSON L invitationRequest_fields \<lparr> iq_email = [] \<rparr> r of
           Inl err \<Rightarrow> (writeBodyError err, w)
         | Inr req \<Rightarrow>
             (let email = normalizeEmail L (iq_email req) in
              case validateEmail L email of
                Some err \<Rightarrow> (writeError 400 codeBadRequest err, w)
              | None \<Rightarrow>
                  if email = au_email user then
                    (writeError 409 codeConflict messageCannotInviteSelf, w)
                  else (case exec (IsEmailTeamMember team_id email) w of
                      (Inl err, w) \<Rightarrow> (serverError err, w)
                    | (Inr isMember, w) \<Rightarrow>
                        if isMember then (writeError 409 codeConflict messageAlreadyMember, w)
                        else (case exec (CreateInvitation team_id email (au_id user)) w of
                            (Inl err, w) \<Rightarrow>
                              if isUniqueViolation err then
                                (writeError 409 codeConflict messageInvitationPending, w)
                              else (serverError err, w)
                          | (Inr invitation, w) \<Rightarrow>
                              (writeJSON 201 (invitationResponse L invitation), w))))))))"

definition handleListTeamInvitations :: "lib \<Rightarrow> http_request \<Rightarrow> world \<Rightarrow> response \<times> world" where
  "handleListTeamInvitations L r w = (case authenticatedUser r of
     Inl resp \<Rightarrow> (resp, w)
   | Inr user \<Rightarrow> (case pathUUID L r ''team_id'' of
       Inl resp \<Rightarrow> (resp, w)
     | Inr team_id \<Rightarrow> (case RequireTeamOwner team_id (au_id user) w of
         (Inl err, w) \<Rightarrow> (writeAuthzError err, w)
       | (Inr _, w) \<Rightarrow> (case exec (ListPendingInvitationsForTeam team_id) w of
           (Inl err, w) \<Rightarrow> (serverError err, w)
         | (Inr rows, w) \<Rightarrow> (writeJSON 200 (JArr (map (teamInvitationResponse L) rows)), w)))))"

definition handleListMyInvitations :: "lib \<Rightarrow> http_request \<Rightarrow> world \<Rightarrow> response \<times> world" where
  "handleListMyInvitations L r w = (case authenticatedUser r of
     Inl resp \<Rightarrow> (resp, w)
   | Inr user \<Rightarrow> (case exec (ListPendingInvitationsForEmail (au_email user)) w of
       (Inl err, w) \<Rightarrow> (serverError err, w)
     | (Inr rows, w) \<Rightarrow> (writeJSON 200 (JArr (map (myInvitationResponse L) rows)), w)))"

definition pendingInvitationForCaller ::
  "lib \<Rightarrow> http_request \<Rightarrow> world \<Rightarrow> (response + AuthUser \<times> TeamInvitation) \<times> world" where
  "pendingInvitationForCaller L r w = (case authenticatedUser r of
     Inl resp \<Rightarrow> (Inl resp, w)
   | Inr user \<Rightarrow> (case pathUUID L r ''id'' of
       Inl resp \<Rightarrow> (Inl resp, w)
     | Inr invitation_id \<Rightarrow> (case exec (GetInvitationByID invitation_id) w of
         (Inl err, w) \<Rightarrow>
           if errors_is err ErrNoRows then
             (Inl (writeError 404 codeNotFound messageInvitationNotFound), w)
           else (Inl (serverError err), w)
       | (Inr invitation, w) \<Rightarrow>
           if i_email invitation \<noteq> au_email user then
             (Inl (writeError 404 codeNotFound messageInvitationNotFound), w)
           else if i_status invitation \<noteq> InvitationPending then
             (Inl (writeError 409 codeConflict messageInvitationAnswered), w)
           else (Inr (user, invitation), w))))"

definition handleAcceptInvitation :: "lib \<Rightarrow> http_request \<Rightarrow> world \<Rightarrow> response \<times> world" where
  "handleAcceptInvitation L r w = (case pendingInvitationForCaller L r w of
     (Inl resp, w) \<Rightarrow> (resp, w)
   | (Inr (user, invitation), w) \<Rightarrow>
       (case AcceptInvitation (i_id invitation) (au_id user) w of
          (Inl err, w) \<Rightarrow>
            if errors_is err ErrNoRows then
              (writeError 409 codeConflict messageInvitationAnswered, w)
            else (serverError err, w)
        | (Inr accepted, w) \<Rightarrow>
            (case exec (GetTeamByID (i_team_id accepted)) w of
               (Inl err, w) \<Rightarrow> (serverError err, w)
             | (Inr team, w) \<Rightarrow> (writeJSON 200 (acceptInvitationResponse L accepted team), w))))"

definition handleRejectInvitation :: "lib \<Rightarrow> http_request \<Rightarrow> world \<Rightarrow> response \<times> world" where
  "handleRejectInvitation L r w = (case pendingInvitationForCaller L r w of
     (Inl resp, w) \<Rightarrow> (resp, w)
   | (Inr (user, invitation), w) \<Rightarrow>
       (case exec (UpdateInvitationStatus (i_id invitation) InvitationRejected) w of
          (Inl err, w) \<Rightarrow>
            if errors_is err ErrNoRows then
              (writeError 409 codeConflict messageInvitationAnswered, w)
            else (serverError err, w)
        | (Inr rejected, w) \<Rightarrow> (writeJSON 200 (rejectInvitationResponse L rejected), w)))"

definition handleDeleteInvitation :: "lib \<Rightarrow> http_request \<Rightarrow> world \<Rightarrow> response \<times> world" where
  "handleDeleteInvitation L r w = (case authenticatedUser r of
     Inl resp \<Rightarrow> (resp, w)
   | Inr user \<Rightarrow> (case pathUUID L r ''id'' of
       Inl resp \<Rightarrow> (resp, w)
     | Inr invitation_id \<Rightarrow> (case exec (GetInvitationByID invitation_id) w of
         (Inl err, w) \<Rightarrow>
           if errors_is err ErrNoRows then
             (writeError 404 codeNotFound messageInvitationNotFound, w)
           else (serverError err, w)
       | (Inr invitation, w) \<Rightarrow>
           (case RequireTeamOwner (i_team_id invitation) (au_id user) w of
              (Inl err, w) \<Rightarrow>
                if errors_is err ErrNotMember \<or> errors_is err ErrNotOwner then
                  (writeError 404 codeNotFound messageInvitationNotFound, w)
                else (serverError err, w)
            | (Inr _, w) \<Rightarrow>
                if i_status invitation \<noteq> InvitationPending then
                  (writeError 409 codeConflict messageInvitationAnswered, w)
                else (case exec (DeleteInvitation invitation_id) w of
                    (Inl err, w) \<Rightarrow> (serverError err, w)
                  | (Inr _, w) \<Rightarrow> (noContent, w))))))"

section \<open>What accepting does\<close>

text \<open>
  The invitation is answered and the invitee is a member; one that was a member before keeps that
  row as it is.
\<close>

definition answer :: "uuid \<Rightarrow> string \<Rightarrow> time \<Rightarrow> db \<Rightarrow> db" where
  "answer i status at d = d\<lparr> team_invitations :=
     update_rows (\<lambda>x. i_id x = i \<and> i_status x = InvitationPending)
       (\<lambda>x. x\<lparr> i_status := status, i_responded_at := Some at \<rparr>) (team_invitations d) \<rparr>"

definition add_member :: "uuid \<Rightarrow> uuid \<Rightarrow> time \<Rightarrow> db \<Rightarrow> db" where
  "add_member team_id user_id at d =
     (if in_team team_id user_id d then d
      else d\<lparr> team_members := team_members d @
        [\<lparr> m_team_id = team_id, m_user_id = user_id, m_all_projects = True, m_created_at = at \<rparr>] \<rparr>)"

definition pending :: "uuid \<Rightarrow> db \<Rightarrow> TeamInvitation option" where
  "pending i d = find_row (\<lambda>x. i_id x = i \<and> i_status x = InvitationPending) (team_invitations d)"

lemma status_distinct [simp]:
  "InvitationAccepted \<noteq> InvitationPending" "InvitationRejected \<noteq> InvitationPending"
  by (simp_all add: InvitationAccepted_def InvitationPending_def InvitationRejected_def)

lemma answer_status_Inr:
  assumes "UpdateInvitationStatus i status s d = Inr (x, d')"
  shows "\<exists>p. pending i d = Some p \<and> d' = answer i status (now s) d \<and>
    x = p\<lparr> i_status := status, i_responded_at := Some (now s) \<rparr>"
  using assms
  by (auto simp: UpdateInvitationStatus_def pending_def answer_def require_Inr with_texts_Inr
    split: option.splits)

lemma in_team_answer [simp]: "in_team t u (answer i st at d) = in_team t u d"
  by (simp add: in_team_def answer_def)

lemma add_member_Inr:
  assumes "CreateTeamMemberIfAbsent t u s d = Inr (x, d')"
  shows "d' = add_member t u (now s) d \<and> in_team t u d'"
proof -
  have "find_row (is_member t u) (team_members d) \<noteq> None \<longleftrightarrow> in_team t u d"
    by (simp add: find_member)
  with assms show ?thesis
    by (auto simp: CreateTeamMemberIfAbsent_def add_member_def require_Inr in_team_def is_member_def
      split: if_splits)
qed

lemma accept_tx_effect:
  assumes "in_tx w = Some m" "accept_tx i u w = (Inr x, v)"
  shows "\<exists>p at. pending i (dbs w) = Some p \<and>
    x = p\<lparr> i_status := InvitationAccepted, i_responded_at := Some at \<rparr> \<and>
    dbs v = add_member (i_team_id p) u at (answer i InvitationAccepted at (dbs w)) \<and>
    in_team (i_team_id p) u (dbs v)"
proof -
  obtain w1 where 1: "exec (UpdateInvitationStatus i InvitationAccepted) w = (Inr x, w1)"
    using assms(2) by (auto simp: accept_tx_def split: prod.splits sum.splits)
  with assms(2) obtain y where 2: "exec (CreateTeamMemberIfAbsent (i_team_id x) u) w1 = (Inr y, v)"
    by (auto simp: accept_tx_def split: prod.splits sum.splits)
  obtain s d where s: "now s = clock w m" "UpdateInvitationStatus i InvitationAccepted s (dbs w) = Inr (x, d)"
      "dbs w1 = d" "in_tx w1 = Some m" "clock w1 = clock w"
    by (rule exec_in_tx [OF 1 assms(1)])
  obtain s' d' where s': "now s' = clock w1 m"
      "CreateTeamMemberIfAbsent (i_team_id x) u s' (dbs w1) = Inr (y, d')" "dbs v = d'"
    by (rule exec_in_tx [OF 2 s(4)])
  from answer_status_Inr [OF s(2)] obtain p where p: "pending i (dbs w) = Some p"
      "d = answer i InvitationAccepted (now s) (dbs w)"
      "x = p\<lparr> i_status := InvitationAccepted, i_responded_at := Some (now s) \<rparr>" by blast
  with add_member_Inr [OF s'(2)] s s' show ?thesis by auto
qed

lemma accept_effect:
  assumes "AcceptInvitation i u w = (r, v)"
  obtains (nothing) e where "r = Inl e" "dbs v = dbs (arrive w)"
  | (joined) p at where "pending i (dbs (arrive w)) = Some p"
      "dbs v = add_member (i_team_id p) u at (answer i InvitationAccepted at (dbs (arrive w)))"
      "in_team (i_team_id p) u (dbs v)"
      "r = Inr (p\<lparr> i_status := InvitationAccepted, i_responded_at := Some at \<rparr>) \<or> (\<exists>e. r = Inl e)"
proof (rule inTx_cases [OF assms [unfolded AcceptInvitation_def]])
  fix x b
  assume b: "accept_tx i u ((arrive w)\<lparr> in_tx := Some (tick w) \<rparr>) = (Inr x, b)"
    "dbs v = dbs b" "r = Inr x \<or> (\<exists>e. r = Inl e)"
  from accept_tx_effect [OF _ b(1), of "tick w"] obtain p at where
    "pending i (dbs (arrive w)) = Some p"
    "x = p\<lparr> i_status := InvitationAccepted, i_responded_at := Some at \<rparr>"
    "dbs b = add_member (i_team_id p) u at (answer i InvitationAccepted at (dbs (arrive w)))"
    "in_team (i_team_id p) u (dbs b)" by auto
  with b joined [of p at] show thesis by simp
qed (rule nothing)

text \<open>After an answer nothing is pending under that id, so a second answer finds no row.\<close>

lemma pending_answer: "status \<noteq> InvitationPending \<Longrightarrow> pending i (answer i status at d) = None"
  unfolding pending_def answer_def by (simp, rule find_row_update_gone) auto

lemma pending_add_member [simp]: "pending i (add_member t u at d) = pending i d"
  by (simp add: pending_def add_member_def)

lemma accept_none_pending:
  assumes "pending i (dbs (arrive w)) = None" "AcceptInvitation i u w = (r, v)"
  shows "(\<exists>e. r = Inl e) \<and> dbs v = dbs (arrive w)"
  using assms(1) by (rule_tac accept_effect [OF assms(2)]) auto

lemma pending_caller_sound:
  assumes "isolated w" "pendingInvitationForCaller L r w = (Inr (user, i), v)"
  shows "UserFromContext r = Some user \<and> uuid_parse L (rq_path r ''id'') = Some (i_id i) \<and>
    i \<in> set (team_invitations (dbs w)) \<and> i_email i = au_email user \<and> i_status i = InvitationPending \<and>
    dbs v = dbs w \<and> isolated v"
proof -
  from assms(2) obtain j where u: "UserFromContext r = Some user" "uuid_parse L (rq_path r ''id'') = Some j"
    and g: "exec (GetInvitationByID j) w = (Inr i, v)"
    and ok: "i_email i = au_email user" "i_status i = InvitationPending"
    by (auto simp: pendingInvitationForCaller_def authenticatedUser_def pathUUID_def
      split: sum.splits option.splits prod.splits if_splits)
  have "find_row (\<lambda>x. i_id x = j) (team_invitations (dbs w)) = Some i"
    using exec_reading_Inr [OF g [unfolded GetInvitationByID_def] assms(1)] by (auto split: option.splits)
  then have "i \<in> set (team_invitations (dbs w))" "i_id i = j" by (auto dest: find_row_SomeD)
  with u ok exec_readonly_isolated [OF g _ assms(1)] show ?thesis
    by (simp add: readonly_team_queries)
qed

lemma unchanged_pending_caller [runs_intros]: "runs unchanged (pendingInvitationForCaller L r)"
  unfolding pendingInvitationForCaller_def [abs_def] by (intro unchanged_rules)

end
