(* ===== verification/Reorder.thy ===== *)
theory Reorder
  imports Http
begin

text \<open>
  Ordered lists: the id lists of requests (\<^verbatim>\<open>parseUUIDs\<close>, \<^verbatim>\<open>checkSameIDSet\<close> of
  \<^verbatim>\<open>projects.go\<close>, \<^verbatim>\<open>dedupeUUIDs\<close> of \<^verbatim>\<open>project_access.go\<close>), and the
  contract all reorder operations share: a bulk update with exactly the ids of a list makes the
  list come out in that order.
\<close>

section \<open>Lists of ids\<close>

fun parseUUIDs :: "lib \<Rightarrow> string list \<Rightarrow> string \<Rightarrow> string + uuid list" where
  "parseUUIDs L [] field = Inr []"
| "parseUUIDs L (v # vs) field =
     (case uuid_parse L v of
        None \<Rightarrow> Inl (field @ '' contains '' @ go_quote L v @ '', which is not a valid uuid'')
      | Some i \<Rightarrow> bindR (parseUUIDs L vs field) (\<lambda>is. Inr (i # is)))"

text \<open>The loop of \<^verbatim>\<open>checkSameIDSet\<close>: \<open>seen\<close> is the map of the ids so far.\<close>

fun check_ids ::
  "lib \<Rightarrow> uuid list \<Rightarrow> uuid list \<Rightarrow> uuid list \<Rightarrow> string \<Rightarrow> string \<Rightarrow> string + uuid list" where
  "check_ids L [] seen expected field one = Inr seen"
| "check_ids L (i # is) seen expected field one =
     (if i \<in> set seen then Inl (field @ '' lists '' @ uuid_string L i @ '' more than once'')
      else if i \<notin> set expected then
        Inl (field @ '' contains '' @ uuid_string L i @ '', which is not '' @ one)
      else check_ids L is (i # seen) expected field one)"

definition checkSameIDSet ::
  "lib \<Rightarrow> uuid list \<Rightarrow> uuid list \<Rightarrow> string \<Rightarrow> string \<Rightarrow> string \<Rightarrow> string option" where
  "checkSameIDSet L got want field one all =
     (let expected = remdups want in
      case check_ids L got [] expected field one of
        Inl err \<Rightarrow> Some err
      | Inr seen \<Rightarrow>
          if length seen \<noteq> length expected then
            Some (field @ '' must list all '' @ show_nat (length expected) @ '' '' @ all @
              '', got '' @ show_nat (length seen))
          else None)"

fun dedupe :: "uuid list \<Rightarrow> uuid list \<Rightarrow> uuid list" where
  "dedupe seen [] = []"
| "dedupe seen (i # is) = (if i \<in> set seen then dedupe seen is else i # dedupe (i # seen) is)"

definition dedupeUUIDs :: "uuid list \<Rightarrow> uuid list" where
  "dedupeUUIDs ids = dedupe [] ids"

lemma parseUUIDs_Inr [result_simps]:
  "parseUUIDs L vs field = Inr is \<longleftrightarrow> map (uuid_parse L) vs = map Some is"
  by (induction vs arbitrary: "is") (auto simp: bindR_Inr_iff map_eq_Cons_conv split: option.splits)

lemma check_ids_Inr:
  "check_ids L is seen expected field one = Inr s \<longleftrightarrow>
     distinct is \<and> set is \<inter> set seen = {} \<and> set is \<subseteq> set expected \<and> s = rev is @ seen"
  by (induction "is" arbitrary: seen) auto

lemma checkSameIDSet_None:
  "checkSameIDSet L got want field one all = None \<longleftrightarrow> distinct got \<and> set got = set want"
proof -
  have "distinct got \<Longrightarrow> set got \<subseteq> set want \<Longrightarrow>
      length got = length (remdups want) \<longleftrightarrow> set got = set want"
    by (metis card_subset_eq distinct_card length_remdups_card_conv List.finite_set)
  then show ?thesis
    by (auto simp: checkSameIDSet_def Let_def check_ids_Inr split: sum.splits)
      (metis Inl_Inr_False check_ids_Inr inf_bot_right set_empty set_remdups subset_refl)+
qed

lemma set_dedupe: "set (dedupe seen is) = set is - set seen"
  by (induction seen "is" rule: dedupe.induct) auto

lemma distinct_dedupe: "distinct (dedupe seen is)"
  by (induction seen "is" rule: dedupe.induct) (auto simp: set_dedupe)

lemma dedupeUUIDs_spec: "distinct (dedupeUUIDs is) \<and> set (dedupeUUIDs is) = set is"
  by (simp add: dedupeUUIDs_def distinct_dedupe set_dedupe)

lemma dedupe_distinct: "distinct is \<Longrightarrow> set is \<inter> set seen = {} \<Longrightarrow> dedupe seen is = is"
  by (induction seen "is" rule: dedupe.induct) auto

section \<open>Check, then write\<close>

text \<open>
  The end of every reorder transaction: read the current ids, let the caller's \<open>check\<close> veto, write.
  The handlers' check is \<^verbatim>\<open>checkSameIDSet\<close>, its error a
  \<^verbatim>\<open>badRequestError\<close>.
\<close>

definition same_ids_check ::
  "lib \<Rightarrow> uuid list \<Rightarrow> string \<Rightarrow> string \<Rightarrow> string \<Rightarrow> uuid list \<Rightarrow> goerr option" where
  "same_ids_check L ids field one all current =
     map_option BadRequest (checkSameIDSet L ids current field one all)"

definition check_then_write ::
  "uuid list query \<Rightarrow> string \<Rightarrow> (uuid list \<Rightarrow> goerr option) \<Rightarrow> unit query \<Rightarrow> string \<Rightarrow>
   world \<Rightarrow> (goerr + unit) \<times> world" where
  "check_then_write current listing_failed check bulk writing_failed w =
     (case exec current w of
        (Inl err, w) \<Rightarrow> (Inl (Wrapped listing_failed err), w)
      | (Inr ids, w) \<Rightarrow>
          (case check ids of
             Some err \<Rightarrow> (Inl err, w)
           | None \<Rightarrow>
               (case exec bulk w of
                  (Inl err, w) \<Rightarrow> (Inl (Wrapped writing_failed err), w)
                | (Inr _, w) \<Rightarrow> (Inr (), w))))"

lemma same_ids_check_None:
  "same_ids_check L ids field one all current = None \<longleftrightarrow> distinct ids \<and> set ids = set current"
  by (simp add: same_ids_check_def checkSameIDSet_None)

lemma check_then_write_Inr:
  assumes "check_then_write current m1 check bulk m2 w = (Inr x, v)" "in_tx w = Some m"
    and "readonly current"
  shows "\<exists>s is s'. current s (dbs w) = Inr (is, dbs w) \<and> check is = None \<and> bulk s' (dbs w) = Inr ((), dbs v)"
proof -
  from assms(1) obtain "is" w1 where 1: "exec current w = (Inr is, w1)" "check is = None"
    and 2: "exec bulk w1 = (Inr (), v)"
    by (auto simp: check_then_write_def split: prod.splits sum.splits option.splits)
  from exec_tx_Inr [OF 1(1) assms(2)] obtain s where s: "current s (dbs w) = Inr (is, dbs w1)" "in_tx w1 = Some m"
    by blast
  then have d: "dbs w1 = dbs w" using assms(3) unfolding readonly_def by blast
  from exec_tx_Inr [OF 2 s(2)] 1(2) s(1) show ?thesis unfolding d by blast
qed

section \<open>The contract of a reorder\<close>

text \<open>
  A table with a scope (the siblings a list consists of), the order column and its tie break. The
  statement \<open>bulk\<close> gives the rows of the scope that the list names their position, counted from
  \<open>base\<close>. \<open>listing\<close> is the order the program shows.
\<close>

locale ordered_rows =
  fixes rows :: "db \<Rightarrow> 'r list" and put :: "'r list \<Rightarrow> db \<Rightarrow> db"
    and rid :: "'r \<Rightarrow> uuid" and mine :: "'k \<Rightarrow> 'r \<Rightarrow> bool"
    and order :: "'r \<Rightarrow> int" and created :: "'r \<Rightarrow> time" and place :: "int \<Rightarrow> 'r \<Rightarrow> 'r"
    and base :: int and bulk :: "'k \<Rightarrow> uuid list \<Rightarrow> unit query"
  assumes rows_put: "rows (put t d) = t"
    and place_id: "rid (place n r) = rid r"
    and place_mine: "mine k (place n r) = mine k r"
    and place_order: "order (place n r) = n"
    and bulk_rows: "bulk k ids s d = Inr ((), put
      (map (\<lambda>r. case position ids (rid r) of
                  None \<Rightarrow> r | Some n \<Rightarrow> if mine k r then place (int n + base) r else r) (rows d)) d)"
begin

definition listing :: "'k \<Rightarrow> db \<Rightarrow> uuid list" where
  "listing k d = map rid (sort_key (\<lambda>r. (order r, created r)) (filter (mine k) (rows d)))"

definition ranked :: "'k \<Rightarrow> uuid list \<Rightarrow> 'r \<Rightarrow> 'r" where
  "ranked k ids r = (case position ids (rid r) of
     None \<Rightarrow> r | Some n \<Rightarrow> if mine k r then place (int n + base) r else r)"

lemma ranked_simps [simp]: "rid (ranked k ids r) = rid r" "mine k' (ranked k ids r) = mine k' r"
  by (simp_all add: ranked_def place_id place_mine split: option.split)

lemma ranked_other: "\<not> mine k r \<Longrightarrow> ranked k ids r = r"
  by (simp add: ranked_def split: option.split)

lemma rows_bulk: "bulk k ids s d = Inr ((), d') \<Longrightarrow> rows d' = map (ranked k ids) (rows d)"
  by (auto simp: bulk_rows rows_put ranked_def)

lemma set_listing: "set (listing k d) = rid ` {r \<in> set (rows d). mine k r}"
  by (simp add: listing_def)

lemma reordered:
  assumes bulk: "bulk k ids s d = Inr ((), d')" and key: "pkey rid (rows d)"
    and ids: "distinct ids" "set ids = set (listing k d)"
  shows "listing k d' = ids"
proof -
  let ?own = "filter (mine k) (rows d')"
  let ?zs = "sort_key (\<lambda>r. (order r, created r)) ?own"
  let ?pos = "\<lambda>i. the (position ids i)"
  have own: "?own = map (ranked k ids) (filter (mine k) (rows d))"
    by (simp add: rows_bulk [OF bulk] filter_map o_def)
  have dist: "distinct (map rid ?zs)"
  proof -
    have "distinct (map rid ?own)"
      using key by (simp add: own pkey_def o_def distinct_map_filter)
    then show ?thesis by (simp add: distinct_map)
  qed
  have zset: "set (map rid ?zs) = set ids"
    using ids(2) by (auto simp: own set_listing image_iff)
  have rank: "order r = int (?pos (rid r)) + base" if "r \<in> set ?own" for r
  proof -
    from that obtain q where q: "q \<in> set (rows d)" "mine k q" "r = ranked k ids q"
      by (auto simp: own)
    then have "rid q \<in> set ids" using ids(2) by (auto simp: set_listing)
    then obtain n where "position ids (rid q) = Some n" by (cases "position ids (rid q)") auto
    with q show ?thesis by (simp add: ranked_def place_order place_id)
  qed
  have "sorted (map (\<lambda>r. (order r, created r)) ?zs)" by simp
  then have "sorted_wrt (\<lambda>a b. order a \<le> order b) ?zs"
    by (auto simp: sorted_wrt_map elim: sorted_wrt_mono_rel [rotated])
  then have "sorted_wrt (\<lambda>a b. ?pos (rid a) \<le> ?pos (rid b)) ?zs"
  proof (rule sorted_wrt_mono_rel [rotated])
    fix a b assume ab: "a \<in> set ?zs" "b \<in> set ?zs" "order a \<le> order b"
    then have "a \<in> set ?own" "b \<in> set ?own" by (simp_all only: set_sort)
    from rank [OF this(1)] rank [OF this(2)] ab(3)
    show "?pos (rid a) \<le> ?pos (rid b)" by simp
  qed
  then have s1: "sorted (map ?pos (map rid ?zs))" by (simp add: sorted_wrt_map)
  have "map ?pos ids = [0..<length ids]"
    using ids(1) by (intro nth_equalityI) (auto simp: position_distinct)
  then have s2: "sorted (map ?pos ids)" and d2: "distinct (map ?pos ids)" by simp_all
  then have inj: "inj_on ?pos (set ids)" by (simp add: distinct_map)
  have d1: "distinct (map ?pos (map rid ?zs))"
  proof (rule iffD2 [OF distinct_map])
    show "distinct (map rid ?zs) \<and> inj_on ?pos (set (map rid ?zs))"
      using dist inj unfolding zset by (rule conjI)
  qed
  have eq: "map ?pos (map rid ?zs) = map ?pos ids"
    by (rule sorted_distinct_set_unique [OF s1 d1 s2 d2]) (simp only: set_map [of ?pos] zset)
  have "inj_on ?pos (set (map rid ?zs) \<union> set ids)"
    using inj unfolding zset by (simp only: Un_absorb)
  from inj_on_map_eq_map [OF this] eq have "map rid ?zs = ids" by (rule iffD1)
  then show ?thesis by (simp add: listing_def)
qed

lemma others_stay:
  assumes "bulk k ids s d = Inr ((), d')"
  shows "filter (\<lambda>r. \<not> mine k r) (rows d') = filter (\<lambda>r. \<not> mine k r) (rows d)"
proof -
  have "filter (\<lambda>r. \<not> mine k r) (map (ranked k ids) t) = filter (\<lambda>r. \<not> mine k r) t" for t
    by (induction t) (auto simp: ranked_other)
  then show ?thesis by (simp add: rows_bulk [OF assms])
qed

lemma rest_stays:
  assumes "bulk k ids s d = Inr ((), d')"
  shows "d' = put (rows d') d"
  using assms by (auto simp: bulk_rows rows_put)

lemma checked:
  assumes "check_then_write current m1 (same_ids_check L ids field one all) (bulk k ids) m2 w = (Inr x, v)"
    and "in_tx w = Some m" "readonly current"
    and "\<And>s d is d'. current s d = Inr (is, d') \<Longrightarrow> set is = set (listing k d)"
    and "pkey rid (rows (dbs w))"
  shows "listing k (dbs v) = ids \<and>
    filter (\<lambda>r. \<not> mine k r) (rows (dbs v)) = filter (\<lambda>r. \<not> mine k r) (rows (dbs w)) \<and>
    dbs v = put (rows (dbs v)) (dbs w)"
proof -
  from check_then_write_Inr [OF assms(1-3)] obtain s "is" s' where
    s: "current s (dbs w) = Inr (is, dbs w)" "distinct ids" "set ids = set is" "bulk k ids s' (dbs w) = Inr ((), dbs v)"
    by (auto simp: same_ids_check_None)
  with reordered [OF s(4) assms(5)] assms(4) [OF s(1)] others_stay [OF s(4)] rest_stays [OF s(4)]
  show ?thesis by blast
qed

end

section \<open>The seven ordered lists of the program\<close>

text \<open>
  Projects of a team and folders of a parent count from 1, the others from 0. The requests and the
  folders of a project are one list per folder, hence the pair as scope.
\<close>

interpretation project_order: ordered_rows projects "\<lambda>t d. d\<lparr> projects := t \<rparr>" p_id
  "\<lambda>k p. p_team_id p = k" p_sort_order p_created_at "\<lambda>n p. p\<lparr> p_sort_order := n \<rparr>" 1
  BulkUpdateProjectOrder
  by unfold_locales (simp_all add: BulkUpdateProjectOrder_def cong: option.case_cong if_cong)

interpretation folder_order: ordered_rows folders "\<lambda>t d. d\<lparr> folders := t \<rparr>" f_id
  "\<lambda>k f. f_project_id f = fst k \<and> f_parent_id f = snd k" f_sort_order f_created_at
  "\<lambda>n f. f\<lparr> f_sort_order := n \<rparr>" 1 "\<lambda>k. BulkUpdateFolderOrder (fst k) (snd k)"
  by unfold_locales (simp_all add: BulkUpdateFolderOrder_def cong: option.case_cong if_cong)

interpretation request_order: ordered_rows requests "\<lambda>t d. d\<lparr> requests := t \<rparr>" r_id
  "\<lambda>k r. r_project_id r = fst k \<and> r_folder_id r = snd k" r_sort_order r_created_at
  "\<lambda>n r. r\<lparr> r_sort_order := n \<rparr>" 0 "\<lambda>k. BulkUpdateRequestOrder (fst k) (snd k)"
  by unfold_locales (simp_all add: BulkUpdateRequestOrder_def cong: option.case_cong if_cong)

interpretation environment_order: ordered_rows environments "\<lambda>t d. d\<lparr> environments := t \<rparr>" e_id
  "\<lambda>k e. e_project_id e = k" e_sort_order e_created_at "\<lambda>n e. e\<lparr> e_sort_order := n \<rparr>" 0
  BulkUpdateEnvironmentOrder
  by unfold_locales (simp_all add: BulkUpdateEnvironmentOrder_def cong: option.case_cong if_cong)

interpretation variable_order: ordered_rows environment_variables
  "\<lambda>t d. d\<lparr> environment_variables := t \<rparr>" v_id
  "\<lambda>k v. v_environment_id v = k" v_sort_order v_created_at "\<lambda>n v. v\<lparr> v_sort_order := n \<rparr>" 0
  BulkUpdateVariableOrder
  by unfold_locales (simp_all add: BulkUpdateVariableOrder_def cong: option.case_cong if_cong)

interpretation proxy_order: ordered_rows proxies "\<lambda>t d. d\<lparr> proxies := t \<rparr>" x_id
  "\<lambda>k x. x_project_id x = k" x_sort_order x_created_at "\<lambda>n x. x\<lparr> x_sort_order := n \<rparr>" 0
  BulkUpdateProxyOrder
  by unfold_locales (simp_all add: BulkUpdateProxyOrder_def cong: option.case_cong if_cong)

interpretation example_order: ordered_rows request_examples "\<lambda>t d. d\<lparr> request_examples := t \<rparr>" ex_id
  "\<lambda>k x. ex_request_id x = k" ex_sort_order ex_created_at "\<lambda>n x. x\<lparr> ex_sort_order := n \<rparr>" 0
  BulkUpdateRequestExampleOrder
  by unfold_locales (simp_all add: BulkUpdateRequestExampleOrder_def cong: option.case_cong if_cong)

end
