(* ===== verification/Projects.thy ===== *)
theory Projects
  imports Invitations Reorder
begin

text \<open>
  Projects and who may open them: the transactions \<^verbatim>\<open>ReplaceProjectAccess\<close> and
  \<^verbatim>\<open>SetMemberProjectAccess\<close> of \<^verbatim>\<open>internal/db/store.go\<close> and the handlers of
  \<^verbatim>\<open>internal/api/projects.go\<close> and \<^verbatim>\<open>project_access.go\<close>.
\<close>

section \<open>Transactions\<close>

definition replace_access_tx :: "uuid \<Rightarrow> uuid list \<Rightarrow> world \<Rightarrow> (goerr + unit) \<times> world" where
  "replace_access_tx project_id user_ids w =
     (case exec (DeleteAllProjectAccess project_id) w of
        (Inl err, w) \<Rightarrow> (Inl (Wrapped ''clear project access: '' err), w)
      | (Inr _, w) \<Rightarrow>
          if length user_ids = 0 then (Inr (), w)
          else
            (case exec (GrantProjectAccess project_id user_ids) w of
               (Inl err, w) \<Rightarrow> (Inl (Wrapped ''grant project access: '' err), w)
             | (Inr _, w) \<Rightarrow> (Inr (), w)))"

definition ReplaceProjectAccess :: "uuid \<Rightarrow> uuid list \<Rightarrow> world \<Rightarrow> (goerr + unit) \<times> world" where
  "ReplaceProjectAccess project_id user_ids = inTx (replace_access_tx project_id user_ids)"

definition member_access_tx ::
  "uuid \<Rightarrow> uuid \<Rightarrow> bool \<Rightarrow> uuid list \<Rightarrow> world \<Rightarrow> (goerr + TeamMember) \<times> world" where
  "member_access_tx team_id user_id all_projects project_ids w =
     (case exec (UpdateMemberAllProjects team_id user_id all_projects) w of
        (Inl err, w) \<Rightarrow> (Inl err, w)
      | (Inr member, w) \<Rightarrow>
          (case exec (DeleteAllUserAccessInTeam user_id team_id) w of
             (Inl err, w) \<Rightarrow> (Inl (Wrapped ''clear member project access: '' err), w)
           | (Inr _, w) \<Rightarrow>
               if all_projects \<or> length project_ids = 0 then (Inr member, w)
               else
                 (case exec (GrantUserProjectAccess project_ids user_id) w of
                    (Inl err, w) \<Rightarrow> (Inl (Wrapped ''grant member project access: '' err), w)
                  | (Inr _, w) \<Rightarrow> (Inr member, w))))"

definition SetMemberProjectAccess ::
  "uuid \<Rightarrow> uuid \<Rightarrow> bool \<Rightarrow> uuid list \<Rightarrow> world \<Rightarrow> (goerr + TeamMember) \<times> world" where
  "SetMemberProjectAccess team_id user_id all_projects project_ids =
     inTx (member_access_tx team_id user_id all_projects project_ids)"

section \<open>Projects\<close>

definition minProjectNameLength :: nat where "minProjectNameLength = 1"
definition maxProjectNameLength :: nat where "maxProjectNameLength = 100"

record projectRequest =
  pq_name :: string

definition projectRequest_fields :: "projectRequest field list" where
  "projectRequest_fields = [(''name'', fString (\<lambda>v q. q\<lparr> pq_name := v \<rparr>))]"

record projectOrderRequest =
  po_project_ids :: "string list"

definition projectOrderRequest_fields :: "projectOrderRequest field list" where
  "projectOrderRequest_fields =
     [(''project_ids'', fStrings po_project_ids (\<lambda>v q. q\<lparr> po_project_ids := v \<rparr>))]"

definition newProjectResponse :: "lib \<Rightarrow> Project \<Rightarrow> json" where
  "newProjectResponse L p = JObj
     [(''id'', JStr (uuid_string L (p_id p))), (''team_id'', JStr (uuid_string L (p_team_id p))),
      (''name'', JStr (p_name p)), (''owner_id'', JStr (uuid_string L (p_owner_id p))),
      (''sort_order'', JInt (p_sort_order p)), (''created_at'', JStr (fmt_time L (p_created_at p)))]"

definition projectSummaryResponse :: "lib \<Rightarrow> Project \<Rightarrow> json" where
  "projectSummaryResponse L p = JObj
     [(''id'', JStr (uuid_string L (p_id p))), (''name'', JStr (p_name p)),
      (''owner_id'', JStr (uuid_string L (p_owner_id p))), (''sort_order'', JInt (p_sort_order p)),
      (''created_at'', JStr (fmt_time L (p_created_at p)))]"

definition readProjectName :: "lib \<Rightarrow> http_request \<Rightarrow> response + string" where
  "readProjectName L r = (case readJSON L projectRequest_fields \<lparr> pq_name = [] \<rparr> r of
     Inl err \<Rightarrow> Inl (writeBodyError err)
   | Inr req \<Rightarrow> (case validateName (pq_name req) minProjectNameLength maxProjectNameLength of
       Inl err \<Rightarrow> Inl (writeError 400 codeBadRequest err)
     | Inr name \<Rightarrow> Inr name))"

definition handleCreateProject :: "lib \<Rightarrow> http_request \<Rightarrow> world \<Rightarrow> response \<times> world" where
  "handleCreateProject L r w = (case authenticatedUser r of
     Inl resp \<Rightarrow> (resp, w)
   | Inr user \<Rightarrow> (case pathUUID L r ''team_id'' of
       Inl resp \<Rightarrow> (resp, w)
     | Inr team_id \<Rightarrow> (case RequireTeamMember team_id (au_id user) w of
         (Inl err, w) \<Rightarrow> (writeAuthzError err, w)
       | (Inr _, w) \<Rightarrow> (case readProjectName L r of
           Inl resp \<Rightarrow> (resp, w)
         | Inr name \<Rightarrow> (case exec (CreateProject team_id name (au_id user)) w of
             (Inl err, w) \<Rightarrow> (serverError err, w)
           | (Inr project, w) \<Rightarrow> (writeJSON 201 (newProjectResponse L project), w))))))"

definition handleListProjects :: "lib \<Rightarrow> http_request \<Rightarrow> world \<Rightarrow> response \<times> world" where
  "handleListProjects L r w = (case authenticatedUser r of
     Inl resp \<Rightarrow> (resp, w)
   | Inr user \<Rightarrow> (case pathUUID L r ''team_id'' of
       Inl resp \<Rightarrow> (resp, w)
     | Inr team_id \<Rightarrow> (case RequireTeamMember team_id (au_id user) w of
         (Inl err, w) \<Rightarrow> (writeAuthzError err, w)
       | (Inr _, w) \<Rightarrow> (case exec (ListAccessibleProjects team_id (au_id user)) w of
           (Inl err, w) \<Rightarrow> (serverError err, w)
         | (Inr rows, w) \<Rightarrow> (writeJSON 200 (JArr (map (projectSummaryResponse L) rows)), w)))))"

definition handleGetProject :: "lib \<Rightarrow> http_request \<Rightarrow> world \<Rightarrow> response \<times> world" where
  "handleGetProject L r w = (case authenticatedUser r of
     Inl resp \<Rightarrow> (resp, w)
   | Inr user \<Rightarrow> (case pathUUID L r ''id'' of
       Inl resp \<Rightarrow> (resp, w)
     | Inr project_id \<Rightarrow> (case RequireProjectAccess project_id (au_id user) w of
         (Inl err, w) \<Rightarrow> (writeAuthzError err, w)
       | (Inr access, w) \<Rightarrow> (writeJSON 200 (newProjectResponse L (pa_project access)), w))))"

definition handleUpdateProject :: "lib \<Rightarrow> http_request \<Rightarrow> world \<Rightarrow> response \<times> world" where
  "handleUpdateProject L r w = (case authenticatedUser r of
     Inl resp \<Rightarrow> (resp, w)
   | Inr user \<Rightarrow> (case pathUUID L r ''id'' of
       Inl resp \<Rightarrow> (resp, w)
     | Inr project_id \<Rightarrow> (case readProjectName L r of
         Inl resp \<Rightarrow> (resp, w)
       | Inr name \<Rightarrow> (case RequireProjectManage project_id (au_id user) w of
           (Inl err, w) \<Rightarrow> (writeAuthzError err, w)
         | (Inr _, w) \<Rightarrow> (case exec (UpdateProjectName project_id name) w of
             (Inl err, w) \<Rightarrow> (serverError err, w)
           | (Inr project, w) \<Rightarrow> (writeJSON 200 (newProjectResponse L project), w))))))"

definition handleDeleteProject :: "lib \<Rightarrow> http_request \<Rightarrow> world \<Rightarrow> response \<times> world" where
  "handleDeleteProject L r w = (case authenticatedUser r of
     Inl resp \<Rightarrow> (resp, w)
   | Inr user \<Rightarrow> (case pathUUID L r ''id'' of
       Inl resp \<Rightarrow> (resp, w)
     | Inr project_id \<Rightarrow> (case RequireProjectManage project_id (au_id user) w of
         (Inl err, w) \<Rightarrow> (writeAuthzError err, w)
       | (Inr _, w) \<Rightarrow> (case exec (DeleteProject project_id) w of
           (Inl err, w) \<Rightarrow> (serverError err, w)
         | (Inr _, w) \<Rightarrow> (noContent, w)))))"

text \<open>The list is read and the order written by two statements, outside a transaction.\<close>

definition handleReorderProjects :: "lib \<Rightarrow> http_request \<Rightarrow> world \<Rightarrow> response \<times> world" where
  "handleReorderProjects L r w = (case authenticatedUser r of
     Inl resp \<Rightarrow> (resp, w)
   | Inr user \<Rightarrow> (case pathUUID L r ''team_id'' of
       Inl resp \<Rightarrow> (resp, w)
     | Inr team_id \<Rightarrow> (case RequireTeamMember team_id (au_id user) w of
         (Inl err, w) \<Rightarrow> (writeAuthzError err, w)
       | (Inr _, w) \<Rightarrow> (case readJSON L projectOrderRequest_fields \<lparr> po_project_ids = [] \<rparr> r of
           Inl err \<Rightarrow> (writeBodyError err, w)
         | Inr req \<Rightarrow> (case parseUUIDs L (po_project_ids req) ''project_ids'' of
             Inl err \<Rightarrow> (writeError 400 codeBadRequest err, w)
           | Inr project_ids \<Rightarrow> (case exec (ListTeamProjectIDs team_id) w of
               (Inl err, w) \<Rightarrow> (serverError err, w)
             | (Inr team_project_ids, w) \<Rightarrow>
                 (case checkSameIDSet L project_ids team_project_ids ''project_ids''
                     ''a project of this team'' ''projects of this team'' of
                    Some err \<Rightarrow> (writeError 400 codeBadRequest err, w)
                  | None \<Rightarrow> (case exec (BulkUpdateProjectOrder team_id project_ids) w of
                      (Inl err, w) \<Rightarrow> (serverError err, w)
                    | (Inr _, w) \<Rightarrow> (noContent, w)))))))))"

section \<open>Access\<close>

record projectAccessRequest =
  paq_user_ids :: "string list"

definition projectAccessRequest_fields :: "projectAccessRequest field list" where
  "projectAccessRequest_fields =
     [(''user_ids'', fStrings paq_user_ids (\<lambda>v q. q\<lparr> paq_user_ids := v \<rparr>))]"

record memberAccessRequest =
  maq_all_projects :: "bool option"
  maq_project_ids :: "string list"

definition memberAccessRequest_fields :: "memberAccessRequest field list" where
  "memberAccessRequest_fields =
     [(''all_projects'', fOptBool (\<lambda>v q. q\<lparr> maq_all_projects := v \<rparr>)),
      (''project_ids'', fStrings maq_project_ids (\<lambda>v q. q\<lparr> maq_project_ids := v \<rparr>))]"

definition uuidStrings :: "lib \<Rightarrow> uuid list \<Rightarrow> json" where
  "uuidStrings L ids = JArr (map (\<lambda>i. JStr (uuid_string L i)) ids)"

definition projectAccessUserResponse :: "lib \<Rightarrow> ListProjectAccessUsersRow \<Rightarrow> json" where
  "projectAccessUserResponse L row = JObj
     [(''user_id'', JStr (uuid_string L (la_user_id row))), (''email'', JStr (la_email row)),
      (''name'', JStr (la_name row))]"

definition memberAccessResponse :: "lib \<Rightarrow> uuid \<Rightarrow> bool \<Rightarrow> uuid list \<Rightarrow> json" where
  "memberAccessResponse L user_id all_projects project_ids = JObj
     [(''user_id'', JStr (uuid_string L user_id)), (''all_projects'', JBool all_projects),
      (''project_ids'', uuidStrings L project_ids)]"

definition requireAllTeamMembers :: "uuid \<Rightarrow> uuid list \<Rightarrow> world \<Rightarrow> (goerr + unit) \<times> world" where
  "requireAllTeamMembers team_id user_ids w =
     (if length user_ids = 0 then (Inr (), w)
      else (case exec (CountTeamMembersInList team_id user_ids) w of
          (Inl err, w) \<Rightarrow> (Inl err, w)
        | (Inr found, w) \<Rightarrow>
            if found \<noteq> length user_ids then
              (Inl (PlainError ''user_ids must all be members of this team''), w)
            else (Inr (), w)))"

definition requireAllTeamProjects :: "uuid \<Rightarrow> uuid list \<Rightarrow> world \<Rightarrow> (goerr + unit) \<times> world" where
  "requireAllTeamProjects team_id project_ids w =
     (if length project_ids = 0 then (Inr (), w)
      else (case exec (CountProjectsInTeam team_id project_ids) w of
          (Inl err, w) \<Rightarrow> (Inl err, w)
        | (Inr found, w) \<Rightarrow>
            if found \<noteq> length project_ids then
              (Inl (PlainError ''project_ids must all be projects of this team''), w)
            else (Inr (), w)))"

definition handleSetProjectAccess :: "lib \<Rightarrow> http_request \<Rightarrow> world \<Rightarrow> response \<times> world" where
  "handleSetProjectAccess L r w = (case authenticatedUser r of
     Inl resp \<Rightarrow> (resp, w)
   | Inr user \<Rightarrow> (case pathUUID L r ''id'' of
       Inl resp \<Rightarrow> (resp, w)
     | Inr project_id \<Rightarrow> (case RequireProjectManage project_id (au_id user) w of
         (Inl err, w) \<Rightarrow> (writeAuthzError err, w)
       | (Inr project, w) \<Rightarrow> (case readJSON L projectAccessRequest_fields \<lparr> paq_user_ids = [] \<rparr> r of
           Inl err \<Rightarrow> (writeBodyError err, w)
         | Inr req \<Rightarrow> (case parseUUIDs L (paq_user_ids req) ''user_ids'' of
             Inl err \<Rightarrow> (writeError 400 codeBadRequest err, w)
           | Inr parsed \<Rightarrow>
               (let user_ids = dedupeUUIDs parsed in
                case requireAllTeamMembers (p_team_id project) user_ids w of
                  (Inl err, w) \<Rightarrow> (writeError 400 codeBadRequest (err_text L err), w)
                | (Inr _, w) \<Rightarrow> (case ReplaceProjectAccess project_id user_ids w of
                    (Inl err, w) \<Rightarrow> (serverError err, w)
                  | (Inr _, w) \<Rightarrow>
                      (writeJSON 200 (JObj [(''user_ids'', uuidStrings L user_ids)]), w))))))))"

definition handleListProjectAccess :: "lib \<Rightarrow> http_request \<Rightarrow> world \<Rightarrow> response \<times> world" where
  "handleListProjectAccess L r w = (case authenticatedUser r of
     Inl resp \<Rightarrow> (resp, w)
   | Inr user \<Rightarrow> (case pathUUID L r ''id'' of
       Inl resp \<Rightarrow> (resp, w)
     | Inr project_id \<Rightarrow> (case RequireProjectManage project_id (au_id user) w of
         (Inl err, w) \<Rightarrow> (writeAuthzError err, w)
       | (Inr _, w) \<Rightarrow> (case exec (ListProjectAccessUsers project_id) w of
           (Inl err, w) \<Rightarrow> (serverError err, w)
         | (Inr rows, w) \<Rightarrow> (writeJSON 200 (JArr (map (projectAccessUserResponse L) rows)), w)))))"

definition handleSetMemberAccess :: "lib \<Rightarrow> http_request \<Rightarrow> world \<Rightarrow> response \<times> world" where
  "handleSetMemberAccess L r w = (case authenticatedUser r of
     Inl resp \<Rightarrow> (resp, w)
   | Inr user \<Rightarrow> (case pathUUID L r ''team_id'' of
       Inl resp \<Rightarrow> (resp, w)
     | Inr team_id \<Rightarrow> (case pathUUID L r ''user_id'' of
         Inl resp \<Rightarrow> (resp, w)
       | Inr target_id \<Rightarrow> (case RequireTeamOwner team_id (au_id user) w of
           (Inl err, w) \<Rightarrow> (writeAuthzError err, w)
         | (Inr team, w) \<Rightarrow>
             if target_id = t_owner_id team then
               (writeError 400 codeBadRequest messageOwnerAccessFixed, w)
             else (case readJSON L memberAccessRequest_fields
                 \<lparr> maq_all_projects = None, maq_project_ids = [] \<rparr> r of
               Inl err \<Rightarrow> (writeBodyError err, w)
             | Inr req \<Rightarrow> (case maq_all_projects req of
                 None \<Rightarrow> (writeError 400 codeBadRequest ''all_projects is required'', w)
               | Some all_projects \<Rightarrow>
                   (case parseUUIDs L (maq_project_ids req) ''project_ids'' of
                      Inl err \<Rightarrow> (writeError 400 codeBadRequest err, w)
                    | Inr parsed \<Rightarrow>
                        (let project_ids = dedupeUUIDs parsed in
                         case (if \<not> all_projects then requireAllTeamProjects team_id project_ids w
                               else (Inr (), w)) of
                           (Inl err, w) \<Rightarrow> (writeError 400 codeBadRequest (err_text L err), w)
                         | (Inr _, w) \<Rightarrow>
                             (case SetMemberProjectAccess team_id target_id all_projects project_ids w of
                                (Inl err, w) \<Rightarrow>
                                  if errors_is err ErrNoRows then
                                    (writeError 404 codeNotFound messageMemberNotFound, w)
                                  else (serverError err, w)
                              | (Inr member, w) \<Rightarrow>
                                  (writeJSON 200 (memberAccessResponse L target_id (m_all_projects member)
                                     (if m_all_projects member then [] else project_ids)), w)))))))))) "

section \<open>What the transactions do to the grants\<close>

text \<open>The grants of a user in a team.\<close>

definition team_grants :: "uuid \<Rightarrow> uuid \<Rightarrow> db \<Rightarrow> (uuid \<times> uuid) set" where
  "team_grants team_id user_id d =
     {g \<in> grants (project_access d). snd g = user_id \<and>
        (\<exists>p \<in> set (projects d). p_id p = fst g \<and> p_team_id p = team_id)}"

lemma grants_delete:
  "grants (delete_rows (\<lambda>a. Q (a_project_id a) (a_user_id a)) t) = {g \<in> grants t. \<not> Q (fst g) (snd g)}"
  by (auto simp: grants_def set_delete_rows)

lemma clear_project_Inr:
  assumes "DeleteAllProjectAccess p s d = Inr (x, d')"
  obtains a where "d' = d\<lparr> project_access := a \<rparr>" "grants a = {g \<in> grants (project_access d). fst g \<noteq> p}"
  using assms grants_delete [of "\<lambda>q _. q = p"] by (auto simp: DeleteAllProjectAccess_def)

lemma clear_member_Inr:
  assumes "DeleteAllUserAccessInTeam u t s d = Inr (x, d')"
  obtains a where "d' = d\<lparr> project_access := a \<rparr>" "grants a = grants (project_access d) - team_grants t u d"
proof
  let ?Q = "\<lambda>q v. v = u \<and> (\<exists>p \<in> set (projects d). q = p_id p \<and> p_team_id p = t)"
  show "d' = d\<lparr> project_access := delete_rows (\<lambda>a. ?Q (a_project_id a) (a_user_id a)) (project_access d) \<rparr>"
    using assms by (simp add: DeleteAllUserAccessInTeam_def)
  show "grants (delete_rows (\<lambda>a. ?Q (a_project_id a) (a_user_id a)) (project_access d)) =
      grants (project_access d) - team_grants t u d"
    by (auto simp: grants_delete [of ?Q] team_grants_def)
qed

lemma grant_project_Inr:
  assumes "GrantProjectAccess p us s d = Inr (x, d')"
  obtains a where "d' = d\<lparr> project_access := a \<rparr>" "grants a = {p} \<times> set us \<union> grants (project_access d)"
proof
  from grant_pairs_Inr [OF assms [unfolded GrantProjectAccess_def]]
  show "d' = d\<lparr> project_access := project_access d' \<rparr>"
    and "grants (project_access d') = {p} \<times> set us \<union> grants (project_access d)" by auto
qed

lemma grant_member_Inr:
  assumes "GrantUserProjectAccess ps u s d = Inr (x, d')"
  obtains a where "d' = d\<lparr> project_access := a \<rparr>" "grants a = set ps \<times> {u} \<union> grants (project_access d)"
proof
  from grant_pairs_Inr [OF assms [unfolded GrantUserProjectAccess_def]]
  show "d' = d\<lparr> project_access := project_access d' \<rparr>"
    and "grants (project_access d') = set ps \<times> {u} \<union> grants (project_access d)" by auto
qed

lemma set_all_Inr:
  "UpdateMemberAllProjects t u all s d = Inr (x, d') \<Longrightarrow>
     in_team t u d \<and> m_all_projects x = all \<and>
     d' = d\<lparr> team_members := update_rows (is_member t u) (\<lambda>m. m\<lparr> m_all_projects := all \<rparr>) (team_members d) \<rparr>"
  using find_member [of t u d] by (auto simp: UpdateMemberAllProjects_def split: option.splits)

lemma replace_access_tx_effect:
  assumes "in_tx w = Some m" "replace_access_tx p us w = (Inr x, v)"
  shows "\<exists>a. dbs v = dbs w\<lparr> project_access := a \<rparr> \<and>
    grants a = {g \<in> grants (project_access (dbs w)). fst g \<noteq> p} \<union> {p} \<times> set us"
proof -
  obtain w1 where 1: "exec (DeleteAllProjectAccess p) w = (Inr (), w1)"
    using assms(2) by (auto simp: replace_access_tx_def split: prod.splits sum.splits)
  from exec_tx_Inr [OF 1 assms(1)] obtain s where
    s: "DeleteAllProjectAccess p s (dbs w) = Inr ((), dbs w1)" "in_tx w1 = Some m" by blast
  from clear_project_Inr [OF s(1)] obtain a where
    a: "dbs w1 = dbs w\<lparr> project_access := a \<rparr>" "grants a = {g \<in> grants (project_access (dbs w)). fst g \<noteq> p}" .
  show ?thesis
  proof (cases "us = []")
    case True
    with assms(2) 1 have "v = w1" by (simp add: replace_access_tx_def)
    with True a show ?thesis by auto
  next
    case False
    with assms(2) 1 have 2: "exec (GrantProjectAccess p us) w1 = (Inr (), v)"
      by (auto simp: replace_access_tx_def split: prod.splits sum.splits)
    from exec_tx_Inr [OF 2 s(2)] obtain s' where "GrantProjectAccess p us s' (dbs w1) = Inr ((), dbs v)"
      by blast
    from grant_project_Inr [OF this] obtain b where
      "dbs v = dbs w1\<lparr> project_access := b \<rparr>" "grants b = {p} \<times> set us \<union> grants (project_access (dbs w1))" .
    with a show ?thesis by (auto simp: Un_commute)
  qed
qed

lemma replace_access_effect:
  assumes "ReplaceProjectAccess p us w = (r, v)"
  obtains (nothing) e where "r = Inl e" "dbs v = dbs (arrive w)"
  | (replaced) a where "dbs v = (dbs (arrive w))\<lparr> project_access := a \<rparr>"
      "grants a = {g \<in> grants (project_access (dbs (arrive w))). fst g \<noteq> p} \<union> {p} \<times> set us"
proof (rule inTx_cases [OF assms [unfolded ReplaceProjectAccess_def]])
  fix x u
  assume "replace_access_tx p us ((arrive w)\<lparr> in_tx := Some (tick w) \<rparr>) = (Inr x, u)" "dbs v = dbs u"
  with replace_access_tx_effect [OF _ this(1), of "tick w"] show thesis
    using replaced by auto
qed (rule nothing)

definition with_access :: "uuid \<Rightarrow> uuid \<Rightarrow> bool \<Rightarrow> ProjectAccess list \<Rightarrow> db \<Rightarrow> db" where
  "with_access t u all a d = d\<lparr>
     team_members := update_rows (is_member t u) (\<lambda>m. m\<lparr> m_all_projects := all \<rparr>) (team_members d),
     project_access := a \<rparr>"

lemma member_access_tx_effect:
  assumes "in_tx w = Some m" "member_access_tx t u all ps w = (Inr x, v)"
  shows "\<exists>a. in_team t u (dbs w) \<and> m_all_projects x = all \<and> dbs v = with_access t u all a (dbs w) \<and>
    grants a = (grants (project_access (dbs w)) - team_grants t u (dbs w)) \<union> (if all then {} else set ps \<times> {u})"
proof -
  obtain w1 where 1: "exec (UpdateMemberAllProjects t u all) w = (Inr x, w1)"
    using assms(2) by (auto simp: member_access_tx_def split: prod.splits sum.splits if_splits)
  with assms(2) obtain w2 where 2: "exec (DeleteAllUserAccessInTeam u t) w1 = (Inr (), w2)"
    by (auto simp: member_access_tx_def split: prod.splits sum.splits if_splits)
  from exec_tx_Inr [OF 1 assms(1)] obtain s1 where
    s1: "UpdateMemberAllProjects t u all s1 (dbs w) = Inr (x, dbs w1)" "in_tx w1 = Some m" by blast
  from exec_tx_Inr [OF 2 s1(2)] obtain s2 where
    s2: "DeleteAllUserAccessInTeam u t s2 (dbs w1) = Inr ((), dbs w2)" "in_tx w2 = Some m" by blast
  note m = set_all_Inr [OF s1(1)]
  from clear_member_Inr [OF s2(1)] obtain a where
    a: "dbs w2 = dbs w1\<lparr> project_access := a \<rparr>"
      "grants a = grants (project_access (dbs w1)) - team_grants t u (dbs w1)" .
  have a': "dbs w2 = with_access t u all a (dbs w)"
    "grants a = grants (project_access (dbs w)) - team_grants t u (dbs w)"
    using a m by (simp_all add: with_access_def team_grants_def)
  show ?thesis
  proof (cases "all \<or> ps = []")
    case True
    with assms(2) 1 2 have "v = w2" by (auto simp: member_access_tx_def)
    with True a' m show ?thesis by auto
  next
    case False
    with assms(2) 1 2 have 3: "exec (GrantUserProjectAccess ps u) w2 = (Inr (), v)"
      by (auto simp: member_access_tx_def split: prod.splits sum.splits)
    from exec_tx_Inr [OF 3 s2(2)] obtain s3 where
      "GrantUserProjectAccess ps u s3 (dbs w2) = Inr ((), dbs v)" by blast
    from grant_member_Inr [OF this] obtain b where b: "dbs v = dbs w2\<lparr> project_access := b \<rparr>"
      "grants b = set ps \<times> {u} \<union> grants (project_access (dbs w2))" .
    have "dbs v = with_access t u all b (dbs w)" using a'(1) b(1) by (simp add: with_access_def)
    moreover have "grants b = (grants (project_access (dbs w)) - team_grants t u (dbs w)) \<union> set ps \<times> {u}"
      using a' b(2) by (simp add: with_access_def Un_commute)
    ultimately show ?thesis using False m by auto
  qed
qed

lemma member_access_effect:
  assumes "SetMemberProjectAccess t u all ps w = (r, v)"
  obtains (nothing) e where "r = Inl e" "dbs v = dbs (arrive w)"
  | (written) x a where "in_team t u (dbs (arrive w))" "dbs v = with_access t u all a (dbs (arrive w))"
      "grants a = (grants (project_access (dbs (arrive w))) - team_grants t u (dbs (arrive w))) \<union>
         (if all then {} else set ps \<times> {u})"
      "m_all_projects x = all" "r = Inr x \<or> (\<exists>e. r = Inl e)"
proof (rule inTx_cases [OF assms [unfolded SetMemberProjectAccess_def]])
  fix x b
  assume "member_access_tx t u all ps ((arrive w)\<lparr> in_tx := Some (tick w) \<rparr>) = (Inr x, b)" "dbs v = dbs b"
    "r = Inr x \<or> (\<exists>e. r = Inl e)"
  with member_access_tx_effect [OF _ this(1), of "tick w"] show thesis
    using written by auto
qed (rule nothing)

section \<open>What the lists of ids are checked for\<close>

lemma counted_all:
  assumes "distinct us" "distinct (map key (filter Q t))" "\<And>r. r \<in> set t \<Longrightarrow> Q r \<Longrightarrow> key r \<in> set us"
    and "length (filter Q t) = length us" "u \<in> set us"
  shows "\<exists>r \<in> set t. Q r \<and> key r = u"
proof -
  have "set (map key (filter Q t)) = set us"
  proof (rule card_subset_eq)
    show "set (map key (filter Q t)) \<subseteq> set us" using assms(3) by auto
    show "card (set (map key (filter Q t))) = card (set us)"
      using assms(1,2,4) by (metis distinct_card length_map)
  qed simp
  then have "u \<in> key ` {r \<in> set t. Q r}" using assms(5) by simp
  then show ?thesis by blast
qed

definition member_keys :: "db \<Rightarrow> bool" where
  "member_keys d \<longleftrightarrow> pkey (\<lambda>m. (m_team_id m, m_user_id m)) (team_members d)"

definition project_in :: "uuid \<Rightarrow> db \<Rightarrow> uuid \<Rightarrow> bool" where
  "project_in team_id d i \<longleftrightarrow> (\<exists>p \<in> set (projects d). p_id p = i \<and> p_team_id p = team_id)"

lemma distinct_filter_key:
  assumes "distinct (map (\<lambda>r. (f r, g r)) t)" "\<And>r. Q r \<Longrightarrow> f r = k"
  shows "distinct (map g (filter Q t))"
  using assms by (induction t) auto

lemma all_members:
  assumes "isolated w" "requireAllTeamMembers t us w = (Inr (), v)" "distinct us" "member_keys (dbs w)"
  shows "\<forall>u \<in> set us. in_team t u (dbs w)"
proof (cases "us = []")
  case False
  with assms(2) obtain n w1 where "exec (CountTeamMembersInList t us) w = (Inr n, w1)" "n = length us"
    by (auto simp: requireAllTeamMembers_def split: prod.splits sum.splits if_splits)
  from exec_reading_Inr [OF this(1) [unfolded CountTeamMembersInList_def] assms(1)] this(2)
  have n: "length (filter (\<lambda>m. m_team_id m = t \<and> m_user_id m \<in> set us) (team_members (dbs w))) = length us"
    by simp
  have "distinct (map m_user_id (filter (\<lambda>m. m_team_id m = t \<and> m_user_id m \<in> set us) (team_members (dbs w))))"
    by (rule distinct_filter_key [of m_team_id]) (use assms(4) in \<open>simp_all add: member_keys_def pkey_def\<close>)
  from counted_all [OF assms(3) this _ n] show ?thesis
    by (auto simp: in_team_def is_member_def)
qed simp

lemma all_projects:
  assumes "isolated w" "requireAllTeamProjects t ps w = (Inr (), v)" "distinct ps" "access_keys (dbs w)"
  shows "\<forall>p \<in> set ps. project_in t (dbs w) p"
proof (cases "ps = []")
  case False
  with assms(2) obtain n w1 where "exec (CountProjectsInTeam t ps) w = (Inr n, w1)" "n = length ps"
    by (auto simp: requireAllTeamProjects_def split: prod.splits sum.splits if_splits)
  from exec_reading_Inr [OF this(1) [unfolded CountProjectsInTeam_def] assms(1)] this(2)
  have n: "length (filter (\<lambda>p. p_team_id p = t \<and> p_id p \<in> set ps) (projects (dbs w))) = length ps"
    by simp
  have "distinct (map p_id (filter (\<lambda>p. p_team_id p = t \<and> p_id p \<in> set ps) (projects (dbs w))))"
    using assms(4) by (simp add: access_keys_def pkey_def distinct_map_filter)
  from counted_all [OF assms(3) this _ n] show ?thesis
    by (auto simp: project_in_def)
qed simp

lemma unchanged_all_checks [runs_intros]:
  "runs unchanged (requireAllTeamMembers t us)" "runs unchanged (requireAllTeamProjects t ps)"
  unfolding requireAllTeamMembers_def [abs_def] requireAllTeamProjects_def [abs_def]
  by (intro unchanged_rules)+

section \<open>What setting a member's access means\<close>

lemma with_access_simps [simp]:
  "projects (with_access t u all a d) = projects d" "teams (with_access t u all a d) = teams d"
  "project_access (with_access t u all a d) = a"
  by (simp_all add: with_access_def)

text \<open>The member row of a caller, as the access rule reads it.\<close>

definition admitted :: "db \<Rightarrow> uuid \<Rightarrow> uuid \<Rightarrow> bool \<Rightarrow> bool" where
  "admitted d team_id user_id extra \<longleftrightarrow>
     (\<exists>m \<in> set (team_members d). is_member team_id user_id m \<and> (m_all_projects m \<or> extra))"

lemma admitted_with_access:
  "admitted (with_access t u all a d) t' u' x \<longleftrightarrow>
     (if t' = t \<and> u' = u then in_team t u d \<and> (all \<or> x) else admitted d t' u' x)"
proof -
  have m: "(is_member t' u' (if is_member t u m then m\<lparr> m_all_projects := all \<rparr> else m) \<and>
      (m_all_projects (if is_member t u m then m\<lparr> m_all_projects := all \<rparr> else m) \<or> x)) =
    (is_member t' u' m \<and> ((if t' = t \<and> u' = u then all else m_all_projects m) \<or> x))" for m
    by (auto simp: is_member_def)
  have tm: "team_members (with_access t u all a d) =
      update_rows (is_member t u) (\<lambda>m. m\<lparr> m_all_projects := all \<rparr>) (team_members d)"
    by (simp add: with_access_def)
  have "admitted (with_access t u all a d) t' u' x \<longleftrightarrow>
    (\<exists>m \<in> set (team_members d). is_member t' u' m \<and>
       ((if t' = t \<and> u' = u then all else m_all_projects m) \<or> x))"
    unfolding admitted_def tm set_update_rows bex_simps(7) m ..
  then show ?thesis by (cases "t' = t \<and> u' = u") (simp_all add: admitted_def in_team_def, blast)
qed

lemma can_open_admitted:
  "can_open d u i \<longleftrightarrow> (\<exists>p \<in> set (projects d). \<exists>t \<in> set (teams d). p_id p = i \<and> t_id t = p_team_id p \<and>
     admitted d (p_team_id p) u
       (t_owner_id t = u \<or> p_owner_id p = u \<or> (p_id p, u) \<in> grants (project_access d)))"
  unfolding can_open_def opens_def admitted_def by blast

text \<open>
  The projects of the team the member may open are those it owns and, unless it has all of them, the
  granted ones. Nobody else's access and no other team's changes.
\<close>

lemma access_after:
  assumes "access_keys d" "in_team t u d" "T \<in> set (teams d)" "t_id T = t" "t_owner_id T \<noteq> u"
    and "p \<in> set (projects d)" "p_team_id p = t"
  shows "can_open (with_access t u all a d) u (p_id p) \<longleftrightarrow>
    all \<or> p_owner_id p = u \<or> (p_id p, u) \<in> grants a"
proof -
  have p: "q = p" if "q \<in> set (projects d)" "p_id q = p_id p" for q
    using assms(1,6) that by (auto simp: access_keys_def dest: pkey_unique)
  have T: "S = T" if "S \<in> set (teams d)" "t_id S = t" for S
    using assms(1,3,4) that by (auto simp: access_keys_def dest: pkey_unique)
  have "can_open (with_access t u all a d) u (p_id p) \<longleftrightarrow>
    admitted (with_access t u all a d) t u
      (t_owner_id T = u \<or> p_owner_id p = u \<or> (p_id p, u) \<in> grants a)"
    unfolding can_open_admitted with_access_simps using p T assms(3,4,6,7) by metis
  then show ?thesis using assms(2,5) by (simp add: admitted_with_access)
qed

lemma access_elsewhere:
  assumes "\<not> (v = u \<and> project_in t d i)" "(i, v) \<in> grants a \<longleftrightarrow> (i, v) \<in> grants (project_access d)"
  shows "can_open (with_access t u all a d) v i = can_open d v i"
proof -
  have "admitted (with_access t u all a d) (p_team_id p) v x = admitted d (p_team_id p) v x"
    if "p \<in> set (projects d)" "p_id p = i" for p x
    using assms(1) that by (auto simp: admitted_with_access project_in_def)
  with assms(2) show ?thesis unfolding can_open_admitted with_access_simps
    by (intro bex_cong refl conj_cong) simp_all
qed

section \<open>Answers of the handlers\<close>

lemma not_ok [simp]:
  "rs_status (writeAuthzError e) \<noteq> 200" "rs_status (writeAuthzError e) \<noteq> 201"
  "rs_status (writeAuthzError e) \<noteq> 204"
  "rs_status (writeBodyError b) \<noteq> 200" "rs_status (writeBodyError b) \<noteq> 201"
  "rs_status (writeBodyError b) \<noteq> 204"
  using authzError_status [of e] writeBodyError_status [of b] by auto

lemma readProjectName_status: "readProjectName L r = Inl resp \<Longrightarrow> rs_status resp \<in> {400, 413}"
  using writeBodyError_status
  by (auto simp: readProjectName_def split: sum.splits)

lemma authenticatedUser_Inr [result_simps]:
  "authenticatedUser r = Inr user \<longleftrightarrow> UserFromContext r = Some user"
  by (simp add: authenticatedUser_def split: option.split)

lemma pathUUID_Inr [result_simps]: "pathUUID L r n = Inr i \<longleftrightarrow> uuid_parse L (rq_path r n) = Some i"
  by (simp add: pathUUID_def split: option.split)

lemma authenticatedUser_status: "authenticatedUser r = Inl resp \<Longrightarrow> rs_status resp = 500"
  by (auto simp: authenticatedUser_def split: option.splits)

lemma set_member_ok:
  assumes "isolated w" "handleSetMemberAccess L r w = (resp, v)" "rs_status resp = 200"
  shows "\<exists>user t target T req all parsed a. UserFromContext r = Some user \<and>
    uuid_parse L (rq_path r ''team_id'') = Some t \<and> uuid_parse L (rq_path r ''user_id'') = Some target \<and>
    owns_team t (au_id user) (dbs w) \<and> T \<in> set (teams (dbs w)) \<and> t_id T = t \<and>
    t_owner_id T \<noteq> target \<and> in_team t target (dbs w) \<and>
    readJSON L memberAccessRequest_fields \<lparr> maq_all_projects = None, maq_project_ids = [] \<rparr> r = Inr req \<and>
    maq_all_projects req = Some all \<and> map (uuid_parse L) (maq_project_ids req) = map Some parsed \<and>
    (\<not> all \<longrightarrow> access_keys (dbs w) \<longrightarrow> (\<forall>p \<in> set parsed. project_in t (dbs w) p)) \<and>
    dbs v = with_access t target all a (dbs w) \<and>
    grants a = (grants (project_access (dbs w)) - team_grants t target (dbs w)) \<union>
      (if all then {} else set parsed \<times> {target})"
proof -
  from assms(2,3) obtain user t target T w1 req all parsed w2 x where
    u: "UserFromContext r = Some user" "uuid_parse L (rq_path r ''team_id'') = Some t"
      "uuid_parse L (rq_path r ''user_id'') = Some target" and
    o: "RequireTeamOwner t (au_id user) w = (Inr T, w1)" "target \<noteq> t_owner_id T" and
    q: "readJSON L memberAccessRequest_fields \<lparr> maq_all_projects = None, maq_project_ids = [] \<rparr> r = Inr req"
      "maq_all_projects req = Some all" "parseUUIDs L (maq_project_ids req) ''project_ids'' = Inr parsed" and
    c: "(if \<not> all then requireAllTeamProjects t (dedupeUUIDs parsed) w1 else (Inr (), w1)) = (Inr (), w2)" and
    x: "SetMemberProjectAccess t target all (dedupeUUIDs parsed) w2 = (Inr x, v)"
    by (auto simp: handleSetMemberAccess_def result_simps Let_def
      dest!: authenticatedUser_status pathUUID_status
      split: sum.splits option.splits prod.splits if_splits)
  note s = team_owner_sound [OF assms(1) o(1)]
  have w2: "dbs w2 = dbs w" "isolated w2"
    using c s unchangedD [OF unchanged_all_checks(2)] by (auto split: if_splits)
  have all: "\<forall>p \<in> set parsed. project_in t (dbs w) p" if "\<not> all" "access_keys (dbs w)"
    using all_projects [of w1 t "dedupeUUIDs parsed" w2] c s that dedupeUUIDs_spec [of parsed] by simp
  from x have "\<exists>a. in_team t target (dbs w) \<and> dbs v = with_access t target all a (dbs w) \<and>
      grants a = (grants (project_access (dbs w)) - team_grants t target (dbs w)) \<union>
        (if all then {} else set parsed \<times> {target})"
    by (rule member_access_effect)
      (use w2 dedupeUUIDs_spec [of parsed] in \<open>auto simp: arrive_isolated\<close>)
  with u o q s all show ?thesis by (auto simp: parseUUIDs_Inr)
qed

lemma project_manage_sound:
  assumes "isolated w" "RequireProjectManage i u w = (Inr p, v)"
  shows "p \<in> set (projects (dbs w)) \<and> p_id p = i \<and> can_manage (dbs w) u i \<and> dbs v = dbs w \<and>
    isolated v \<and> tick v = Suc (tick w) \<and> same_env w v"
proof -
  from assms(2) obtain a where a: "RequireProjectAccess i u w = (Inr a, v)" "pa_can_manage a" "p = pa_project a"
    by (auto simp: RequireProjectManage_def split: prod.splits sum.splits if_splits)
  from project_access_sound [OF assms(1) a(1)] a(2,3) obtain t where
    t: "p_id p = i" "opens (dbs w) u p t" "t_owner_id t = u \<or> p_owner_id p = u" by auto
  then have "p \<in> set (projects (dbs w))" "t \<in> set (teams (dbs w))" by (simp_all add: opens_def)
  moreover from this t have "can_manage (dbs w) u i" by (auto simp: can_manage_def)
  moreover from a(1) have "tick v = Suc (tick w)"
    by (auto simp: RequireProjectAccess_def exec_def Let_def
      split: prod.splits sum.splits if_splits outcome.splits)
  moreover note unchangedD [OF unchanged_project_checks(2) assms(2,1)]
    runsD [OF runs_env_of_unchanged [OF unchanged_project_checks(2)] assms(2)]
  ultimately show ?thesis using t(1) by simp
qed

lemma set_project_ok:
  assumes "isolated w" "handleSetProjectAccess L r w = (resp, v)" "rs_status resp = 200"
  shows "\<exists>user i p req parsed a. UserFromContext r = Some user \<and>
    uuid_parse L (rq_path r ''id'') = Some i \<and> can_manage (dbs w) (au_id user) i \<and>
    p \<in> set (projects (dbs w)) \<and> p_id p = i \<and>
    readJSON L projectAccessRequest_fields \<lparr> paq_user_ids = [] \<rparr> r = Inr req \<and>
    map (uuid_parse L) (paq_user_ids req) = map Some parsed \<and>
    (member_keys (dbs w) \<longrightarrow> (\<forall>u \<in> set parsed. in_team (p_team_id p) u (dbs w))) \<and>
    dbs v = (dbs w)\<lparr> project_access := a \<rparr> \<and>
    grants a = {g \<in> grants (project_access (dbs w)). fst g \<noteq> i} \<union> {i} \<times> set parsed"
proof -
  from assms(2,3) obtain user i p w1 req parsed w2 x where
    u: "UserFromContext r = Some user" "uuid_parse L (rq_path r ''id'') = Some i" and
    o: "RequireProjectManage i (au_id user) w = (Inr p, w1)" and
    q: "readJSON L projectAccessRequest_fields \<lparr> paq_user_ids = [] \<rparr> r = Inr req"
      "parseUUIDs L (paq_user_ids req) ''user_ids'' = Inr parsed" and
    c: "requireAllTeamMembers (p_team_id p) (dedupeUUIDs parsed) w1 = (Inr (), w2)" and
    x: "ReplaceProjectAccess i (dedupeUUIDs parsed) w2 = (Inr x, v)"
    by (auto simp: handleSetProjectAccess_def result_simps Let_def
      dest!: authenticatedUser_status pathUUID_status split: sum.splits option.splits prod.splits)
  note s = project_manage_sound [OF assms(1) o]
  have w2: "dbs w2 = dbs w" "isolated w2"
    using c s unchangedD [OF unchanged_all_checks(1) c] by simp_all
  have all: "\<forall>u \<in> set parsed. in_team (p_team_id p) u (dbs w)" if "member_keys (dbs w)"
    using all_members [OF _ c] s that dedupeUUIDs_spec [of parsed] by simp
  from x have "\<exists>a. dbs v = (dbs w)\<lparr> project_access := a \<rparr> \<and>
      grants a = {g \<in> grants (project_access (dbs w)). fst g \<noteq> i} \<union> {i} \<times> set parsed"
    by (rule replace_access_effect)
      (use w2 dedupeUUIDs_spec [of parsed] in \<open>auto simp: arrive_isolated\<close>)
  with u o q s all show ?thesis by (auto simp: parseUUIDs_Inr)
qed

lemma reorder_projects_ok:
  assumes "isolated w" "handleReorderProjects L r w = (resp, v)" "rs_status resp = 204"
    and "pkey p_id (projects (dbs w))"
  shows "\<exists>user t req ids. UserFromContext r = Some user \<and>
    uuid_parse L (rq_path r ''team_id'') = Some t \<and> in_team t (au_id user) (dbs w) \<and>
    readJSON L projectOrderRequest_fields \<lparr> po_project_ids = [] \<rparr> r = Inr req \<and>
    map (uuid_parse L) (po_project_ids req) = map Some ids \<and>
    project_order.listing t (dbs v) = ids \<and>
    filter (\<lambda>p. p_team_id p \<noteq> t) (projects (dbs v)) = filter (\<lambda>p. p_team_id p \<noteq> t) (projects (dbs w))"
proof -
  from assms(2,3) obtain user t m w1 req ids want w2 where
    u: "UserFromContext r = Some user" "uuid_parse L (rq_path r ''team_id'') = Some t" and
    o: "RequireTeamMember t (au_id user) w = (Inr m, w1)" and
    q: "readJSON L projectOrderRequest_fields \<lparr> po_project_ids = [] \<rparr> r = Inr req"
      "parseUUIDs L (po_project_ids req) ''project_ids'' = Inr ids" and
    l: "exec (ListTeamProjectIDs t) w1 = (Inr want, w2)" and
    c: "checkSameIDSet L ids want ''project_ids'' ''a project of this team'' ''projects of this team'' = None" and
    b: "exec (BulkUpdateProjectOrder t ids) w2 = (Inr (), v)"
    by (auto simp: handleReorderProjects_def result_simps
      dest!: authenticatedUser_status pathUUID_status split: sum.splits option.splits prod.splits)
  note s = team_member_sound [OF assms(1) o]
  have want: "want = map p_id (filter (\<lambda>p. p_team_id p = t) (projects (dbs w)))"
    using exec_reading_Inr [OF l [unfolded ListTeamProjectIDs_def]] s by simp
  have w2: "dbs w2 = dbs w" "isolated w2"
    using exec_readonly_isolated [OF l] s by (auto simp: readonly_project_queries)
  from exec_result [OF b] obtain st where st: "BulkUpdateProjectOrder t ids st (dbs w) = Inr ((), dbs v)"
    using w2 by (auto simp: arrive_isolated)
  have "distinct ids" "set ids = set (project_order.listing t (dbs w))"
    using c want by (auto simp: checkSameIDSet_None project_order.set_listing)
  then have "project_order.listing t (dbs v) = ids"
    by (rule project_order.reordered [OF st assms(4)])
  with u s q project_order.others_stay [OF st] show ?thesis by (auto simp: parseUUIDs_Inr)
qed

text \<open>Only a manager of a project changes it, its grants or deletes it, whatever fails on the way.\<close>

lemma project_change_by_manager:
  assumes "isolated w" "dbs v \<noteq> dbs w"
    and "handleUpdateProject L r w = (resp, v) \<or> handleDeleteProject L r w = (resp, v) \<or>
      handleSetProjectAccess L r w = (resp, v)"
  shows "\<exists>user i. UserFromContext r = Some user \<and> uuid_parse L (rq_path r ''id'') = Some i \<and>
    can_manage (dbs w) (au_id user) i"
proof -
  note quit = unchangedD [OF unchanged_project_checks(2) _ assms(1)]
  from assms(2,3) obtain user i p w1 where
    u: "UserFromContext r = Some user" "uuid_parse L (rq_path r ''id'') = Some i"
    and o: "RequireProjectManage i (au_id user) w = (Inr p, w1)"
    by (auto simp: handleUpdateProject_def handleDeleteProject_def handleSetProjectAccess_def result_simps
      split: sum.splits prod.splits dest: quit)
  with project_manage_sound [OF assms(1) o] show ?thesis by blast
qed

end
