(* ===== verification/AccessProperties.thy ===== *)
theory AccessProperties
  imports Sample Projects
begin

text \<open>
  What the access checks of \<^verbatim>\<open>internal/authz\<close> and the handlers over teams, invitations and
  projects promise, each with a witness on the sample database.
\<close>

section \<open>Access checks\<close>

lemma sorted_first: "sorted (map (\<lambda>x. (f x, g x)) xs) \<Longrightarrow> sorted (map f xs)"
  by (induction xs) (auto simp: less_eq_prod_def order.order_iff_strict)

text \<open>
  C1: \<^verbatim>\<open>authz.RequireProjectAccess\<close> implements the three-level access policy. On a healthy
  database with unique team and project keys it answers with the project and the right to manage it
  exactly when the caller may open it, and with the one error for a project that is missing and for
  one that is closed to the caller.
\<close>

theorem project_access_matches:
  assumes "quiet w" "access_keys (dbs w)"
  shows "fst (RequireProjectAccess i u w) =
    (case find_row (\<lambda>p. p_id p = i) (projects (dbs w)) of
       None \<Rightarrow> Inl ErrNoProjectAccess
     | Some p \<Rightarrow>
         (case access_of (dbs w) u i of
            NoAccess \<Rightarrow> Inl ErrNoProjectAccess
          | MayOpen \<Rightarrow> Inr \<lparr> pa_project = p, pa_can_manage = False \<rparr>
          | MayManage \<Rightarrow> Inr \<lparr> pa_project = p, pa_can_manage = True \<rparr>))"
  using assms by (rule project_access_level)

theorem project_access_matches_witness:
  "fst (RequireProjectAccess 2 2 sample_world) =
     Inr \<lparr> pa_project = projects sample_db ! 1, pa_can_manage = False \<rparr>"
proof -
  have "access_of sample_db 2 2 = MayOpen"
    "find_row (\<lambda>p. p_id p = 2) (projects sample_db) = Some (projects sample_db ! 1)"
    by (code_simp, code_simp)
  then show ?thesis
    using project_access_matches [of sample_world 2 2]
    by (simp add: sample_quiet sample_arrive sample_keys)
qed

text \<open>
  C2: A project, folder, environment, variable, request, webhook endpoint, proxy or example that does
  not exist cannot be told from one the caller may not reach: the two checks give the same error,
  whoever asks and whatever else the two databases hold.
\<close>

theorem missing_and_foreign_alike:
  assumes "quiet w" "quiet w'"
  shows
    "(find_row (\<lambda>p. p_id p = i) (projects (dbs w)) = None \<longrightarrow> \<not> can_open (dbs w') u' j \<longrightarrow>
        fst (RequireProjectAccess i u w) = fst (RequireProjectAccess j u' w')) \<and>
     (\<forall>f. fetch_folder (dbs w) i = None \<longrightarrow> fetch_folder (dbs w') j = Some f \<longrightarrow>
        \<not> can_open (dbs w') u' (f_project_id f) \<longrightarrow>
        fst (RequireFolderAccess i u w) = fst (RequireFolderAccess j u' w')) \<and>
     (\<forall>e. fetch_environment (dbs w) i = None \<longrightarrow> fetch_environment (dbs w') j = Some e \<longrightarrow>
        \<not> can_open (dbs w') u' (e_project_id e) \<longrightarrow>
        fst (RequireEnvironmentAccess i u w) = fst (RequireEnvironmentAccess j u' w')) \<and>
     (\<forall>x e. fetch_variable (dbs w) i = None \<longrightarrow> fetch_variable (dbs w') j = Some x \<longrightarrow>
        fetch_environment (dbs w') (v_environment_id x) = Some e \<longrightarrow>
        \<not> can_open (dbs w') u' (e_project_id e) \<longrightarrow>
        fst (RequireVariableAccess i u w) = fst (RequireVariableAccess j u' w')) \<and>
     (\<forall>q. fetch_request (dbs w) i = None \<longrightarrow> fetch_request (dbs w') j = Some q \<longrightarrow>
        \<not> can_open (dbs w') u' (r_project_id q) \<longrightarrow>
        fst (RequireRequestAccess i u w) = fst (RequireRequestAccess j u' w')) \<and>
     (\<forall>h. fetch_endpoint (dbs w) i = None \<longrightarrow> fetch_endpoint (dbs w') j = Some h \<longrightarrow>
        \<not> can_open (dbs w') u' (w_project_id h) \<longrightarrow>
        fst (RequireWebhookAccess i u w) = fst (RequireWebhookAccess j u' w')) \<and>
     (\<forall>x. fetch_proxy (dbs w) i = None \<longrightarrow> fetch_proxy (dbs w') j = Some x \<longrightarrow>
        \<not> can_open (dbs w') u' (x_project_id x) \<longrightarrow>
        fst (RequireProxyAccess i u w) = fst (RequireProxyAccess j u' w')) \<and>
     (\<forall>y q. fetch_example (dbs w) i = None \<longrightarrow> fetch_example (dbs w') j = Some y \<longrightarrow>
        fetch_request (dbs w') (ex_request_id y) = Some q \<longrightarrow> \<not> can_open (dbs w') u' (r_project_id q) \<longrightarrow>
        fst (RequireExampleAccess i u w) = fst (RequireExampleAccess j u' w'))"
proof -
  have "\<not> can_open d u i" if "find_row (\<lambda>p. p_id p = i) (projects d) = None" for d
    using that by (auto simp: can_open_def find_row_None)
  with assms show ?thesis
    by (intro conjI allI impI project.no_oracle folder.missing_like_foreign
        environment.missing_like_foreign variable.missing_like_foreign request.missing_like_foreign
        endpoint.missing_like_foreign proxy.missing_like_foreign example.missing_like_foreign)
      (simp_all add: reach_via_def)
qed

theorem missing_and_foreign_alike_witness:
  "fst (RequireFolderAccess 9 2 sample_world) = fst (RequireFolderAccess 3 3 sample_world)"
proof -
  have "fetch_folder sample_db 9 = None" "fetch_folder sample_db 3 = Some (sample_folder 3 (Some 2) 0)"
    "\<not> can_open sample_db 3 (f_project_id (sample_folder 3 (Some 2) 0))"
    by (code_simp, code_simp, code_simp)
  then show ?thesis
    using missing_and_foreign_alike [of sample_world sample_world 9 3 3 2] by (simp add: sample_quiet sample_arrive)
qed

text \<open>
  C5: What \<^verbatim>\<open>handleListProjects\<close> lists is what the caller can open: a project is among the
  rows of \<^verbatim>\<open>ListAccessibleProjects\<close> exactly when it belongs to the team and
  \<^verbatim>\<open>GetProjectForUser\<close> would return it, so the list and the single lookup never disagree.
\<close>

theorem listed_iff_openable:
  assumes "access_keys d" "ListAccessibleProjects team_id u s d = Inr (rows, d')"
  shows "d' = d \<and> sorted (map p_sort_order rows) \<and>
    (\<forall>p. p \<in> set rows \<longleftrightarrow>
       p_team_id p = team_id \<and> (\<exists>owner. GetProjectForUser (p_id p) u s d = Inr ((p, owner), d)))"
proof -
  define found where "found = [p. p \<leftarrow> projects d, p_team_id p = team_id,
           t \<leftarrow> teams d, t_id t = p_team_id p,
           m \<leftarrow> team_members d, m_team_id m = p_team_id p \<and> m_user_id m = u \<and>
             (m_all_projects m \<or> t_owner_id t = u \<or> p_owner_id p = u \<or>
              (\<exists>a \<in> set (project_access d). a_project_id a = p_id p \<and> a_user_id a = u))]"
  have rows: "rows = sort_key (\<lambda>p. (p_sort_order p, p_created_at p)) found" "d' = d"
    using assms(2) by (simp_all add: ListAccessibleProjects_def reading_Inr found_def)
  have listed: "p \<in> set found \<longleftrightarrow> p_team_id p = team_id \<and> (\<exists>t. opens d u p t)" for p
    unfolding found_def opens_def is_member_def mem_grants set_comprehension by blast
  have looked_up: "(\<exists>owner. GetProjectForUser (p_id p) u s d = Inr ((p, owner), d)) \<longleftrightarrow> (\<exists>t. opens d u p t)" for p
  proof
    assume "\<exists>t. opens d u p t"
    then obtain t where t: "opens d u p t" by blast
    then have "(p, t_owner_id t) \<in> set (rows_for_user (p_id p) u d)" by (auto simp: set_rows_for_user)
    then obtain q owner others where q: "rows_for_user (p_id p) u d = (q, owner) # others"
      by (cases "rows_for_user (p_id p) u d") auto
    then have "(q, owner) \<in> set (rows_for_user (p_id p) u d)" by simp
    then obtain t' where "opens d u q t'" "p_id q = p_id p" by (auto simp: set_rows_for_user)
    then have "p = q" using opens_unique [OF assms(1) t, of q t'] by metis
    then have "rows_for_user (p_id p) u d = (p, owner) # others" using q by metis
    then show "\<exists>owner. GetProjectForUser (p_id p) u s d = Inr ((p, owner), d)"
      unfolding GetProjectForUser_def reading_Inr by simp
  qed (auto dest: for_user_Inr)
  have "sorted (map (\<lambda>p. (p_sort_order p, p_created_at p)) rows)" by (simp add: rows)
  then have "sorted (map p_sort_order rows)"
    by (rule sorted_first)
  with rows listed looked_up show ?thesis by simp
qed

theorem listed_iff_openable_witness:
  "\<exists>rows. fst (exec (ListAccessibleProjects 1 2) sample_world) = Inr rows \<and>
     sorted (map p_sort_order rows) \<and> projects sample_db ! 1 \<in> set rows"
proof -
  have "ListAccessibleProjects 1 2 (stamp_of sample_world) sample_db = Inr ([projects sample_db ! 1], sample_db)"
    by (simp add: ListAccessibleProjects_def reading_def) (simp add: sample_db_def)
  from listed_iff_openable [OF sample_keys this] this show ?thesis
    by (simp add: exec_quiet sample_quiet sample_arrive)
qed

end
