(* ===== verification/Rows.thy ===== *)
theory Rows
  imports Http
begin

text \<open>
  The validated JSON of requests: header and query rows
  (\<^verbatim>\<open>internal/api/key_value_rows.go\<close>), multipart rows
  (\<^verbatim>\<open>multipart_rows.go\<close>) and bodies (\<^verbatim>\<open>request_body.go\<close>). What
  is stored is re-encoded from the validated parts, never the text that was sent.
\<close>

section \<open>Reading fields\<close>

text \<open>\<^verbatim>\<open>json.Unmarshal\<close> into a map or a list of raw messages, and the members of the map.\<close>

definition as_object :: "json \<Rightarrow> (string \<times> json) list option" where
  "as_object j = (case j of JObj kvs \<Rightarrow> Some kvs | _ \<Rightarrow> None)"

definition as_array :: "json \<Rightarrow> json list option" where
  "as_array j = (case j of JArr js \<Rightarrow> Some js | _ \<Rightarrow> None)"

fun joined :: "string list \<Rightarrow> string" where
  "joined [] = []"
| "joined [v] = v"
| "joined (v # vs) = v @ '', '' @ joined vs"

definition unknown_name :: "string list \<Rightarrow> (string \<times> json) list \<Rightarrow> string option" where
  "unknown_name allowed kvs = List.find (\<lambda>n. n \<notin> set allowed) (obj_names kvs)"

definition rowString :: "(string \<times> json) list \<Rightarrow> string \<Rightarrow> string \<Rightarrow> nat \<Rightarrow> string + string" where
  "rowString kvs path name max_length =
     (case obj_lookup kvs name of
        None \<Rightarrow> Inl (path @ ''.'' @ name @ '' is required'')
      | Some (JStr v) \<Rightarrow>
          if rune_count v > max_length then
            Inl (path @ ''.'' @ name @ '' must be at most '' @ show_nat max_length @ '' characters'')
          else Inr v
      | Some _ \<Rightarrow> Inl (path @ ''.'' @ name @ '' must be a string''))"

definition rowBool :: "(string \<times> json) list \<Rightarrow> string \<Rightarrow> string \<Rightarrow> string + bool" where
  "rowBool kvs path name =
     (case obj_lookup kvs name of
        None \<Rightarrow> Inl (path @ ''.'' @ name @ '' is required'')
      | Some (JBool b) \<Rightarrow> Inr b
      | Some _ \<Rightarrow> Inl (path @ ''.'' @ name @ '' must be a boolean''))"

text \<open>The rows of an array, each under its own path; the first error ends it.\<close>

fun rows_loop :: "(json \<Rightarrow> string \<Rightarrow> string + 'a) \<Rightarrow> string \<Rightarrow> nat \<Rightarrow> json list \<Rightarrow> string + 'a list" where
  "rows_loop f field i [] = Inr []"
| "rows_loop f field i (j # js) =
     bindR (f j (field @ ''['' @ show_nat i @ '']'')) (\<lambda>row.
     bindR (rows_loop f field (Suc i) js) (\<lambda>rows. Inr (row # rows)))"

section \<open>Header and query rows\<close>

definition maxKeyValueRows :: nat where "maxKeyValueRows = 100"
definition maxKeyValueKeyLength :: nat where "maxKeyValueKeyLength = 200"
definition maxKeyValueValueLength :: nat where "maxKeyValueValueLength = 8192"

definition keyValueRowFields :: "string list" where
  "keyValueRowFields = [''key'', ''value'', ''enabled'']"

record keyValueRow =
  kv_key :: string
  kv_value :: string
  kv_enabled :: bool

definition keyValueRow_json :: "keyValueRow \<Rightarrow> json" where
  "keyValueRow_json row = JObj
     [(''key'', JStr (kv_key row)), (''value'', JStr (kv_value row)), (''enabled'', JBool (kv_enabled row))]"

definition parseKeyValueRow :: "json \<Rightarrow> string \<Rightarrow> string + keyValueRow" where
  "parseKeyValueRow raw path =
     (case as_object raw of
        None \<Rightarrow> Inl (path @ '' must be an object with key, value and enabled'')
      | Some kvs \<Rightarrow>
          (case unknown_name keyValueRowFields kvs of
             Some name \<Rightarrow> Inl (path @ ''.'' @ name @
               '' is not a known field; a row has only key, value and enabled'')
           | None \<Rightarrow>
               bindR (rowString kvs path ''key'' maxKeyValueKeyLength) (\<lambda>key.
               if TrimSpace key = [] then Inl (path @ ''.key is required'')
               else bindR (rowString kvs path ''value'' maxKeyValueValueLength) (\<lambda>val.
               bindR (rowBool kvs path ''enabled'') (\<lambda>enabled.
               Inr \<lparr> kv_key = key, kv_value = val, kv_enabled = enabled \<rparr>)))))"

definition parseKeyValueRows :: "raw_message \<Rightarrow> string \<Rightarrow> string + raw_message" where
  "parseKeyValueRows raw field =
     (case raw of
        None \<Rightarrow> Inr None
      | Some JNull \<Rightarrow> Inr None
      | Some j \<Rightarrow>
          (case as_array j of
             None \<Rightarrow> Inl (field @ '' must be an array of {key, value, enabled} rows'')
           | Some items \<Rightarrow>
               if length items > maxKeyValueRows then
                 Inl (field @ '' must have at most '' @ show_nat maxKeyValueRows @ '' rows, got '' @
                   show_nat (length items))
               else bindR (rows_loop parseKeyValueRow field 0 items) (\<lambda>rows.
                 Inr (Some (JArr (map keyValueRow_json rows))))))"

section \<open>Multipart rows\<close>

definition multipartKindText :: string where "multipartKindText = ''text''"
definition multipartKindFile :: string where "multipartKindFile = ''file''"
definition maxMultipartFileNameLength :: nat where "maxMultipartFileNameLength = 255"

definition multipartKinds :: "string list" where
  "multipartKinds = [multipartKindText, multipartKindFile]"

definition multipartRowFields :: "string \<Rightarrow> string list" where
  "multipartRowFields kind =
     (if kind = multipartKindText then [''key'', ''kind'', ''value'', ''enabled'']
      else if kind = multipartKindFile then [''key'', ''kind'', ''file_name'', ''enabled'']
      else [])"

datatype multipartRow =
    multipartTextRow string string string bool
  | multipartFileRow string string string bool

definition multipartRow_json :: "multipartRow \<Rightarrow> json" where
  "multipartRow_json row = (case row of
     multipartTextRow key kind val enabled \<Rightarrow> JObj
       [(''key'', JStr key), (''kind'', JStr kind), (''value'', JStr val), (''enabled'', JBool enabled)]
   | multipartFileRow key kind file_name enabled \<Rightarrow> JObj
       [(''key'', JStr key), (''kind'', JStr kind), (''file_name'', JStr file_name), (''enabled'', JBool enabled)])"

definition multipartRowKind :: "(string \<times> json) list \<Rightarrow> string \<Rightarrow> string + string" where
  "multipartRowKind kvs path =
     (case obj_lookup kvs ''kind'' of
        None \<Rightarrow> Inl (path @ ''.kind is required and must be one of '' @ joined multipartKinds)
      | Some (JStr kind) \<Rightarrow>
          if kind \<notin> set multipartKinds then
            Inl (path @ ''.kind must be one of '' @ joined multipartKinds)
          else Inr kind
      | Some _ \<Rightarrow> Inl (path @ ''.kind must be a string, one of '' @ joined multipartKinds))"

definition parseMultipartRow :: "lib \<Rightarrow> json \<Rightarrow> string \<Rightarrow> string + multipartRow" where
  "parseMultipartRow L raw path =
     (case as_object raw of
        None \<Rightarrow> Inl (path @ '' must be an object with key, kind and enabled'')
      | Some kvs \<Rightarrow>
          bindR (multipartRowKind kvs path) (\<lambda>kind.
          case unknown_name (multipartRowFields kind) kvs of
            Some name \<Rightarrow> Inl (path @ ''.'' @ name @ '' is not a known field for a '' @ go_quote L kind @ '' row'')
          | None \<Rightarrow>
              bindR (rowString kvs path ''key'' maxKeyValueKeyLength) (\<lambda>key.
              if TrimSpace key = [] then Inl (path @ ''.key is required'')
              else bindR (rowBool kvs path ''enabled'') (\<lambda>enabled.
              if kind = multipartKindFile then
                bindR (rowString kvs path ''file_name'' maxMultipartFileNameLength) (\<lambda>file_name.
                Inr (multipartFileRow key kind file_name enabled))
              else
                bindR (rowString kvs path ''value'' maxKeyValueValueLength) (\<lambda>val.
                Inr (multipartTextRow key kind val enabled))))))"

definition parseMultipartRows :: "lib \<Rightarrow> json \<Rightarrow> string \<Rightarrow> string + json" where
  "parseMultipartRows L raw field =
     (case as_array raw of
        None \<Rightarrow> Inl (field @ '' must be an array of {key, kind, value | file_name, enabled} rows'')
      | Some items \<Rightarrow>
          if length items > maxKeyValueRows then
            Inl (field @ '' must have at most '' @ show_nat maxKeyValueRows @ '' rows, got '' @
              show_nat (length items))
          else bindR (rows_loop (parseMultipartRow L) field 0 items) (\<lambda>rows.
            Inr (JArr (map multipartRow_json rows))))"

section \<open>Bodies\<close>

definition bodyTypeNone :: string where "bodyTypeNone = ''none''"
definition bodyTypeRaw :: string where "bodyTypeRaw = ''raw''"
definition bodyTypeForm :: string where "bodyTypeForm = ''form''"
definition bodyTypeMultipart :: string where "bodyTypeMultipart = ''multipart''"
definition maxRawContentTypeLength :: nat where "maxRawContentTypeLength = 200"
definition maxRawContentBytes :: nat where "maxRawContentBytes = 2 ^ 20"

definition bodyTypes :: "string list" where
  "bodyTypes = [bodyTypeNone, bodyTypeRaw, bodyTypeForm, bodyTypeMultipart]"

definition bodyFields :: "string \<Rightarrow> string list" where
  "bodyFields t =
     (if t = bodyTypeNone then [''type'']
      else if t = bodyTypeRaw then [''type'', ''content_type'', ''content'']
      else if t = bodyTypeForm \<or> t = bodyTypeMultipart then [''type'', ''fields''] else [])"

datatype request_body =
    noneBody string
  | rawBody string string string
  | formBody string json

definition request_body_json :: "request_body \<Rightarrow> json" where
  "request_body_json b = (case b of
     noneBody t \<Rightarrow> JObj [(''type'', JStr t)]
   | rawBody t content_type content \<Rightarrow> JObj
       [(''type'', JStr t), (''content_type'', JStr content_type), (''content'', JStr content)]
   | formBody t kvs \<Rightarrow> JObj [(''type'', JStr t), (''fields'', kvs)])"

definition parseBodyType :: "(string \<times> json) list \<Rightarrow> string + string" where
  "parseBodyType kvs =
     (case obj_lookup kvs ''type'' of
        None \<Rightarrow> Inl (''body.type is required and must be one of '' @ joined bodyTypes)
      | Some (JStr t) \<Rightarrow>
          if t \<notin> set bodyTypes then Inl (''body.type must be one of '' @ joined bodyTypes) else Inr t
      | Some _ \<Rightarrow> Inl (''body.type must be a string, one of '' @ joined bodyTypes))"

definition parseRawBody :: "(string \<times> json) list \<Rightarrow> string + request_body" where
  "parseRawBody kvs =
     bindR (rowString kvs ''body'' ''content_type'' maxRawContentTypeLength) (\<lambda>content_type.
     if TrimSpace content_type = [] then Inl ''body.content_type is required''
     else (case obj_lookup kvs ''content'' of
         None \<Rightarrow> Inl ''body.content is required''
       | Some (JStr content) \<Rightarrow>
           if length content > maxRawContentBytes then
             Inl (''body.content must be at most '' @ show_nat maxRawContentBytes @ '' bytes'')
           else Inr (rawBody bodyTypeRaw content_type content)
       | Some _ \<Rightarrow> Inl ''body.content must be a string''))"

definition parseFormBody :: "(string \<times> json) list \<Rightarrow> string + request_body" where
  "parseFormBody kvs =
     (case obj_lookup kvs ''fields'' of
        None \<Rightarrow> Inl ''body.fields is required''
      | Some JNull \<Rightarrow> Inl ''body.fields must be an array of {key, value, enabled} rows''
      | Some raw \<Rightarrow>
          bindR (parseKeyValueRows (Some raw) ''body.fields'') (\<lambda>rows.
          Inr (formBody bodyTypeForm (case rows of None \<Rightarrow> JNull | Some j \<Rightarrow> j))))"

definition parseMultipartBody :: "lib \<Rightarrow> (string \<times> json) list \<Rightarrow> string + request_body" where
  "parseMultipartBody L kvs =
     (case obj_lookup kvs ''fields'' of
        None \<Rightarrow> Inl ''body.fields is required''
      | Some raw \<Rightarrow>
          bindR (parseMultipartRows L raw ''body.fields'') (\<lambda>rows.
          Inr (formBody bodyTypeMultipart rows)))"

definition parseRequestBody :: "lib \<Rightarrow> raw_message \<Rightarrow> string + raw_message" where
  "parseRequestBody L raw =
     (case raw of
        None \<Rightarrow> Inr None
      | Some JNull \<Rightarrow> Inr None
      | Some j \<Rightarrow>
          (case as_object j of
             None \<Rightarrow> Inl (''body must be an object with a type of '' @ joined bodyTypes)
           | Some kvs \<Rightarrow>
               bindR (parseBodyType kvs) (\<lambda>t.
               case unknown_name (bodyFields t) kvs of
                 Some name \<Rightarrow> Inl (''body.'' @ name @ '' is not a known field for a '' @ go_quote L t @ '' body'')
               | None \<Rightarrow>
                   bindR (if t = bodyTypeNone then Inr (noneBody bodyTypeNone)
                          else if t = bodyTypeRaw then parseRawBody kvs
                          else if t = bodyTypeForm then parseFormBody kvs
                          else parseMultipartBody L kvs) (\<lambda>body.
                   Inr (Some (request_body_json body))))))"

section \<open>What is stored parses back to itself\<close>

text \<open>
  A row format: rows that pass the parser are \<open>ok\<close>, and the stored form of an \<open>ok\<close> row parses back to
  that row. Then the same holds of arrays of rows.
\<close>

locale row_codec =
  fixes parse :: "json \<Rightarrow> string \<Rightarrow> string + 'a" and encode :: "'a \<Rightarrow> json" and ok :: "'a \<Rightarrow> bool"
  assumes parse_ok: "parse j path = Inr r \<Longrightarrow> ok r"
    and parse_encode: "ok r \<Longrightarrow> parse (encode r) path = Inr r"
begin

lemma loop_ok: "rows_loop parse field i js = Inr rows \<Longrightarrow> length rows = length js \<and> list_all ok rows"
  by (induction js arbitrary: i rows) (auto simp: bindR_Inr_iff dest: parse_ok)

lemma loop_encode: "list_all ok rows \<Longrightarrow> rows_loop parse field i (map encode rows) = Inr rows"
  by (induction rows arbitrary: i) (simp_all add: parse_encode)

lemma loop_again:
  "rows_loop parse field i js = Inr rows \<Longrightarrow>
     rows_loop parse field k (map encode rows) = Inr rows \<and> length rows = length js"
  using loop_ok [of field i js rows] by (simp add: loop_encode)

end

definition keyValueRow_ok :: "keyValueRow \<Rightarrow> bool" where
  "keyValueRow_ok row \<longleftrightarrow> rune_count (kv_key row) \<le> maxKeyValueKeyLength \<and> TrimSpace (kv_key row) \<noteq> [] \<and>
     rune_count (kv_value row) \<le> maxKeyValueValueLength"

definition multipartRow_ok :: "multipartRow \<Rightarrow> bool" where
  "multipartRow_ok row = (case row of
     multipartTextRow key kind val enabled \<Rightarrow> kind = multipartKindText \<and>
       rune_count key \<le> maxKeyValueKeyLength \<and> TrimSpace key \<noteq> [] \<and> rune_count val \<le> maxKeyValueValueLength
   | multipartFileRow key kind file_name enabled \<Rightarrow> kind = multipartKindFile \<and>
       rune_count key \<le> maxKeyValueKeyLength \<and> TrimSpace key \<noteq> [] \<and>
       rune_count file_name \<le> maxMultipartFileNameLength)"

lemma rowString_Inr [result_simps]:
  "rowString kvs path name n = Inr v \<longleftrightarrow> obj_lookup kvs name = Some (JStr v) \<and> rune_count v \<le> n"
  by (auto simp: rowString_def split: option.splits json.splits)

lemma rowBool_Inr [result_simps]:
  "rowBool kvs path name = Inr b \<longleftrightarrow> obj_lookup kvs name = Some (JBool b)"
  by (auto simp: rowBool_def split: option.splits json.splits)

lemma unknown_name_None:
  "unknown_name allowed kvs = None \<longleftrightarrow> fst ` set kvs \<subseteq> set allowed"
  by (auto simp: unknown_name_def find_None_iff)

lemma as_object_simps [simp]: "as_object (JObj kvs) = Some kvs" "as_array (JArr js) = Some js"
  by (simp_all add: as_object_def as_array_def)

lemma obj_lookup_simps [simp]:
  "obj_lookup [] k = None"
  "obj_lookup (kvs @ [(l, j)]) k = (if k = l then Some j else obj_lookup kvs k)"
  by (simp_all add: obj_lookup_def)

lemma obj_lookup_fresh [simp]:
  "obj_lookup ((l, j) # kvs) k =
     (case obj_lookup kvs k of Some v \<Rightarrow> Some v | None \<Rightarrow> if k = l then Some j else None)"
  by (simp add: obj_lookup_def map_add_def map_of_append split: option.split)

interpretation kv: row_codec parseKeyValueRow keyValueRow_json keyValueRow_ok
proof
  show "keyValueRow_ok r" if "parseKeyValueRow j path = Inr r" for j path r
    using that by (auto simp: parseKeyValueRow_def keyValueRow_ok_def result_simps
      split: option.splits if_splits)
  show "parseKeyValueRow (keyValueRow_json r) path = Inr r" if "keyValueRow_ok r" for r path
    using that by (simp add: parseKeyValueRow_def keyValueRow_json_def keyValueRow_ok_def
      unknown_name_None [THEN iffD2] keyValueRowFields_def rowString_def rowBool_def)
qed

lemma kinds_differ [simp]: "multipartKindText \<noteq> multipartKindFile" "multipartKindFile \<noteq> multipartKindText"
  by (simp_all add: multipartKindText_def multipartKindFile_def)

interpretation mp: row_codec "parseMultipartRow L" multipartRow_json multipartRow_ok
proof
  show "multipartRow_ok r" if "parseMultipartRow L j path = Inr r" for j path r
    using that by (auto simp: parseMultipartRow_def multipartRow_ok_def result_simps multipartRowKind_def
      multipartKinds_def split: option.splits if_splits json.splits)
  show "parseMultipartRow L (multipartRow_json r) path = Inr r" if "multipartRow_ok r" for r path
    using that by (cases r) (auto simp: parseMultipartRow_def multipartRow_json_def multipartRow_ok_def
      unknown_name_None [THEN iffD2] multipartRowFields_def rowString_def rowBool_def
      multipartRowKind_def multipartKinds_def)
qed

lemma key_value_rows_again:
  assumes "parseKeyValueRows raw field = Inr (Some j)"
  shows "parseKeyValueRows (Some j) field' = Inr (Some j)"
proof -
  from assms obtain items rows where r: "rows_loop parseKeyValueRow field 0 items = Inr rows"
      "length items \<le> maxKeyValueRows" "j = JArr (map keyValueRow_json rows)"
    by (auto simp: parseKeyValueRows_def result_simps split: option.splits json.splits if_splits)
  from kv.loop_ok [OF r(1)] kv.loop_encode [of rows field' 0] r show ?thesis
    by (simp add: parseKeyValueRows_def)
qed

lemma multipart_rows_again:
  assumes "parseMultipartRows L raw field = Inr j"
  shows "parseMultipartRows L j field' = Inr j"
proof -
  from assms obtain items rows where r: "rows_loop (parseMultipartRow L) field 0 items = Inr rows"
      "length items \<le> maxKeyValueRows" "j = JArr (map multipartRow_json rows)"
    by (auto simp: parseMultipartRows_def result_simps split: option.splits if_splits)
  from mp.loop_ok [OF r(1)] mp.loop_encode [of rows L field' 0] r show ?thesis
    by (simp add: parseMultipartRows_def)
qed

lemma body_types_differ [simp]:
  "bodyTypeNone \<noteq> bodyTypeRaw" "bodyTypeNone \<noteq> bodyTypeForm" "bodyTypeNone \<noteq> bodyTypeMultipart"
  "bodyTypeRaw \<noteq> bodyTypeForm" "bodyTypeRaw \<noteq> bodyTypeMultipart" "bodyTypeForm \<noteq> bodyTypeMultipart"
  "bodyTypeRaw \<noteq> bodyTypeNone" "bodyTypeForm \<noteq> bodyTypeNone" "bodyTypeMultipart \<noteq> bodyTypeNone"
  "bodyTypeForm \<noteq> bodyTypeRaw" "bodyTypeMultipart \<noteq> bodyTypeRaw" "bodyTypeMultipart \<noteq> bodyTypeForm"
  by (simp_all add: bodyTypeNone_def bodyTypeRaw_def bodyTypeForm_def bodyTypeMultipart_def)

text \<open>The variants a stored body can have.\<close>

definition request_body_ok :: "lib \<Rightarrow> request_body \<Rightarrow> bool" where
  "request_body_ok L b = (case b of
     noneBody t \<Rightarrow> t = bodyTypeNone
   | rawBody t content_type content \<Rightarrow> t = bodyTypeRaw \<and>
       rune_count content_type \<le> maxRawContentTypeLength \<and> TrimSpace content_type \<noteq> [] \<and>
       length content \<le> maxRawContentBytes
   | formBody t rows \<Rightarrow> (t = bodyTypeForm \<and> rows \<noteq> JNull \<and>
         parseKeyValueRows (Some rows) ''body.fields'' = Inr (Some rows)) \<or>
       (t = bodyTypeMultipart \<and> rows \<noteq> JNull \<and> parseMultipartRows L rows ''body.fields'' = Inr rows))"

lemma parse_raw_ok: "parseRawBody kvs = Inr b \<Longrightarrow> request_body_ok L b"
  by (auto simp: parseRawBody_def request_body_ok_def result_simps
    split: if_splits option.splits json.splits)

lemma multipart_rows_array: "parseMultipartRows L raw field = Inr j \<Longrightarrow> j \<noteq> JNull"
  by (auto simp: parseMultipartRows_def result_simps split: option.splits if_splits)

lemma parse_multipart_ok: "parseMultipartBody L kvs = Inr b \<Longrightarrow> request_body_ok L b"
  by (auto simp: parseMultipartBody_def request_body_ok_def result_simps
    dest: multipart_rows_again multipart_rows_array split: option.splits)

lemma key_value_rows_array:
  "parseKeyValueRows (Some raw) field = Inr rows \<Longrightarrow> raw \<noteq> JNull \<Longrightarrow> \<exists>js. rows = Some (JArr js)"
  by (auto simp: parseKeyValueRows_def result_simps split: option.splits json.splits if_splits)

lemma parse_form_ok:
  assumes "parseFormBody kvs = Inr b" shows "request_body_ok L b"
proof -
  from assms obtain raw where f: "obj_lookup kvs ''fields'' = Some raw" "raw \<noteq> JNull"
    by (auto simp: parseFormBody_def split: option.splits json.splits)
  then have "parseFormBody kvs = bindR (parseKeyValueRows (Some raw) ''body.fields'') (\<lambda>rows.
      Inr (formBody bodyTypeForm (case rows of None \<Rightarrow> JNull | Some j \<Rightarrow> j)))"
    by (cases raw) (simp_all add: parseFormBody_def)
  with assms obtain rows where raw: "parseKeyValueRows (Some raw) ''body.fields'' = Inr rows"
    "b = formBody bodyTypeForm (case rows of None \<Rightarrow> JNull | Some j \<Rightarrow> j)"
    by (auto simp: bindR_Inr_iff)
  from key_value_rows_array [OF raw(1) f(2)] obtain js where "rows = Some (JArr js)" ..
  with raw show ?thesis by (auto simp: request_body_ok_def dest: key_value_rows_again)
qed

lemma parse_body_ok:
  assumes "parseRequestBody L raw = Inr (Some j)"
  shows "\<exists>b. request_body_ok L b \<and> j = request_body_json b"
proof -
  from assms obtain kvs t b where "parseBodyType kvs = Inr t" "j = request_body_json b"
    and b: "(if t = bodyTypeNone then Inr (noneBody bodyTypeNone)
                          else if t = bodyTypeRaw then parseRawBody kvs
                          else if t = bodyTypeForm then parseFormBody kvs
                          else parseMultipartBody L kvs) = Inr b"
    by (auto simp: parseRequestBody_def result_simps split: option.splits json.splits)
  moreover have "request_body_ok L (noneBody bodyTypeNone)" by (simp add: request_body_ok_def)
  ultimately show ?thesis
    using parse_raw_ok parse_form_ok parse_multipart_ok by (metis sum.inject(2))
qed

lemma parseBodyType_Inr:
  "obj_lookup kvs ''type'' = Some (JStr t) \<Longrightarrow> t \<in> set bodyTypes \<Longrightarrow> parseBodyType kvs = Inr t"
  by (simp add: parseBodyType_def)

lemma unknown_none: "fst ` set kvs \<subseteq> set allowed \<Longrightarrow> unknown_name allowed kvs = None"
  by (simp add: unknown_name_None)

lemma parse_body_encode:
  assumes "request_body_ok L b"
  shows "parseRequestBody L (Some (request_body_json b)) = Inr (Some (request_body_json b))"
proof (cases b)
  case (noneBody t)
  with assms show ?thesis
    by (simp add: parseRequestBody_def request_body_json_def request_body_ok_def parseBodyType_Inr
      bodyTypes_def unknown_none bodyFields_def)
next
  case (rawBody t content_type content)
  with assms show ?thesis
    by (simp add: parseRequestBody_def request_body_json_def request_body_ok_def parseBodyType_Inr
      bodyTypes_def unknown_none bodyFields_def parseRawBody_def rowString_def)
next
  case (formBody t rows)
  from assms formBody have nn: "rows \<noteq> JNull" by (auto simp: request_body_ok_def)
  have form: "parseFormBody [(''type'', JStr t), (''fields'', rows)] =
      Inr (formBody bodyTypeForm rows)" if "parseKeyValueRows (Some rows) ''body.fields'' = Inr (Some rows)"
    using that nn by (cases rows) (simp_all add: parseFormBody_def)
  have multi: "parseMultipartBody L [(''type'', JStr t), (''fields'', rows)] =
      Inr (formBody bodyTypeMultipart rows)" if "parseMultipartRows L rows ''body.fields'' = Inr rows"
    using that by (simp add: parseMultipartBody_def)
  from assms formBody form multi show ?thesis
    by (auto simp: parseRequestBody_def request_body_json_def request_body_ok_def parseBodyType_Inr
      bodyTypes_def unknown_none bodyFields_def)
qed

end
