(* ===== verification/NodeSettings.thy ===== *)
theory NodeSettings
  imports Rows
begin

text \<open>
  The settings of folders and requests as the handlers read them:
  \<^verbatim>\<open>internal/api/node_auth.go\<close>, \<^verbatim>\<open>node_proxy.go\<close>,
  \<^verbatim>\<open>node_scripts.go\<close>, \<^verbatim>\<open>node_settings.go\<close>, and
  \<^verbatim>\<open>parseNullableUUID\<close> of \<^verbatim>\<open>folders.go\<close>.
\<close>

section \<open>Ids that may be null\<close>

definition parseNullableUUID :: "lib \<Rightarrow> raw_message \<Rightarrow> string \<Rightarrow> string + uuid option" where
  "parseNullableUUID L raw field =
     (case raw of
        None \<Rightarrow> Inr None
      | Some JNull \<Rightarrow> Inr None
      | Some (JStr v) \<Rightarrow>
          (case uuid_parse L v of
             None \<Rightarrow> Inl (field @ '' must be a valid uuid'')
           | Some i \<Rightarrow> Inr (Some i))
      | Some _ \<Rightarrow> Inl (field @ '' must be a uuid string or null''))"

definition optionalUUIDString :: "lib \<Rightarrow> uuid option \<Rightarrow> json" where
  "optionalUUIDString L i = (case i of None \<Rightarrow> JNull | Some i \<Rightarrow> JStr (uuid_string L i))"

section \<open>Authorization\<close>

definition maxAuthValueLength :: nat where "maxAuthValueLength = 8192"

definition nodeAuthResponse :: "auth_config \<Rightarrow> json" where
  "nodeAuthResponse c = JObj
     [(''type'', JStr (auth_type c)), (''bearer_token'', JStr (auth_bearer_token c)),
      (''basic_username'', JStr (auth_basic_username c)), (''basic_password'', JStr (auth_basic_password c)),
      (''api_key_name'', JStr (auth_api_key_name c)), (''api_key_value'', JStr (auth_api_key_value c)),
      (''api_key_in'', JStr (auth_api_key_in c)), (''jwt_algorithm'', JStr (auth_jwt_algorithm c)),
      (''jwt_secret'', JStr (auth_jwt_secret c)), (''jwt_secret_base64'', JBool (auth_jwt_secret_base64 c)),
      (''jwt_payload'', JStr (auth_jwt_payload c)), (''jwt_add_to'', JStr (auth_jwt_add_to c)),
      (''jwt_name'', JStr (auth_jwt_name c)), (''jwt_prefix'', JStr (auth_jwt_prefix c))]"

text \<open>
  \<^verbatim>\<open>authPatch\<close> has the fields of the update's \<^verbatim>\<open>Auth*\<close> parameters, and
  \<^verbatim>\<open>applyToRequest\<close> and \<^verbatim>\<open>applyToFolder\<close> copy them one by one, so the
  patch is modelled by those parameters.
\<close>

definition applyAuth :: "auth_params option \<Rightarrow> auth_params" where
  "applyAuth p = (case p of None \<Rightarrow> no_auth_params | Some p \<Rightarrow> p)"

definition auth_string_fields :: "(string \<times> (string \<Rightarrow> auth_params \<Rightarrow> auth_params)) list" where
  "auth_string_fields =
     [(''type'', \<lambda>v p. p\<lparr> ap_type := Some v \<rparr>),
      (''bearer_token'', \<lambda>v p. p\<lparr> ap_bearer_token := Some v \<rparr>),
      (''basic_username'', \<lambda>v p. p\<lparr> ap_basic_username := Some v \<rparr>),
      (''basic_password'', \<lambda>v p. p\<lparr> ap_basic_password := Some v \<rparr>),
      (''api_key_name'', \<lambda>v p. p\<lparr> ap_api_key_name := Some v \<rparr>),
      (''api_key_value'', \<lambda>v p. p\<lparr> ap_api_key_value := Some v \<rparr>),
      (''api_key_in'', \<lambda>v p. p\<lparr> ap_api_key_in := Some v \<rparr>),
      (''jwt_algorithm'', \<lambda>v p. p\<lparr> ap_jwt_algorithm := Some v \<rparr>),
      (''jwt_secret'', \<lambda>v p. p\<lparr> ap_jwt_secret := Some v \<rparr>),
      (''jwt_payload'', \<lambda>v p. p\<lparr> ap_jwt_payload := Some v \<rparr>),
      (''jwt_add_to'', \<lambda>v p. p\<lparr> ap_jwt_add_to := Some v \<rparr>),
      (''jwt_name'', \<lambda>v p. p\<lparr> ap_jwt_name := Some v \<rparr>),
      (''jwt_prefix'', \<lambda>v p. p\<lparr> ap_jwt_prefix := Some v \<rparr>)]"

definition auth_bool_fields :: "(string \<times> (bool \<Rightarrow> auth_params \<Rightarrow> auth_params)) list" where
  "auth_bool_fields = [(''jwt_secret_base64'', \<lambda>v p. p\<lparr> ap_jwt_secret_base64 := Some v \<rparr>)]"

definition auth_field :: "string \<Rightarrow> json \<Rightarrow> auth_params \<Rightarrow> string + auth_params" where
  "auth_field name raw patch =
     (case map_of auth_bool_fields name of
        Some target \<Rightarrow>
          (case raw of JBool v \<Rightarrow> Inr (target v patch) | _ \<Rightarrow> Inl (''auth.'' @ name @ '' must be a boolean''))
      | None \<Rightarrow>
          (case map_of auth_string_fields name of
             None \<Rightarrow> Inl (''auth.'' @ name @ '' is not a known field'')
           | Some target \<Rightarrow>
               (case raw of
                  JStr v \<Rightarrow>
                    if rune_count v > maxAuthValueLength then
                      Inl (''auth.'' @ name @ '' must be at most '' @ show_nat maxAuthValueLength @ '' characters'')
                    else Inr (target v patch)
                | _ \<Rightarrow> Inl (''auth.'' @ name @ '' must be a string''))))"

fun auth_fields :: "string list \<Rightarrow> (string \<times> json) list \<Rightarrow> auth_params \<Rightarrow> string + auth_params" where
  "auth_fields [] kvs patch = Inr patch"
| "auth_fields (name # names) kvs patch =
     (case obj_lookup kvs name of
        None \<Rightarrow> auth_fields names kvs patch
      | Some raw \<Rightarrow> bindR (auth_field name raw patch) (auth_fields names kvs))"

definition auth_enums :: "auth_params \<Rightarrow> (string \<times> string option \<times> string list) list" where
  "auth_enums p =
     [(''type'', ap_type p, AuthTypes), (''api_key_in'', ap_api_key_in p, APIKeyPlacements),
      (''jwt_algorithm'', ap_jwt_algorithm p, JWTAlgorithms), (''jwt_add_to'', ap_jwt_add_to p, JWTPlacements)]"

definition enum_ok :: "string option \<Rightarrow> string list \<Rightarrow> bool" where
  "enum_ok v allowed = (case v of None \<Rightarrow> True | Some v \<Rightarrow> v \<in> set allowed)"

definition parseAuthPatch :: "raw_message \<Rightarrow> string + auth_params option" where
  "parseAuthPatch raw =
     (case raw of
        None \<Rightarrow> Inr None
      | Some JNull \<Rightarrow> Inr None
      | Some j \<Rightarrow>
          (case as_object j of
             None \<Rightarrow> Inl ''auth must be an object with a type''
           | Some kvs \<Rightarrow>
               bindR (auth_fields (obj_names kvs) kvs no_auth_params) (\<lambda>patch.
               if ap_type patch = None then
                 Inl (''auth.type is required and must be one of '' @ joined AuthTypes)
               else (case List.find (\<lambda>(name, v, allowed). \<not> enum_ok v allowed) (auth_enums patch) of
                   Some (name, v, allowed) \<Rightarrow> Inl (''auth.'' @ name @ '' must be one of '' @ joined allowed)
                 | None \<Rightarrow> Inr (Some patch)))))"

section \<open>Proxies\<close>

definition nodeProxyFields :: "string list" where "nodeProxyFields = [''mode'', ''proxy_id'']"

definition ProxyModeProxy :: string where "ProxyModeProxy = ''proxy''"

definition nodeProxyResponse :: "lib \<Rightarrow> string \<Rightarrow> uuid option \<Rightarrow> json" where
  "nodeProxyResponse L mode i = JObj [(''mode'', JStr mode), (''proxy_id'', optionalUUIDString L i)]"

record proxyPatch =
  pp_mode :: string
  pp_proxy_id :: "uuid option"

definition proxy_values :: "proxyPatch option \<Rightarrow> string option \<times> bool \<times> uuid option" where
  "proxy_values p = (case p of None \<Rightarrow> (None, False, None) | Some p \<Rightarrow> (Some (pp_mode p), True, pp_proxy_id p))"

definition parseProxyPatch :: "lib \<Rightarrow> raw_message \<Rightarrow> string + proxyPatch option" where
  "parseProxyPatch L raw =
     (case raw of
        None \<Rightarrow> Inr None
      | Some JNull \<Rightarrow> Inr None
      | Some j \<Rightarrow>
          (case as_object j of
             None \<Rightarrow> Inl ''proxy must be an object with a mode''
           | Some kvs \<Rightarrow>
               (case unknown_name nodeProxyFields kvs of
                  Some name \<Rightarrow> Inl (''proxy.'' @ name @
                    '' is not a known field; the object has only mode and proxy_id'')
                | None \<Rightarrow>
                    (case obj_lookup kvs ''mode'' of
                       None \<Rightarrow> Inl (''proxy.mode is required and must be one of '' @ joined ProxyModes)
                     | Some (JStr mode) \<Rightarrow>
                         if mode \<notin> set ProxyModes then
                           Inl (''proxy.mode must be one of '' @ joined ProxyModes)
                         else bindR (parseNullableUUID L (obj_lookup kvs ''proxy_id'') ''proxy.proxy_id'') (\<lambda>i.
                           if mode = ProxyModeProxy \<and> i = None then
                             Inl ''proxy.proxy_id is required when mode is \"proxy\"''
                           else if mode \<noteq> ProxyModeProxy \<and> i \<noteq> None then
                             Inl (''proxy.proxy_id must be null or absent when mode is '' @ go_quote L mode)
                           else Inr (Some \<lparr> pp_mode = mode, pp_proxy_id = i \<rparr>))
                     | Some _ \<Rightarrow>
                         Inl (''proxy.mode must be a string, one of '' @ joined ProxyModes)))))"

definition requireProxyInProject :: "proxyPatch option \<Rightarrow> uuid \<Rightarrow> world \<Rightarrow> (goerr + unit) \<times> world" where
  "requireProxyInProject patch project_id w =
     (case patch of
        None \<Rightarrow> (Inr (), w)
      | Some p \<Rightarrow>
          (case pp_proxy_id p of
             None \<Rightarrow> (Inr (), w)
           | Some i \<Rightarrow>
               (case exec (GetProxyByID i) w of
                  (Inl err, w) \<Rightarrow>
                    if errors_is err ErrNoRows then (Inl ErrProxyNotInProject, w) else (Inl err, w)
                | (Inr proxy, w) \<Rightarrow>
                    if x_project_id proxy \<noteq> project_id then (Inl ErrProxyNotInProject, w)
                    else (Inr (), w))))"

text \<open>\<^verbatim>\<open>db.IsProxyGone\<close> of \<^verbatim>\<open>internal/db/proxies.go\<close>.\<close>

definition IsProxyGone :: "goerr \<Rightarrow> bool" where
  "IsProxyGone err = (isConstraintViolation err ''23503'' ''requests_proxy_id_fkey'' \<or>
     isConstraintViolation err ''23503'' ''folders_proxy_id_fkey'')"

section \<open>Scripts and toggles\<close>

definition maxScriptLength :: nat where "maxScriptLength = 32768"

definition validateScript :: "string \<Rightarrow> string option \<Rightarrow> string option" where
  "validateScript field v =
     (case v of
        None \<Rightarrow> None
      | Some v \<Rightarrow>
          if rune_count v > maxScriptLength then
            Some (field @ '' must be at most '' @ show_nat maxScriptLength @ '' characters'')
          else None)"

definition validateToggleSetting :: "string \<Rightarrow> string option \<Rightarrow> string option" where
  "validateToggleSetting field v =
     (case v of
        None \<Rightarrow> None
      | Some v \<Rightarrow>
          if v \<in> set ToggleSettingValues then None
          else Some (field @ '' must be one of '' @ joined ToggleSettingValues))"

section \<open>What passes here passes the constraints\<close>

definition bounded :: "nat \<Rightarrow> string option \<Rightarrow> bool" where
  "bounded n v = (case v of None \<Rightarrow> True | Some v \<Rightarrow> rune_count v \<le> n)"

lemma coalesce_enum: "enum_ok v vs \<Longrightarrow> old \<in> set vs \<Longrightarrow> coalesce v old \<in> set vs"
  by (cases v) (simp_all add: enum_ok_def)

lemma coalesce_bounded: "bounded n v \<Longrightarrow> rune_count old \<le> n \<Longrightarrow> rune_count (coalesce v old) \<le> n"
  by (cases v) (simp_all add: bounded_def)

lemma auth_field_payload:
  "auth_field name raw p = Inr q \<Longrightarrow> bounded 8192 (ap_jwt_payload p) \<Longrightarrow> bounded 8192 (ap_jwt_payload q)"
  by (auto simp: auth_field_def auth_string_fields_def auth_bool_fields_def bounded_def maxAuthValueLength_def
    split: if_splits option.splits json.splits)

lemma auth_fields_payload:
  "auth_fields names kvs p = Inr q \<Longrightarrow> bounded 8192 (ap_jwt_payload p) \<Longrightarrow> bounded 8192 (ap_jwt_payload q)"
  by (induction names arbitrary: p)
    (auto simp: bindR_Inr_iff split: option.splits dest: auth_field_payload)

definition auth_params_ok :: "auth_params \<Rightarrow> bool" where
  "auth_params_ok p \<longleftrightarrow> enum_ok (ap_type p) AuthTypes \<and> enum_ok (ap_api_key_in p) APIKeyPlacements \<and>
     enum_ok (ap_jwt_algorithm p) JWTAlgorithms \<and> enum_ok (ap_jwt_add_to p) JWTPlacements \<and>
     bounded 8192 (ap_jwt_payload p)"

lemma no_triple: "(\<forall>a b c. x \<noteq> Some (a, b, c)) \<longleftrightarrow> x = None"
  by (cases x) auto

lemma as_object_Some: "as_object j = Some kvs \<longleftrightarrow> j = JObj kvs"
  by (cases j) (simp_all add: as_object_def)

lemma parseAuthPatch_ok:
  assumes "parseAuthPatch raw = Inr p" shows "auth_params_ok (applyAuth p)"
proof (cases p)
  case None
  then show ?thesis
    by (simp add: auth_params_ok_def applyAuth_def no_auth_params_def enum_ok_def bounded_def)
next
  case (Some q)
  with assms obtain kvs where f: "auth_fields (obj_names kvs) kvs no_auth_params = Inr q"
    "List.find (\<lambda>(name, v, allowed). \<not> enum_ok v allowed) (auth_enums q) = None"
    by (auto simp: parseAuthPatch_def result_simps no_triple as_object_Some
      split: option.splits json.splits if_splits prod.splits)
  have "bounded 8192 (ap_jwt_payload no_auth_params)" by (simp add: no_auth_params_def bounded_def)
  from auth_fields_payload [OF f(1) this] f(2) Some show ?thesis
    by (auto simp: auth_params_ok_def applyAuth_def auth_enums_def split: if_splits)
qed

lemma parseProxyPatch_ok:
  assumes "parseProxyPatch L raw = Inr (Some p)"
  shows "pp_mode p \<in> set ProxyModes \<and> (pp_mode p = ProxyModeProxy \<longleftrightarrow> pp_proxy_id p \<noteq> None)"
  using assms by (auto simp: parseProxyPatch_def result_simps split: option.splits json.splits if_splits)

lemma validateScript_ok: "validateScript field v = None \<longleftrightarrow> bounded 32768 v"
  by (auto simp: validateScript_def bounded_def maxScriptLength_def split: option.splits)

lemma validateToggleSetting_ok: "validateToggleSetting field v = None \<longleftrightarrow> enum_ok v ToggleSettingValues"
  by (auto simp: validateToggleSetting_def enum_ok_def split: option.splits)

definition settings_ok :: "node_settings \<Rightarrow> bool" where
  "settings_ok s \<longleftrightarrow> list_all fst (settings_checks [] s)"

lemma settings_ok_checks: "settings_ok s \<longleftrightarrow> (\<forall>(b, c) \<in> set (settings_checks t s). b)"
  by (auto simp: settings_ok_def settings_checks_def)

lemma default_settings_ok: "settings_ok default_settings"
  by (simp add: settings_ok_def settings_checks_def default_settings_def default_auth_def
    APIKeyPlacements_def JWTPlacements_def JWTAlgorithms_def AuthTypes_def ToggleSettingValues_def
    ProxyModes_def)

text \<open>The parameters a handler builds out of its validated parts.\<close>

definition params_ok :: "settings_params \<Rightarrow> bool" where
  "params_ok p \<longleftrightarrow> enum_ok (sp_follow_redirects p) ToggleSettingValues \<and> auth_params_ok (sp_auth p) \<and>
     bounded 32768 (sp_pre_script p) \<and> bounded 32768 (sp_post_script p) \<and> enum_ok (sp_proxy_mode p) ProxyModes"

lemma merge_settings_ok:
  assumes "params_ok p" "settings_ok s" shows "settings_ok (merge_settings p s)"
  using assms
  by (simp add: settings_ok_def settings_checks_def merge_settings_def merge_auth_def params_ok_def
    auth_params_ok_def coalesce_enum coalesce_bounded)

end
