(* ===== verification/Folders.thy ===== *)
theory Folders
  imports NodeSettings Reorder Projects
begin

text \<open>
  Folders: the transactions of \<^verbatim>\<open>internal/db/folders.go\<close> and the handlers of
  \<^verbatim>\<open>internal/api/folders.go\<close>.
\<close>

section \<open>Store operations\<close>

definition requireFolderInProject ::
  "uuid \<Rightarrow> uuid \<Rightarrow> goerr \<Rightarrow> world \<Rightarrow> (goerr + unit) \<times> world" where
  "requireFolderInProject folder_id project_id not_in_project w =
     (case exec (GetFolderByID folder_id) w of
        (Inl err, w) \<Rightarrow>
          if errors_is err ErrNoRows then (Inl not_in_project, w)
          else (Inl (Wrapped ''look up folder: '' err), w)
      | (Inr folder, w) \<Rightarrow>
          if f_project_id folder \<noteq> project_id then (Inl not_in_project, w) else (Inr (), w))"

definition CreateFolderInProject ::
  "uuid \<Rightarrow> uuid option \<Rightarrow> string \<Rightarrow> world \<Rightarrow> (goerr + Folder) \<times> world" where
  "CreateFolderInProject project_id parent_id name w =
     (case (case parent_id of
              None \<Rightarrow> (Inr (), w)
            | Some p \<Rightarrow> requireFolderInProject p project_id ErrInvalidParentFolder w) of
        (Inl err, w) \<Rightarrow> (Inl err, w)
      | (Inr _, w) \<Rightarrow>
          (case exec (CreateFolder project_id parent_id name) w of
             (Inl err, w) \<Rightarrow>
               if isConstraintViolation err ''23503'' ''folders_parent_id_fkey'' then
                 (Inl ErrInvalidParentFolder, w)
               else (Inl (Wrapped ''create folder: '' err), w)
           | (Inr folder, w) \<Rightarrow> (Inr folder, w)))"

text \<open>The part of a move that can refuse the new parent.\<close>

definition check_new_parent :: "uuid \<Rightarrow> uuid \<Rightarrow> uuid \<Rightarrow> world \<Rightarrow> (goerr + unit) \<times> world" where
  "check_new_parent i parent_id project_id w =
     (case requireFolderInProject parent_id project_id ErrInvalidParentFolder w of
        (Inl err, w) \<Rightarrow> (Inl err, w)
      | (Inr _, w) \<Rightarrow>
          (case exec (IsDescendant i parent_id) w of
             (Inl err, w) \<Rightarrow> (Inl (Wrapped ''check folder cycle: '' err), w)
           | (Inr inSubtree, w) \<Rightarrow>
               if inSubtree then (Inl ErrFolderCycle, w) else (Inr (), w)))"

definition move_folder_tx ::
  "uuid \<Rightarrow> uuid option \<Rightarrow> int option \<Rightarrow> world \<Rightarrow> (goerr + Folder) \<times> world" where
  "move_folder_tx i parent_id sort_order w =
     (case exec (GetFolderByID i) w of
        (Inl err, w) \<Rightarrow> (Inl err, w)
      | (Inr folder, w) \<Rightarrow>
          (case exec (LockProject (f_project_id folder)) w of
             (Inl err, w) \<Rightarrow> (Inl (Wrapped ''lock project: '' err), w)
           | (Inr _, w) \<Rightarrow>
               (case (case parent_id of
                        None \<Rightarrow> (Inr (), w)
                      | Some p \<Rightarrow> check_new_parent i p (f_project_id folder) w) of
                  (Inl err, w) \<Rightarrow> (Inl err, w)
                | (Inr _, w) \<Rightarrow>
                    (case exec (UpdateFolderParent i parent_id sort_order) w of
                       (Inl err, w) \<Rightarrow> (Inl (Wrapped ''update folder parent: '' err), w)
                     | (Inr moved, w) \<Rightarrow> (Inr moved, w)))))"

definition MoveFolder :: "uuid \<Rightarrow> uuid option \<Rightarrow> int option \<Rightarrow> world \<Rightarrow> (goerr + Folder) \<times> world" where
  "MoveFolder i parent_id sort_order = inTx (move_folder_tx i parent_id sort_order)"

definition reorder_folders_tx ::
  "uuid \<Rightarrow> uuid option \<Rightarrow> uuid list \<Rightarrow> (uuid list \<Rightarrow> goerr option) \<Rightarrow> world \<Rightarrow> (goerr + unit) \<times> world" where
  "reorder_folders_tx project_id parent_id folder_ids checkSiblings w =
     (case exec (LockProject project_id) w of
        (Inl err, w) \<Rightarrow> (Inl (Wrapped ''lock project: '' err), w)
      | (Inr _, w) \<Rightarrow>
          (case (case parent_id of
                   None \<Rightarrow> (Inr (), w)
                 | Some p \<Rightarrow> requireFolderInProject p project_id ErrInvalidParentFolder w) of
             (Inl err, w) \<Rightarrow> (Inl err, w)
           | (Inr _, w) \<Rightarrow>
               check_then_write (ListSiblingFolderIDs project_id parent_id) ''list sibling folders: ''
                 checkSiblings (BulkUpdateFolderOrder project_id parent_id folder_ids)
                 ''update folder order: '' w))"

definition ReorderFolders ::
  "uuid \<Rightarrow> uuid option \<Rightarrow> uuid list \<Rightarrow> (uuid list \<Rightarrow> goerr option) \<Rightarrow> world \<Rightarrow> (goerr + unit) \<times> world" where
  "ReorderFolders project_id parent_id folder_ids checkSiblings =
     inTx (reorder_folders_tx project_id parent_id folder_ids checkSiblings)"

section \<open>Requests and responses\<close>

definition minFolderNameLength :: nat where "minFolderNameLength = 1"
definition maxFolderNameLength :: nat where "maxFolderNameLength = 100"

record folderCreateRequest =
  fcq_name :: string
  fcq_parent_id :: raw_message

definition folderCreateRequest_fields :: "folderCreateRequest field list" where
  "folderCreateRequest_fields =
     [(''name'', fString (\<lambda>v q. q\<lparr> fcq_name := v \<rparr>)),
      (''parent_id'', fRaw (\<lambda>v q. q\<lparr> fcq_parent_id := v \<rparr>))]"

record folderUpdateRequest =
  fuq_name :: "string option"
  fuq_follow_redirects :: "string option"
  fuq_auth :: raw_message
  fuq_pre_script :: "string option"
  fuq_post_script :: "string option"
  fuq_proxy :: raw_message

definition folderUpdateRequest_fields :: "folderUpdateRequest field list" where
  "folderUpdateRequest_fields =
     [(''name'', fOptString (\<lambda>v q. q\<lparr> fuq_name := v \<rparr>)),
      (''follow_redirects'', fOptString (\<lambda>v q. q\<lparr> fuq_follow_redirects := v \<rparr>)),
      (''auth'', fRaw (\<lambda>v q. q\<lparr> fuq_auth := v \<rparr>)),
      (''pre_script'', fOptString (\<lambda>v q. q\<lparr> fuq_pre_script := v \<rparr>)),
      (''post_script'', fOptString (\<lambda>v q. q\<lparr> fuq_post_script := v \<rparr>)),
      (''proxy'', fRaw (\<lambda>v q. q\<lparr> fuq_proxy := v \<rparr>))]"

definition folderUpdateRequest_zero :: folderUpdateRequest where
  "folderUpdateRequest_zero = \<lparr> fuq_name = None, fuq_follow_redirects = None, fuq_auth = None,
     fuq_pre_script = None, fuq_post_script = None, fuq_proxy = None \<rparr>"

record folderMoveRequest =
  fmq_parent_id :: raw_message
  fmq_sort_order :: "int option"

definition folderMoveRequest_fields :: "folderMoveRequest field list" where
  "folderMoveRequest_fields =
     [(''parent_id'', fRaw (\<lambda>v q. q\<lparr> fmq_parent_id := v \<rparr>)),
      (''sort_order'', fOptInt32 (\<lambda>v q. q\<lparr> fmq_sort_order := v \<rparr>))]"

record folderOrderRequest =
  foq_project_id :: string
  foq_parent_id :: raw_message
  foq_folder_ids :: "string list"

definition folderOrderRequest_fields :: "folderOrderRequest field list" where
  "folderOrderRequest_fields =
     [(''project_id'', fString (\<lambda>v q. q\<lparr> foq_project_id := v \<rparr>)),
      (''parent_id'', fRaw (\<lambda>v q. q\<lparr> foq_parent_id := v \<rparr>)),
      (''folder_ids'', fStrings foq_folder_ids (\<lambda>v q. q\<lparr> foq_folder_ids := v \<rparr>))]"

definition newFolderResponse :: "lib \<Rightarrow> Folder \<Rightarrow> json" where
  "newFolderResponse L f = (let s = f_settings f in JObj
     [(''id'', JStr (uuid_string L (f_id f))), (''project_id'', JStr (uuid_string L (f_project_id f))),
      (''parent_id'', optionalUUIDString L (f_parent_id f)), (''name'', JStr (f_name f)),
      (''follow_redirects'', JStr (follow_redirects s)), (''auth'', nodeAuthResponse (auth_cfg s)),
      (''pre_script'', JStr (pre_script s)), (''post_script'', JStr (post_script s)),
      (''proxy'', nodeProxyResponse L (proxy_mode s) (proxy_id s)),
      (''sort_order'', JInt (f_sort_order f)), (''created_at'', JStr (fmt_time L (f_created_at f)))])"

definition folderSummaryResponse :: "lib \<Rightarrow> Folder \<Rightarrow> json" where
  "folderSummaryResponse L f = (let s = f_settings f in JObj
     [(''id'', JStr (uuid_string L (f_id f))),
      (''parent_id'', optionalUUIDString L (f_parent_id f)), (''name'', JStr (f_name f)),
      (''follow_redirects'', JStr (follow_redirects s)), (''auth'', nodeAuthResponse (auth_cfg s)),
      (''pre_script'', JStr (pre_script s)), (''post_script'', JStr (post_script s)),
      (''proxy'', nodeProxyResponse L (proxy_mode s) (proxy_id s)),
      (''sort_order'', JInt (f_sort_order f)), (''created_at'', JStr (fmt_time L (f_created_at f)))])"

fun as_bad_request :: "goerr \<Rightarrow> string option" where
  "as_bad_request (Wrapped s e) = as_bad_request e"
| "as_bad_request (BadRequest s) = Some s"
| "as_bad_request e = None"

definition writeFolderError :: "lib \<Rightarrow> goerr \<Rightarrow> response" where
  "writeFolderError L err =
     (if errors_is err ErrProxyNotInProject \<or> IsProxyGone err then
        writeError 400 codeBadRequest (err_text L ErrProxyNotInProject)
      else (case as_bad_request err of
          Some msg \<Rightarrow> writeError 400 codeBadRequest msg
        | None \<Rightarrow>
            if errors_is err ErrInvalidParentFolder \<or> errors_is err ErrFolderCycle then
              writeError 400 codeBadRequest (err_text L err)
            else if errors_is err ErrNoRows then writeError 404 codeNotFound messageFolderNotFound
            else serverError err))"

section \<open>Handlers\<close>

definition handleCreateFolder :: "lib \<Rightarrow> http_request \<Rightarrow> world \<Rightarrow> response \<times> world" where
  "handleCreateFolder L r w = (case authenticatedUser r of
     Inl resp \<Rightarrow> (resp, w)
   | Inr user \<Rightarrow> (case pathUUID L r ''project_id'' of
       Inl resp \<Rightarrow> (resp, w)
     | Inr project_id \<Rightarrow> (case RequireProjectAccess project_id (au_id user) w of
         (Inl err, w) \<Rightarrow> (writeAuthzError err, w)
       | (Inr _, w) \<Rightarrow> (case readJSON L folderCreateRequest_fields \<lparr> fcq_name = [], fcq_parent_id = None \<rparr> r of
           Inl err \<Rightarrow> (writeBodyError err, w)
         | Inr req \<Rightarrow> (case validateName (fcq_name req) minFolderNameLength maxFolderNameLength of
             Inl err \<Rightarrow> (writeError 400 codeBadRequest err, w)
           | Inr name \<Rightarrow> (case parseNullableUUID L (fcq_parent_id req) ''parent_id'' of
               Inl err \<Rightarrow> (writeError 400 codeBadRequest err, w)
             | Inr parent_id \<Rightarrow> (case CreateFolderInProject project_id parent_id name w of
                 (Inl err, w) \<Rightarrow> (writeFolderError L err, w)
               | (Inr folder, w) \<Rightarrow> (writeJSON 201 (newFolderResponse L folder), w))))))))"

definition handleListFolders :: "lib \<Rightarrow> http_request \<Rightarrow> world \<Rightarrow> response \<times> world" where
  "handleListFolders L r w = (case authenticatedUser r of
     Inl resp \<Rightarrow> (resp, w)
   | Inr user \<Rightarrow> (case pathUUID L r ''project_id'' of
       Inl resp \<Rightarrow> (resp, w)
     | Inr project_id \<Rightarrow> (case RequireProjectAccess project_id (au_id user) w of
         (Inl err, w) \<Rightarrow> (writeAuthzError err, w)
       | (Inr _, w) \<Rightarrow> (case exec (ListFoldersByProject project_id) w of
           (Inl err, w) \<Rightarrow> (serverError err, w)
         | (Inr rows, w) \<Rightarrow> (writeJSON 200 (JArr (map (folderSummaryResponse L) rows)), w)))))"

text \<open>The checks of an update, in the order of the handler; the result is the update's parameters.\<close>

definition folder_update_name :: "folderUpdateRequest \<Rightarrow> string + string option" where
  "folder_update_name req = (case fuq_name req of
     None \<Rightarrow> Inr None
   | Some raw \<Rightarrow> (case validateName raw minFolderNameLength maxFolderNameLength of
       Inl err \<Rightarrow> Inl err
     | Inr name \<Rightarrow> Inr (Some name)))"

definition folder_settings_params ::
  "folderUpdateRequest \<Rightarrow> auth_params option \<Rightarrow> proxyPatch option \<Rightarrow> settings_params" where
  "folder_settings_params req auth proxy = (case proxy_values proxy of (mode, set_proxy, i) \<Rightarrow>
     \<lparr> sp_follow_redirects = fuq_follow_redirects req, sp_auth = applyAuth auth,
       sp_pre_script = fuq_pre_script req, sp_post_script = fuq_post_script req,
       sp_proxy_mode = mode, sp_set_proxy = set_proxy, sp_proxy_id = i \<rparr>)"

definition handleUpdateFolder :: "lib \<Rightarrow> http_request \<Rightarrow> world \<Rightarrow> response \<times> world" where
  "handleUpdateFolder L r w = (case authenticatedUser r of
     Inl resp \<Rightarrow> (resp, w)
   | Inr user \<Rightarrow> (case pathUUID L r ''id'' of
       Inl resp \<Rightarrow> (resp, w)
     | Inr folder_id \<Rightarrow> (case RequireFolderAccess folder_id (au_id user) w of
         (Inl err, w) \<Rightarrow> (writeAuthzError err, w)
       | (Inr cur, w) \<Rightarrow> (case readJSON L folderUpdateRequest_fields folderUpdateRequest_zero r of
           Inl err \<Rightarrow> (writeBodyError err, w)
         | Inr req \<Rightarrow> (case parseAuthPatch (fuq_auth req) of
             Inl err \<Rightarrow> (writeError 400 codeBadRequest err, w)
           | Inr auth \<Rightarrow> (case parseProxyPatch L (fuq_proxy req) of
               Inl err \<Rightarrow> (writeError 400 codeBadRequest err, w)
             | Inr patch \<Rightarrow>
                 if fuq_name req = None \<and> fuq_follow_redirects req = None \<and> auth = None \<and>
                   fuq_pre_script req = None \<and> fuq_post_script req = None \<and> patch = None then
                   (writeError 400 codeBadRequest
                      ''provide at least one of name, follow_redirects, auth, pre_script, post_script or proxy'', w)
                 else (case requireProxyInProject patch (f_project_id cur) w of
                   (Inl err, w) \<Rightarrow> (writeFolderError L err, w)
                 | (Inr _, w) \<Rightarrow> (case validateScript ''pre_script'' (fuq_pre_script req) of
                     Some err \<Rightarrow> (writeError 400 codeBadRequest err, w)
                   | None \<Rightarrow> (case validateScript ''post_script'' (fuq_post_script req) of
                       Some err \<Rightarrow> (writeError 400 codeBadRequest err, w)
                     | None \<Rightarrow> (case folder_update_name req of
                         Inl err \<Rightarrow> (writeError 400 codeBadRequest err, w)
                       | Inr name \<Rightarrow>
                           (case validateToggleSetting ''follow_redirects'' (fuq_follow_redirects req) of
                              Some err \<Rightarrow> (writeError 400 codeBadRequest err, w)
                            | None \<Rightarrow>
                                (case exec (UpdateFolder folder_id name (folder_settings_params req auth patch)) w of
                                   (Inl err, w) \<Rightarrow> (writeFolderError L err, w)
                                 | (Inr folder, w) \<Rightarrow> (writeJSON 200 (newFolderResponse L folder), w)))))))))))))"

definition handleMoveFolder :: "lib \<Rightarrow> http_request \<Rightarrow> world \<Rightarrow> response \<times> world" where
  "handleMoveFolder L r w = (case authenticatedUser r of
     Inl resp \<Rightarrow> (resp, w)
   | Inr user \<Rightarrow> (case pathUUID L r ''id'' of
       Inl resp \<Rightarrow> (resp, w)
     | Inr folder_id \<Rightarrow> (case RequireFolderAccess folder_id (au_id user) w of
         (Inl err, w) \<Rightarrow> (writeAuthzError err, w)
       | (Inr _, w) \<Rightarrow> (case readJSON L folderMoveRequest_fields \<lparr> fmq_parent_id = None, fmq_sort_order = None \<rparr> r of
           Inl err \<Rightarrow> (writeBodyError err, w)
         | Inr req \<Rightarrow>
             if fmq_parent_id req = None then
               (writeError 400 codeBadRequest ''parent_id is required; use null to move to the project root'', w)
             else (case parseNullableUUID L (fmq_parent_id req) ''parent_id'' of
               Inl err \<Rightarrow> (writeError 400 codeBadRequest err, w)
             | Inr parent_id \<Rightarrow>
                 if (case fmq_sort_order req of None \<Rightarrow> False | Some n \<Rightarrow> n < 0) then
                   (writeError 400 codeBadRequest ''sort_order must not be negative'', w)
                 else (case MoveFolder folder_id parent_id (fmq_sort_order req) w of
                   (Inl err, w) \<Rightarrow> (writeFolderError L err, w)
                 | (Inr folder, w) \<Rightarrow> (writeJSON 200 (newFolderResponse L folder), w)))))))"

definition handleReorderFolders :: "lib \<Rightarrow> http_request \<Rightarrow> world \<Rightarrow> response \<times> world" where
  "handleReorderFolders L r w = (case authenticatedUser r of
     Inl resp \<Rightarrow> (resp, w)
   | Inr user \<Rightarrow> (case readJSON L folderOrderRequest_fields
         \<lparr> foq_project_id = [], foq_parent_id = None, foq_folder_ids = [] \<rparr> r of
       Inl err \<Rightarrow> (writeBodyError err, w)
     | Inr req \<Rightarrow> (case uuid_parse L (foq_project_id req) of
         None \<Rightarrow> (writeError 400 codeBadRequest ''project_id must be a valid uuid'', w)
       | Some project_id \<Rightarrow> (case RequireProjectAccess project_id (au_id user) w of
           (Inl err, w) \<Rightarrow> (writeAuthzError err, w)
         | (Inr _, w) \<Rightarrow> (case parseNullableUUID L (foq_parent_id req) ''parent_id'' of
             Inl err \<Rightarrow> (writeError 400 codeBadRequest err, w)
           | Inr parent_id \<Rightarrow> (case parseUUIDs L (foq_folder_ids req) ''folder_ids'' of
               Inl err \<Rightarrow> (writeError 400 codeBadRequest err, w)
             | Inr folder_ids \<Rightarrow>
                 (case ReorderFolders project_id parent_id folder_ids
                     (same_ids_check L folder_ids ''folder_ids'' ''a folder with this parent''
                        ''folders with this parent'') w of
                    (Inl err, w) \<Rightarrow> (writeFolderError L err, w)
                  | (Inr _, w) \<Rightarrow> (noContent, w))))))))"

definition handleDeleteFolder :: "lib \<Rightarrow> http_request \<Rightarrow> world \<Rightarrow> response \<times> world" where
  "handleDeleteFolder L r w = (case authenticatedUser r of
     Inl resp \<Rightarrow> (resp, w)
   | Inr user \<Rightarrow> (case pathUUID L r ''id'' of
       Inl resp \<Rightarrow> (resp, w)
     | Inr folder_id \<Rightarrow> (case RequireFolderAccess folder_id (au_id user) w of
         (Inl err, w) \<Rightarrow> (writeAuthzError err, w)
       | (Inr _, w) \<Rightarrow> (case exec (DeleteFolder folder_id) w of
           (Inl err, w) \<Rightarrow> (serverError err, w)
         | (Inr _, w) \<Rightarrow> (noContent, w)))))"

end
