(* ===== verification/FolderTree.thy ===== *)
theory FolderTree
  imports Folders
begin

text \<open>
  The folders of a project are a forest: the invariant, the statements and operations that keep it,
  and what a delete takes along.
\<close>

section \<open>The invariant\<close>

definition same_project_parent :: "Folder list \<Rightarrow> Folder \<Rightarrow> bool" where
  "same_project_parent fs f \<longleftrightarrow> (case f_parent_id f of
     None \<Rightarrow> True
   | Some p \<Rightarrow> (\<exists>g \<in> set fs. f_id g = p \<and> f_project_id g = f_project_id f))"

definition forest :: "Folder list \<Rightarrow> bool" where
  "forest fs \<longleftrightarrow> pkey f_id fs \<and> (\<forall>f \<in> set fs. same_project_parent fs f) \<and> acyclic (parent_rel fs)"

lemma forest_Nil [simp]: "forest []"
  by (simp add: forest_def parent_rel_def acyclic_def)

lemma mem_parent_rel:
  "(x, q) \<in> parent_rel fs \<longleftrightarrow>
     (\<exists>f \<in> set fs. f_id f = x \<and> f_parent_id f = Some q) \<and> (\<exists>g \<in> set fs. f_id g = q)"
  by (auto simp: parent_rel_def)

lemma forest_parent:
  "forest fs \<Longrightarrow> f \<in> set fs \<Longrightarrow> f_parent_id f = Some p \<Longrightarrow>
     \<exists>g \<in> set fs. f_id g = p \<and> f_project_id g = f_project_id f"
  by (auto simp: forest_def same_project_parent_def)

lemma parent_rel_mono:
  assumes "\<And>f. f \<in> set gs \<Longrightarrow> \<exists>h \<in> set fs. f_id h = f_id f \<and> f_parent_id h = f_parent_id f"
  shows "parent_rel gs \<subseteq> parent_rel fs"
proof (rule subrelI)
  fix x q assume "(x, q) \<in> parent_rel gs"
  then obtain f g where f: "f \<in> set gs" "g \<in> set gs" "f_id f = x" "f_id g = q" "f_parent_id f = Some q"
    by (auto simp: mem_parent_rel)
  from assms [OF f(1)] assms [OF f(2)] f(3-5) show "(x, q) \<in> parent_rel fs"
    unfolding mem_parent_rel by metis
qed

text \<open>Updates that leave the tree as it is.\<close>

definition same_place :: "(Folder \<Rightarrow> Folder) \<Rightarrow> bool" where
  "same_place g \<longleftrightarrow> (\<forall>f. f_id (g f) = f_id f \<and> f_project_id (g f) = f_project_id f \<and>
     f_parent_id (g f) = f_parent_id f)"

lemma forest_map:
  assumes "forest fs" "same_place g" shows "forest (map g fs)"
proof -
  have "pkey f_id (map g fs)" using assms by (simp add: forest_def pkey_def same_place_def o_def)
  moreover have "same_project_parent (map g fs) (g f)" if "f \<in> set fs" for f
    using assms that by (auto simp: forest_def same_project_parent_def same_place_def split: option.splits)
  moreover have "parent_rel (map g fs) \<subseteq> parent_rel fs"
    using assms(2) by (intro parent_rel_mono) (auto simp: same_place_def)
  ultimately show ?thesis using assms(1) by (auto simp: forest_def intro: acyclic_subset)
qed

lemma forest_update:
  "forest fs \<Longrightarrow> same_place g \<Longrightarrow> forest (update_rows p g fs)"
  unfolding update_rows_def by (rule forest_map) (simp_all add: same_place_def)

lemma forest_append:
  assumes "forest fs" "f_id n \<notin> f_id ` set fs" "same_project_parent fs n"
  shows "forest (fs @ [n])"
proof -
  have pk: "pkey f_id (fs @ [n])" using assms by (auto simp: forest_def pkey_append1)
  have sp: "same_project_parent (fs @ [n]) f" if "f \<in> set (fs @ [n])" for f
    using assms that by (auto simp: forest_def same_project_parent_def split: option.splits)
  have ids: "parent_rel fs \<subseteq> f_id ` set fs \<times> f_id ` set fs"
    by (auto simp: parent_rel_def)
  have "acyclic (parent_rel (fs @ [n]))"
  proof (cases "f_parent_id n")
    case None
    have "parent_rel (fs @ [n]) \<subseteq> parent_rel fs"
    proof (rule subrelI)
      fix x q assume "(x, q) \<in> parent_rel (fs @ [n])"
      then obtain f where "f \<in> set fs" "f_id f = x" "f_parent_id f = Some q"
        using None by (auto simp: mem_parent_rel)
      with forest_parent [OF assms(1) this(1,3)] show "(x, q) \<in> parent_rel fs"
        unfolding mem_parent_rel by blast
    qed
    with assms(1) show ?thesis by (auto simp: forest_def intro: acyclic_subset)
  next
    case (Some p)
    with assms(3) have p: "p \<in> f_id ` set fs" by (auto simp: same_project_parent_def)
    have sub: "parent_rel (fs @ [n]) \<subseteq> insert (f_id n, p) (parent_rel fs)"
    proof (rule subrelI)
      fix x q assume "(x, q) \<in> parent_rel (fs @ [n])"
      then obtain f where f: "f \<in> set (fs @ [n])" "f_id f = x" "f_parent_id f = Some q"
        by (auto simp: mem_parent_rel)
      show "(x, q) \<in> insert (f_id n, p) (parent_rel fs)"
      proof (cases "f \<in> set fs")
        case True
        from forest_parent [OF assms(1) True f(3)] True f(2,3) show ?thesis
          unfolding mem_parent_rel insert_iff by blast
      qed (use f Some in auto)
    qed
    have "(p, f_id n) \<notin> (parent_rel fs)\<^sup>*"
    proof
      assume "(p, f_id n) \<in> (parent_rel fs)\<^sup>*"
      then show False using p assms(2) ids by (cases rule: rtranclE) auto
    qed
    then have "acyclic (insert (f_id n, p) (parent_rel fs))"
      using assms(1) by (simp add: acyclic_insert forest_def)
    with sub show ?thesis by (rule acyclic_subset [rotated])
  qed
  with pk sp show ?thesis by (simp add: forest_def)
qed

text \<open>Moving a folder below one that is not in its subtree keeps the forest.\<close>

lemma forest_move:
  assumes "forest fs" "f \<in> set fs" "f_id f = i"
    and parent: "\<And>p. parent_id = Some p \<Longrightarrow>
      (\<exists>g \<in> set fs. f_id g = p \<and> f_project_id g = f_project_id f) \<and> (p, i) \<notin> (parent_rel fs)\<^sup>*"
  shows "forest (update_rows (\<lambda>f. f_id f = i) (\<lambda>f. f\<lparr> f_parent_id := parent_id, f_sort_order := n \<rparr>) fs)"
    (is "forest ?gs")
proof -
  let ?u = "\<lambda>f. if f_id f = i then f\<lparr> f_parent_id := parent_id, f_sort_order := n \<rparr> else f"
  have gs: "?gs = map ?u fs" by (simp add: update_rows_def)
  have u [simp]: "f_id (?u g) = f_id g" "f_project_id (?u g) = f_project_id g" for g by simp_all
  have pk: "pkey f_id ?gs" using assms(1) by (simp add: forest_def pkey_update)
  have exist: "(\<exists>g \<in> set ?gs. f_id g = p \<and> f_project_id g = q) \<longleftrightarrow>
      (\<exists>g \<in> set fs. f_id g = p \<and> f_project_id g = q)" for p q
    unfolding gs set_map bex_simps(7) u ..
  have proj: "f_project_id g = f_project_id f" if "g \<in> set fs" "f_id g = i" for g
    using assms that pkey_unique [of f_id fs g f] by (simp add: forest_def)
  have sp: "same_project_parent ?gs (?u g)" if g: "g \<in> set fs" for g
  proof (cases "f_parent_id (?u g)")
    case (Some p)
    have "\<exists>h \<in> set fs. f_id h = p \<and> f_project_id h = f_project_id g"
    proof (cases "f_id g = i")
      case True
      with Some parent proj [OF g] show ?thesis by simp
    next
      case False
      with Some forest_parent [OF assms(1) g] show ?thesis by simp
    qed
    with Some show ?thesis unfolding same_project_parent_def exist by (simp only: option.case u)
  qed (simp only: same_project_parent_def option.case)
  have "parent_rel ?gs \<subseteq> (case parent_id of None \<Rightarrow> parent_rel fs | Some p \<Rightarrow> insert (i, p) (parent_rel fs))"
  proof (rule subrelI)
    fix x q assume "(x, q) \<in> parent_rel ?gs"
    then obtain g h where g: "g \<in> set fs" "h \<in> set fs" "f_id (?u g) = x" "f_parent_id (?u g) = Some q"
        "f_id (?u h) = q" unfolding mem_parent_rel gs set_map by blast
    show "(x, q) \<in> (case parent_id of None \<Rightarrow> parent_rel fs | Some p \<Rightarrow> insert (i, p) (parent_rel fs))"
    proof (cases "f_id g = i")
      case True
      with g(3,4) show ?thesis by simp
    next
      case False
      with g have "(x, q) \<in> parent_rel fs" unfolding mem_parent_rel u by auto
      then show ?thesis by (simp split: option.split)
    qed
  qed
  moreover have "acyclic (case parent_id of None \<Rightarrow> parent_rel fs | Some p \<Rightarrow> insert (i, p) (parent_rel fs))"
    using assms(1) parent by (auto simp: forest_def acyclic_insert split: option.split)
  ultimately have "acyclic (parent_rel ?gs)" by (rule acyclic_subset [rotated])
  moreover have "\<forall>g \<in> set ?gs. same_project_parent ?gs g"
  proof
    fix g assume "g \<in> set ?gs"
    then obtain h where "h \<in> set fs" "g = ?u h" unfolding gs set_map by blast
    then show "same_project_parent ?gs g" using sp by (simp only:)
  qed
  ultimately show ?thesis using pk by (simp only: forest_def)
qed

section \<open>The subtree of a folder\<close>

lemma folder_children_ids: "folder_children fs s \<subseteq> f_id ` set fs"
  by (auto simp: folder_children_def)

lemma grow_closed_or_large:
  "folder_children fs (((\<lambda>t. t \<union> folder_children fs t) ^^ k) s) \<subseteq>
       ((\<lambda>t. t \<union> folder_children fs t) ^^ k) s \<or>
     k \<le> card (((\<lambda>t. t \<union> folder_children fs t) ^^ k) s \<inter> f_id ` set fs)"
proof (induction k)
  case (Suc k)
  let ?g = "\<lambda>t. t \<union> folder_children fs t"
  let ?t = "(?g ^^ k) s"
  show ?case
  proof (cases "folder_children fs ?t \<subseteq> ?t")
    case True
    then have "(?g ^^ Suc k) s = ?t" by auto
    with True show ?thesis by simp
  next
    case False
    with Suc have "k \<le> card (?t \<inter> f_id ` set fs)" by simp
    moreover have "?t \<inter> f_id ` set fs \<subset> (?g ^^ Suc k) s \<inter> f_id ` set fs"
      using False folder_children_ids [of fs ?t] by auto
    then have "card (?t \<inter> f_id ` set fs) < card ((?g ^^ Suc k) s \<inter> f_id ` set fs)"
      by (intro psubset_card_mono) auto
    ultimately show ?thesis by simp
  qed
qed simp

lemma subtree_closed: "folder_children fs (folder_subtree fs s) \<subseteq> folder_subtree fs s"
proof -
  let ?t = "folder_subtree fs s"
  from grow_closed_or_large [of fs "length fs" s] show ?thesis
  proof
    assume "length fs \<le> card (((\<lambda>t. t \<union> folder_children fs t) ^^ length fs) s \<inter> f_id ` set fs)"
    then have "card (f_id ` set fs) \<le> card (?t \<inter> f_id ` set fs)"
      unfolding folder_subtree_def using card_length [of "map f_id fs"] by simp
    then have "?t \<inter> f_id ` set fs = f_id ` set fs"
      by (intro card_seteq) auto
    then show ?thesis using folder_children_ids [of fs ?t] by blast
  qed (simp add: folder_subtree_def)
qed

lemma subtree_start: "s \<subseteq> folder_subtree fs s"
proof -
  have "s \<subseteq> ((\<lambda>t. t \<union> folder_children fs t) ^^ k) s" for k by (induction k) auto
  then show ?thesis by (simp add: folder_subtree_def)
qed

lemma subtree_reaches:
  assumes "forest fs" "i \<in> f_id ` set fs" "x \<in> folder_subtree fs {i}"
  shows "(x, i) \<in> (parent_rel fs)\<^sup>*"
proof -
  have "\<forall>x \<in> ((\<lambda>t. t \<union> folder_children fs t) ^^ k) {i}. (x, i) \<in> (parent_rel fs)\<^sup>* \<and> x \<in> f_id ` set fs" for k
  proof (induction k)
    case 0
    with assms(2) show ?case by simp
  next
    case (Suc k)
    let ?t = "((\<lambda>t. t \<union> folder_children fs t) ^^ k) {i}"
    show ?case
    proof
      fix x assume "x \<in> ((\<lambda>t. t \<union> folder_children fs t) ^^ Suc k) {i}"
      then consider "x \<in> ?t" | f p where "f \<in> set fs" "x = f_id f" "f_parent_id f = Some p" "p \<in> ?t"
        by (auto simp: folder_children_def split: option.splits)
      then show "(x, i) \<in> (parent_rel fs)\<^sup>* \<and> x \<in> f_id ` set fs"
      proof cases
        case 2
        with Suc have "(p, i) \<in> (parent_rel fs)\<^sup>*" "p \<in> f_id ` set fs" by auto
        moreover from this 2 have "(x, p) \<in> parent_rel fs" by (auto simp: parent_rel_def)
        ultimately show ?thesis using 2 by (auto intro: converse_rtrancl_into_rtrancl)
      qed (use Suc in auto)
    qed
  qed
  with assms(3) show ?thesis by (auto simp: folder_subtree_def)
qed

lemma subtree_iff:
  assumes "forest fs" "i \<in> f_id ` set fs"
  shows "x \<in> folder_subtree fs {i} \<longleftrightarrow> (x, i) \<in> (parent_rel fs)\<^sup>*"
proof
  assume "(x, i) \<in> (parent_rel fs)\<^sup>*"
  then show "x \<in> folder_subtree fs {i}"
  proof (induction rule: converse_rtrancl_induct)
    case base
    show ?case using subtree_start [of "{i}" fs] by simp
  next
    case (step y z)
    then have "y \<in> folder_children fs (folder_subtree fs {i})"
      by (auto simp: parent_rel_def folder_children_def intro!: image_eqI split: option.splits)
    then show ?case using subtree_closed [of fs "{i}"] by blast
  qed
qed (rule subtree_reaches [OF assms])

lemma forest_delete:
  assumes "forest fs" "folder_children fs gone \<subseteq> gone"
  shows "forest (delete_rows (\<lambda>f. f_id f \<in> gone) fs)" (is "forest ?gs")
proof -
  have sp: "same_project_parent ?gs f" if "f \<in> set ?gs" for f
  proof (cases "f_parent_id f")
    case (Some p)
    from that have f: "f \<in> set fs" "f_id f \<notin> gone" by (auto simp: set_delete_rows)
    have "p \<notin> gone"
    proof
      assume "p \<in> gone"
      with f(1) Some have "f_id f \<in> folder_children fs gone" by (force simp: folder_children_def)
      with assms(2) f(2) show False by blast
    qed
    with forest_parent [OF assms(1) f(1) Some] Some show ?thesis
      by (auto simp: same_project_parent_def set_delete_rows)
  qed (simp add: same_project_parent_def)
  have "parent_rel ?gs \<subseteq> parent_rel fs"
    by (intro parent_rel_mono) (auto simp: set_delete_rows)
  with assms(1) sp show ?thesis
    by (auto simp: forest_def pkey_delete intro: acyclic_subset)
qed

section \<open>Operations\<close>

text \<open>A reading statement in a transaction sees the transaction's database.\<close>

lemma exec_tx_reading:
  assumes "exec (reading g) w = (Inr x, v)" "in_tx w = Some m"
  shows "g (dbs w) = Inr x \<and> dbs v = dbs w \<and> in_tx v = Some m \<and> clock v = clock w"
  using exec_tx_Inr [OF assms] by (auto simp: reading_Inr)

lemma require_folder_tx:
  assumes "requireFolderInProject p project_id e w = (Inr (), v)" "in_tx w = Some m"
  shows "(\<exists>g \<in> set (folders (dbs w)). f_id g = p \<and> f_project_id g = project_id) \<and>
    dbs v = dbs w \<and> in_tx v = Some m \<and> clock v = clock w"
proof -
  from assms(1) obtain g where g: "exec (GetFolderByID p) w = (Inr g, v)" "f_project_id g = project_id"
    by (auto simp: requireFolderInProject_def split: prod.splits sum.splits if_splits)
  from exec_tx_reading [OF g(1) [unfolded GetFolderByID_def] assms(2)] g(2) show ?thesis
    by (auto split: option.splits dest: find_row_SomeD)
qed

lemma check_new_parent_tx:
  assumes "check_new_parent i p project_id w = (Inr (), v)" "in_tx w = Some m" "pkey f_id (folders (dbs w))"
  shows "(\<exists>g \<in> set (folders (dbs w)). f_id g = p \<and> f_project_id g = project_id) \<and>
    (p, i) \<notin> (parent_rel (folders (dbs w)))\<^sup>* \<and> dbs v = dbs w \<and> in_tx v = Some m \<and> clock v = clock w"
proof -
  from assms(1) obtain w1 where 1: "requireFolderInProject p project_id ErrInvalidParentFolder w = (Inr (), w1)"
    by (auto simp: check_new_parent_def split: prod.splits sum.splits)
  with assms(1) have 2: "exec (IsDescendant i p) w1 = (Inr False, v)"
    by (auto simp: check_new_parent_def split: prod.splits sum.splits if_splits)
  note r = require_folder_tx [OF 1 assms(2)]
  have "in_tx w1 = Some m" using r by simp
  from exec_tx_Inr [OF 2 this] r obtain s where
    d: "IsDescendant i p s (dbs w) = Inr (False, dbs v)" "in_tx v = Some m" "clock v = clock w" by auto
  have "p \<in> f_id ` set (folders (dbs w))" using r by auto
  from IsDescendant_iff [OF assms(3) this, of i s] d r show ?thesis by simp
qed

definition moved_to :: "uuid \<Rightarrow> uuid option \<Rightarrow> int \<Rightarrow> Folder list \<Rightarrow> Folder list" where
  "moved_to i parent_id n fs =
     update_rows (\<lambda>f. f_id f = i) (\<lambda>f. f\<lparr> f_parent_id := parent_id, f_sort_order := n \<rparr>) fs"

text \<open>What a new parent must be.\<close>

definition movable :: "Folder list \<Rightarrow> Folder \<Rightarrow> uuid option \<Rightarrow> bool" where
  "movable fs f parent_id \<longleftrightarrow> (case parent_id of
     None \<Rightarrow> True
   | Some p \<Rightarrow> (\<exists>g \<in> set fs. f_id g = p \<and> f_project_id g = f_project_id f) \<and> (p, f_id f) \<notin> (parent_rel fs)\<^sup>*)"

lemma forest_moved:
  assumes "forest fs" "f \<in> set fs" "movable fs f parent_id"
  shows "forest (moved_to (f_id f) parent_id n fs)"
  unfolding moved_to_def by (rule forest_move [OF assms(1,2) refl]) (use assms(3) in \<open>auto simp: movable_def\<close>)

lemma UpdateFolderParent_Inr:
  assumes "UpdateFolderParent i parent_id so s d = Inr (f', d')"
  shows "\<exists>f n. f \<in> set (folders d) \<and> f_id f = i \<and> f' = f\<lparr> f_parent_id := parent_id, f_sort_order := n \<rparr> \<and>
    (case so of None \<Rightarrow> (\<forall>g \<in> set (folders d). g \<noteq> f \<longrightarrow> f_id g \<noteq> i \<longrightarrow> f_project_id g = f_project_id f \<longrightarrow>
        f_parent_id g = parent_id \<longrightarrow> f_sort_order g < n) | Some k \<Rightarrow> n = k) \<and>
    d' = d\<lparr> folders := moved_to i parent_id n (folders d) \<rparr>"
proof -
  from assms obtain f where f: "find_row (\<lambda>f. f_id f = i) (folders d) = Some f"
    by (auto simp: UpdateFolderParent_def split: option.splits)
  let ?sibs = "map f_sort_order (filter (\<lambda>g. f_id g \<noteq> i) (folder_siblings (f_project_id f) parent_id (folders d)))"
  from assms f obtain n where n: "(case so of Some n \<Rightarrow> Inr n | None \<Rightarrow> next_order ?sibs) = Inr n"
    and r: "f' = f\<lparr> f_parent_id := parent_id, f_sort_order := n \<rparr>"
      "d' = d\<lparr> folders := moved_to i parent_id n (folders d) \<rparr>"
    by (auto simp: UpdateFolderParent_def result_simps Let_def moved_to_def)
  have "case so of None \<Rightarrow> \<forall>x \<in> set ?sibs. x < n | Some k \<Rightarrow> n = k"
    using n by (cases so) (auto dest: next_order_Inr)
  then have "case so of None \<Rightarrow> (\<forall>g \<in> set (folders d). g \<noteq> f \<longrightarrow> f_id g \<noteq> i \<longrightarrow> f_project_id g = f_project_id f \<longrightarrow>
        f_parent_id g = parent_id \<longrightarrow> f_sort_order g < n) | Some k \<Rightarrow> n = k"
    by (cases so) (auto simp: folder_siblings_def)
  with r find_row_SomeD [OF f] show ?thesis by blast
qed

lemma move_folder_tx_effect:
  assumes "in_tx w = Some m" "move_folder_tx i parent_id so w = (Inr f', v)" "pkey f_id (folders (dbs w))"
  shows "\<exists>f n. f \<in> set (folders (dbs w)) \<and> f_id f = i \<and> movable (folders (dbs w)) f parent_id \<and>
    f' = f\<lparr> f_parent_id := parent_id, f_sort_order := n \<rparr> \<and> (\<forall>k. so = Some k \<longrightarrow> n = k) \<and>
    dbs v = (dbs w)\<lparr> folders := moved_to i parent_id n (folders (dbs w)) \<rparr>"
proof -
  from assms(2) obtain f w1 w2 w3 where
    1: "exec (GetFolderByID i) w = (Inr f, w1)" and 2: "exec (LockProject (f_project_id f)) w1 = (Inr (), w2)" and
    3: "(case parent_id of None \<Rightarrow> (Inr (), w2) | Some p \<Rightarrow> check_new_parent i p (f_project_id f) w2) = (Inr (), w3)" and
    4: "exec (UpdateFolderParent i parent_id so) w3 = (Inr f', v)"
    by (auto simp: move_folder_tx_def split: prod.splits sum.splits)
  have s1: "find_row (\<lambda>f. f_id f = i) (folders (dbs w)) = Some f" "dbs w1 = dbs w" "in_tx w1 = Some m"
    using exec_tx_reading [OF 1 [unfolded GetFolderByID_def] assms(1)] by (auto split: option.splits)
  note s2 = exec_tx_reading [OF 2 [unfolded LockProject_def] s1(3)]
  have s3: "dbs w3 = dbs w" "in_tx w3 = Some m" "movable (folders (dbs w)) f parent_id"
    using 3 s1 s2 assms(3) check_new_parent_tx [of i _ "f_project_id f" w2 w3 m] find_row_SomeD [OF s1(1)]
    by (auto simp: movable_def split: option.splits)
  from exec_tx_Inr [OF 4 s3(2)] s3(1) obtain s where
    "UpdateFolderParent i parent_id so s (dbs w) = Inr (f', dbs v)" by auto
  from UpdateFolderParent_Inr [OF this] obtain g n where
    g: "g \<in> set (folders (dbs w))" "f_id g = i" "f' = g\<lparr> f_parent_id := parent_id, f_sort_order := n \<rparr>"
      "\<forall>k. so = Some k \<longrightarrow> n = k" "dbs v = (dbs w)\<lparr> folders := moved_to i parent_id n (folders (dbs w)) \<rparr>"
    by (auto split: option.splits)
  have "g = f"
    using g(1,2) find_row_SomeD [OF s1(1)] pkey_unique [OF assms(3), of g f] by simp
  with g s3(3) show ?thesis by blast
qed

lemma move_folder_effect:
  assumes "MoveFolder i parent_id so w = (r, v)" "pkey f_id (folders (dbs (arrive w)))"
  obtains (nothing) e where "r = Inl e" "dbs v = dbs (arrive w)"
  | (moved) f n where "f \<in> set (folders (dbs (arrive w)))" "f_id f = i"
      "movable (folders (dbs (arrive w))) f parent_id" "\<forall>k. so = Some k \<longrightarrow> n = k"
      "r = Inr (f\<lparr> f_parent_id := parent_id, f_sort_order := n \<rparr>) \<or> (\<exists>e. r = Inl e)"
      "dbs v = (dbs (arrive w))\<lparr> folders := moved_to i parent_id n (folders (dbs (arrive w))) \<rparr>"
proof (rule inTx_cases [OF assms(1) [unfolded MoveFolder_def]])
  fix x u
  assume b: "move_folder_tx i parent_id so ((arrive w)\<lparr> in_tx := Some (tick w) \<rparr>) = (Inr x, u)"
    "dbs v = dbs u" "r = Inr x \<or> (\<exists>e. r = Inl e)"
  from move_folder_tx_effect [OF _ b(1), of "tick w"] assms(2) b(2,3) show thesis
    using moved by auto
qed (rule nothing)

lemma move_folder_forest:
  assumes "MoveFolder i parent_id so w = (r, v)" "forest (folders (dbs (arrive w)))"
  shows "forest (folders (dbs v))"
proof (rule move_folder_effect [OF assms(1)])
  show "pkey f_id (folders (dbs (arrive w)))" using assms(2) by (simp add: forest_def)
  fix f n
  assume f: "f \<in> set (folders (dbs (arrive w)))" "f_id f = i" "movable (folders (dbs (arrive w))) f parent_id"
    "dbs v = (dbs (arrive w))\<lparr> folders := moved_to i parent_id n (folders (dbs (arrive w))) \<rparr>"
  from forest_moved [OF assms(2) f(1,3), of n] f(2,4) show ?thesis by simp
qed (use assms(2) in simp)

text \<open>A delete takes exactly the folders with the deleted one among their ancestors, and their requests.\<close>

lemma delete_folder_effect:
  assumes "DeleteFolder i s d = Inr ((), d')" "forest (folders d)"
  shows "folders d' = filter (\<lambda>f. (f_id f, i) \<notin> (parent_rel (folders d))\<^sup>* \<or> i \<notin> f_id ` set (folders d)) (folders d) \<and>
    requests d' = filter (\<lambda>r. case r_folder_id r of None \<Rightarrow> True
      | Some k \<Rightarrow> (k, i) \<notin> (parent_rel (folders d))\<^sup>* \<or> i \<notin> f_id ` set (folders d)) (requests d) \<and>
    forest (folders d')"
proof (cases "i \<in> f_id ` set (folders d)")
  case False
  then have "d' = d" using assms(1) by (simp add: DeleteFolder_def)
  with False assms(2) show ?thesis by (auto intro: filter_True [symmetric] split: option.splits)
next
  case True
  let ?gone = "folder_subtree (folders d) {i}"
  have d': "d' = delete_folders {i} d" using assms(1) True by (simp add: DeleteFolder_def)
  have f: "folders d' = delete_rows (\<lambda>f. f_id f \<in> ?gone) (folders d)"
    by (simp add: d' delete_folders_def delete_requests_def Let_def)
  have r: "requests d' = delete_rows (\<lambda>r. case r_folder_id r of None \<Rightarrow> False | Some k \<Rightarrow> k \<in> ?gone) (requests d)"
    by (simp add: d' delete_folders_def delete_requests_def Let_def)
  have "forest (folders d')" unfolding f by (rule forest_delete [OF assms(2) subtree_closed])
  then show ?thesis
    using True unfolding f r delete_rows_def subtree_iff [OF assms(2) True]
    by (auto intro!: filter_cong split: option.splits)
qed

end
