(* ===== verification/Wellformed.thy ===== *)
theory Wellformed
  imports FolderTree RequestQueries EnvironmentQueries WebhookQueries
begin

text \<open>
  What the migrations of \<^verbatim>\<open>internal/db/migrations\<close> declare holds of every database the
  statements produce: the primary keys, the unique indexes, the foreign keys with their cascades and
  the \<^verbatim>\<open>CHECK\<close> constraints, table by table, and the lemma that each statement preserves
  all of them.
\<close>

section \<open>Columns\<close>

text \<open>The references of a column, one that may be \<^verbatim>\<open>NULL\<close>, and a condition on every row.\<close>

definition refs :: "('r \<Rightarrow> 'k) \<Rightarrow> 'k set \<Rightarrow> 'r list \<Rightarrow> bool" where
  "refs k I t \<longleftrightarrow> (\<forall>r \<in> set t. k r \<in> I)"

definition opt_refs :: "('r \<Rightarrow> 'k option) \<Rightarrow> 'k set \<Rightarrow> 'r list \<Rightarrow> bool" where
  "opt_refs k I t \<longleftrightarrow> (\<forall>r \<in> set t. \<forall>i. k r = Some i \<longrightarrow> i \<in> I)"

definition each_row :: "('r \<Rightarrow> bool) \<Rightarrow> 'r list \<Rightarrow> bool" where
  "each_row P t \<longleftrightarrow> (\<forall>r \<in> set t. P r)"

text \<open>
  A unique index over the rows a predicate selects, told apart by their primary key.
\<close>

definition unique_index :: "('r \<Rightarrow> bool) \<Rightarrow> ('r \<Rightarrow> 'k) \<Rightarrow> ('r \<Rightarrow> 'i) \<Rightarrow> 'r list \<Rightarrow> bool" where
  "unique_index P k i t \<longleftrightarrow> (\<forall>r \<in> set t. \<forall>s \<in> set t. P r \<longrightarrow> P s \<longrightarrow> k r = k s \<longrightarrow> i r = i s)"

lemma unique_index_Nil [simp]: "unique_index P k i []"
  by (simp add: unique_index_def)

lemma unique_indexD:
  "unique_index P k i t \<Longrightarrow> r \<in> set t \<Longrightarrow> s \<in> set t \<Longrightarrow> P r \<Longrightarrow> P s \<Longrightarrow> k r = k s \<Longrightarrow> i r = i s"
  unfolding unique_index_def by blast

lemma unique_index_append:
  assumes "unique_index P k i t" "i x \<notin> i ` set t" "\<forall>r \<in> set t. i r \<noteq> i x \<and> P r \<and> P x \<longrightarrow> k r \<noteq> k x"
  shows "unique_index P k i (t @ [x])"
  unfolding unique_index_def
proof (intro ballI impI)
  fix r s assume rs: "r \<in> set (t @ [x])" "s \<in> set (t @ [x])" "P r" "P s" "k r = k s"
  then consider "r \<in> set t \<and> s \<in> set t" | "r = x \<and> s = x" | "r = x \<and> s \<in> set t" | "r \<in> set t \<and> s = x"
    by auto
  then show "i r = i s" using rs(3-5) unique_indexD [OF assms(1)] assms(2,3) by cases (metis image_eqI)+
qed

lemma unique_index_delete: "unique_index P k i t \<Longrightarrow> unique_index P k i (delete_rows p t)"
  unfolding unique_index_def set_delete_rows by blast

lemma unique_index_map:
  assumes "unique_index P k i t" "\<And>r. P (f r) \<Longrightarrow> P r" "\<And>r. k (f r) = k r" "\<And>r. i (f r) = i r"
  shows "unique_index P k i (map f t)"
  unfolding unique_index_def set_map ball_simps
  using unique_indexD [OF assms(1)] assms(2-4) by metis

lemma unique_index_update_same:
  assumes "unique_index P k i t" "\<And>r. p r \<Longrightarrow> P (f r) \<Longrightarrow> P r" "\<And>r. k (f r) = k r" "\<And>r. i (f r) = i r"
  shows "unique_index P k i (update_rows p f t)"
  unfolding update_rows_def by (rule unique_index_map [OF assms(1)]) (use assms(2-4) in \<open>auto split: if_splits\<close>)

text \<open>The update of the one row with a given key: what holds of its new value decides.\<close>

lemma each_row_update1:
  assumes "each_row P t" "pkey i t"
    "case find_row (\<lambda>r. i r = n) t of None \<Rightarrow> True | Some x \<Rightarrow> P (f x)"
  shows "each_row P (update_rows (\<lambda>r. i r = n) f t)"
  using assms find_row_pkey [OF assms(2)] by (auto simp: each_row_def set_update_rows)

lemma opt_refs_update1:
  assumes "opt_refs j I t" "pkey i t"
    "case find_row (\<lambda>r. i r = n) t of None \<Rightarrow> True | Some x \<Rightarrow> (case j (f x) of None \<Rightarrow> True | Some m \<Rightarrow> m \<in> I)"
  shows "opt_refs j I (update_rows (\<lambda>r. i r = n) f t)"
  using assms find_row_pkey [OF assms(2)] by (auto simp: opt_refs_def set_update_rows)

lemma unique_index_update1:
  assumes "unique_index P k i t" "pkey i t" "\<And>r. i (f r) = i r"
    "case find_row (\<lambda>r. i r = n) t of None \<Rightarrow> True | Some x \<Rightarrow> (\<forall>r \<in> set t. i r \<noteq> n \<longrightarrow> P r \<longrightarrow> k r \<noteq> k (f x))"
  shows "unique_index P k i (update_rows (\<lambda>r. i r = n) f t)"
proof -
  have "i r = i s" if "r \<in> set t" "i r \<noteq> n" "s \<in> set t" "i s = n" "P r" "k r = k (f s)" for r s
    using assms(4) find_row_pkey [OF assms(2) that(3)] that by auto
  then have "i r = i s" if "r \<in> set t" "s \<in> set t" "P (if i r = n then f r else r)"
      "P (if i s = n then f s else s)" "k (if i r = n then f r else r) = k (if i s = n then f s else s)" for r s
    using that unique_indexD [OF assms(1) that(1,2)] by (cases "i r = n"; cases "i s = n") (auto, metis+)
  then have "unique_index P k i (update_rows (\<lambda>r. i r = n) f t)" if "\<forall>r. i (if i r = n then f r else r) = i r"
    unfolding unique_index_def set_update_rows ball_simps using that by metis
  with assms(3) show ?thesis by simp
qed

text \<open>A cascade leaves no row that refers to a row it took.\<close>

lemma refs_cascade:
  assumes "refs k (i ` set t) c"
  shows "refs k (i ` set (delete_rows p t)) (delete_rows (\<lambda>x. k x \<in> i ` {r \<in> set t. p r}) c)"
  using assms by (fastforce simp: refs_def set_delete_rows)

lemma refs_remaining:
  "refs k (i ` set t) c \<Longrightarrow> each_row (\<lambda>x. k x \<notin> i ` {r \<in> set t. p r}) c \<Longrightarrow> refs k (i ` set (delete_rows p t)) c"
  by (fastforce simp: refs_def each_row_def set_delete_rows)

lemma each_row_simps [simp]:
  "refs k I []" "opt_refs j I []" "each_row P []"
  "refs k I (t @ [r]) \<longleftrightarrow> refs k I t \<and> k r \<in> I"
  "opt_refs j I (t @ [r]) \<longleftrightarrow> opt_refs j I t \<and> (\<forall>i. j r = Some i \<longrightarrow> i \<in> I)"
  "each_row P (t @ [r]) \<longleftrightarrow> each_row P t \<and> P r"
  by (auto simp: refs_def opt_refs_def each_row_def)

lemma ids_append [simp]: "k ` set (t @ [r]) = insert (k r) (k ` set t)"
  by simp

lemma refs_more [intro]: "refs k I t \<Longrightarrow> refs k (insert i I) t" "opt_refs j I t \<Longrightarrow> opt_refs j (insert i I) t"
  by (auto simp: refs_def opt_refs_def)

lemma refs_mono: "refs k I t \<Longrightarrow> I \<subseteq> J \<Longrightarrow> refs k J t" "opt_refs j I t \<Longrightarrow> I \<subseteq> J \<Longrightarrow> opt_refs j J t"
  by (auto simp: refs_def opt_refs_def)

lemma rows_delete [intro]:
  "refs k I t \<Longrightarrow> refs k I (delete_rows p t)" "opt_refs j I t \<Longrightarrow> opt_refs j I (delete_rows p t)"
  "each_row P t \<Longrightarrow> each_row P (delete_rows p t)" "unique_index P key i t \<Longrightarrow> unique_index P key i (delete_rows p t)"
  by (auto simp: refs_def opt_refs_def each_row_def set_delete_rows unique_index_delete)

lemma pkey_delete_rows [intro]: "pkey k t \<Longrightarrow> pkey k (delete_rows p t)"
  by (rule pkey_delete)

text \<open>An update, and the rewriting of every row, that leaves a column alone.\<close>

lemma ids_update [simp]:
  assumes "\<And>r. k (f r) = k r" shows "k ` set (update_rows p f t) = k ` set t"
  using assms by (induction t) auto

lemma refs_update [simp]:
  assumes "\<And>r. k (f r) = k r" shows "refs k I (update_rows p f t) = refs k I t"
  using assms by (induction t) (auto simp: refs_def)

lemma opt_refs_update [simp]:
  assumes "\<And>r. j (f r) = j r" shows "opt_refs j I (update_rows p f t) = opt_refs j I t"
  using assms by (induction t) (auto simp: opt_refs_def)

lemma each_row_update: "each_row P t \<Longrightarrow> (\<And>r. r \<in> set t \<Longrightarrow> p r \<Longrightarrow> P r \<Longrightarrow> P (f r)) \<Longrightarrow> each_row P (update_rows p f t)"
  by (auto simp: each_row_def set_update_rows)

lemma pkey_update_rows [simp]: "(\<And>r. k (f r) = k r) \<Longrightarrow> pkey k (update_rows p f t) = pkey k t"
  by (rule pkey_update)

lemma ids_map [simp]: "(\<And>r. k (f r) = k r) \<Longrightarrow> k ` set (map f t) = k ` set t"
  by (force simp: image_iff)

lemma refs_map [simp]: "(\<And>r. k (f r) = k r) \<Longrightarrow> refs k I (map f t) = refs k I t"
  by (auto simp: refs_def)

lemma opt_refs_map [simp]: "(\<And>r. j (f r) = j r) \<Longrightarrow> opt_refs j I (map f t) = opt_refs j I t"
  by (auto simp: opt_refs_def)

lemma each_row_map [simp]: "(\<And>r. P (f r) = P r) \<Longrightarrow> each_row P (map f t) = each_row P t"
  by (auto simp: each_row_def)

lemma pkey_map [simp]: "(\<And>r. k (f r) = k r) \<Longrightarrow> pkey k (map f t) = pkey k t"
  by (simp add: pkey_def o_def)

section \<open>Tables\<close>

definition checks_hold :: "(bool \<times> string) list \<Rightarrow> bool" where
  "checks_hold cs \<longleftrightarrow> (\<forall>(b, c) \<in> set cs. b)"

lemma checks_hold_iff: "checks cs k = Inr x \<longleftrightarrow> checks_hold cs \<and> k = Inr x"
  by (simp add: checks_Inr checks_hold_def)

lemma checks_hold_append [simp]: "checks_hold (cs @ ds) \<longleftrightarrow> checks_hold cs \<and> checks_hold ds"
  by (auto simp: checks_hold_def)

definition users_ok :: "db \<Rightarrow> bool" where
  "users_ok d \<longleftrightarrow> pkey u_id (users d) \<and> pkey u_email (users d) \<and>
     each_row (\<lambda>u. u_email u = pg_lower d (u_email u)) (users d)"

definition sessions_ok :: "db \<Rightarrow> bool" where
  "sessions_ok d \<longleftrightarrow> pkey s_token_hash (sessions d) \<and> refs s_user_id (u_id ` set (users d)) (sessions d)"

definition teams_ok :: "db \<Rightarrow> bool" where
  "teams_ok d \<longleftrightarrow> pkey t_id (teams d) \<and> refs t_owner_id (u_id ` set (users d)) (teams d) \<and>
     each_row (\<lambda>t. pg_name_ok 100 (t_name t)) (teams d)"

definition member_key :: "TeamMember \<Rightarrow> uuid \<times> uuid" where
  "member_key m = (m_team_id m, m_user_id m)"

definition members_ok :: "db \<Rightarrow> bool" where
  "members_ok d \<longleftrightarrow> pkey member_key (team_members d) \<and> refs m_team_id (t_id ` set (teams d)) (team_members d) \<and>
     refs m_user_id (u_id ` set (users d)) (team_members d)"

definition invitations_ok :: "db \<Rightarrow> bool" where
  "invitations_ok d \<longleftrightarrow> pkey i_id (team_invitations d) \<and>
     refs i_team_id (t_id ` set (teams d)) (team_invitations d) \<and>
     refs i_invited_by (u_id ` set (users d)) (team_invitations d) \<and>
     each_row (\<lambda>i. i_status i \<in> {InvitationPending, InvitationAccepted, InvitationRejected}) (team_invitations d) \<and>
     each_row (\<lambda>i. i_email i = pg_lower d (i_email i)) (team_invitations d) \<and>
     unique_index (\<lambda>i. i_status i = InvitationPending) (\<lambda>i. (i_team_id i, i_email i)) i_id (team_invitations d)"

definition projects_ok :: "db \<Rightarrow> bool" where
  "projects_ok d \<longleftrightarrow> pkey p_id (projects d) \<and> refs p_team_id (t_id ` set (teams d)) (projects d) \<and>
     refs p_owner_id (u_id ` set (users d)) (projects d) \<and>
     each_row (\<lambda>p. pg_name_ok 100 (p_name p)) (projects d)"

definition grant_key :: "ProjectAccess \<Rightarrow> uuid \<times> uuid" where
  "grant_key a = (a_project_id a, a_user_id a)"

definition access_ok :: "db \<Rightarrow> bool" where
  "access_ok d \<longleftrightarrow> pkey grant_key (project_access d) \<and>
     refs a_project_id (p_id ` set (projects d)) (project_access d) \<and>
     refs a_user_id (u_id ` set (users d)) (project_access d)"

definition folders_ok :: "db \<Rightarrow> bool" where
  "folders_ok d \<longleftrightarrow> pkey f_id (folders d) \<and> refs f_project_id (p_id ` set (projects d)) (folders d) \<and>
     opt_refs f_parent_id (f_id ` set (folders d)) (folders d) \<and>
     opt_refs (\<lambda>f. proxy_id (f_settings f)) (x_id ` set (proxies d)) (folders d) \<and>
     each_row (\<lambda>f. pg_name_ok 100 (f_name f) \<and> checks_hold (settings_checks ''folders'' (f_settings f))) (folders d)"

definition environments_ok :: "db \<Rightarrow> bool" where
  "environments_ok d \<longleftrightarrow> pkey e_id (environments d) \<and>
     refs e_project_id (p_id ` set (projects d)) (environments d) \<and>
     each_row (\<lambda>e. pg_name_ok 100 (e_name e)) (environments d) \<and>
     unique_index (\<lambda>_. True) (\<lambda>e. (e_project_id e, pg_lower d (e_name e))) e_id (environments d)"

definition variables_ok :: "db \<Rightarrow> bool" where
  "variables_ok d \<longleftrightarrow> pkey v_id (environment_variables d) \<and>
     refs v_environment_id (e_id ` set (environments d)) (environment_variables d) \<and>
     each_row (\<lambda>v. checks_hold (variable_checks v)) (environment_variables d) \<and>
     unique_index (\<lambda>_. True) (\<lambda>v. (v_environment_id v, pg_lower d (v_key v))) v_id (environment_variables d)"

definition requests_ok :: "db \<Rightarrow> bool" where
  "requests_ok d \<longleftrightarrow> pkey r_id (requests d) \<and> refs r_project_id (p_id ` set (projects d)) (requests d) \<and>
     opt_refs r_folder_id (f_id ` set (folders d)) (requests d) \<and>
     opt_refs (\<lambda>r. proxy_id (r_settings r)) (x_id ` set (proxies d)) (requests d) \<and>
     each_row (\<lambda>r. checks_hold (request_checks r) \<and> checks_hold (settings_checks ''requests'' (r_settings r))) (requests d)"

definition proxies_ok :: "db \<Rightarrow> bool" where
  "proxies_ok d \<longleftrightarrow> pkey x_id (proxies d) \<and> refs x_project_id (p_id ` set (projects d)) (proxies d) \<and>
     each_row (\<lambda>x. checks_hold (proxy_checks x)) (proxies d) \<and>
     unique_index (\<lambda>_. True) (\<lambda>x. (x_project_id x, pg_lower d (x_name x))) x_id (proxies d)"

definition examples_ok :: "db \<Rightarrow> bool" where
  "examples_ok d \<longleftrightarrow> pkey ex_id (request_examples d) \<and>
     refs ex_request_id (r_id ` set (requests d)) (request_examples d) \<and>
     each_row (\<lambda>x. checks_hold (example_checks x)) (request_examples d)"

definition endpoints_ok :: "db \<Rightarrow> bool" where
  "endpoints_ok d \<longleftrightarrow> pkey w_id (webhook_endpoints d) \<and> pkey w_slug (webhook_endpoints d) \<and>
     refs w_project_id (p_id ` set (projects d)) (webhook_endpoints d) \<and>
     refs w_created_by (u_id ` set (users d)) (webhook_endpoints d) \<and>
     each_row (\<lambda>w. checks_hold (endpoint_checks w)) (webhook_endpoints d)"

definition captures_wf :: "db \<Rightarrow> bool" where
  "captures_wf d \<longleftrightarrow> pkey c_id (webhook_captures d) \<and>
     refs c_endpoint_id (w_id ` set (webhook_endpoints d)) (webhook_captures d) \<and>
     each_row (\<lambda>c. c_id c \<le> capture_seq d) (webhook_captures d)"

definition db_ok :: "db \<Rightarrow> bool" where
  "db_ok d \<longleftrightarrow> users_ok d \<and> sessions_ok d \<and> teams_ok d \<and> members_ok d \<and> invitations_ok d \<and>
     projects_ok d \<and> access_ok d \<and> folders_ok d \<and> environments_ok d \<and> variables_ok d \<and>
     requests_ok d \<and> proxies_ok d \<and> examples_ok d \<and> endpoints_ok d \<and> captures_wf d"

lemmas table_ok_defs = users_ok_def sessions_ok_def teams_ok_def members_ok_def invitations_ok_def
  projects_ok_def access_ok_def folders_ok_def environments_ok_def variables_ok_def requests_ok_def
  proxies_ok_def examples_ok_def endpoints_ok_def captures_wf_def

lemmas db_ok_defs = db_ok_def table_ok_defs

lemma empty_db_ok: "db_ok (empty_db low)"
  by (simp add: db_ok_defs empty_db_def)

section \<open>Replacing one table\<close>

text \<open>
  Replacing a table by one with at least the same keys keeps the schema, if the new table is well
  formed; nothing refers to the tables of the first lemma, so that they may lose rows as well.
\<close>

lemma set_leaf_table:
  assumes "db_ok d"
  shows "sessions_ok (d\<lparr> sessions := t0 \<rparr>) \<Longrightarrow> db_ok (d\<lparr> sessions := t0 \<rparr>)"
    "members_ok (d\<lparr> team_members := t1 \<rparr>) \<Longrightarrow> db_ok (d\<lparr> team_members := t1 \<rparr>)"
    "invitations_ok (d\<lparr> team_invitations := t2 \<rparr>) \<Longrightarrow> db_ok (d\<lparr> team_invitations := t2 \<rparr>)"
    "access_ok (d\<lparr> project_access := t3 \<rparr>) \<Longrightarrow> db_ok (d\<lparr> project_access := t3 \<rparr>)"
    "variables_ok (d\<lparr> environment_variables := t4 \<rparr>) \<Longrightarrow> db_ok (d\<lparr> environment_variables := t4 \<rparr>)"
    "examples_ok (d\<lparr> request_examples := t5 \<rparr>) \<Longrightarrow> db_ok (d\<lparr> request_examples := t5 \<rparr>)"
    "captures_wf (d\<lparr> webhook_captures := t7, capture_seq := n \<rparr>) \<Longrightarrow> db_ok (d\<lparr> webhook_captures := t7, capture_seq := n \<rparr>)"
    "captures_wf (d\<lparr> webhook_captures := t7 \<rparr>) \<Longrightarrow> db_ok (d\<lparr> webhook_captures := t7 \<rparr>)"
  using assms unfolding db_ok_defs by simp_all

lemma set_users:
  assumes "db_ok d" "users_ok (d\<lparr> users := t \<rparr>)" "u_id ` set (users d) \<subseteq> u_id ` set t"
  shows "db_ok (d\<lparr> users := t \<rparr>)"
  using assms(1,2) unfolding db_ok_defs
  by (simp add: refs_mono(1) [OF _ assms(3)] refs_mono(2) [OF _ assms(3)])

lemma set_teams:
  assumes "db_ok d" "teams_ok (d\<lparr> teams := t \<rparr>)" "t_id ` set (teams d) \<subseteq> t_id ` set t"
  shows "db_ok (d\<lparr> teams := t \<rparr>)"
  using assms(1,2) unfolding db_ok_defs
  by (simp add: refs_mono(1) [OF _ assms(3)] refs_mono(2) [OF _ assms(3)])

lemma set_projects:
  assumes "db_ok d" "projects_ok (d\<lparr> projects := t \<rparr>)" "p_id ` set (projects d) \<subseteq> p_id ` set t"
  shows "db_ok (d\<lparr> projects := t \<rparr>)"
  using assms(1,2) unfolding db_ok_defs
  by (simp add: refs_mono(1) [OF _ assms(3)] refs_mono(2) [OF _ assms(3)])

lemma set_environments:
  assumes "db_ok d" "environments_ok (d\<lparr> environments := t \<rparr>)" "e_id ` set (environments d) \<subseteq> e_id ` set t"
  shows "db_ok (d\<lparr> environments := t \<rparr>)"
  using assms(1,2) unfolding db_ok_defs
  by (simp add: refs_mono(1) [OF _ assms(3)] refs_mono(2) [OF _ assms(3)])

lemma set_requests:
  assumes "db_ok d" "requests_ok (d\<lparr> requests := t \<rparr>)" "r_id ` set (requests d) \<subseteq> r_id ` set t"
  shows "db_ok (d\<lparr> requests := t \<rparr>)"
  using assms(1,2) unfolding db_ok_defs
  by (simp add: refs_mono(1) [OF _ assms(3)] refs_mono(2) [OF _ assms(3)])

lemma set_proxies:
  assumes "db_ok d" "proxies_ok (d\<lparr> proxies := t \<rparr>)" "x_id ` set (proxies d) \<subseteq> x_id ` set t"
  shows "db_ok (d\<lparr> proxies := t \<rparr>)"
  using assms(1,2) unfolding db_ok_defs
  by (simp add: refs_mono(1) [OF _ assms(3)] refs_mono(2) [OF _ assms(3)])

lemma set_webhook_endpoints:
  assumes "db_ok d" "endpoints_ok (d\<lparr> webhook_endpoints := t \<rparr>)" "w_id ` set (webhook_endpoints d) \<subseteq> w_id ` set t"
  shows "db_ok (d\<lparr> webhook_endpoints := t \<rparr>)"
  using assms(1,2) unfolding db_ok_defs
  by (simp add: refs_mono(1) [OF _ assms(3)] refs_mono(2) [OF _ assms(3)])

lemma set_folders:
  assumes "db_ok d" "folders_ok (d\<lparr> folders := t \<rparr>)" "f_id ` set (folders d) \<subseteq> f_id ` set t"
  shows "db_ok (d\<lparr> folders := t \<rparr>)"
  using assms(1,2) unfolding db_ok_defs
  by (simp add: refs_mono(1) [OF _ assms(3)] refs_mono(2) [OF _ assms(3)])

section \<open>Statements that add or change rows\<close>

definition keeps_ok :: "db \<Rightarrow> db \<Rightarrow> bool" where
  "keeps_ok d e \<longleftrightarrow> (db_ok d \<longrightarrow> db_ok e)"

named_theorems keeps_intros \<open>the statements that keep the schema\<close>

lemma preserves_readonly: "readonly q \<Longrightarrow> preserves keeps_ok q"
  by (auto simp: preserves_def keeps_ok_def readonly_def)

lemma keeps_okI: "(\<And>s d x d'. db_ok d \<Longrightarrow> q s d = Inr (x, d') \<Longrightarrow> db_ok d') \<Longrightarrow> preserves keeps_ok q"
  by (auto simp: preserves_def keeps_ok_def)

lemmas stmt_simps = with_texts_Inr with_jsonb_Inr require_Inr bindR_Inr_iff checks_hold_iff Let_def
  user_exists_def team_exists_def project_exists_def

lemma db_okD:
  assumes "db_ok d"
  shows "users_ok d" "sessions_ok d" "teams_ok d" "members_ok d" "invitations_ok d" "projects_ok d"
    "access_ok d" "folders_ok d" "environments_ok d" "variables_ok d" "requests_ok d" "proxies_ok d"
    "examples_ok d" "endpoints_ok d" "captures_wf d"
  using assms by (simp_all add: db_ok_def)

lemma keeps_CreateUser [keeps_intros]: "preserves keeps_ok (CreateUser email h name)"
  by (rule keeps_okI, frule db_okD(1))
    (auto simp: CreateUser_def users_ok_def pkey_append1 stmt_simps intro!: set_users)

lemma keeps_CreateSession [keeps_intros]: "preserves keeps_ok (CreateSession h u t)"
  by (rule keeps_okI, frule db_okD(2))
    (auto simp: CreateSession_def sessions_ok_def pkey_append1 stmt_simps intro!: set_leaf_table)

lemma keeps_DeleteExpiredSessions [keeps_intros]: "preserves keeps_ok (DeleteExpiredSessions)"
  by (rule keeps_okI, frule db_okD(2))
    (auto simp: DeleteExpiredSessions_def sessions_ok_def stmt_simps intro!: set_leaf_table)

lemma keeps_DeleteSession [keeps_intros]: "preserves keeps_ok (DeleteSession h)"
  by (rule keeps_okI, frule db_okD(2))
    (auto simp: DeleteSession_def sessions_ok_def stmt_simps intro!: set_leaf_table)

lemma keeps_CreateTeam [keeps_intros]: "preserves keeps_ok (CreateTeam name u)"
  by (rule keeps_okI, frule db_okD(3))
    (auto simp: CreateTeam_def teams_ok_def pkey_append1 stmt_simps intro!: set_teams)

lemma keeps_UpdateTeamName [keeps_intros]: "preserves keeps_ok (UpdateTeamName i name)"
  by (rule keeps_okI, frule db_okD(3))
    (auto simp: UpdateTeamName_def teams_ok_def stmt_simps split: option.splits intro!: set_teams each_row_update)

lemma find_member_None: "find_row (is_member t u) ms = None \<longleftrightarrow> (t, u) \<notin> member_key ` set ms"
  by (auto simp: find_row_None is_member_def member_key_def image_iff)

lemma keeps_CreateTeamMember [keeps_intros]: "preserves keeps_ok (CreateTeamMember t u all)"
  by (rule keeps_okI, frule db_okD(4))
    (auto simp: CreateTeamMember_def members_ok_def pkey_append1 find_member_None member_key_def stmt_simps intro!: set_leaf_table)

lemma keeps_CreateTeamMemberIfAbsent [keeps_intros]: "preserves keeps_ok (CreateTeamMemberIfAbsent t u)"
  by (rule keeps_okI, frule db_okD(4))
    (auto simp: CreateTeamMemberIfAbsent_def members_ok_def pkey_append1 find_member_None member_key_def stmt_simps split: if_splits intro!: set_leaf_table)

lemma keeps_DeleteTeamMember [keeps_intros]: "preserves keeps_ok (DeleteTeamMember t u)"
  by (rule keeps_okI, frule db_okD(4))
    (auto simp: DeleteTeamMember_def members_ok_def stmt_simps intro!: set_leaf_table)

lemma keeps_UpdateMemberAllProjects [keeps_intros]: "preserves keeps_ok (UpdateMemberAllProjects t u all)"
  by (rule keeps_okI, frule db_okD(4))
    (auto simp: UpdateMemberAllProjects_def members_ok_def member_key_def stmt_simps split: option.splits intro!: set_leaf_table)

lemma keeps_CreateInvitation [keeps_intros]: "preserves keeps_ok (CreateInvitation t e u)"
  by (rule keeps_okI, frule db_okD(5))
    (auto simp: CreateInvitation_def invitations_ok_def pkey_append1 find_row_None stmt_simps intro!: set_leaf_table unique_index_append)

lemma keeps_DeleteInvitation [keeps_intros]: "preserves keeps_ok (DeleteInvitation i)"
  by (rule keeps_okI, frule db_okD(5))
    (auto simp: DeleteInvitation_def invitations_ok_def stmt_simps intro!: set_leaf_table)

lemma keeps_UpdateInvitationStatus [keeps_intros]: "preserves keeps_ok (UpdateInvitationStatus i st)"
  by (rule keeps_okI, frule db_okD(5))
    (auto simp: UpdateInvitationStatus_def invitations_ok_def stmt_simps split: option.splits intro!: set_leaf_table each_row_update unique_index_update_same)

lemma keeps_CreateProject [keeps_intros]: "preserves keeps_ok (CreateProject t name u)"
  by (rule keeps_okI, frule db_okD(6))
    (auto simp: CreateProject_def projects_ok_def pkey_append1 stmt_simps intro!: set_projects)

lemma keeps_UpdateProjectName [keeps_intros]: "preserves keeps_ok (UpdateProjectName i name)"
  by (rule keeps_okI, frule db_okD(6))
    (auto simp: UpdateProjectName_def projects_ok_def stmt_simps split: option.splits intro!: set_projects each_row_update)

lemma keeps_BulkUpdateProjectOrder [keeps_intros]: "preserves keeps_ok (BulkUpdateProjectOrder t ids)"
proof (rule keeps_okI)
  fix s d x d' assume ok: "db_ok d" and q: "BulkUpdateProjectOrder t ids s d = Inr (x, d')"
  from db_okD(6) [OF ok] have "projects_ok (d\<lparr> projects := projects d \<rparr>)" by simp
  then show "db_ok d'" using q unfolding BulkUpdateProjectOrder_def
    by (auto simp del: set_map simp: projects_ok_def split: option.split intro!: set_projects [OF ok] unique_index_map)
qed

lemma keeps_BulkUpdateFolderOrder [keeps_intros]: "preserves keeps_ok (BulkUpdateFolderOrder p k ids)"
proof (rule keeps_okI)
  fix s d x d' assume ok: "db_ok d" and q: "BulkUpdateFolderOrder p k ids s d = Inr (x, d')"
  from db_okD(8) [OF ok] have "folders_ok (d\<lparr> folders := folders d \<rparr>)" by simp
  then show "db_ok d'" using q unfolding BulkUpdateFolderOrder_def
    by (auto simp del: set_map simp: folders_ok_def split: option.split intro!: set_folders [OF ok] unique_index_map)
qed

lemma keeps_BulkUpdateRequestOrder [keeps_intros]: "preserves keeps_ok (BulkUpdateRequestOrder p k ids)"
proof (rule keeps_okI)
  fix s d x d' assume ok: "db_ok d" and q: "BulkUpdateRequestOrder p k ids s d = Inr (x, d')"
  from db_okD(11) [OF ok] have "requests_ok (d\<lparr> requests := requests d \<rparr>)" by simp
  then show "db_ok d'" using q unfolding BulkUpdateRequestOrder_def
    by (auto simp del: set_map simp: requests_ok_def request_checks_def split: option.split intro!: set_requests [OF ok] unique_index_map)
qed

lemma keeps_BulkUpdateRequestExampleOrder [keeps_intros]: "preserves keeps_ok (BulkUpdateRequestExampleOrder i ids)"
proof (rule keeps_okI)
  fix s d x d' assume ok: "db_ok d" and q: "BulkUpdateRequestExampleOrder i ids s d = Inr (x, d')"
  from db_okD(13) [OF ok] have "examples_ok (d\<lparr> request_examples := request_examples d \<rparr>)" by simp
  then show "db_ok d'" using q unfolding BulkUpdateRequestExampleOrder_def
    by (auto simp del: set_map simp: examples_ok_def example_checks_def split: option.split intro!: set_leaf_table [OF ok] unique_index_map)
qed

lemma keeps_BulkUpdateEnvironmentOrder [keeps_intros]: "preserves keeps_ok (BulkUpdateEnvironmentOrder i ids)"
proof (rule keeps_okI)
  fix s d x d' assume ok: "db_ok d" and q: "BulkUpdateEnvironmentOrder i ids s d = Inr (x, d')"
  from db_okD(9) [OF ok] have "environments_ok (d\<lparr> environments := environments d \<rparr>)" by simp
  then show "db_ok d'" using q unfolding BulkUpdateEnvironmentOrder_def
    by (auto simp del: set_map simp: environments_ok_def split: option.split intro!: set_environments [OF ok] unique_index_map)
qed

lemma keeps_BulkUpdateVariableOrder [keeps_intros]: "preserves keeps_ok (BulkUpdateVariableOrder i ids)"
proof (rule keeps_okI)
  fix s d x d' assume ok: "db_ok d" and q: "BulkUpdateVariableOrder i ids s d = Inr (x, d')"
  from db_okD(10) [OF ok] have "variables_ok (d\<lparr> environment_variables := environment_variables d \<rparr>)" by simp
  then show "db_ok d'" using q unfolding BulkUpdateVariableOrder_def
    by (auto simp del: set_map simp: variables_ok_def variable_checks_def split: option.split intro!: set_leaf_table [OF ok] unique_index_map)
qed

lemma keeps_BulkUpdateProxyOrder [keeps_intros]: "preserves keeps_ok (BulkUpdateProxyOrder i ids)"
proof (rule keeps_okI)
  fix s d x d' assume ok: "db_ok d" and q: "BulkUpdateProxyOrder i ids s d = Inr (x, d')"
  from db_okD(12) [OF ok] have "proxies_ok (d\<lparr> proxies := proxies d \<rparr>)" by simp
  then show "db_ok d'" using q unfolding BulkUpdateProxyOrder_def
    by (auto simp del: set_map simp: proxies_ok_def proxy_checks_def split: option.split intro!: set_proxies [OF ok] unique_index_map)
qed

lemma default_checks [simp]: "checks_hold (settings_checks t default_settings)" "proxy_id default_settings = None"
  by (simp_all add: checks_hold_def settings_checks_def default_settings_def default_auth_def
    APIKeyPlacements_def JWTPlacements_def JWTAlgorithms_def AuthTypes_def ToggleSettingValues_def ProxyModes_def)

lemma keeps_DeleteAllProjectAccess [keeps_intros]: "preserves keeps_ok (DeleteAllProjectAccess i)"
  by (rule keeps_okI, frule db_okD(7))
    (auto simp: DeleteAllProjectAccess_def access_ok_def stmt_simps intro!: set_leaf_table)

lemma keeps_DeleteAllUserAccessInTeam [keeps_intros]: "preserves keeps_ok (DeleteAllUserAccessInTeam u t)"
  by (rule keeps_okI, frule db_okD(7))
    (auto simp: DeleteAllUserAccessInTeam_def access_ok_def stmt_simps intro!: set_leaf_table)

lemma keeps_CreateFolder [keeps_intros]: "preserves keeps_ok (CreateFolder p k name)"
  by (rule keeps_okI, frule db_okD(8))
    (auto simp: CreateFolder_def folders_ok_def pkey_append1 folder_exists_def stmt_simps split: option.splits intro!: set_folders)

lemma keeps_UpdateFolder [keeps_intros]: "preserves keeps_ok (UpdateFolder i name p)"
  by (rule keeps_okI, frule db_okD(8))
    (auto simp: UpdateFolder_def folders_ok_def proxy_exists_def stmt_simps split: option.splits intro!: set_folders each_row_update1 opt_refs_update1)

lemma keeps_UpdateFolderParent [keeps_intros]: "preserves keeps_ok (UpdateFolderParent i k n)"
  by (rule keeps_okI, frule db_okD(8))
    (auto simp: UpdateFolderParent_def folders_ok_def folder_exists_def stmt_simps split: option.splits intro!: set_folders each_row_update opt_refs_update1)

lemma keeps_CreateRequest [keeps_intros]: "preserves keeps_ok (CreateRequest p k name m u)"
  by (rule keeps_okI, frule db_okD(11))
    (auto simp: CreateRequest_def requests_ok_def pkey_append1 folder_exists_def stmt_simps split: option.splits intro!: set_requests)

lemma keeps_UpdateRequest [keeps_intros]: "preserves keeps_ok (UpdateRequest i p)"
  by (rule keeps_okI, frule db_okD(11))
    (auto simp: UpdateRequest_def requests_ok_def proxy_exists_def stmt_simps split: option.splits intro!: set_requests each_row_update1 opt_refs_update1)

lemma keeps_UpdateRequestFolder [keeps_intros]: "preserves keeps_ok (UpdateRequestFolder i k n)"
  by (rule keeps_okI, frule db_okD(11))
    (auto simp: UpdateRequestFolder_def requests_ok_def folder_exists_def request_checks_def stmt_simps split: option.splits intro!: set_requests each_row_update opt_refs_update1)

lemma keeps_CreateRequestExample [keeps_intros]: "preserves keeps_ok (CreateRequestExample i name st h ct b n)"
  by (rule keeps_okI, frule db_okD(13))
    (auto simp: CreateRequestExample_def examples_ok_def pkey_append1 stmt_simps split: option.splits intro!: set_leaf_table)

lemma keeps_UpdateRequestExample [keeps_intros]: "preserves keeps_ok (UpdateRequestExample i p)"
  by (rule keeps_okI, frule db_okD(13))
    (auto simp: UpdateRequestExample_def examples_ok_def stmt_simps split: option.splits intro!: set_leaf_table each_row_update1)

lemma keeps_DeleteRequestExample [keeps_intros]: "preserves keeps_ok (DeleteRequestExample i)"
  by (rule keeps_okI, frule db_okD(13))
    (auto simp: DeleteRequestExample_def examples_ok_def stmt_simps intro!: set_leaf_table)

lemma keeps_CreateEnvironment [keeps_intros]: "preserves keeps_ok (CreateEnvironment p name)"
  by (rule keeps_okI, frule db_okD(9))
    (auto simp: CreateEnvironment_def environments_ok_def pkey_append1 env_name_free_def stmt_simps split: option.splits intro!: set_environments unique_index_append)

lemma keeps_UpdateEnvironmentName [keeps_intros]: "preserves keeps_ok (UpdateEnvironmentName i name)"
  by (rule keeps_okI, frule db_okD(9))
    (auto simp: UpdateEnvironmentName_def environments_ok_def env_name_free_def stmt_simps split: option.splits intro!: set_environments unique_index_update1 each_row_update)

lemma keeps_CreateVariable [keeps_intros]: "preserves keeps_ok (CreateVariable e k ty v)"
  by (rule keeps_okI, frule db_okD(10))
    (auto simp: CreateVariable_def variables_ok_def pkey_append1 var_key_free_def stmt_simps split: option.splits intro!: set_leaf_table unique_index_append)

lemma keeps_UpdateVariable [keeps_intros]: "preserves keeps_ok (UpdateVariable i k ty sv v)"
  by (rule keeps_okI, frule db_okD(10))
    (auto simp: UpdateVariable_def variables_ok_def var_key_free_def merge_variable_def stmt_simps split: option.splits intro!: set_leaf_table unique_index_update1 each_row_update1)

lemma keeps_DeleteVariable [keeps_intros]: "preserves keeps_ok (DeleteVariable i)"
  by (rule keeps_okI, frule db_okD(10))
    (auto simp: DeleteVariable_def variables_ok_def stmt_simps intro!: set_leaf_table)

lemma keeps_CreateProxy [keeps_intros]: "preserves keeps_ok (CreateProxy p name ty h n u b)"
  by (rule keeps_okI, frule db_okD(12))
    (auto simp: CreateProxy_def proxies_ok_def pkey_append1 proxy_name_free_def stmt_simps split: option.splits intro!: set_proxies unique_index_append)

lemma keeps_UpdateProxy [keeps_intros]: "preserves keeps_ok (UpdateProxy i p)"
  by (rule keeps_okI, frule db_okD(12))
    (auto simp: UpdateProxy_def proxies_ok_def proxy_name_free_def stmt_simps split: option.splits intro!: set_proxies unique_index_update1 each_row_update1)

lemma keeps_CreateWebhookEndpoint [keeps_intros]: "preserves keeps_ok (CreateWebhookEndpoint p name sl dm u)"
  by (rule keeps_okI, frule db_okD(14))
    (auto simp: CreateWebhookEndpoint_def endpoints_ok_def pkey_append1 stmt_simps split: option.splits intro!: set_webhook_endpoints)

lemma keeps_UpdateWebhookEndpoint [keeps_intros]: "preserves keeps_ok (UpdateWebhookEndpoint i p)"
  by (rule keeps_okI, frule db_okD(14))
    (auto simp: UpdateWebhookEndpoint_def endpoints_ok_def stmt_simps split: option.splits intro!: set_webhook_endpoints each_row_update1)

lemma keeps_InsertWebhookCapture [keeps_intros]: "preserves keeps_ok (InsertWebhookCapture p)"
proof (rule keeps_okI)
  fix s d x d' assume ok: "db_ok d" and q: "InsertWebhookCapture p s d = Inr (x, d')"
  have "capture_seq d + 1 \<notin> c_id ` set (webhook_captures d)"
    "each_row (\<lambda>c. c_id c \<le> capture_seq d + 1) (webhook_captures d)"
    using db_okD(15) [OF ok] by (force simp: captures_wf_def each_row_def)+
  with q ok db_okD(15) [OF ok] show "db_ok d'"
    by (simp add: InsertWebhookCapture_def captures_wf_def pkey_append1 stmt_simps)
      (auto simp: captures_wf_def pkey_append1 intro!: set_leaf_table)
qed

lemma keeps_DeleteWebhookCaptures [keeps_intros]: "preserves keeps_ok (DeleteWebhookCaptures i)"
  by (rule keeps_okI, frule db_okD(15))
    (auto simp: DeleteWebhookCaptures_def captures_wf_def stmt_simps intro!: set_leaf_table)

lemma keeps_PruneWebhookCaptures [keeps_intros]: "preserves keeps_ok (PruneWebhookCaptures i n)"
  by (rule keeps_okI, frule db_okD(15))
    (auto simp: PruneWebhookCaptures_def captures_wf_def stmt_simps split: if_splits intro!: set_leaf_table)

lemma insert_grants_keeps:
  assumes "pkey grant_key t" "refs a_project_id I t" "refs a_user_id J t"
    "\<forall>(p, u) \<in> set ps. find_row (is_grant p u) t = None \<longrightarrow> p \<in> I \<and> u \<in> J"
  shows "pkey grant_key (insert_grants tm ps t) \<and> refs a_project_id I (insert_grants tm ps t) \<and>
    refs a_user_id J (insert_grants tm ps t)"
  using assms
proof (induction tm ps t rule: insert_grants.induct)
  case (2 tm p u ps t)
  have new: "find_row (is_grant p u) t = None \<longleftrightarrow> (p, u) \<notin> grant_key ` set t" for p u and t :: "ProjectAccess list"
    by (auto simp: find_row_None is_grant_def grant_key_def image_iff)
  show ?case
  proof (cases "find_row (is_grant p u) t = None")
    case True
    let ?t = "t @ [\<lparr> a_project_id = p, a_user_id = u, a_created_at = tm \<rparr>]"
    have "\<forall>(q, v) \<in> set ps. find_row (is_grant q v) ?t = None \<longrightarrow> q \<in> I \<and> v \<in> J"
      using "2.prems"(4) by (auto simp: find_row_None)
    moreover have "pkey grant_key ?t" "refs a_project_id I ?t" "refs a_user_id J ?t"
      using "2.prems" True by (auto simp: pkey_append1 new [of p u t]) (auto simp: grant_key_def)
    ultimately show ?thesis using "2.IH" True by simp
  next
    case False
    with "2.IH" "2.prems" show ?thesis by simp
  qed
qed simp

lemma keeps_grant_pairs: "preserves keeps_ok (grant_pairs ps)"
proof (rule keeps_okI)
  fix s d x d' assume ok: "db_ok d" and q: "grant_pairs ps s d = Inr (x, d')"
  then have "d' = d\<lparr> project_access := insert_grants (now s) ps (project_access d) \<rparr>"
    "\<forall>(p, u) \<in> set ps. find_row (is_grant p u) (project_access d) = None \<longrightarrow>
       p \<in> p_id ` set (projects d) \<and> u \<in> u_id ` set (users d)"
    unfolding grant_pairs_def stmt_simps by auto
  with db_okD(7) [OF ok] set_leaf_table(4) [OF ok] show "db_ok d'"
    using insert_grants_keeps [of "project_access d" "p_id ` set (projects d)" "u_id ` set (users d)" ps "now s"]
    by (simp add: access_ok_def)
qed

lemma keeps_grants [keeps_intros]:
  "preserves keeps_ok (GrantProjectAccess p us)" "preserves keeps_ok (GrantUserProjectAccess ps u)"
  unfolding GrantProjectAccess_def GrantUserProjectAccess_def by (rule keeps_grant_pairs)+

section \<open>Deletes and their cascades\<close>

lemma pkey_map_delete [simp]: "(\<And>r. i (f r) = i r) \<Longrightarrow> pkey i (map f (delete_rows p t)) = pkey i (delete_rows p t)"
  by (rule pkey_map)

lemma delete_requests_ok: "db_ok d \<Longrightarrow> db_ok (delete_requests p d)"
  unfolding db_ok_defs delete_requests_def Let_def
  by (simp add: refs_cascade rows_delete pkey_delete_rows)

lemma delete_environments_ok: "db_ok d \<Longrightarrow> db_ok (delete_environments p d)"
  unfolding db_ok_defs delete_environments_def Let_def
  by (simp add: refs_cascade rows_delete pkey_delete_rows)

lemma delete_endpoints_ok: "db_ok d \<Longrightarrow> db_ok (delete_endpoints p d)"
  unfolding db_ok_defs delete_endpoints_def Let_def
  by (simp add: refs_cascade rows_delete pkey_delete_rows)

lemma opt_refs_unset:
  assumes "opt_refs (\<lambda>r. proxy_id (g r)) (x_id ` set t) rs" "\<And>r. g (h r) = unset_proxy (x_id ` {x \<in> set t. p x}) (g r)"
  shows "opt_refs (\<lambda>r. proxy_id (g r)) (x_id ` set (delete_rows p t)) (map h rs)"
proof -
  have "m \<in> x_id ` set (delete_rows p t)" if "r \<in> set rs" "proxy_id (g (h r)) = Some m" for r m
  proof -
    from that(2) have "proxy_id (g r) = Some m" "m \<notin> x_id ` {x \<in> set t. p x}"
      by (simp_all add: assms(2) unset_proxy_def split: option.splits if_splits)
    with assms(1) that(1) show ?thesis by (force simp: opt_refs_def set_delete_rows)
  qed
  then show ?thesis by (auto simp: opt_refs_def)
qed

lemma settings_checks_unset [simp]: "settings_checks c (unset_proxy gone st) = settings_checks c st"
  by (simp add: settings_checks_def unset_proxy_def split: option.split)

lemma delete_proxies_ok: "db_ok d \<Longrightarrow> db_ok (delete_proxies p d)"
  unfolding db_ok_defs delete_proxies_def Let_def
  by (simp del: set_map add: request_checks_def opt_refs_unset rows_delete pkey_delete_rows)

lemma delete_folders_ok:
  assumes "db_ok d" shows "db_ok (delete_folders ids d)"
proof -
  let ?gone = "folder_subtree (folders d) ids"
  have f: "opt_refs f_parent_id (f_id ` set (delete_rows (\<lambda>f. f_id f \<in> ?gone) (folders d))) (delete_rows (\<lambda>f. f_id f \<in> ?gone) (folders d))"
    unfolding opt_refs_def
  proof (intro ballI allI impI)
    fix f i assume f: "f \<in> set (delete_rows (\<lambda>f. f_id f \<in> ?gone) (folders d))" "f_parent_id f = Some i"
    then have "i \<notin> ?gone" using subtree_closed [of "folders d" ids]
      by (force simp: folder_children_def set_delete_rows)
    moreover from f have "i \<in> f_id ` set (folders d)"
      using db_okD(8) [OF assms] by (force simp: folders_ok_def opt_refs_def set_delete_rows)
    ultimately show "i \<in> f_id ` set (delete_rows (\<lambda>f. f_id f \<in> ?gone) (folders d))"
      by (auto simp: set_delete_rows)
  qed
  have r: "opt_refs r_folder_id (f_id ` set (delete_rows (\<lambda>f. f_id f \<in> ?gone) (folders d)))
      (delete_rows (\<lambda>r. case r_folder_id r of None \<Rightarrow> False | Some i \<Rightarrow> i \<in> ?gone) (requests d))"
    using db_okD(11) [OF assms] unfolding requests_ok_def opt_refs_def set_delete_rows
    by (auto split: option.splits)
  from assms f r show ?thesis
    unfolding db_ok_defs delete_folders_def delete_requests_def Let_def
    by (simp add: refs_cascade rows_delete pkey_delete_rows)
qed


lemma each_row_gone: "(\<And>r. r \<in> set t \<Longrightarrow> \<not> p r \<Longrightarrow> P r) \<Longrightarrow> each_row P (delete_rows p t)"
  by (auto simp: each_row_def set_delete_rows)

lemma cascade_tables:
  "folders (delete_requests p d) = folders d" "folders (delete_environments q d) = folders d"
  "folders (delete_endpoints s d) = folders d"
  "folders (delete_proxies x d) = map (\<lambda>f. f\<lparr> f_settings := unset_proxy (x_id ` {r \<in> set (proxies d). x r}) (f_settings f) \<rparr>) (folders d)"
  "requests (delete_requests p d) = delete_rows p (requests d)" "requests (delete_environments q d) = requests d"
  "requests (delete_endpoints s d) = requests d"
  "requests (delete_proxies x d) = map (\<lambda>f. f\<lparr> r_settings := unset_proxy (x_id ` {r \<in> set (proxies d). x r}) (r_settings f) \<rparr>) (requests d)"
  "environments (delete_environments q d) = delete_rows q (environments d)"
  "environments (delete_endpoints s d) = environments d" "environments (delete_proxies x d) = environments d"
  "webhook_endpoints (delete_endpoints s d) = delete_rows s (webhook_endpoints d)"
  "webhook_endpoints (delete_proxies x d) = webhook_endpoints d"
  "proxies (delete_proxies x d) = delete_rows x (proxies d)"
  by (simp_all add: delete_requests_def delete_environments_def delete_endpoints_def delete_proxies_def Let_def)

lemma delete_projects_split:
  "delete_projects p d =
     (let gone = p_id ` {x \<in> set (projects d). p x};
          e = delete_proxies (\<lambda>x. x_project_id x \<in> gone)
            (delete_endpoints (\<lambda>w. w_project_id w \<in> gone)
              (delete_environments (\<lambda>e. e_project_id e \<in> gone)
                (delete_requests (\<lambda>r. r_project_id r \<in> gone)
                  (delete_folders (f_id ` {f \<in> set (folders d). f_project_id f \<in> gone}) d))))
      in e\<lparr> projects := delete_rows p (projects e),
            project_access := delete_rows (\<lambda>a. a_project_id a \<in> gone) (project_access e) \<rparr>)"
  by (rule db.equality) (simp_all add: delete_projects_def delete_proxies_def delete_endpoints_def delete_environments_def
    delete_requests_def delete_folders_def Let_def cong: option.case_cong)

lemma delete_projects_ok:
  assumes "db_ok d" shows "db_ok (delete_projects p d)"
proof -
  define gone where "gone = p_id ` {x \<in> set (projects d). p x}"
  define e where "e = delete_proxies (\<lambda>x. x_project_id x \<in> gone)
    (delete_endpoints (\<lambda>w. w_project_id w \<in> gone)
      (delete_environments (\<lambda>e. e_project_id e \<in> gone)
        (delete_requests (\<lambda>r. r_project_id r \<in> gone)
          (delete_folders (f_id ` {f \<in> set (folders d). f_project_id f \<in> gone}) d))))"
  have e: "db_ok e" unfolding e_def
    by (intro delete_proxies_ok delete_endpoints_ok delete_environments_ok delete_requests_ok delete_folders_ok assms)
  have p: "projects e = projects d"
    by (simp add: e_def delete_proxies_def delete_endpoints_def delete_environments_def
      delete_requests_def delete_folders_def Let_def)
  have "f_id f \<in> folder_subtree (folders d) (f_id ` {f \<in> set (folders d). f_project_id f \<in> gone})"
    if "f \<in> set (folders d)" "f_project_id f \<in> gone" for f
    by (rule subsetD [OF subtree_start]) (use that in simp)
  then have "each_row (\<lambda>f. f_project_id f \<notin> gone) (delete_rows
      (\<lambda>f. f_id f \<in> folder_subtree (folders d) (f_id ` {f \<in> set (folders d). f_project_id f \<in> gone})) (folders d))"
    by (intro each_row_gone) blast
  then have "each_row (\<lambda>f. f_project_id f \<notin> gone) (folders e)" "each_row (\<lambda>r. r_project_id r \<notin> gone) (requests e)"
    "each_row (\<lambda>x. e_project_id x \<notin> gone) (environments e)" "each_row (\<lambda>x. w_project_id x \<notin> gone) (webhook_endpoints e)"
    "each_row (\<lambda>x. x_project_id x \<notin> gone) (proxies e)"
    unfolding e_def cascade_tables
    by (simp_all add: each_row_gone delete_folders_def delete_requests_def Let_def)
  then have "db_ok (e\<lparr> projects := delete_rows p (projects e),
      project_access := delete_rows (\<lambda>a. a_project_id a \<in> gone) (project_access e) \<rparr>)"
    using e unfolding db_ok_defs gone_def p
    by (simp add: refs_remaining refs_cascade rows_delete pkey_delete_rows)
  then show ?thesis unfolding delete_projects_split Let_def e_def gone_def .
qed

lemma delete_projects_frame:
  "delete_projects p (d\<lparr> teams := a, team_members := b, team_invitations := c \<rparr>) =
     (delete_projects p d)\<lparr> teams := a, team_members := b, team_invitations := c \<rparr>"
  by (rule db.equality) (simp_all add: delete_projects_def delete_proxies_def delete_endpoints_def delete_environments_def
    delete_requests_def delete_folders_def Let_def cong: option.case_cong)

lemma delete_projects_rest:
  "teams (delete_projects p d) = teams d" "team_members (delete_projects p d) = team_members d"
  "team_invitations (delete_projects p d) = team_invitations d"
  "projects (delete_projects p d) = delete_rows p (projects d)"
  by (simp_all add: delete_projects_def delete_proxies_def delete_endpoints_def delete_environments_def
    delete_requests_def delete_folders_def Let_def)

lemma delete_teams_ok:
  assumes "db_ok d" shows "db_ok (delete_teams p d)"
proof -
  define gone where "gone = t_id ` {t \<in> set (teams d). p t}"
  have e: "db_ok (delete_projects (\<lambda>x. p_team_id x \<in> gone) d)" by (rule delete_projects_ok [OF assms])
  have "each_row (\<lambda>x. p_team_id x \<notin> gone) (delete_rows (\<lambda>x. p_team_id x \<in> gone) (projects d))"
    by (auto simp: each_row_def set_delete_rows)
  with e show ?thesis
    unfolding delete_teams_def Let_def gone_def [symmetric] delete_projects_frame
    unfolding db_ok_defs gone_def
    by (simp add: delete_projects_rest refs_remaining refs_cascade rows_delete pkey_delete_rows)
qed

lemma keeps_deletes [keeps_intros]:
  "preserves keeps_ok (DeleteTeam i)" "preserves keeps_ok (DeleteProject i)" "preserves keeps_ok (DeleteFolder i)"
  "preserves keeps_ok (DeleteRequest i)" "preserves keeps_ok (DeleteEnvironment i)" "preserves keeps_ok (DeleteProxy i)"
  "preserves keeps_ok (DeleteWebhookEndpoint i)"
  by (auto simp: preserves_def keeps_ok_def DeleteTeam_def DeleteProject_def DeleteFolder_def DeleteRequest_def
    DeleteEnvironment_def DeleteProxy_def DeleteWebhookEndpoint_def delete_teams_ok delete_projects_ok
    delete_folders_ok delete_requests_ok delete_environments_ok delete_proxies_ok delete_endpoints_ok)

section \<open>The statements in a run\<close>

text \<open>
  \<open>keeps_ok\<close> is reflexive and transitive, so that whatever runs only such statements keeps the schema,
  in and out of transactions, as long as the statements other sessions run in between do.
\<close>

interpretation schema: db_rel keeps_ok
  by unfold_locales (auto simp: keeps_ok_def)

interpretation kept: step_rel "keeping keeps_ok"
  by (rule schema.step_rel_keeping)

abbreviation keeps_schema :: "(world \<Rightarrow> 'r \<times> world) \<Rightarrow> bool" where
  "keeps_schema f \<equiv> runs (keeping keeps_ok) f"

lemmas kept_rules = kept.runs_return kept.runs_bind kept.runs_if kept.runs_let kept.runs_sum
  kept.runs_option kept.runs_prod schema.runs_exec schema.runs_inTx keeps_intros
  preserves_readonly readonly_intros

end
