(* ===== verification/RateLimit.thy ===== *)
theory RateLimit
  imports Complex_Main Prelude
begin

text \<open>
  The token buckets of \<^verbatim>\<open>internal/ratelimit\<close> and the Retry-After arithmetic of
  \<^verbatim>\<open>internal/api/ratelimit.go\<close>. A \<^verbatim>\<open>time.Time\<close> of the clock is a number of
  nanoseconds, as is a \<^verbatim>\<open>time.Duration\<close>. The \<^verbatim>\<open>float64\<close> quantities are rational
  numbers here: the rounding of the machine's floating point is not modelled. The mutex makes every
  call one step.
\<close>

section \<open>Buckets\<close>

record bucket =
  bk_tokens :: rat
  bk_last :: int

text \<open>\<open>lm_last_sweep\<close> is \<open>None\<close> for the zero \<^verbatim>\<open>time.Time\<close>, which lies farther back than any
  interval.\<close>

record limiter =
  lm_rate :: rat
  lm_burst :: rat
  lm_buckets :: "string \<Rightarrow> bucket option"
  lm_last_sweep :: "int option"

definition second :: int where
  "second = 1000000000"

definition sweepEvery :: int where
  "sweepEvery = 60 * second"

definition seconds :: "int \<Rightarrow> rat" where
  "seconds d = of_int d / of_int second"

definition newLimiter :: "rat \<Rightarrow> nat \<Rightarrow> limiter" where
  "newLimiter per_second burst = \<lparr> lm_rate = per_second, lm_burst = of_nat burst,
     lm_buckets = (\<lambda>k. None), lm_last_sweep = None \<rparr>"

definition PerMinute :: "rat \<Rightarrow> nat \<Rightarrow> limiter" where
  "PerMinute per_minute burst = newLimiter (per_minute / 60) burst"

text \<open>What a bucket holds at a time, before the cap.\<close>

definition refilled :: "rat \<Rightarrow> int \<Rightarrow> bucket \<Rightarrow> rat" where
  "refilled rate tm b = bk_tokens b + seconds (tm - bk_last b) * rate"

definition sweep :: "int \<Rightarrow> limiter \<Rightarrow> limiter" where
  "sweep tm l =
     (if (case lm_last_sweep l of None \<Rightarrow> False | Some t \<Rightarrow> tm - t < sweepEvery) then l
      else l\<lparr> lm_last_sweep := Some tm,
        lm_buckets := (\<lambda>k. case lm_buckets l k of
          None \<Rightarrow> None
        | Some b \<Rightarrow> if lm_burst l \<le> refilled (lm_rate l) tm b then None else Some b) \<rparr>)"

text \<open>\<^verbatim>\<open>Allow\<close> returns whether the call is admitted and, if not, how long to wait.\<close>

definition spend :: "int \<Rightarrow> string \<Rightarrow> limiter \<Rightarrow> (bool \<times> int) \<times> limiter" where
  "spend tm key l =
     (let b = (case lm_buckets l key of None \<Rightarrow> \<lparr> bk_tokens = lm_burst l, bk_last = tm \<rparr> | Some b \<Rightarrow> b);
          tokens = min (lm_burst l) (refilled (lm_rate l) tm b) in
      if 1 \<le> tokens then
        ((True, 0), l\<lparr> lm_buckets := (lm_buckets l)(key \<mapsto> \<lparr> bk_tokens = tokens - 1, bk_last = tm \<rparr>) \<rparr>)
      else
        ((False, \<lfloor>(1 - tokens) / lm_rate l * of_int second\<rfloor>),
         l\<lparr> lm_buckets := (lm_buckets l)(key \<mapsto> \<lparr> bk_tokens = tokens, bk_last = tm \<rparr>) \<rparr>))"

definition Allow :: "int \<Rightarrow> string \<Rightarrow> limiter \<Rightarrow> (bool \<times> int) \<times> limiter" where
  "Allow tm key l = spend tm key (sweep tm l)"

definition retryAfterSeconds :: "int \<Rightarrow> int" where
  "retryAfterSeconds wait = max 1 \<lceil>seconds wait\<rceil>"

text \<open>The limits of the unauthenticated routes.\<close>

definition authAttemptsPerMinute :: rat where
  "authAttemptsPerMinute = 5"

definition authAttemptsBurst :: nat where
  "authAttemptsBurst = 10"

text \<open>
  A handler's call: \<open>tm\<close> is the time of the limiter's clock; without a limiter every request is
  admitted.
\<close>

definition limit_call :: "int \<Rightarrow> string \<Rightarrow> limiter option \<Rightarrow> (bool \<times> int) \<times> limiter option" where
  "limit_call tm key lm = (case lm of
     None \<Rightarrow> ((True, 0), None)
   | Some l \<Rightarrow> (case Allow tm key l of (verdict, l) \<Rightarrow> (verdict, Some l)))"

section \<open>What the buckets guarantee\<close>

text \<open>
  The tokens available to a key at a time. A missing bucket counts as a full one, so that dropping a
  bucket that has refilled changes nothing from then on.
\<close>

definition level :: "limiter \<Rightarrow> int \<Rightarrow> string \<Rightarrow> rat" where
  "level l tm key = (case lm_buckets l key of
     None \<Rightarrow> lm_burst l | Some b \<Rightarrow> min (lm_burst l) (refilled (lm_rate l) tm b))"

definition sane :: "limiter \<Rightarrow> bool" where
  "sane l \<longleftrightarrow> 0 < lm_rate l \<and> 1 \<le> lm_burst l"

lemma seconds_simps [simp]: "seconds 0 = 0" "seconds (a + b) = seconds a + seconds b"
  "seconds (a - b) = seconds a - seconds b"
  by (simp_all add: seconds_def add_divide_distrib diff_divide_distrib)

lemma seconds_mono: "a \<le> b \<Longrightarrow> seconds a \<le> seconds b"
  by (simp add: seconds_def second_def divide_right_mono)

lemma refilled_mono: "0 \<le> r \<Longrightarrow> s \<le> t \<Longrightarrow> refilled r s b \<le> refilled r t b"
  by (simp add: refilled_def mult_right_mono seconds_mono)

lemma sweep_simps [simp]:
  "lm_rate (sweep tm l) = lm_rate l" "lm_burst (sweep tm l) = lm_burst l"
  by (simp_all add: sweep_def)

lemma sweep_level:
  assumes "0 \<le> lm_rate l" "tm \<le> t"
  shows "level (sweep tm l) t key = level l t key"
proof (cases "lm_buckets l key")
  case (Some b)
  have "refilled (lm_rate l) tm b \<le> refilled (lm_rate l) t b" using assms by (rule refilled_mono)
  with Some show ?thesis by (auto simp: sweep_def level_def)
qed (simp add: sweep_def level_def)

lemma spend_result:
  "fst (spend tm key l) =
     (if 1 \<le> level l tm key then (True, 0)
      else (False, \<lfloor>(1 - level l tm key) / lm_rate l * of_int second\<rfloor>))"
  by (auto simp: spend_def level_def refilled_def Let_def split: option.splits)

lemma spend_level:
  assumes "snd (spend tm key l) = l'" "tm \<le> t"
  shows "level l' t k =
    (if k = key then min (lm_burst l)
       (level l tm key - (if 1 \<le> level l tm key then 1 else 0) + seconds (t - tm) * lm_rate l)
     else level l t k)"
  using assms by (auto simp: spend_def level_def refilled_def Let_def split: option.splits)

lemma spend_simps [simp]:
  "lm_rate (snd (spend tm key l)) = lm_rate l" "lm_burst (snd (spend tm key l)) = lm_burst l"
  by (simp_all add: spend_def Let_def)

text \<open>Two limiters that hold the same levels from now on answer alike and still do afterwards.\<close>

definition alike :: "int \<Rightarrow> limiter \<Rightarrow> limiter \<Rightarrow> bool" where
  "alike tm l m \<longleftrightarrow> lm_rate l = lm_rate m \<and> lm_burst l = lm_burst m \<and>
     (\<forall>t k. tm \<le> t \<longrightarrow> level l t k = level m t k)"

lemma alike_spend:
  assumes "alike tm l m" "tm \<le> t"
  shows "fst (spend t key l) = fst (spend t key m) \<and> alike t (snd (spend t key l)) (snd (spend t key m))"
  using assms spend_level [OF refl, of t _ key l] spend_level [OF refl, of t _ key m]
  by (auto simp: alike_def spend_result)

lemma alike_sweep: "0 \<le> lm_rate l \<Longrightarrow> alike tm (sweep tm l) l"
  by (simp add: alike_def sweep_level)

lemma alike_trans: "alike s l m \<Longrightarrow> alike s m n \<Longrightarrow> alike s l n"
  by (simp add: alike_def)

lemma alike_later: "alike s l m \<Longrightarrow> s \<le> t \<Longrightarrow> alike t l m"
  by (simp add: alike_def)

text \<open>A run of calls at given times, with sweeping (as the code has it) and without.\<close>

fun answers :: "limiter \<Rightarrow> (int \<times> string) list \<Rightarrow> (bool \<times> int) list" where
  "answers l [] = []"
| "answers l ((tm, key) # calls) = (case Allow tm key l of (a, l) \<Rightarrow> a # answers l calls)"

fun answers_unswept :: "limiter \<Rightarrow> (int \<times> string) list \<Rightarrow> (bool \<times> int) list" where
  "answers_unswept l [] = []"
| "answers_unswept l ((tm, key) # calls) = (case spend tm key l of (a, l) \<Rightarrow> a # answers_unswept l calls)"

lemma answers_alike:
  assumes "alike s l m" "0 \<le> lm_rate l" "sorted (s # map fst calls)"
  shows "answers l calls = answers_unswept m calls"
  using assms
proof (induction calls arbitrary: l m s)
  case (Cons c calls)
  obtain tm key where c: "c = (tm, key)" by fastforce
  have "alike tm (sweep tm l) m"
    using alike_trans [OF alike_sweep [of l tm] alike_later [OF Cons.prems(1)]] Cons.prems c by simp
  from alike_spend [OF this order.refl, of key] obtain a l' m' where
    s: "spend tm key (sweep tm l) = (a, l')" "spend tm key m = (a, m')" "alike tm l' m'"
    by (metis prod.collapse)
  have "lm_rate l' = lm_rate l" using s(1) spend_simps(1) [of tm key "sweep tm l"] by simp
  with Cons.IH [OF s(3)] Cons.prems s c show ?case by (simp add: Allow_def)
qed simp

text \<open>How many calls of a key a run admits.\<close>

fun admitted_calls :: "limiter \<Rightarrow> string \<Rightarrow> (int \<times> string) list \<Rightarrow> nat" where
  "admitted_calls l k [] = 0"
| "admitted_calls l k ((tm, key) # calls) = (case Allow tm key l of
     ((yes, wait), l) \<Rightarrow> (if yes \<and> key = k then 1 else 0) + admitted_calls l k calls)"

lemma Allow_level:
  assumes "Allow tm key l = ((yes, wait), l')" "0 \<le> lm_rate l" "tm \<le> t"
  shows "yes = (1 \<le> level l tm key)" "lm_rate l' = lm_rate l" "lm_burst l' = lm_burst l"
    "level l' t k = (if k = key then min (lm_burst l)
       (level l tm key - (if yes then 1 else 0) + seconds (t - tm) * lm_rate l) else level l t k)"
proof -
  have s: "spend tm key (sweep tm l) = ((yes, wait), l')" using assms(1) by (simp add: Allow_def)
  show y: "yes = (1 \<le> level l tm key)"
    using spend_result [of tm key "sweep tm l"] s assms by (simp add: sweep_level split: if_splits)
  show "lm_rate l' = lm_rate l" "lm_burst l' = lm_burst l"
    using spend_simps [of tm key "sweep tm l"] s by simp_all
  show "level l' t k = (if k = key then min (lm_burst l)
       (level l tm key - (if yes then 1 else 0) + seconds (t - tm) * lm_rate l) else level l t k)"
    using spend_level [of tm key "sweep tm l" l' t k] s assms y by (simp add: sweep_level)
qed

lemma level_grows:
  assumes "0 \<le> lm_rate l" "s \<le> t"
  shows "level l t k \<le> level l s k + seconds (t - s) * lm_rate l"
proof (cases "lm_buckets l k")
  case None
  have "0 \<le> seconds t - seconds s" using seconds_mono [OF assms(2)] by simp
  with None assms show ?thesis by (simp add: level_def)
next
  case (Some b)
  have "0 \<le> (seconds t - seconds s) * lm_rate l"
    using seconds_mono [OF assms(2)] assms(1) by simp
  with Some show ?thesis by (auto simp: level_def refilled_def min_def algebra_simps)
qed

lemma admitted_bound:
  assumes "0 \<le> lm_rate l" "sorted (s # map fst calls)" "\<forall>c \<in> set calls. fst c \<le> e" "s \<le> e"
  shows "of_nat (admitted_calls l k calls) \<le> max 0 (level l s k + seconds (e - s) * lm_rate l)"
  using assms
proof (induction calls arbitrary: l s)
  case (Cons c calls)
  obtain tm key where c: "c = (tm, key)" by fastforce
  obtain yes wait l' where a: "Allow tm key l = ((yes, wait), l')" by (metis prod.collapse)
  note lv = Allow_level [OF a Cons.prems(1) order.refl]
  have le: "s \<le> tm" "tm \<le> e" "sorted (tm # map fst calls)" "\<forall>c \<in> set calls. fst c \<le> e"
    using Cons.prems c by auto
  have IH: "of_nat (admitted_calls l' k calls) \<le> max 0 (level l' tm k + seconds (e - tm) * lm_rate l)"
    using Cons.IH [of l' tm] Cons.prems(1) lv(2) le by simp
  have g: "level l tm k \<le> level l s k + seconds (tm - s) * lm_rate l"
    by (rule level_grows [OF Cons.prems(1) le(1)])
  have d: "seconds (e - s) * lm_rate l = seconds (e - tm) * lm_rate l + seconds (tm - s) * lm_rate l"
    by (simp add: algebra_simps)
  have nn: "0 \<le> seconds (e - tm) * lm_rate l"
    using seconds_mono [OF le(2)] Cons.prems(1) by simp
  show ?case
  proof (cases "key = k \<and> yes")
    case True
    then have "level l' tm k \<le> level l tm k - 1" "1 \<le> level l tm k" using lv(1) lv(4) [of k] by auto
    with IH g d nn True a c show ?thesis by (auto simp: max_def split: if_splits)
  next
    case False
    then have "level l' tm k \<le> level l tm k" using lv(4) [of k] by auto
    with IH g d nn False a c show ?thesis by (auto simp: max_def split: if_splits)
  qed
qed simp

end
