(* ===== verification/Base64.thy ===== *)
theory Base64
  imports GoText
begin

text \<open>
  \<^verbatim>\<open>base64.StdEncoding\<close> of Go's \<^verbatim>\<open>encoding/base64\<close>, which
  \<^verbatim>\<open>internal/api/examples.go\<close> decodes with and \<^verbatim>\<open>encoding/json\<close> writes
  byte slices with: padded, line breaks skipped, unused trailing bits not checked.
\<close>

section \<open>The alphabet\<close>

definition b64_digit :: "nat \<Rightarrow> char" where
  "b64_digit n = (char_of
     (if n < 26 then n + 65 else if n < 52 then n + 71 else if n < 62 then n - 4
      else if n = 62 then 43 else 47 :: nat))"

definition b64_value :: "char \<Rightarrow> nat option" where
  "b64_value c = (let n = byte c in
     if 65 \<le> n \<and> n \<le> 90 then Some (n - 65)
     else if 97 \<le> n \<and> n \<le> 122 then Some (n - 71)
     else if 48 \<le> n \<and> n \<le> 57 then Some (n + 4)
     else if n = 43 then Some 62
     else if n = 47 then Some 63 else None)"

definition b64_pad :: char where "b64_pad = CHR ''=''"

section \<open>Encoding and decoding\<close>

fun b64_encode :: "string \<Rightarrow> string" where
  "b64_encode [] = []"
| "b64_encode [x] =
     [b64_digit (byte x div 4), b64_digit (byte x mod 4 * 16), b64_pad, b64_pad]"
| "b64_encode [x, y] =
     [b64_digit (byte x div 4), b64_digit (byte x mod 4 * 16 + byte y div 16),
      b64_digit (byte y mod 16 * 4), b64_pad]"
| "b64_encode (x # y # z # s) =
     b64_digit (byte x div 4) # b64_digit (byte x mod 4 * 16 + byte y div 16) #
     b64_digit (byte y mod 16 * 4 + byte z div 64) # b64_digit (byte z mod 64) # b64_encode s"

fun b64_quantum :: "nat \<Rightarrow> nat \<Rightarrow> nat \<Rightarrow> nat \<Rightarrow> string" where
  "b64_quantum a b c d =
     [char_of (a * 4 + b div 16), char_of (b mod 16 * 16 + c div 4), char_of (c mod 4 * 64 + d)]"

fun b64_groups :: "string \<Rightarrow> string option" where
  "b64_groups [] = Some []"
| "b64_groups (a # b # c # d # s) =
     (case (b64_value a, b64_value b) of
        (Some va, Some vb) \<Rightarrow>
          (case b64_value c of
             Some vc \<Rightarrow>
               (case b64_value d of
                  Some vd \<Rightarrow> map_option (\<lambda>t. b64_quantum va vb vc vd @ t) (b64_groups s)
                | None \<Rightarrow>
                    if d = b64_pad \<and> s = [] then Some (take 2 (b64_quantum va vb vc 0)) else None)
           | None \<Rightarrow>
               if c = b64_pad \<and> d = b64_pad \<and> s = [] then Some (take 1 (b64_quantum va vb 0 0)) else None)
      | _ \<Rightarrow> None)"
| "b64_groups s = None"

definition b64_decode :: "string \<Rightarrow> string option" where
  "b64_decode s = b64_groups (filter (\<lambda>c. byte c \<noteq> 10 \<and> byte c \<noteq> 13) s)"

text \<open>\<^verbatim>\<open>DecodedLen\<close> of a padded encoding.\<close>

definition b64_decoded_len :: "nat \<Rightarrow> nat" where
  "b64_decoded_len n = n div 4 * 3"

section \<open>Round trip\<close>

lemma byte_bound: "byte c < (256 :: nat)"
  by simp

lemma b64_value_digit: "n < 64 \<Longrightarrow> b64_value (b64_digit n) = Some n"
  by (auto simp: b64_value_def b64_digit_def Let_def)

lemma b64_value_pad [simp]: "b64_value b64_pad = None"
  by (simp add: b64_value_def b64_pad_def Let_def)

lemma byte_pad: "byte b64_pad \<noteq> (10 :: nat)" "byte b64_pad \<noteq> (13 :: nat)"
  by (simp_all add: b64_pad_def)

text \<open>Bytes as numbers below 256: the digits of three bytes, and the bytes of four digits.\<close>

lemma first_byte: "k < 16 \<Longrightarrow> (x::nat) div 4 * 4 + (x mod 4 * 16 + k) div 16 = x"
proof -
  assume "k < 16"
  then have "(x mod 4 * 16 + k) div 16 = x mod 4" by simp
  then show ?thesis by simp
qed

lemma second_byte:
  "(y::nat) < 256 \<Longrightarrow> k < 4 \<Longrightarrow> (x mod 4 * 16 + y div 16) mod 16 * 16 + (y mod 16 * 4 + k) div 4 = y"
proof -
  assume "y < 256" "k < 4"
  then have "(y mod 16 * 4 + k) div 4 = y mod 16" "(x mod 4 * 16 + y div 16) mod 16 = y div 16" by simp_all
  then show ?thesis by simp
qed

lemma third_byte: "(z::nat) < 256 \<Longrightarrow> (y mod 16 * 4 + z div 64) mod 4 * 64 + z mod 64 = z"
proof -
  assume "z < 256"
  then have "(y mod 16 * 4 + z div 64) mod 4 = z div 64" by simp
  then show ?thesis by simp
qed

lemma digit_bounds:
  assumes "(x::nat) < 256" "y < 256" "z < 256"
  shows "x div 4 < 64" "x mod 4 * 16 + y div 16 < 64" "y mod 16 * 4 + z div 64 < 64" "z mod 64 < 64"
    "x mod 4 * 16 < 64" "y mod 16 * 4 < 64"
  using assms by auto

lemmas byte_digit_bounds = digit_bounds [OF byte_bound byte_bound byte_bound]

lemma b64_groups_encode: "b64_groups (b64_encode s) = Some s"
proof (induction s rule: b64_encode.induct)
  case (2 x)
  show ?case using first_byte [of 0 "byte x"]
    by (simp add: b64_value_digit byte_digit_bounds)
next
  case (3 x y)
  have k: "byte y div 16 < (16 :: nat)" by (rule less_mult_imp_div_less) simp
  show ?case using first_byte [OF k, of "byte x"] second_byte [OF byte_bound [of y], of 0 "byte x"]
    by (simp add: b64_value_digit byte_digit_bounds)
next
  case (4 x y z s)
  have k: "byte y div 16 < (16 :: nat)" "byte z div 64 < (4 :: nat)"
    by (rule less_mult_imp_div_less, simp)+
  show ?case using 4 first_byte [OF k(1), of "byte x"] second_byte [OF byte_bound [of y] k(2), of "byte x"]
      third_byte [OF byte_bound [of z], of "byte y"]
    by (simp add: b64_value_digit byte_digit_bounds)
qed simp

lemma b64_digit_plain: "n < 64 \<Longrightarrow> byte (b64_digit n) \<noteq> (10 :: nat) \<and> byte (b64_digit n) \<noteq> (13 :: nat)"
  by (auto simp: b64_digit_def)

lemma b64_encode_plain: "\<forall>c \<in> set (b64_encode s). byte c \<noteq> (10 :: nat) \<and> byte c \<noteq> (13 :: nat)"
  by (induction s rule: b64_encode.induct)
    (simp_all add: b64_digit_plain byte_digit_bounds byte_pad)

lemma b64_decode_encode: "b64_decode (b64_encode s) = Some s"
  using b64_encode_plain [of s] by (simp add: b64_decode_def b64_groups_encode)

lemma length_b64_encode: "length (b64_encode s) = (length s + 2) div 3 * 4"
proof (induction s rule: b64_encode.induct)
  case (4 x y z s)
  have "(length (x # y # z # s) + 2) div 3 = Suc ((length s + 2) div 3)" by simp
  with 4 show ?case by simp
qed simp_all

lemma b64_decoded_len_encode: "b64_decoded_len (length (b64_encode s)) \<le> length s + 2"
proof -
  have "(length s + 2) div 3 * 3 \<le> length s + 2" by (rule div_times_less_eq_dividend)
  then show ?thesis by (simp add: b64_decoded_len_def length_b64_encode)
qed

end
