(* ===== verification/Net.thy ===== *)
theory Net
  imports Http
begin

text \<open>
  What the handlers use of Go's \<^verbatim>\<open>strings\<close>, \<^verbatim>\<open>strconv\<close>,
  \<^verbatim>\<open>net\<close> and \<^verbatim>\<open>net/http\<close> on hosts, ports, numbers and headers;
  \<^verbatim>\<open>clientIP\<close> of \<^verbatim>\<open>internal/api/client_ip.go\<close>; the domain list of
  \<^verbatim>\<open>internal/config\<close>.
\<close>

section \<open>Strings\<close>

definition CutPrefix :: "string \<Rightarrow> string \<Rightarrow> string option" where
  "CutPrefix s p = (if is_prefix p s then Some (drop (length p) s) else None)"

definition CutSuffix :: "string \<Rightarrow> string \<Rightarrow> string option" where
  "CutSuffix s p =
     (if length p \<le> length s \<and> drop (length s - length p) s = p
      then Some (take (length s - length p) s) else None)"

text \<open>\<^verbatim>\<open>strings.Cut\<close> at one character; without it the tail is empty.\<close>

definition Cut_at :: "char \<Rightarrow> string \<Rightarrow> string \<times> string" where
  "Cut_at c s = (takeWhile (\<lambda>x. x \<noteq> c) s, tl (dropWhile (\<lambda>x. x \<noteq> c) s))"

definition TrimSuffix :: "string \<Rightarrow> string \<Rightarrow> string" where
  "TrimSuffix s p = (case CutSuffix s p of None \<Rightarrow> s | Some h \<Rightarrow> h)"

text \<open>The part of \<^verbatim>\<open>strings.Split\<close> after the last separator.\<close>

definition after_last :: "char \<Rightarrow> string \<Rightarrow> string" where
  "after_last c s = rev (takeWhile (\<lambda>x. x \<noteq> c) (rev s))"

lemma CutPrefix_append [simp]: "CutPrefix (p @ s) p = Some s"
  by (simp add: CutPrefix_def is_prefix_def)

lemma CutPrefix_Some: "CutPrefix s p = Some t \<longleftrightarrow> s = p @ t"
  by (auto simp: CutPrefix_def is_prefix_def) (metis append_take_drop_id)

lemma CutSuffix_append [simp]: "CutSuffix (s @ p) p = Some s"
  by (simp add: CutSuffix_def)

lemma CutSuffix_Some: "CutSuffix s p = Some t \<longleftrightarrow> s = t @ p"
  by (auto simp: CutSuffix_def) (metis append_take_drop_id)

lemma Cut_at_append: "c \<notin> set s \<Longrightarrow> Cut_at c (s @ c # t) = (s, t)"
  by (induction s) (auto simp: Cut_at_def)

lemma Cut_at_none: "c \<notin> set s \<Longrightarrow> Cut_at c s = (s, [])"
  by (induction s) (auto simp: Cut_at_def)

lemma after_last_append: "c \<notin> set t \<Longrightarrow> after_last c (s @ c # t) = t"
  unfolding after_last_def by (simp, subst takeWhile_append2) auto

section \<open>Numbers\<close>

fun digits_value :: "nat \<Rightarrow> string \<Rightarrow> nat option" where
  "digits_value acc [] = Some acc"
| "digits_value acc (c # s) =
     (if 48 \<le> byte c \<and> byte c \<le> 57 then digits_value (10 * acc + (byte c - 48)) s else None)"

text \<open>\<^verbatim>\<open>strconv.ParseInt(s, 10, 64)\<close>, \<open>None\<close> for an error: a sign, digits, the range.\<close>

definition ParseInt64 :: "string \<Rightarrow> int option" where
  "ParseInt64 s =
     (let neg = (case s of [] \<Rightarrow> False | c # t \<Rightarrow> c = CHR ''-'');
          ds = (case s of [] \<Rightarrow> [] | c # t \<Rightarrow> if c = CHR ''-'' \<or> c = CHR ''+'' then t else s) in
      if ds = [] then None
      else (case digits_value 0 ds of
          None \<Rightarrow> None
        | Some n \<Rightarrow>
            let v = (if neg then - int n else int n) in
            if - (2 ^ 63) \<le> v \<and> v < 2 ^ 63 then Some v else None))"

lemma ParseInt64_range: "ParseInt64 s = Some v \<Longrightarrow> - (2 ^ 63) \<le> v \<and> v < 2 ^ 63"
  unfolding ParseInt64_def Let_def by (auto split: if_splits option.splits)

lemma digits_value_append:
  "digits_value acc (s @ t) = (case digits_value acc s of None \<Rightarrow> None | Some a \<Rightarrow> digits_value a t)"
  by (induction acc s rule: digits_value.induct) auto

lemma digit_char_byte: "n < 10 \<Longrightarrow> byte (digit_char n) = 48 + n"
  by (simp add: digit_char_def)

lemma digits_value_show: "digits_value 0 (show_nat n) = Some n"
proof (induction n rule: show_nat.induct)
  case (1 n)
  show ?case
  proof (cases "n < 10")
    case True
    then show ?thesis by (simp add: show_nat.simps [of n] digit_char_byte)
  next
    case False
    with 1 show ?thesis
      by (simp add: show_nat.simps [of n] digits_value_append digit_char_byte)
  qed
qed

lemma show_nat_first: "\<exists>c s. show_nat n = c # s \<and> 48 \<le> byte c \<and> byte c \<le> 57"
proof (induction n rule: show_nat.induct)
  case (1 n)
  show ?case
  proof (cases "n < 10")
    case True
    then show ?thesis by (simp add: show_nat.simps [of n] digit_char_byte)
  next
    case False
    with 1 obtain c s where "show_nat (n div 10) = c # s" "48 \<le> byte c" "byte c \<le> 57" by blast
    with False show ?thesis by (simp add: show_nat.simps [of n])
  qed
qed

text \<open>What \<^verbatim>\<open>%d\<close> prints parses back to the number.\<close>

lemma ParseInt64_show_int: "- (2 ^ 63) \<le> i \<Longrightarrow> i < 2 ^ 63 \<Longrightarrow> ParseInt64 (show_int i) = Some i"
proof -
  assume r: "- (2 ^ 63) \<le> i" "i < 2 ^ 63"
  obtain c s where c: "show_nat (nat i) = c # s" "48 \<le> byte c" "byte c \<le> 57"
    using show_nat_first by blast
  then have "c \<noteq> CHR ''-''" "c \<noteq> CHR ''+''" by auto
  with r c digits_value_show [of "nat i"] digits_value_show [of "nat (- i)"] show_nat_nonempty
  show ?thesis by (simp add: ParseInt64_def show_int_def Let_def)
qed

section \<open>Hosts\<close>

text \<open>\<^verbatim>\<open>net.SplitHostPort\<close>: the host and port, \<open>None\<close> for each of its errors.\<close>

definition SplitHostPort :: "string \<Rightarrow> (string \<times> string) option" where
  "SplitHostPort s =
     (if CHR '':'' \<notin> set s then None
      else
        let port = after_last CHR '':'' s; before = take (length s - Suc (length port)) s in
        if hd s = CHR ''['' then
          (let host = takeWhile (\<lambda>c. c \<noteq> CHR '']'') (tl s); close = Suc (length host) in
           if CHR '']'' \<notin> set s then None
           else if Suc close \<noteq> length before then None
           else if CHR ''['' \<in> set (tl s) \<or> CHR '']'' \<in> set (drop (Suc close) s) then None
           else Some (host, port))
        else if CHR '':'' \<in> set before then None
        else if CHR ''['' \<in> set s \<or> CHR '']'' \<in> set s then None
        else Some (before, port))"

text \<open>\<^verbatim>\<open>normalizeHost\<close> of \<^verbatim>\<open>capture.go\<close>.\<close>

definition normalizeHost :: "lib \<Rightarrow> string \<Rightarrow> string" where
  "normalizeHost L host =
     (let h = (case SplitHostPort host of None \<Rightarrow> host | Some (h, port) \<Rightarrow> h) in
      TrimSuffix (ToLower (lower_uni L) h) ''.'')"

section \<open>Headers\<close>

text \<open>The characters of a header name (RFC 9110's \<^verbatim>\<open>token\<close>).\<close>

definition is_upper :: "char \<Rightarrow> bool" where
  "is_upper c = (65 \<le> byte c \<and> byte c \<le> 90)"
definition is_lower :: "char \<Rightarrow> bool" where
  "is_lower c = (97 \<le> byte c \<and> byte c \<le> 122)"

definition token_char :: "char \<Rightarrow> bool" where
  "token_char c = (is_upper c \<or> is_lower c \<or> (48 \<le> byte c \<and> byte c \<le> 57) \<or>
     c \<in> set ''!#$%&*+-.^_|~'' \<or> c = CHR 0x27 \<or> c = CHR 0x60)"

fun canonical_from :: "bool \<Rightarrow> string \<Rightarrow> string" where
  "canonical_from up [] = []"
| "canonical_from up (c # s) =
     (let c' = (if up \<and> is_lower c then char_of (byte c - 32)
                else if \<not> up \<and> is_upper c then char_of (byte c + 32) else c) in
      c' # canonical_from (c' = CHR ''-'') s)"

text \<open>\<^verbatim>\<open>http.CanonicalHeaderKey\<close>: a name with a character no name has stays as it is.\<close>

definition CanonicalHeaderKey :: "string \<Rightarrow> string" where
  "CanonicalHeaderKey s = (if list_all token_char s then canonical_from True s else s)"

text \<open>A header map, as the list of its entries; the keys are canonical.\<close>

type_synonym header = "(string \<times> string list) list"

definition header_values :: "header \<Rightarrow> string \<Rightarrow> string list" where
  "header_values h name = (case map_of h (CanonicalHeaderKey name) of None \<Rightarrow> [] | Some vs \<Rightarrow> vs)"

definition header_get :: "header \<Rightarrow> string \<Rightarrow> string" where
  "header_get h name = (case header_values h name of [] \<Rightarrow> [] | v # vs \<Rightarrow> v)"

text \<open>The headers of an answer are a list of names and values.\<close>

definition header_add :: "string \<Rightarrow> string \<Rightarrow> (string \<times> string) list \<Rightarrow> (string \<times> string) list" where
  "header_add name val h = h @ [(CanonicalHeaderKey name, val)]"

definition header_set :: "string \<Rightarrow> string \<Rightarrow> (string \<times> string) list \<Rightarrow> (string \<times> string) list" where
  "header_set name val h =
     filter (\<lambda>(k, v). k \<noteq> CanonicalHeaderKey name) h @ [(CanonicalHeaderKey name, val)]"

text \<open>\<^verbatim>\<open>http.Error\<close>: plain text, on top of the headers already set.\<close>

definition http_Error :: "(string \<times> string) list \<Rightarrow> string \<Rightarrow> nat \<Rightarrow> response" where
  "http_Error h message status = \<lparr> rs_status = status,
     rs_headers = header_set ''X-Content-Type-Options'' ''nosniff''
       (header_set ''Content-Type'' ''text/plain; charset=utf-8'' h),
     rs_payload = RawBody (message @ [CHR 0x0A]) \<rparr>"

definition http_NotFound :: response where
  "http_NotFound = http_Error [] ''404 page not found'' 404"

lemma http_Error_status [simp]: "rs_status (http_Error h m n) = n" "rs_status http_NotFound = 404"
  by (simp_all add: http_Error_def http_NotFound_def)

section \<open>The address of the client\<close>

text \<open>\<^verbatim>\<open>net.ParseIP\<close>, \<^verbatim>\<open>IsLoopback\<close> and the canonical text of an address.\<close>

record 'ip iplib =
  parse_ip :: "string \<Rightarrow> 'ip option"
  is_loopback :: "'ip \<Rightarrow> bool"
  ip_text :: "'ip \<Rightarrow> string"

definition peer_host :: "string \<Rightarrow> string" where
  "peer_host remote = (case SplitHostPort remote of None \<Rightarrow> remote | Some (host, port) \<Rightarrow> host)"

definition clientIP :: "'ip iplib \<Rightarrow> string \<Rightarrow> header \<Rightarrow> string" where
  "clientIP I remote h =
     (let peer = peer_host remote in
      case parse_ip I peer of
        None \<Rightarrow> peer
      | Some peer_ip \<Rightarrow>
          if \<not> is_loopback I peer_ip then peer
          else (case header_values h ''X-Forwarded-For'' of
              [] \<Rightarrow> peer
            | v # vs \<Rightarrow>
                (case parse_ip I (TrimSpace (after_last CHR '','' (last (v # vs)))) of
                   None \<Rightarrow> peer
                 | Some ip \<Rightarrow> ip_text I ip)))"

section \<open>The capture domains\<close>

text \<open>\<^verbatim>\<open>normalizeHooksDomains\<close> of \<^verbatim>\<open>internal/config/config.go\<close>, the loop with the
  domains seen so far.\<close>

definition bare_host :: "string \<Rightarrow> bool" where
  "bare_host s = list_all (\<lambda>c. c \<noteq> CHR ''/'' \<and> c \<noteq> CHR '' '' \<and> c \<noteq> CHR 0x09 \<and> c \<noteq> CHR 0x0D \<and> c \<noteq> CHR 0x0A) s"

fun hooks_loop :: "lib \<Rightarrow> string list \<Rightarrow> string list \<Rightarrow> string + string list" where
  "hooks_loop L seen [] = Inr []"
| "hooks_loop L seen (entry # rest) =
     (let domain = ToLower (lower_uni L) (TrimSpace entry) in
      if domain = [] \<or> domain \<in> set seen then hooks_loop L seen rest
      else if \<not> bare_host domain then
        Inl (''invalid HOOKS_DOMAINS entry '' @ go_quote L entry @
          '': want a bare host name such as hook.example.com, without a scheme, path or spaces'')
      else bindR (hooks_loop L (domain # seen) rest) (\<lambda>ds. Inr (domain # ds)))"

definition normalizeHooksDomains :: "lib \<Rightarrow> string list \<Rightarrow> string + string list" where
  "normalizeHooksDomains L raw = hooks_loop L [] raw"

lemma hooks_loop_spec:
  assumes "hooks_loop L seen raw = Inr ds"
  shows "distinct ds \<and> set ds \<inter> set seen = {} \<and> (\<forall>d \<in> set ds. d \<noteq> [] \<and> bare_host d)"
  using assms
proof (induction raw arbitrary: seen ds)
  case (Cons entry rest)
  define domain where "domain = ToLower (lower_uni L) (TrimSpace entry)"
  show ?case
  proof (cases "domain = [] \<or> domain \<in> set seen")
    case True
    with Cons show ?thesis by (simp add: domain_def)
  next
    case False
    with Cons.prems obtain es where es: "bare_host domain" "hooks_loop L (domain # seen) rest = Inr es"
        "ds = domain # es"
      by (auto simp: Let_def bindR_Inr_iff simp flip: domain_def split: if_splits)
    from Cons.IH [OF es(2)] es(1,3) False show ?thesis by auto
  qed
qed simp

end
