(* ===== verification/Passwords.thy ===== *)
theory Passwords
  imports Base64 Net
begin

text \<open>
  Password hashes and session tokens: \<^verbatim>\<open>internal/auth/password.go\<close> and
  \<^verbatim>\<open>token.go\<close>, with the unpadded Base64 and the \<^verbatim>\<open>fmt.Sscanf\<close> they
  use. The argon2id function and the reads of \<^verbatim>\<open>crypto/rand\<close> are parameters.
\<close>

section \<open>Unpadded Base64\<close>

definition raw_encode :: "string \<Rightarrow> string" where
  "raw_encode s = takeWhile (\<lambda>c. c \<noteq> b64_pad) (b64_encode s)"

definition raw_decode :: "string \<Rightarrow> string option" where
  "raw_decode s =
     (let t = filter (\<lambda>c. byte c \<noteq> 10 \<and> byte c \<noteq> 13) s; k = length t mod 4 in
      if b64_pad \<in> set t \<or> k = 1 then None
      else b64_groups (t @ (if k = 2 then [b64_pad, b64_pad] else if k = 3 then [b64_pad] else [])))"

text \<open>The alphabet of \<^verbatim>\<open>RawURLEncoding\<close> differs in two characters.\<close>

definition url_char :: "char \<Rightarrow> char" where
  "url_char c = (if c = CHR ''+'' then CHR ''-'' else if c = CHR ''/'' then CHR ''_'' else c)"

definition raw_url_encode :: "string \<Rightarrow> string" where
  "raw_url_encode s = map url_char (raw_encode s)"

lemma digit_not_pad: "n < 64 \<Longrightarrow> b64_digit n \<noteq> b64_pad"
  using b64_value_digit [of n] by auto

lemma raw_encode_simps:
  "raw_encode [] = []"
  "raw_encode [x] = [b64_digit (byte x div 4), b64_digit (byte x mod 4 * 16)]"
  "raw_encode [x, y] = [b64_digit (byte x div 4), b64_digit (byte x mod 4 * 16 + byte y div 16),
     b64_digit (byte y mod 16 * 4)]"
  "raw_encode (x # y # z # s) =
     b64_digit (byte x div 4) # b64_digit (byte x mod 4 * 16 + byte y div 16) #
     b64_digit (byte y mod 16 * 4 + byte z div 64) # b64_digit (byte z mod 64) # raw_encode s"
  by (simp_all add: raw_encode_def digit_not_pad byte_digit_bounds)

lemma raw_encode_padded:
  "b64_encode s = raw_encode s @
     (if length (raw_encode s) mod 4 = 2 then [b64_pad, b64_pad]
      else if length (raw_encode s) mod 4 = 3 then [b64_pad] else []) \<and>
   length (raw_encode s) mod 4 \<noteq> 1"
  by (induction s rule: b64_encode.induct) (auto simp: raw_encode_simps)

lemma raw_encode_chars: "set (raw_encode s) \<subseteq> b64_digit ` {..<64}"
  by (induction s rule: b64_encode.induct)
    (auto simp: raw_encode_simps byte_digit_bounds intro!: imageI)

lemma raw_encode_plain:
  assumes "c \<in> set (raw_encode s)"
  shows "c \<noteq> b64_pad \<and> byte c \<noteq> (10::nat) \<and> byte c \<noteq> (13::nat) \<and> c \<noteq> CHR ''$''"
proof -
  obtain n where n: "n < 64" "c = b64_digit n" using raw_encode_chars assms by blast
  have "b64_value CHR ''$'' = None" by code_simp
  with n digit_not_pad [OF n(1)] b64_digit_plain [OF n(1)] b64_value_digit [OF n(1)] show ?thesis
    by (metis option.distinct(1))
qed

lemma raw_decode_encode: "raw_decode (raw_encode s) = Some s"
proof -
  have f: "filter (\<lambda>c. byte c \<noteq> (10::nat) \<and> byte c \<noteq> 13) (raw_encode s) = raw_encode s"
    using raw_encode_plain by (auto simp: filter_id_conv)
  have p: "b64_pad \<notin> set (raw_encode s)" using raw_encode_plain by blast
  show ?thesis
    unfolding raw_decode_def f Let_def using p raw_encode_padded [of s] b64_groups_encode [of s] by presburger
qed

section \<open>Scanning\<close>

fun split_on :: "char \<Rightarrow> string \<Rightarrow> string list" where
  "split_on c [] = [[]]"
| "split_on c (x # s) =
     (if x = c then [] # split_on c s
      else (case split_on c s of [] \<Rightarrow> [[x]] | p # ps \<Rightarrow> (x # p) # ps))"

definition is_digit :: "char \<Rightarrow> bool" where
  "is_digit c = (48 \<le> byte c \<and> byte c \<le> 57)"

text \<open>\<^verbatim>\<open>SkipSpace\<close>: a line break is an error, as the digits that must follow are missing.\<close>

definition skip_space :: "string \<Rightarrow> string" where
  "skip_space s = drop_spaces (filter (\<lambda>r. r \<noteq> [CHR 0x0A]) space_runes) s"

definition scan_digits :: "string \<Rightarrow> (nat \<times> string) option" where
  "scan_digits s = (case takeWhile is_digit s of
     [] \<Rightarrow> None
   | d # ds \<Rightarrow> map_option (\<lambda>n. (n, dropWhile is_digit s)) (digits_value 0 (d # ds)))"

text \<open>\<^verbatim>\<open>%d\<close> into an unsigned integer of some width, and into an \<^verbatim>\<open>int\<close>.\<close>

definition scan_uint :: "nat \<Rightarrow> string \<Rightarrow> (nat \<times> string) option" where
  "scan_uint bits s = (case scan_digits (skip_space s) of
     None \<Rightarrow> None
   | Some (n, rest) \<Rightarrow> if n < 2 ^ bits then Some (n, rest) else None)"

definition scan_int :: "string \<Rightarrow> (int \<times> string) option" where
  "scan_int s =
     (let t = skip_space s; neg = (t \<noteq> [] \<and> hd t = CHR ''-'');
          u = (if t \<noteq> [] \<and> (hd t = CHR ''-'' \<or> hd t = CHR ''+'') then tl t else t) in
      case scan_digits u of
        None \<Rightarrow> None
      | Some (n, rest) \<Rightarrow>
          let v = (if neg then - int n else int n) in
          if - (2 ^ 63) \<le> v \<and> v < 2 ^ 63 then Some (v, rest) else None)"

section \<open>Password hashes\<close>

definition argonTime :: nat where "argonTime = 1"
definition argonMemory :: nat where "argonMemory = 64 * 1024"
definition argonThreads :: nat where "argonThreads = 4"
definition argonSaltLen :: nat where "argonSaltLen = 16"
definition argonKeyLen :: nat where "argonKeyLen = 32"
definition maxParsedMemory :: nat where "maxParsedMemory = 2 ^ 20"
definition maxParsedTime :: nat where "maxParsedTime = 16"
definition minParsedSaltLen :: nat where "minParsedSaltLen = 8"
definition minParsedKeyLen :: nat where "minParsedKeyLen = 16"
definition maxParsedKeyLen :: nat where "maxParsedKeyLen = 64"
definition argonVersion :: nat where "argonVersion = 19"

definition ErrInvalidHash :: goerr where
  "ErrInvalidHash = PlainError ''auth: password hash is not a valid argon2id encoding''"

definition ErrIncompatibleVersion :: goerr where
  "ErrIncompatibleVersion = PlainError ''auth: unsupported argon2 version''"

text \<open>\<^verbatim>\<open>argon2.IDKey\<close>: password, salt, time, memory, threads, length of the key.\<close>

type_synonym argon = "string \<Rightarrow> string \<Rightarrow> nat \<Rightarrow> nat \<Rightarrow> nat \<Rightarrow> nat \<Rightarrow> string"

definition encoded_hash :: "string \<Rightarrow> string \<Rightarrow> string" where
  "encoded_hash salt key =
     ''$argon2id$v='' @ show_nat argonVersion @ ''$m='' @ show_nat argonMemory @ '',t='' @ show_nat argonTime @
     '',p='' @ show_nat argonThreads @ ''$'' @ raw_encode salt @ ''$'' @ raw_encode key"

text \<open>The salt is a read of 16 random bytes.\<close>

definition HashPassword :: "argon \<Rightarrow> goerr + string \<Rightarrow> string \<Rightarrow> goerr + string" where
  "HashPassword K salt_read password = (case salt_read of
     Inl err \<Rightarrow> Inl (Wrapped ''auth: generating salt: '' err)
   | Inr salt \<Rightarrow> Inr (encoded_hash salt (K password salt argonTime argonMemory argonThreads argonKeyLen)))"

record hashParams =
  hp_memory :: nat
  hp_time :: nat
  hp_threads :: nat

definition scan_params :: "string \<Rightarrow> hashParams option" where
  "scan_params s = (case CutPrefix s ''m='' of
     None \<Rightarrow> None
   | Some s \<Rightarrow> (case scan_uint 32 s of
       None \<Rightarrow> None
     | Some (memory, s) \<Rightarrow> (case CutPrefix s '',t='' of
         None \<Rightarrow> None
       | Some s \<Rightarrow> (case scan_uint 32 s of
           None \<Rightarrow> None
         | Some (passes, s) \<Rightarrow> (case CutPrefix s '',p='' of
             None \<Rightarrow> None
           | Some s \<Rightarrow> (case scan_uint 8 s of
               None \<Rightarrow> None
             | Some (threads, s) \<Rightarrow>
                 Some \<lparr> hp_memory = memory, hp_time = passes, hp_threads = threads \<rparr>))))))"

definition params_in_range :: "hashParams \<Rightarrow> bool" where
  "params_in_range p = (hp_memory p \<noteq> 0 \<and> hp_memory p \<le> maxParsedMemory \<and> hp_time p \<noteq> 0 \<and>
     hp_time p \<le> maxParsedTime \<and> hp_threads p \<noteq> 0)"

definition decode_salt :: "string \<Rightarrow> string option" where
  "decode_salt s = (case raw_decode s of
     None \<Rightarrow> None | Some salt \<Rightarrow> if length salt < minParsedSaltLen then None else Some salt)"

definition decode_key :: "string \<Rightarrow> string option" where
  "decode_key s = (case raw_decode s of
     None \<Rightarrow> None
   | Some key \<Rightarrow> if length key < minParsedKeyLen \<or> length key > maxParsedKeyLen then None else Some key)"

definition decodeHash :: "string \<Rightarrow> goerr + hashParams \<times> string \<times> string" where
  "decodeHash encoded = (case split_on CHR ''$'' encoded of
     [p0, p1, p2, p3, p4, p5] \<Rightarrow>
       if p0 \<noteq> [] \<or> p1 \<noteq> ''argon2id'' then Inl ErrInvalidHash
       else (case (case CutPrefix p2 ''v='' of None \<Rightarrow> None | Some s \<Rightarrow> scan_int s) of
           None \<Rightarrow> Inl ErrInvalidHash
         | Some (version, rest) \<Rightarrow>
             if version \<noteq> int argonVersion then Inl ErrIncompatibleVersion
             else (case scan_params p3 of
                 None \<Rightarrow> Inl ErrInvalidHash
               | Some params \<Rightarrow>
                   if \<not> params_in_range params then Inl ErrInvalidHash
                   else (case decode_salt p4 of
                       None \<Rightarrow> Inl ErrInvalidHash
                     | Some salt \<Rightarrow> (case decode_key p5 of
                         None \<Rightarrow> Inl ErrInvalidHash
                       | Some key \<Rightarrow> Inr (params, salt, key)))))
   | _ \<Rightarrow> Inl ErrInvalidHash)"

definition VerifyPassword :: "argon \<Rightarrow> string \<Rightarrow> string \<Rightarrow> goerr + bool" where
  "VerifyPassword K password encoded = (case decodeHash encoded of
     Inl err \<Rightarrow> Inl err
   | Inr (params, salt, key) \<Rightarrow>
       Inr (key = K password salt (hp_time params) (hp_memory params) (hp_threads params) (length key)))"

section \<open>Session tokens\<close>

definition tokenBytes :: nat where "tokenBytes = 32"

text \<open>30 days, in microseconds.\<close>

definition SessionTTL :: time where
  "SessionTTL = 30 * 24 * 3600 * 1000000"

definition HashToken :: "lib \<Rightarrow> string \<Rightarrow> string" where
  "HashToken L token = hash_token L token"

text \<open>The token is a read of 32 random bytes.\<close>

definition NewSessionToken :: "lib \<Rightarrow> goerr + string \<Rightarrow> goerr + string \<times> string" where
  "NewSessionToken L token_read = (case token_read of
     Inl err \<Rightarrow> Inl (Wrapped ''auth: generating session token: '' err)
   | Inr raw \<Rightarrow> Inr (raw_url_encode raw, HashToken L (raw_url_encode raw)))"

section \<open>A hash reads back\<close>

lemma split_on_plain: "c \<notin> set s \<Longrightarrow> split_on c s = [s]"
  by (induction s) auto

lemma split_on_append: "c \<notin> set s \<Longrightarrow> split_on c (s @ c # t) = s # split_on c t"
  by (induction s) auto

lemma stored_fields:
  assumes "CHR ''$'' \<notin> set salt" "CHR ''$'' \<notin> set key"
  shows "split_on CHR ''$'' (''$argon2id$v=19$m=65536,t=1,p=4$'' @ salt @ CHR ''$'' # key) =
     ['''', ''argon2id'', ''v=19'', ''m=65536,t=1,p=4'', salt, key]"
  using assms by (simp add: split_on_append split_on_plain)

lemma digit_chars:
  "map digit_char [0, 1, 2, 3, 4, 5, 6, 7, 8, 9] = ''0123456789''"
  by code_simp

lemma stored_head:
  "''$argon2id$v='' @ show_nat argonVersion @ ''$m='' @ show_nat argonMemory @ '',t='' @ show_nat argonTime @
     '',p='' @ show_nat argonThreads @ ''$'' = ''$argon2id$v=19$m=65536,t=1,p=4$''"
proof -
  have "show_nat 19 = ''19''" "show_nat 65536 = ''65536''" "show_nat 1 = ''1''" "show_nat 4 = ''4''"
    using digit_chars by (simp_all add: show_nat.simps)
  then show ?thesis
    by (simp only: argonVersion_def argonMemory_def argonTime_def argonThreads_def) simp
qed

lemma stored_params: "scan_params ''m=65536,t=1,p=4'' =
    Some \<lparr> hp_memory = argonMemory, hp_time = argonTime, hp_threads = argonThreads \<rparr>"
proof -
  have skip: "skip_space ''65536,t=1,p=4'' = ''65536,t=1,p=4''" "skip_space ''1,p=4'' = ''1,p=4''"
    "skip_space ''4'' = ''4''" by (code_simp, code_simp, code_simp)
  have "scan_digits ''65536,t=1,p=4'' = Some (65536, '',t=1,p=4'')" "scan_digits ''1,p=4'' = Some (1, '',p=4'')"
    "scan_digits ''4'' = Some (4, [])"
    by (simp_all add: scan_digits_def is_digit_def)
  then have "scan_uint 32 ''65536,t=1,p=4'' = Some (65536, '',t=1,p=4'')"
    "scan_uint 32 ''1,p=4'' = Some (1, '',p=4'')" "scan_uint 8 ''4'' = Some (4, [])"
    by (simp_all add: scan_uint_def skip)
  moreover have "CutPrefix ''m=65536,t=1,p=4'' ''m='' = Some ''65536,t=1,p=4''"
    "CutPrefix '',t=1,p=4'' '',t='' = Some ''1,p=4''" "CutPrefix '',p=4'' '',p='' = Some ''4''"
    by (code_simp, code_simp, code_simp)
  ultimately show ?thesis
    by (simp add: scan_params_def argonMemory_def argonTime_def argonThreads_def)
qed

lemma stored_version: "scan_int ''19'' = Some (19, [])"
  by code_simp

lemma decode_encoded:
  assumes "length salt = argonSaltLen" "length key = argonKeyLen"
  shows "decodeHash (encoded_hash salt key) =
    Inr (\<lparr> hp_memory = argonMemory, hp_time = argonTime, hp_threads = argonThreads \<rparr>, salt, key)"
proof -
  have e: "encoded_hash salt key = ''$argon2id$v=19$m=65536,t=1,p=4$'' @ raw_encode salt @ CHR ''$'' # raw_encode key"
    unfolding encoded_hash_def using stored_head by simp
  have p: "CHR ''$'' \<notin> set (raw_encode salt)" "CHR ''$'' \<notin> set (raw_encode key)"
    using raw_encode_plain by blast+
  have k: "decode_salt (raw_encode salt) = Some salt" "decode_key (raw_encode key) = Some key"
    using assms by (simp_all add: decode_salt_def decode_key_def raw_decode_encode argonSaltLen_def
        argonKeyLen_def minParsedSaltLen_def minParsedKeyLen_def maxParsedKeyLen_def)
  have r: "params_in_range \<lparr> hp_memory = argonMemory, hp_time = argonTime, hp_threads = argonThreads \<rparr>"
    by (simp add: params_in_range_def argonMemory_def argonTime_def argonThreads_def maxParsedMemory_def maxParsedTime_def)
  have v: "CutPrefix ''v=19'' ''v='' = Some ''19''" by code_simp
  show ?thesis
    unfolding decodeHash_def e stored_fields [OF p]
    by (simp add: v stored_version stored_params k r argonVersion_def)
qed

end
