(* ===== verification/Auth.thy ===== *)
theory Auth
  imports RateLimit Passwords Invitations
begin

text \<open>
  Accounts and sessions: \<^verbatim>\<open>internal/api/auth.go\<close>, the bearer check of
  \<^verbatim>\<open>auth_middleware.go\<close>, the throttling of \<^verbatim>\<open>ratelimit.go\<close> and the sweep
  of \<^verbatim>\<open>internal/db/sessions_cleanup.go\<close>. The header \<^verbatim>\<open>Authorization\<close>, the
  reads of \<^verbatim>\<open>crypto/rand\<close> and the server's clock \<open>tm\<close> (in microseconds) are arguments.
\<close>

definition minPasswordLength :: nat where "minPasswordLength = 8"
definition maxPasswordLength :: nat where "maxPasswordLength = 512"
definition maxNameLength :: nat where "maxNameLength = 200"

record registerRequest =
  gq_email :: string
  gq_password :: string
  gq_name :: string

definition registerRequest_fields :: "registerRequest field list" where
  "registerRequest_fields =
     [(''email'', fString (\<lambda>v q. q\<lparr> gq_email := v \<rparr>)),
      (''password'', fString (\<lambda>v q. q\<lparr> gq_password := v \<rparr>)),
      (''name'', fString (\<lambda>v q. q\<lparr> gq_name := v \<rparr>))]"

definition registerRequest_zero :: registerRequest where
  "registerRequest_zero = \<lparr> gq_email = [], gq_password = [], gq_name = [] \<rparr>"

record loginRequest =
  lq_email :: string
  lq_password :: string

definition loginRequest_fields :: "loginRequest field list" where
  "loginRequest_fields =
     [(''email'', fString (\<lambda>v q. q\<lparr> lq_email := v \<rparr>)),
      (''password'', fString (\<lambda>v q. q\<lparr> lq_password := v \<rparr>))]"

definition loginRequest_zero :: loginRequest where
  "loginRequest_zero = \<lparr> lq_email = [], lq_password = [] \<rparr>"

definition userResponse :: "lib \<Rightarrow> uuid \<Rightarrow> string \<Rightarrow> string \<Rightarrow> json" where
  "userResponse L i email name =
     JObj [(''id'', JStr (uuid_string L i)), (''email'', JStr email), (''name'', JStr name)]"

definition newUserResponse :: "lib \<Rightarrow> User \<Rightarrow> json" where
  "newUserResponse L user = userResponse L (u_id user) (u_email user) (u_name user)"

definition authResponse :: "lib \<Rightarrow> User \<Rightarrow> string \<Rightarrow> json" where
  "authResponse L user token = JObj [(''user'', newUserResponse L user), (''token'', JStr token)]"

definition validatePassword :: "string \<Rightarrow> string option" where
  "validatePassword password =
     (if rune_count password < minPasswordLength then
        Some (''password must be at least '' @ show_nat minPasswordLength @ '' characters'')
      else if length password > maxPasswordLength then
        Some (''password must be at most '' @ show_nat maxPasswordLength @ '' bytes'')
      else None)"

section \<open>The bearer check\<close>

definition bearerPrefix :: string where
  "bearerPrefix = ''Bearer ''"

definition bearerToken :: "string \<Rightarrow> string option" where
  "bearerToken authorization =
     (let n = length bearerPrefix; token = TrimSpace (drop n authorization) in
      if length authorization \<le> n then None
      else if map ascii_lower (take n authorization) \<noteq> map ascii_lower bearerPrefix then None
      else if token = [] then None else Some token)"

text \<open>The caller and the hash of the token, or the answer that refuses the request.\<close>

definition authenticate :: "lib \<Rightarrow> string \<Rightarrow> world \<Rightarrow> (response + AuthUser \<times> string) \<times> world" where
  "authenticate L authorization w = (case bearerToken authorization of
     None \<Rightarrow> (Inl (writeError 401 codeUnauthorized messageAuthRequired), w)
   | Some token \<Rightarrow> (case exec (GetSessionByTokenHash (HashToken L token)) w of
       (Inl err, w) \<Rightarrow>
         if errors_is err ErrNoRows then (Inl (writeError 401 codeUnauthorized messageInvalidToken), w)
         else (Inl (serverError err), w)
     | (Inr (session, user), w) \<Rightarrow>
         (Inr (\<lparr> au_id = u_id user, au_email = u_email user, au_name = u_name user \<rparr>,
               s_token_hash session), w)))"

text \<open>A handler that may fail to return has an optional result.\<close>

type_synonym handler = "http_request \<Rightarrow> world \<Rightarrow> (response \<times> world) option"

definition requireAuth :: "lib \<Rightarrow> string \<Rightarrow> handler \<Rightarrow> handler" where
  "requireAuth L authorization handle r w = (case authenticate L authorization w of
     (Inl resp, w) \<Rightarrow> Some (resp, w)
   | (Inr caller, w) \<Rightarrow> handle (r\<lparr> rq_auth := Some caller \<rparr>) w)"

definition sessionTokenHashFromContext :: "http_request \<Rightarrow> string option" where
  "sessionTokenHashFromContext r = map_option snd (rq_auth r)"

section \<open>Handlers\<close>

definition issueSession :: "lib \<Rightarrow> goerr + string \<Rightarrow> time \<Rightarrow> uuid \<Rightarrow> world \<Rightarrow> (goerr + string) \<times> world" where
  "issueSession L token_read tm user_id w = (case NewSessionToken L token_read of
     Inl err \<Rightarrow> (Inl err, w)
   | Inr (token, token_hash) \<Rightarrow> (case exec (CreateSession token_hash user_id (tm + SessionTTL)) w of
       (Inl err, w) \<Rightarrow> (Inl (Wrapped ''creating session: '' err), w)
     | (Inr _, w) \<Rightarrow> (Inr token, w)))"

definition handleRegister :: "lib \<Rightarrow> argon \<Rightarrow> goerr + string \<Rightarrow> goerr + string \<Rightarrow> time \<Rightarrow>
    http_request \<Rightarrow> world \<Rightarrow> response \<times> world" where
  "handleRegister L K salt_read token_read tm r w =
     (case readJSON L registerRequest_fields registerRequest_zero r of
        Inl err \<Rightarrow> (writeBodyError err, w)
      | Inr req \<Rightarrow>
          (let email = normalizeEmail L (gq_email req); name = TrimSpace (gq_name req) in
           case validateEmail L email of
             Some err \<Rightarrow> (writeError 400 codeBadRequest err, w)
           | None \<Rightarrow> (case validatePassword (gq_password req) of
               Some err \<Rightarrow> (writeError 400 codeBadRequest err, w)
             | None \<Rightarrow>
                 if rune_count name > maxNameLength then
                   (writeError 400 codeBadRequest
                      (''name must be at most '' @ show_nat maxNameLength @ '' characters''), w)
                 else (case HashPassword K salt_read (gq_password req) of
                     Inl err \<Rightarrow> (serverError err, w)
                   | Inr password_hash \<Rightarrow> (case exec (CreateUser email password_hash name) w of
                       (Inl err, w) \<Rightarrow>
                         if isUniqueViolation err then (writeError 409 codeConflict messageEmailTaken, w)
                         else (serverError err, w)
                     | (Inr user, w) \<Rightarrow> (case issueSession L token_read tm (u_id user) w of
                         (Inl err, w) \<Rightarrow> (serverError err, w)
                       | (Inr token, w) \<Rightarrow> (writeJSON 201 (authResponse L user token), w)))))))"

text \<open>\<^verbatim>\<open>DummyVerify\<close> only spends time; its result is dropped.\<close>

definition handleLogin :: "lib \<Rightarrow> argon \<Rightarrow> goerr + string \<Rightarrow> time \<Rightarrow> http_request \<Rightarrow> world \<Rightarrow>
    response \<times> world" where
  "handleLogin L K token_read tm r w =
     (case readJSON L loginRequest_fields loginRequest_zero r of
        Inl err \<Rightarrow> (writeBodyError err, w)
      | Inr req \<Rightarrow>
          (case exec (GetUserByEmail (normalizeEmail L (lq_email req))) w of
             (Inl err, w) \<Rightarrow>
               if errors_is err ErrNoRows then (writeError 401 codeUnauthorized messageBadCredentials, w)
               else (serverError err, w)
           | (Inr user, w) \<Rightarrow> (case VerifyPassword K (lq_password req) (u_password_hash user) of
               Inl err \<Rightarrow>
                 (serverError (Wrapped (''verifying password for user '' @ uuid_string L (u_id user) @ '': '') err), w)
             | Inr match \<Rightarrow>
                 if \<not> match then (writeError 401 codeUnauthorized messageBadCredentials, w)
                 else (case issueSession L token_read tm (u_id user) w of
                     (Inl err, w) \<Rightarrow> (serverError err, w)
                   | (Inr token, w) \<Rightarrow> (writeJSON 200 (authResponse L user token), w)))))"

definition handleLogout :: "lib \<Rightarrow> http_request \<Rightarrow> world \<Rightarrow> response \<times> world" where
  "handleLogout L r w = (case sessionTokenHashFromContext r of
     None \<Rightarrow> (serverError (PlainError ''logout: no session in request context''), w)
   | Some token_hash \<Rightarrow> (case exec (DeleteSession token_hash) w of
       (Inl err, w) \<Rightarrow> (serverError err, w)
     | (Inr _, w) \<Rightarrow> (noContent, w)))"

definition handleMe :: "lib \<Rightarrow> http_request \<Rightarrow> world \<Rightarrow> response \<times> world" where
  "handleMe L r w = (case UserFromContext r of
     None \<Rightarrow> (serverError (PlainError ''me: no user in request context''), w)
   | Some user \<Rightarrow> (writeJSON 200 (userResponse L (au_id user) (au_email user) (au_name user)), w))"

text \<open>The sweep of expired sessions; the count and the error are only logged.\<close>

definition deleteExpiredSessionsOnce :: "world \<Rightarrow> world" where
  "deleteExpiredSessionsOnce w = snd (exec DeleteExpiredSessions w)"

section \<open>Throttling\<close>

definition tooManyAttempts :: "int \<Rightarrow> response" where
  "tooManyAttempts wait =
     (let n = retryAfterSeconds wait;
          resp = writeError 429 codeTooManyRequests
            (''too many attempts; try again in '' @ show_int n @ '' seconds'') in
      resp\<lparr> rs_headers := (''Retry-After'', show_int n) # rs_headers resp \<rparr>)"

definition rateLimitByIP :: "'ip iplib \<Rightarrow> int \<Rightarrow> string \<Rightarrow> header \<Rightarrow> (world \<Rightarrow> response \<times> world) \<Rightarrow>
    limiter option \<Rightarrow> world \<Rightarrow> response \<times> limiter option \<times> world" where
  "rateLimitByIP I tm remote h handle lm w =
     (case limit_call tm (clientIP I remote h) lm of ((allowed, wait), lm) \<Rightarrow>
      if \<not> allowed then (tooManyAttempts wait, lm, w)
      else (case handle w of (resp, w) \<Rightarrow> (resp, lm, w)))"

section \<open>Lemmas\<close>

lemma authenticate_unchanged: "runs unchanged (authenticate L authorization)"
proof -
  have "runs unchanged (exec (GetSessionByTokenHash h))" for h
    by (intro runs_unchanged_exec readonly_intros)
  then show ?thesis
    unfolding authenticate_def [abs_def] by (intro unchanged_rules)
qed

definition live_session :: "db \<Rightarrow> time \<Rightarrow> string \<Rightarrow> User \<Rightarrow> bool" where
  "live_session d tm token_hash user \<longleftrightarrow> user \<in> set (users d) \<and>
     (\<exists>s \<in> set (sessions d). s_token_hash s = token_hash \<and> tm < s_expires_at s \<and> s_user_id s = u_id user)"

definition session_rows :: "db \<Rightarrow> time \<Rightarrow> string \<Rightarrow> (Session \<times> User) list" where
  "session_rows d tm h = [(x, u). x \<leftarrow> sessions d, s_token_hash x = h \<and> tm < s_expires_at x,
     u \<leftarrow> users d, u_id u = s_user_id x]"

lemma in_session_rows:
  "(x, u) \<in> set (session_rows d tm h) \<longleftrightarrow> x \<in> set (sessions d) \<and> u \<in> set (users d) \<and>
     s_token_hash x = h \<and> tm < s_expires_at x \<and> u_id u = s_user_id x"
  by (auto simp: session_rows_def)

lemma GetSessionByTokenHash_rows:
  "GetSessionByTokenHash h s d = (case session_rows d (now s) h of
     [] \<Rightarrow> Inl ErrNoRows | row # _ \<Rightarrow> Inr (row, d))"
  unfolding GetSessionByTokenHash_def reading_def session_rows_def [symmetric]
  by (cases "session_rows d (now s) h") simp_all

lemma GetSessionByTokenHash_Inr:
  assumes "GetSessionByTokenHash h s d = Inr ((x, u), d')"
  shows "d' = d \<and> live_session d (now s) h u \<and> s_token_hash x = h"
proof -
  from assms obtain t where "d' = d" "session_rows d (now s) h = (x, u) # t"
    by (auto simp: GetSessionByTokenHash_rows split: list.splits)
  then show ?thesis
    using in_session_rows [of x u d "now s" h] by (auto simp: live_session_def)
qed

lemma GetSessionByTokenHash_Inl:
  assumes "GetSessionByTokenHash h s d = Inl e"
  shows "e = ErrNoRows \<and> (\<forall>u. \<not> live_session d (now s) h u)"
proof -
  from assms have "e = ErrNoRows" "session_rows d (now s) h = []"
    by (auto simp: GetSessionByTokenHash_rows split: list.splits)
  moreover have "live_session d (now s) h u \<Longrightarrow> \<exists>x. (x, u) \<in> set (session_rows d (now s) h)" for u
    by (fastforce simp: live_session_def in_session_rows)
  ultimately show ?thesis by fastforce
qed

lemma GetSessionByTokenHash_live:
  assumes "live_session d (now s) h u"
  shows "\<exists>x u. GetSessionByTokenHash h s d = Inr ((x, u), d)"
proof (cases "GetSessionByTokenHash h s d")
  case (Inl e)
  with GetSessionByTokenHash_Inl [OF Inl] assms show ?thesis by blast
next
  case (Inr row)
  then obtain x v d' where "row = ((x, v), d')" by (metis prod_cases3 surj_pair)
  with Inr GetSessionByTokenHash_Inr show ?thesis by metis
qed

end
