(* ===== verification/Environments.thy ===== *)
theory Environments
  imports Folders
begin

text \<open>
  Environments and their variables: the transactions of \<^verbatim>\<open>internal/db/environments.go\<close>
  and the handlers of \<^verbatim>\<open>internal/api/environments.go\<close>. A secret's value is never
  accepted, stored or returned.
\<close>

section \<open>Store operations\<close>

definition ReorderEnvironments ::
  "uuid \<Rightarrow> uuid list \<Rightarrow> (uuid list \<Rightarrow> goerr option) \<Rightarrow> world \<Rightarrow> (goerr + unit) \<times> world" where
  "ReorderEnvironments project_id environment_ids check =
     inTx (check_then_write (ListEnvironmentIDsForUpdate project_id) ''list environments: '' check
       (BulkUpdateEnvironmentOrder project_id environment_ids) ''update environment order: '')"

definition ReorderVariables ::
  "uuid \<Rightarrow> uuid list \<Rightarrow> (uuid list \<Rightarrow> goerr option) \<Rightarrow> world \<Rightarrow> (goerr + unit) \<times> world" where
  "ReorderVariables environment_id variable_ids check =
     inTx (check_then_write (ListVariableIDsForUpdate environment_id) ''list variables: '' check
       (BulkUpdateVariableOrder environment_id variable_ids) ''update variable order: '')"

section \<open>Requests and responses\<close>

definition minEnvironmentNameLength :: nat where "minEnvironmentNameLength = 1"
definition maxEnvironmentNameLength :: nat where "maxEnvironmentNameLength = 100"
definition minVariableKeyLength :: nat where "minVariableKeyLength = 1"
definition maxVariableKeyLength :: nat where "maxVariableKeyLength = 200"

record environmentRequest =
  enq_name :: string

definition environmentRequest_fields :: "environmentRequest field list" where
  "environmentRequest_fields = [(''name'', fString (\<lambda>v q. q\<lparr> enq_name := v \<rparr>))]"

record environmentOrderRequest =
  eoq_project_id :: string
  eoq_environment_ids :: "string list"

definition environmentOrderRequest_fields :: "environmentOrderRequest field list" where
  "environmentOrderRequest_fields =
     [(''project_id'', fString (\<lambda>v q. q\<lparr> eoq_project_id := v \<rparr>)),
      (''environment_ids'', fStrings eoq_environment_ids (\<lambda>v q. q\<lparr> eoq_environment_ids := v \<rparr>))]"

record variableCreateRequest =
  vcq_key :: string
  vcq_type :: "string option"
  vcq_value :: "string option"

definition variableCreateRequest_fields :: "variableCreateRequest field list" where
  "variableCreateRequest_fields =
     [(''key'', fString (\<lambda>v q. q\<lparr> vcq_key := v \<rparr>)),
      (''type'', fOptString (\<lambda>v q. q\<lparr> vcq_type := v \<rparr>)),
      (''value'', fOptString (\<lambda>v q. q\<lparr> vcq_value := v \<rparr>))]"

record variableUpdateRequest =
  vuq_key :: "string option"
  vuq_type :: "string option"
  vuq_value :: raw_message

definition variableUpdateRequest_fields :: "variableUpdateRequest field list" where
  "variableUpdateRequest_fields =
     [(''key'', fOptString (\<lambda>v q. q\<lparr> vuq_key := v \<rparr>)),
      (''type'', fOptString (\<lambda>v q. q\<lparr> vuq_type := v \<rparr>)),
      (''value'', fRaw (\<lambda>v q. q\<lparr> vuq_value := v \<rparr>))]"

record variableOrderRequest =
  voq_environment_id :: string
  voq_variable_ids :: "string list"

definition variableOrderRequest_fields :: "variableOrderRequest field list" where
  "variableOrderRequest_fields =
     [(''environment_id'', fString (\<lambda>v q. q\<lparr> voq_environment_id := v \<rparr>)),
      (''variable_ids'', fStrings voq_variable_ids (\<lambda>v q. q\<lparr> voq_variable_ids := v \<rparr>))]"

definition newEnvironmentResponse :: "lib \<Rightarrow> Environment \<Rightarrow> json" where
  "newEnvironmentResponse L e = JObj
     [(''id'', JStr (uuid_string L (e_id e))), (''project_id'', JStr (uuid_string L (e_project_id e))),
      (''name'', JStr (e_name e)), (''sort_order'', JInt (e_sort_order e)),
      (''created_at'', JStr (fmt_time L (e_created_at e)))]"

definition environmentSummaryResponse :: "lib \<Rightarrow> Environment \<Rightarrow> json" where
  "environmentSummaryResponse L e = JObj
     [(''id'', JStr (uuid_string L (e_id e))), (''name'', JStr (e_name e)),
      (''sort_order'', JInt (e_sort_order e)), (''created_at'', JStr (fmt_time L (e_created_at e)))]"

definition newVariableResponse :: "lib \<Rightarrow> EnvironmentVariable \<Rightarrow> json" where
  "newVariableResponse L v =
     (let val = (if v_type v = VariableSecret then None else v_value v) in JObj
     [(''id'', JStr (uuid_string L (v_id v))), (''key'', JStr (v_key v)), (''type'', JStr (v_type v)),
      (''value'', case val of None \<Rightarrow> JNull | Some s \<Rightarrow> JStr s), (''sort_order'', JInt (v_sort_order v))])"

definition isVariableType :: "string \<Rightarrow> bool" where
  "isVariableType v = (v = VariableRegular \<or> v = VariableSecret)"

definition parseNullableString :: "json \<Rightarrow> string \<Rightarrow> string + string option" where
  "parseNullableString raw field = (case raw of
     JNull \<Rightarrow> Inr None
   | JStr v \<Rightarrow> Inr (Some v)
   | _ \<Rightarrow> Inl (field @ '' must be a string or null''))"

definition readEnvironmentName :: "lib \<Rightarrow> http_request \<Rightarrow> response + string" where
  "readEnvironmentName L r = (case readJSON L environmentRequest_fields \<lparr> enq_name = [] \<rparr> r of
     Inl err \<Rightarrow> Inl (writeBodyError err)
   | Inr req \<Rightarrow> (case validateName (enq_name req) minEnvironmentNameLength maxEnvironmentNameLength of
       Inl err \<Rightarrow> Inl (writeError 400 codeBadRequest err)
     | Inr name \<Rightarrow> Inr name))"

definition writeEnvironmentError :: "goerr \<Rightarrow> response" where
  "writeEnvironmentError err = (case as_bad_request err of
     Some msg \<Rightarrow> writeError 400 codeBadRequest msg
   | None \<Rightarrow>
       if isUniqueViolation err then writeError 409 codeConflict messageEnvironmentNameTaken
       else if errors_is err ErrNoRows then writeError 404 codeNotFound messageEnvironmentNotFound
       else serverError err)"

definition writeVariableError :: "goerr \<Rightarrow> response" where
  "writeVariableError err = (case as_bad_request err of
     Some msg \<Rightarrow> writeError 400 codeBadRequest msg
   | None \<Rightarrow>
       if isUniqueViolation err then writeError 409 codeConflict messageVariableKeyTaken
       else if isConstraintViolation err ''23514'' ''environment_variables_secret_no_value'' then
         writeError 400 codeBadRequest messageSecretValue
       else if errors_is err ErrNoRows then writeError 404 codeNotFound messageVariableNotFound
       else serverError err)"

section \<open>Environments\<close>

definition handleCreateEnvironment :: "lib \<Rightarrow> http_request \<Rightarrow> world \<Rightarrow> response \<times> world" where
  "handleCreateEnvironment L r w = (case authenticatedUser r of
     Inl resp \<Rightarrow> (resp, w)
   | Inr user \<Rightarrow> (case pathUUID L r ''project_id'' of
       Inl resp \<Rightarrow> (resp, w)
     | Inr project_id \<Rightarrow> (case RequireProjectAccess project_id (au_id user) w of
         (Inl err, w) \<Rightarrow> (writeAuthzError err, w)
       | (Inr _, w) \<Rightarrow> (case readEnvironmentName L r of
           Inl resp \<Rightarrow> (resp, w)
         | Inr name \<Rightarrow> (case exec (CreateEnvironment project_id name) w of
             (Inl err, w) \<Rightarrow> (writeEnvironmentError err, w)
           | (Inr environment, w) \<Rightarrow> (writeJSON 201 (newEnvironmentResponse L environment), w))))))"

definition handleListEnvironments :: "lib \<Rightarrow> http_request \<Rightarrow> world \<Rightarrow> response \<times> world" where
  "handleListEnvironments L r w = (case authenticatedUser r of
     Inl resp \<Rightarrow> (resp, w)
   | Inr user \<Rightarrow> (case pathUUID L r ''project_id'' of
       Inl resp \<Rightarrow> (resp, w)
     | Inr project_id \<Rightarrow> (case RequireProjectAccess project_id (au_id user) w of
         (Inl err, w) \<Rightarrow> (writeAuthzError err, w)
       | (Inr _, w) \<Rightarrow> (case exec (ListEnvironmentsByProject project_id) w of
           (Inl err, w) \<Rightarrow> (serverError err, w)
         | (Inr rows, w) \<Rightarrow> (writeJSON 200 (JArr (map (environmentSummaryResponse L) rows)), w)))))"

definition handleUpdateEnvironment :: "lib \<Rightarrow> http_request \<Rightarrow> world \<Rightarrow> response \<times> world" where
  "handleUpdateEnvironment L r w = (case authenticatedUser r of
     Inl resp \<Rightarrow> (resp, w)
   | Inr user \<Rightarrow> (case pathUUID L r ''id'' of
       Inl resp \<Rightarrow> (resp, w)
     | Inr environment_id \<Rightarrow> (case RequireEnvironmentAccess environment_id (au_id user) w of
         (Inl err, w) \<Rightarrow> (writeAuthzError err, w)
       | (Inr _, w) \<Rightarrow> (case readEnvironmentName L r of
           Inl resp \<Rightarrow> (resp, w)
         | Inr name \<Rightarrow> (case exec (UpdateEnvironmentName environment_id name) w of
             (Inl err, w) \<Rightarrow> (writeEnvironmentError err, w)
           | (Inr environment, w) \<Rightarrow> (writeJSON 200 (newEnvironmentResponse L environment), w))))))"

definition handleDeleteEnvironment :: "lib \<Rightarrow> http_request \<Rightarrow> world \<Rightarrow> response \<times> world" where
  "handleDeleteEnvironment L r w = (case authenticatedUser r of
     Inl resp \<Rightarrow> (resp, w)
   | Inr user \<Rightarrow> (case pathUUID L r ''id'' of
       Inl resp \<Rightarrow> (resp, w)
     | Inr environment_id \<Rightarrow> (case RequireEnvironmentAccess environment_id (au_id user) w of
         (Inl err, w) \<Rightarrow> (writeAuthzError err, w)
       | (Inr _, w) \<Rightarrow> (case exec (DeleteEnvironment environment_id) w of
           (Inl err, w) \<Rightarrow> (serverError err, w)
         | (Inr _, w) \<Rightarrow> (noContent, w)))))"

definition handleReorderEnvironments :: "lib \<Rightarrow> http_request \<Rightarrow> world \<Rightarrow> response \<times> world" where
  "handleReorderEnvironments L r w = (case authenticatedUser r of
     Inl resp \<Rightarrow> (resp, w)
   | Inr user \<Rightarrow> (case readJSON L environmentOrderRequest_fields
         \<lparr> eoq_project_id = [], eoq_environment_ids = [] \<rparr> r of
       Inl err \<Rightarrow> (writeBodyError err, w)
     | Inr req \<Rightarrow> (case uuid_parse L (eoq_project_id req) of
         None \<Rightarrow> (writeError 400 codeBadRequest ''project_id must be a valid uuid'', w)
       | Some project_id \<Rightarrow> (case RequireProjectAccess project_id (au_id user) w of
           (Inl err, w) \<Rightarrow> (writeAuthzError err, w)
         | (Inr _, w) \<Rightarrow> (case parseUUIDs L (eoq_environment_ids req) ''environment_ids'' of
             Inl err \<Rightarrow> (writeError 400 codeBadRequest err, w)
           | Inr environment_ids \<Rightarrow>
               (case ReorderEnvironments project_id environment_ids
                   (same_ids_check L environment_ids ''environment_ids'' ''an environment of this project''
                      ''environments of this project'') w of
                  (Inl err, w) \<Rightarrow> (writeEnvironmentError err, w)
                | (Inr _, w) \<Rightarrow> (noContent, w)))))))"

section \<open>Variables\<close>

text \<open>The value of a new variable: a secret may come with an empty one, which is none.\<close>

definition new_variable_value :: "string \<Rightarrow> string option \<Rightarrow> string + string option" where
  "new_variable_value vtype val =
     (if vtype = VariableSecret then
        if val \<noteq> None \<and> val \<noteq> Some [] then Inl messageSecretValue else Inr None
      else Inr val)"

definition handleCreateVariable :: "lib \<Rightarrow> http_request \<Rightarrow> world \<Rightarrow> response \<times> world" where
  "handleCreateVariable L r w = (case authenticatedUser r of
     Inl resp \<Rightarrow> (resp, w)
   | Inr user \<Rightarrow> (case pathUUID L r ''env_id'' of
       Inl resp \<Rightarrow> (resp, w)
     | Inr environment_id \<Rightarrow> (case RequireEnvironmentAccess environment_id (au_id user) w of
         (Inl err, w) \<Rightarrow> (writeAuthzError err, w)
       | (Inr _, w) \<Rightarrow> (case readJSON L variableCreateRequest_fields
             \<lparr> vcq_key = [], vcq_type = None, vcq_value = None \<rparr> r of
           Inl err \<Rightarrow> (writeBodyError err, w)
         | Inr req \<Rightarrow>
             (case validateTrimmedLength ''key'' (vcq_key req) minVariableKeyLength maxVariableKeyLength of
                Inl err \<Rightarrow> (writeError 400 codeBadRequest err, w)
              | Inr key \<Rightarrow>
                  if (case vcq_type req of None \<Rightarrow> False | Some t \<Rightarrow> \<not> isVariableType t) then
                    (writeError 400 codeBadRequest messageInvalidVariableType, w)
                  else
                    (let variableType = (case vcq_type req of None \<Rightarrow> VariableRegular | Some t \<Rightarrow> t) in
                     case new_variable_value variableType (vcq_value req) of
                       Inl err \<Rightarrow> (writeError 400 codeBadRequest err, w)
                     | Inr val \<Rightarrow>
                         (case exec (CreateVariable environment_id key variableType val) w of
                            (Inl err, w) \<Rightarrow> (writeVariableError err, w)
                          | (Inr variable, w) \<Rightarrow> (writeJSON 201 (newVariableResponse L variable), w))))))))"

definition handleListVariables :: "lib \<Rightarrow> http_request \<Rightarrow> world \<Rightarrow> response \<times> world" where
  "handleListVariables L r w = (case authenticatedUser r of
     Inl resp \<Rightarrow> (resp, w)
   | Inr user \<Rightarrow> (case pathUUID L r ''env_id'' of
       Inl resp \<Rightarrow> (resp, w)
     | Inr environment_id \<Rightarrow> (case RequireEnvironmentAccess environment_id (au_id user) w of
         (Inl err, w) \<Rightarrow> (writeAuthzError err, w)
       | (Inr _, w) \<Rightarrow> (case exec (ListVariablesByEnvironment environment_id) w of
           (Inl err, w) \<Rightarrow> (serverError err, w)
         | (Inr rows, w) \<Rightarrow> (writeJSON 200 (JArr (map (newVariableResponse L) rows)), w)))))"

text \<open>The key and the value of an update: whether to set the value, and to what.\<close>

definition variable_update_key :: "variableUpdateRequest \<Rightarrow> string + string option" where
  "variable_update_key req = (case vuq_key req of
     None \<Rightarrow> Inr None
   | Some raw \<Rightarrow> (case validateTrimmedLength ''key'' raw minVariableKeyLength maxVariableKeyLength of
       Inl err \<Rightarrow> Inl err
     | Inr key \<Rightarrow> Inr (Some key)))"

definition variable_update_value :: "variableUpdateRequest \<Rightarrow> string + bool \<times> string option" where
  "variable_update_value req = (case vuq_value req of
     None \<Rightarrow> Inr (False, None)
   | Some raw \<Rightarrow> (case parseNullableString raw ''value'' of
       Inl err \<Rightarrow> Inl err
     | Inr val \<Rightarrow> Inr (True, val)))"

definition handleUpdateVariable :: "lib \<Rightarrow> http_request \<Rightarrow> world \<Rightarrow> response \<times> world" where
  "handleUpdateVariable L r w = (case authenticatedUser r of
     Inl resp \<Rightarrow> (resp, w)
   | Inr user \<Rightarrow> (case pathUUID L r ''id'' of
       Inl resp \<Rightarrow> (resp, w)
     | Inr variable_id \<Rightarrow> (case RequireVariableAccess variable_id (au_id user) w of
         (Inl err, w) \<Rightarrow> (writeAuthzError err, w)
       | (Inr cur, w) \<Rightarrow> (case readJSON L variableUpdateRequest_fields
             \<lparr> vuq_key = None, vuq_type = None, vuq_value = None \<rparr> r of
           Inl err \<Rightarrow> (writeBodyError err, w)
         | Inr req \<Rightarrow>
             if vuq_key req = None \<and> vuq_type req = None \<and> vuq_value req = None then
               (writeError 400 codeBadRequest ''provide at least one of key, type or value'', w)
             else (case variable_update_key req of
               Inl err \<Rightarrow> (writeError 400 codeBadRequest err, w)
             | Inr key \<Rightarrow>
                 if (case vuq_type req of None \<Rightarrow> False | Some t \<Rightarrow> \<not> isVariableType t) then
                   (writeError 400 codeBadRequest messageInvalidVariableType, w)
                 else (case variable_update_value req of
                   Inl err \<Rightarrow> (writeError 400 codeBadRequest err, w)
                 | Inr (set_value, val) \<Rightarrow>
                     (let finalType = (case vuq_type req of None \<Rightarrow> v_type cur | Some t \<Rightarrow> t) in
                      if finalType = VariableSecret \<and> val \<noteq> None \<and> val \<noteq> Some [] then
                        (writeError 400 codeBadRequest messageSecretValue, w)
                      else (case exec (UpdateVariable variable_id key (vuq_type req) set_value val) w of
                          (Inl err, w) \<Rightarrow> (writeVariableError err, w)
                        | (Inr variable, w) \<Rightarrow> (writeJSON 200 (newVariableResponse L variable), w)))))))))"

definition handleDeleteVariable :: "lib \<Rightarrow> http_request \<Rightarrow> world \<Rightarrow> response \<times> world" where
  "handleDeleteVariable L r w = (case authenticatedUser r of
     Inl resp \<Rightarrow> (resp, w)
   | Inr user \<Rightarrow> (case pathUUID L r ''id'' of
       Inl resp \<Rightarrow> (resp, w)
     | Inr variable_id \<Rightarrow> (case RequireVariableAccess variable_id (au_id user) w of
         (Inl err, w) \<Rightarrow> (writeAuthzError err, w)
       | (Inr _, w) \<Rightarrow> (case exec (DeleteVariable variable_id) w of
           (Inl err, w) \<Rightarrow> (serverError err, w)
         | (Inr _, w) \<Rightarrow> (noContent, w)))))"

definition handleReorderVariables :: "lib \<Rightarrow> http_request \<Rightarrow> world \<Rightarrow> response \<times> world" where
  "handleReorderVariables L r w = (case authenticatedUser r of
     Inl resp \<Rightarrow> (resp, w)
   | Inr user \<Rightarrow> (case readJSON L variableOrderRequest_fields
         \<lparr> voq_environment_id = [], voq_variable_ids = [] \<rparr> r of
       Inl err \<Rightarrow> (writeBodyError err, w)
     | Inr req \<Rightarrow> (case uuid_parse L (voq_environment_id req) of
         None \<Rightarrow> (writeError 400 codeBadRequest ''environment_id must be a valid uuid'', w)
       | Some environment_id \<Rightarrow> (case RequireEnvironmentAccess environment_id (au_id user) w of
           (Inl err, w) \<Rightarrow> (writeAuthzError err, w)
         | (Inr _, w) \<Rightarrow> (case parseUUIDs L (voq_variable_ids req) ''variable_ids'' of
             Inl err \<Rightarrow> (writeError 400 codeBadRequest err, w)
           | Inr variable_ids \<Rightarrow>
               (case ReorderVariables environment_id variable_ids
                   (same_ids_check L variable_ids ''variable_ids'' ''a variable of this environment''
                      ''variables of this environment'') w of
                  (Inl err, w) \<Rightarrow> (writeVariableError err, w)
                | (Inr _, w) \<Rightarrow> (noContent, w)))))))"

end
