(* ===== verification/Requests.thy ===== *)
theory Requests
  imports Folders
begin

text \<open>
  Requests: the transactions of \<^verbatim>\<open>internal/db/requests.go\<close> and the handlers of
  \<^verbatim>\<open>internal/api/requests.go\<close>.
\<close>

section \<open>Store operations\<close>

definition isRequestFolderGone :: "goerr \<Rightarrow> bool" where
  "isRequestFolderGone err = (case as_pg_error err of
     None \<Rightarrow> False | Some (code, con) \<Rightarrow> code = ''23503'' \<and> con = ''requests_folder_id_fkey'')"

definition require_request_folder :: "uuid option \<Rightarrow> uuid \<Rightarrow> world \<Rightarrow> (goerr + unit) \<times> world" where
  "require_request_folder folder_id project_id w = (case folder_id of
     None \<Rightarrow> (Inr (), w)
   | Some f \<Rightarrow> requireFolderInProject f project_id ErrInvalidRequestFolder w)"

definition CreateRequestInProject ::
  "uuid \<Rightarrow> uuid option \<Rightarrow> string \<Rightarrow> string \<Rightarrow> string \<Rightarrow> world \<Rightarrow> (goerr + Request) \<times> world" where
  "CreateRequestInProject project_id folder_id name rmethod url w =
     (case require_request_folder folder_id project_id w of
        (Inl err, w) \<Rightarrow> (Inl err, w)
      | (Inr _, w) \<Rightarrow>
          (case exec (CreateRequest project_id folder_id name rmethod url) w of
             (Inl err, w) \<Rightarrow>
               if isRequestFolderGone err then (Inl ErrInvalidRequestFolder, w)
               else (Inl (Wrapped ''create request: '' err), w)
           | (Inr request, w) \<Rightarrow> (Inr request, w)))"

definition move_request_tx ::
  "uuid \<Rightarrow> uuid option \<Rightarrow> int option \<Rightarrow> world \<Rightarrow> (goerr + Request) \<times> world" where
  "move_request_tx i folder_id sort_order w =
     (case exec (GetRequestByID i) w of
        (Inl err, w) \<Rightarrow> (Inl err, w)
      | (Inr request, w) \<Rightarrow>
          (case exec (LockProject (r_project_id request)) w of
             (Inl err, w) \<Rightarrow> (Inl (Wrapped ''lock project: '' err), w)
           | (Inr _, w) \<Rightarrow>
               (case require_request_folder folder_id (r_project_id request) w of
                  (Inl err, w) \<Rightarrow> (Inl err, w)
                | (Inr _, w) \<Rightarrow>
                    (case exec (UpdateRequestFolder i folder_id sort_order) w of
                       (Inl err, w) \<Rightarrow>
                         if isRequestFolderGone err then (Inl ErrInvalidRequestFolder, w)
                         else (Inl (Wrapped ''update request folder: '' err), w)
                     | (Inr moved, w) \<Rightarrow> (Inr moved, w)))))"

definition MoveRequest :: "uuid \<Rightarrow> uuid option \<Rightarrow> int option \<Rightarrow> world \<Rightarrow> (goerr + Request) \<times> world" where
  "MoveRequest i folder_id sort_order = inTx (move_request_tx i folder_id sort_order)"

definition reorder_requests_tx ::
  "uuid \<Rightarrow> uuid option \<Rightarrow> uuid list \<Rightarrow> (uuid list \<Rightarrow> goerr option) \<Rightarrow> world \<Rightarrow> (goerr + unit) \<times> world" where
  "reorder_requests_tx project_id folder_id request_ids checkSiblings w =
     (case exec (LockProject project_id) w of
        (Inl err, w) \<Rightarrow> (Inl (Wrapped ''lock project: '' err), w)
      | (Inr _, w) \<Rightarrow>
          (case require_request_folder folder_id project_id w of
             (Inl err, w) \<Rightarrow> (Inl err, w)
           | (Inr _, w) \<Rightarrow>
               check_then_write (ListSiblingRequestIDs project_id folder_id) ''list sibling requests: ''
                 checkSiblings (BulkUpdateRequestOrder project_id folder_id request_ids)
                 ''update request order: '' w))"

definition ReorderRequests ::
  "uuid \<Rightarrow> uuid option \<Rightarrow> uuid list \<Rightarrow> (uuid list \<Rightarrow> goerr option) \<Rightarrow> world \<Rightarrow> (goerr + unit) \<times> world" where
  "ReorderRequests project_id folder_id request_ids checkSiblings =
     inTx (reorder_requests_tx project_id folder_id request_ids checkSiblings)"

section \<open>Requests and responses\<close>

definition minRequestNameLength :: nat where "minRequestNameLength = 1"
definition maxRequestNameLength :: nat where "maxRequestNameLength = 100"
definition maxRequestURLLength :: nat where "maxRequestURLLength = 8192"
definition maxResponseFilterLength :: nat where "maxResponseFilterLength = 2048"

record requestCreateRequest =
  rcq_name :: string
  rcq_folder_id :: raw_message
  rcq_method :: "string option"
  rcq_url :: "string option"

definition requestCreateRequest_fields :: "requestCreateRequest field list" where
  "requestCreateRequest_fields =
     [(''name'', fString (\<lambda>v q. q\<lparr> rcq_name := v \<rparr>)),
      (''folder_id'', fRaw (\<lambda>v q. q\<lparr> rcq_folder_id := v \<rparr>)),
      (''method'', fOptString (\<lambda>v q. q\<lparr> rcq_method := v \<rparr>)),
      (''url'', fOptString (\<lambda>v q. q\<lparr> rcq_url := v \<rparr>))]"

record requestUpdateRequest =
  ruq_name :: "string option"
  ruq_method :: "string option"
  ruq_url :: "string option"
  ruq_headers :: raw_message
  ruq_query_params :: raw_message
  ruq_body :: raw_message
  ruq_follow_redirects :: "string option"
  ruq_auth :: raw_message
  ruq_response_filter :: "string option"
  ruq_pre_script :: "string option"
  ruq_post_script :: "string option"
  ruq_proxy :: raw_message

definition requestUpdateRequest_fields :: "requestUpdateRequest field list" where
  "requestUpdateRequest_fields =
     [(''name'', fOptString (\<lambda>v q. q\<lparr> ruq_name := v \<rparr>)),
      (''method'', fOptString (\<lambda>v q. q\<lparr> ruq_method := v \<rparr>)),
      (''url'', fOptString (\<lambda>v q. q\<lparr> ruq_url := v \<rparr>)),
      (''headers'', fRaw (\<lambda>v q. q\<lparr> ruq_headers := v \<rparr>)),
      (''query_params'', fRaw (\<lambda>v q. q\<lparr> ruq_query_params := v \<rparr>)),
      (''body'', fRaw (\<lambda>v q. q\<lparr> ruq_body := v \<rparr>)),
      (''follow_redirects'', fOptString (\<lambda>v q. q\<lparr> ruq_follow_redirects := v \<rparr>)),
      (''auth'', fRaw (\<lambda>v q. q\<lparr> ruq_auth := v \<rparr>)),
      (''response_filter'', fOptString (\<lambda>v q. q\<lparr> ruq_response_filter := v \<rparr>)),
      (''pre_script'', fOptString (\<lambda>v q. q\<lparr> ruq_pre_script := v \<rparr>)),
      (''post_script'', fOptString (\<lambda>v q. q\<lparr> ruq_post_script := v \<rparr>)),
      (''proxy'', fRaw (\<lambda>v q. q\<lparr> ruq_proxy := v \<rparr>))]"

definition requestUpdateRequest_zero :: requestUpdateRequest where
  "requestUpdateRequest_zero = \<lparr> ruq_name = None, ruq_method = None, ruq_url = None,
     ruq_headers = None, ruq_query_params = None, ruq_body = None, ruq_follow_redirects = None,
     ruq_auth = None, ruq_response_filter = None, ruq_pre_script = None, ruq_post_script = None,
     ruq_proxy = None \<rparr>"

record requestMoveRequest =
  rmq_folder_id :: raw_message
  rmq_sort_order :: "int option"

definition requestMoveRequest_fields :: "requestMoveRequest field list" where
  "requestMoveRequest_fields =
     [(''folder_id'', fRaw (\<lambda>v q. q\<lparr> rmq_folder_id := v \<rparr>)),
      (''sort_order'', fOptInt32 (\<lambda>v q. q\<lparr> rmq_sort_order := v \<rparr>))]"

record requestOrderRequest =
  roq_project_id :: string
  roq_folder_id :: raw_message
  roq_request_ids :: "string list"

definition requestOrderRequest_fields :: "requestOrderRequest field list" where
  "requestOrderRequest_fields =
     [(''project_id'', fString (\<lambda>v q. q\<lparr> roq_project_id := v \<rparr>)),
      (''folder_id'', fRaw (\<lambda>v q. q\<lparr> roq_folder_id := v \<rparr>)),
      (''request_ids'', fStrings roq_request_ids (\<lambda>v q. q\<lparr> roq_request_ids := v \<rparr>))]"

definition requestResponse_fields :: "lib \<Rightarrow> Request \<Rightarrow> (string \<times> json) list" where
  "requestResponse_fields L r = (let s = r_settings r in
     [(''id'', JStr (uuid_string L (r_id r))), (''project_id'', JStr (uuid_string L (r_project_id r))),
      (''folder_id'', optionalUUIDString L (r_folder_id r)), (''name'', JStr (r_name r)),
      (''method'', JStr (r_method r)), (''url'', JStr (r_url r)),
      (''follow_redirects'', JStr (follow_redirects s)), (''auth'', nodeAuthResponse (auth_cfg s)),
      (''response_filter'', JStr (r_response_filter r)),
      (''proxy'', nodeProxyResponse L (proxy_mode s) (proxy_id s)),
      (''sort_order'', JInt (r_sort_order r)), (''created_at'', JStr (fmt_time L (r_created_at r))),
      (''updated_at'', JStr (fmt_time L (r_updated_at r)))])"

definition newRequestResponse :: "lib \<Rightarrow> Request \<Rightarrow> json" where
  "newRequestResponse L r = JObj (requestResponse_fields L r)"

definition requestListItem :: "lib \<Rightarrow> Request \<times> nat \<Rightarrow> json" where
  "requestListItem L row = (case row of (r, n) \<Rightarrow>
     JObj (requestResponse_fields L r @ [(''example_count'', JInt (int n))]))"

definition newRequestDetailResponse :: "lib \<Rightarrow> Request \<Rightarrow> nat \<Rightarrow> json" where
  "newRequestDetailResponse L r n = JObj (requestResponse_fields L r @
     [(''headers'', r_headers r), (''query_params'', r_query_params r), (''body'', r_body r),
      (''pre_script'', JStr (pre_script (r_settings r))), (''post_script'', JStr (post_script (r_settings r))),
      (''example_count'', JInt (int n))])"

definition writeRequestError :: "lib \<Rightarrow> goerr \<Rightarrow> response" where
  "writeRequestError L err =
     (if errors_is err ErrProxyNotInProject \<or> IsProxyGone err then
        writeError 400 codeBadRequest (err_text L ErrProxyNotInProject)
      else (case as_bad_request err of
          Some msg \<Rightarrow> writeError 400 codeBadRequest msg
        | None \<Rightarrow>
            if errors_is err ErrInvalidRequestFolder then writeError 400 codeBadRequest (err_text L err)
            else if errors_is err ErrNoRows then writeError 404 codeNotFound messageRequestNotFound
            else serverError err))"

definition validateRequestMethod :: "string \<Rightarrow> string option" where
  "validateRequestMethod m =
     (if m \<notin> set RequestMethods then Some (''method must be one of '' @ joined RequestMethods) else None)"

definition validateRequestURL :: "string \<Rightarrow> string option" where
  "validateRequestURL url =
     (if rune_count url > maxRequestURLLength then
        Some (''url must be at most '' @ show_nat maxRequestURLLength @ '' characters'')
      else None)"

definition check_opt :: "('a \<Rightarrow> string option) \<Rightarrow> 'a option \<Rightarrow> string option" where
  "check_opt f v = (case v of None \<Rightarrow> None | Some x \<Rightarrow> f x)"

definition writeRequestDetail :: "lib \<Rightarrow> Request \<Rightarrow> world \<Rightarrow> response \<times> world" where
  "writeRequestDetail L request w = (case exec (CountRequestExamples (r_id request)) w of
     (Inl err, w) \<Rightarrow> (serverError err, w)
   | (Inr n, w) \<Rightarrow> (writeJSON 200 (newRequestDetailResponse L request n), w))"

section \<open>Handlers\<close>

definition handleCreateRequest :: "lib \<Rightarrow> http_request \<Rightarrow> world \<Rightarrow> response \<times> world" where
  "handleCreateRequest L r w = (case authenticatedUser r of
     Inl resp \<Rightarrow> (resp, w)
   | Inr user \<Rightarrow> (case pathUUID L r ''project_id'' of
       Inl resp \<Rightarrow> (resp, w)
     | Inr project_id \<Rightarrow> (case RequireProjectAccess project_id (au_id user) w of
         (Inl err, w) \<Rightarrow> (writeAuthzError err, w)
       | (Inr _, w) \<Rightarrow> (case readJSON L requestCreateRequest_fields
             \<lparr> rcq_name = [], rcq_folder_id = None, rcq_method = None, rcq_url = None \<rparr> r of
           Inl err \<Rightarrow> (writeBodyError err, w)
         | Inr req \<Rightarrow> (case validateName (rcq_name req) minRequestNameLength maxRequestNameLength of
             Inl err \<Rightarrow> (writeError 400 codeBadRequest err, w)
           | Inr name \<Rightarrow> (case parseNullableUUID L (rcq_folder_id req) ''folder_id'' of
               Inl err \<Rightarrow> (writeError 400 codeBadRequest err, w)
             | Inr folder_id \<Rightarrow> (case check_opt validateRequestMethod (rcq_method req) of
                 Some err \<Rightarrow> (writeError 400 codeBadRequest err, w)
               | None \<Rightarrow> (case check_opt validateRequestURL (rcq_url req) of
                   Some err \<Rightarrow> (writeError 400 codeBadRequest err, w)
                 | None \<Rightarrow>
                     (case CreateRequestInProject project_id folder_id name
                         (coalesce (rcq_method req) ''GET'') (coalesce (rcq_url req) []) w of
                        (Inl err, w) \<Rightarrow> (writeRequestError L err, w)
                      | (Inr request, w) \<Rightarrow> (writeJSON 201 (newRequestResponse L request), w))))))))))"

definition handleListRequests :: "lib \<Rightarrow> http_request \<Rightarrow> world \<Rightarrow> response \<times> world" where
  "handleListRequests L r w = (case authenticatedUser r of
     Inl resp \<Rightarrow> (resp, w)
   | Inr user \<Rightarrow> (case pathUUID L r ''project_id'' of
       Inl resp \<Rightarrow> (resp, w)
     | Inr project_id \<Rightarrow> (case RequireProjectAccess project_id (au_id user) w of
         (Inl err, w) \<Rightarrow> (writeAuthzError err, w)
       | (Inr _, w) \<Rightarrow> (case exec (ListRequestsByProject project_id) w of
           (Inl err, w) \<Rightarrow> (serverError err, w)
         | (Inr rows, w) \<Rightarrow> (writeJSON 200 (JArr (map (requestListItem L) rows)), w)))))"

definition handleGetRequest :: "lib \<Rightarrow> http_request \<Rightarrow> world \<Rightarrow> response \<times> world" where
  "handleGetRequest L r w = (case authenticatedUser r of
     Inl resp \<Rightarrow> (resp, w)
   | Inr user \<Rightarrow> (case pathUUID L r ''id'' of
       Inl resp \<Rightarrow> (resp, w)
     | Inr request_id \<Rightarrow> (case RequireRequestAccess request_id (au_id user) w of
         (Inl err, w) \<Rightarrow> (writeAuthzError err, w)
       | (Inr request, w) \<Rightarrow> writeRequestDetail L request w)))"

text \<open>
  The update's checks before the proxy is looked up, in the order of the handler, and the ones after.
  Each failure is answered with status 400 and its text.
\<close>

record requestUpdateParts =
  rp_headers :: raw_message
  rp_query_params :: raw_message
  rp_body :: raw_message
  rp_auth :: "auth_params option"
  rp_proxy :: "proxyPatch option"

definition or_fail :: "'e option \<Rightarrow> 'e + unit" where
  "or_fail e = (case e of None \<Rightarrow> Inr () | Some e \<Rightarrow> Inl e)"

definition request_update_parts :: "lib \<Rightarrow> requestUpdateRequest \<Rightarrow> string + requestUpdateParts" where
  "request_update_parts L req =
     bindR (parseKeyValueRows (ruq_headers req) ''headers'') (\<lambda>headers.
     bindR (parseKeyValueRows (ruq_query_params req) ''query_params'') (\<lambda>query_params.
     bindR (parseRequestBody L (ruq_body req)) (\<lambda>body.
     bindR (or_fail (validateToggleSetting ''follow_redirects'' (ruq_follow_redirects req))) (\<lambda>_.
     bindR (parseAuthPatch (ruq_auth req)) (\<lambda>auth.
     bindR (or_fail (check_opt (\<lambda>f. if rune_count f > maxResponseFilterLength then
         Some (''response_filter must be at most '' @ show_nat maxResponseFilterLength @ '' characters'')
         else None) (ruq_response_filter req))) (\<lambda>_.
     bindR (or_fail (validateScript ''pre_script'' (ruq_pre_script req))) (\<lambda>_.
     bindR (or_fail (validateScript ''post_script'' (ruq_post_script req))) (\<lambda>_.
     bindR (parseProxyPatch L (ruq_proxy req)) (\<lambda>patch.
     Inr \<lparr> rp_headers = headers, rp_query_params = query_params, rp_body = body, rp_auth = auth,
           rp_proxy = patch \<rparr>)))))))))"

definition request_update_name :: "requestUpdateRequest \<Rightarrow> requestUpdateParts \<Rightarrow> string + string option" where
  "request_update_name req p =
     (if ruq_name req = None \<and> ruq_method req = None \<and> ruq_url req = None \<and>
         ruq_follow_redirects req = None \<and> rp_auth p = None \<and> ruq_response_filter req = None \<and>
         ruq_pre_script req = None \<and> ruq_post_script req = None \<and> rp_proxy p = None \<and>
         rp_headers p = None \<and> rp_query_params p = None \<and> rp_body p = None
      then Inl (''provide at least one of name, method, url, headers, query_params, body, '' @
        ''follow_redirects, auth, response_filter, pre_script, post_script or proxy'')
      else
        bindR (case ruq_name req of
                 None \<Rightarrow> Inr None
               | Some raw \<Rightarrow>
                   bindR (validateName raw minRequestNameLength maxRequestNameLength) (\<lambda>name.
                   Inr (Some name))) (\<lambda>name.
        bindR (or_fail (check_opt validateRequestMethod (ruq_method req))) (\<lambda>_.
        bindR (or_fail (check_opt validateRequestURL (ruq_url req))) (\<lambda>_.
        Inr name))))"

definition request_update_params ::
  "requestUpdateRequest \<Rightarrow> requestUpdateParts \<Rightarrow> string option \<Rightarrow> UpdateRequestParams" where
  "request_update_params req p name = (case proxy_values (rp_proxy p) of (mode, set_proxy, i) \<Rightarrow>
     \<lparr> up_name = name, up_method = ruq_method req, up_url = ruq_url req, up_headers = rp_headers p,
       up_query_params = rp_query_params p, up_body = rp_body p,
       up_response_filter = ruq_response_filter req,
       up_settings = \<lparr> sp_follow_redirects = ruq_follow_redirects req, sp_auth = applyAuth (rp_auth p),
         sp_pre_script = ruq_pre_script req, sp_post_script = ruq_post_script req,
         sp_proxy_mode = mode, sp_set_proxy = set_proxy, sp_proxy_id = i \<rparr> \<rparr>)"

definition handleUpdateRequest :: "lib \<Rightarrow> http_request \<Rightarrow> world \<Rightarrow> response \<times> world" where
  "handleUpdateRequest L r w = (case authenticatedUser r of
     Inl resp \<Rightarrow> (resp, w)
   | Inr user \<Rightarrow> (case pathUUID L r ''id'' of
       Inl resp \<Rightarrow> (resp, w)
     | Inr request_id \<Rightarrow> (case RequireRequestAccess request_id (au_id user) w of
         (Inl err, w) \<Rightarrow> (writeAuthzError err, w)
       | (Inr cur, w) \<Rightarrow> (case readJSON L requestUpdateRequest_fields requestUpdateRequest_zero r of
           Inl err \<Rightarrow> (writeBodyError err, w)
         | Inr req \<Rightarrow> (case request_update_parts L req of
             Inl err \<Rightarrow> (writeError 400 codeBadRequest err, w)
           | Inr parts \<Rightarrow> (case requireProxyInProject (rp_proxy parts) (r_project_id cur) w of
               (Inl err, w) \<Rightarrow> (writeRequestError L err, w)
             | (Inr _, w) \<Rightarrow> (case request_update_name req parts of
                 Inl err \<Rightarrow> (writeError 400 codeBadRequest err, w)
               | Inr name \<Rightarrow>
                   (case exec (UpdateRequest request_id (request_update_params req parts name)) w of
                      (Inl err, w) \<Rightarrow> (writeRequestError L err, w)
                    | (Inr request, w) \<Rightarrow> writeRequestDetail L request w))))))))"

definition handleMoveRequest :: "lib \<Rightarrow> http_request \<Rightarrow> world \<Rightarrow> response \<times> world" where
  "handleMoveRequest L r w = (case authenticatedUser r of
     Inl resp \<Rightarrow> (resp, w)
   | Inr user \<Rightarrow> (case pathUUID L r ''id'' of
       Inl resp \<Rightarrow> (resp, w)
     | Inr request_id \<Rightarrow> (case RequireRequestAccess request_id (au_id user) w of
         (Inl err, w) \<Rightarrow> (writeAuthzError err, w)
       | (Inr _, w) \<Rightarrow> (case readJSON L requestMoveRequest_fields \<lparr> rmq_folder_id = None, rmq_sort_order = None \<rparr> r of
           Inl err \<Rightarrow> (writeBodyError err, w)
         | Inr req \<Rightarrow>
             if rmq_folder_id req = None then
               (writeError 400 codeBadRequest ''folder_id is required; use null to move to the project root'', w)
             else (case parseNullableUUID L (rmq_folder_id req) ''folder_id'' of
               Inl err \<Rightarrow> (writeError 400 codeBadRequest err, w)
             | Inr folder_id \<Rightarrow>
                 if (case rmq_sort_order req of None \<Rightarrow> False | Some n \<Rightarrow> n < 0) then
                   (writeError 400 codeBadRequest ''sort_order must not be negative'', w)
                 else (case MoveRequest request_id folder_id (rmq_sort_order req) w of
                   (Inl err, w) \<Rightarrow> (writeRequestError L err, w)
                 | (Inr request, w) \<Rightarrow> (writeJSON 200 (newRequestResponse L request), w)))))))"

definition handleReorderRequests :: "lib \<Rightarrow> http_request \<Rightarrow> world \<Rightarrow> response \<times> world" where
  "handleReorderRequests L r w = (case authenticatedUser r of
     Inl resp \<Rightarrow> (resp, w)
   | Inr user \<Rightarrow> (case readJSON L requestOrderRequest_fields
         \<lparr> roq_project_id = [], roq_folder_id = None, roq_request_ids = [] \<rparr> r of
       Inl err \<Rightarrow> (writeBodyError err, w)
     | Inr req \<Rightarrow> (case uuid_parse L (roq_project_id req) of
         None \<Rightarrow> (writeError 400 codeBadRequest ''project_id must be a valid uuid'', w)
       | Some project_id \<Rightarrow> (case RequireProjectAccess project_id (au_id user) w of
           (Inl err, w) \<Rightarrow> (writeAuthzError err, w)
         | (Inr _, w) \<Rightarrow> (case parseNullableUUID L (roq_folder_id req) ''folder_id'' of
             Inl err \<Rightarrow> (writeError 400 codeBadRequest err, w)
           | Inr folder_id \<Rightarrow> (case parseUUIDs L (roq_request_ids req) ''request_ids'' of
               Inl err \<Rightarrow> (writeError 400 codeBadRequest err, w)
             | Inr request_ids \<Rightarrow>
                 (case ReorderRequests project_id folder_id request_ids
                     (same_ids_check L request_ids ''request_ids'' ''a request in this folder''
                        ''requests in this folder'') w of
                    (Inl err, w) \<Rightarrow> (writeRequestError L err, w)
                  | (Inr _, w) \<Rightarrow> (noContent, w))))))))"

definition handleDeleteRequest :: "lib \<Rightarrow> http_request \<Rightarrow> world \<Rightarrow> response \<times> world" where
  "handleDeleteRequest L r w = (case authenticatedUser r of
     Inl resp \<Rightarrow> (resp, w)
   | Inr user \<Rightarrow> (case pathUUID L r ''id'' of
       Inl resp \<Rightarrow> (resp, w)
     | Inr request_id \<Rightarrow> (case RequireRequestAccess request_id (au_id user) w of
         (Inl err, w) \<Rightarrow> (writeAuthzError err, w)
       | (Inr _, w) \<Rightarrow> (case exec (DeleteRequest request_id) w of
           (Inl err, w) \<Rightarrow> (serverError err, w)
         | (Inr _, w) \<Rightarrow> (noContent, w)))))"

end
