(* ===== verification/ProxiesExamples.thy ===== *)
theory ProxiesExamples
  imports Requests Base64
begin

text \<open>
  Proxies and saved examples: \<^verbatim>\<open>ReorderProxies\<close> and
  \<^verbatim>\<open>ReorderRequestExamples\<close> of \<^verbatim>\<open>internal/db\<close> and the handlers of
  \<^verbatim>\<open>internal/api/proxies.go\<close> and \<^verbatim>\<open>examples.go\<close>.
\<close>

section \<open>Store operations\<close>

definition ReorderProxies ::
  "uuid \<Rightarrow> uuid list \<Rightarrow> (uuid list \<Rightarrow> goerr option) \<Rightarrow> world \<Rightarrow> (goerr + unit) \<times> world" where
  "ReorderProxies project_id proxy_ids check =
     inTx (check_then_write (ListProxyIDsForUpdate project_id) ''list proxies: '' check
       (BulkUpdateProxyOrder project_id proxy_ids) ''update proxy order: '')"

definition ReorderRequestExamples ::
  "uuid \<Rightarrow> uuid list \<Rightarrow> (uuid list \<Rightarrow> goerr option) \<Rightarrow> world \<Rightarrow> (goerr + unit) \<times> world" where
  "ReorderRequestExamples request_id example_ids check =
     inTx (check_then_write (ListRequestExampleIDsForUpdate request_id) ''list examples: '' check
       (BulkUpdateRequestExampleOrder request_id example_ids) ''update example order: '')"

definition IsProxyNameTaken :: "goerr \<Rightarrow> bool" where
  "IsProxyNameTaken err = isConstraintViolation err ''23505'' ''proxies_project_name_idx''"

definition IsExampleRequestGone :: "goerr \<Rightarrow> bool" where
  "IsExampleRequestGone err = isConstraintViolation err ''23503'' ''request_examples_request_id_fkey''"

section \<open>Proxies\<close>

definition minProxyNameLength :: nat where "minProxyNameLength = 1"
definition maxProxyNameLength :: nat where "maxProxyNameLength = 100"
definition minProxyHostLength :: nat where "minProxyHostLength = 1"
definition maxProxyHostLength :: nat where "maxProxyHostLength = 255"
definition minProxyPort :: int where "minProxyPort = 1"
definition maxProxyPort :: int where "maxProxyPort = 65535"

record proxyCreateRequest =
  xcq_name :: string
  xcq_proxy_type :: "string option"
  xcq_host :: string
  xcq_port :: "int option"
  xcq_username :: "string option"
  xcq_bypass :: "string option"

definition proxyCreateRequest_fields :: "proxyCreateRequest field list" where
  "proxyCreateRequest_fields =
     [(''name'', fString (\<lambda>v q. q\<lparr> xcq_name := v \<rparr>)),
      (''proxy_type'', fOptString (\<lambda>v q. q\<lparr> xcq_proxy_type := v \<rparr>)),
      (''host'', fString (\<lambda>v q. q\<lparr> xcq_host := v \<rparr>)),
      (''port'', fOptInt32 (\<lambda>v q. q\<lparr> xcq_port := v \<rparr>)),
      (''username'', fOptString (\<lambda>v q. q\<lparr> xcq_username := v \<rparr>)),
      (''bypass'', fOptString (\<lambda>v q. q\<lparr> xcq_bypass := v \<rparr>))]"

definition proxyCreateRequest_zero :: proxyCreateRequest where
  "proxyCreateRequest_zero = \<lparr> xcq_name = [], xcq_proxy_type = None, xcq_host = [], xcq_port = None,
     xcq_username = None, xcq_bypass = None \<rparr>"

text \<open>The fields of \<^verbatim>\<open>proxyUpdateRequest\<close> are those of the update's parameters.\<close>

definition proxyUpdateRequest_fields :: "UpdateProxyParams field list" where
  "proxyUpdateRequest_fields =
     [(''name'', fOptString (\<lambda>v q. q\<lparr> pp_name := v \<rparr>)),
      (''proxy_type'', fOptString (\<lambda>v q. q\<lparr> pp_proxy_type := v \<rparr>)),
      (''host'', fOptString (\<lambda>v q. q\<lparr> pp_host := v \<rparr>)),
      (''port'', fOptInt32 (\<lambda>v q. q\<lparr> pp_port := v \<rparr>)),
      (''username'', fOptString (\<lambda>v q. q\<lparr> pp_username := v \<rparr>)),
      (''bypass'', fOptString (\<lambda>v q. q\<lparr> pp_bypass := v \<rparr>))]"

definition proxyUpdateRequest_zero :: UpdateProxyParams where
  "proxyUpdateRequest_zero = \<lparr> pp_name = None, pp_proxy_type = None, pp_host = None, pp_port = None,
     pp_username = None, pp_bypass = None \<rparr>"

record proxyOrderRequest =
  xoq_project_id :: string
  xoq_proxy_ids :: "string list"

definition proxyOrderRequest_fields :: "proxyOrderRequest field list" where
  "proxyOrderRequest_fields =
     [(''project_id'', fString (\<lambda>v q. q\<lparr> xoq_project_id := v \<rparr>)),
      (''proxy_ids'', fStrings xoq_proxy_ids (\<lambda>v q. q\<lparr> xoq_proxy_ids := v \<rparr>))]"

definition newProxyResponse :: "lib \<Rightarrow> Proxy \<Rightarrow> json" where
  "newProxyResponse L x = JObj
     [(''id'', JStr (uuid_string L (x_id x))), (''project_id'', JStr (uuid_string L (x_project_id x))),
      (''name'', JStr (x_name x)), (''proxy_type'', JStr (x_proxy_type x)), (''host'', JStr (x_host x)),
      (''port'', JInt (x_port x)), (''username'', JStr (x_username x)), (''bypass'', JStr (x_bypass x)),
      (''sort_order'', JInt (x_sort_order x)), (''created_at'', JStr (fmt_time L (x_created_at x)))]"

definition validateProxyFields :: "string option \<Rightarrow> int option \<Rightarrow> string option" where
  "validateProxyFields proxy_type port =
     (if (case proxy_type of None \<Rightarrow> False | Some t \<Rightarrow> t \<notin> set ProxyTypes) then
        Some (''proxy_type must be one of '' @ joined ProxyTypes)
      else if (case port of None \<Rightarrow> False | Some n \<Rightarrow> n < minProxyPort \<or> n > maxProxyPort) then
        Some (''port must be between '' @ show_int minProxyPort @ '' and '' @ show_int maxProxyPort)
      else None)"

definition writeProxyError :: "goerr \<Rightarrow> response" where
  "writeProxyError err = (case as_bad_request err of
     Some msg \<Rightarrow> writeError 400 codeBadRequest msg
   | None \<Rightarrow>
       if IsProxyNameTaken err then writeError 409 codeConflict messageProxyNameTaken
       else if errors_is err ErrNoRows then writeError 404 codeNotFound messageProxyNotFound
       else serverError err)"

definition proxyFromPath :: "lib \<Rightarrow> http_request \<Rightarrow> world \<Rightarrow> (response + Proxy) \<times> world" where
  "proxyFromPath L r w = (case authenticatedUser r of
     Inl resp \<Rightarrow> (Inl resp, w)
   | Inr user \<Rightarrow> (case pathUUID L r ''id'' of
       Inl resp \<Rightarrow> (Inl resp, w)
     | Inr i \<Rightarrow> (case RequireProxyAccess i (au_id user) w of
         (Inl err, w) \<Rightarrow> (Inl (writeAuthzError err), w)
       | (Inr p, w) \<Rightarrow> (Inr p, w))))"

definition handleCreateProxy :: "lib \<Rightarrow> http_request \<Rightarrow> world \<Rightarrow> response \<times> world" where
  "handleCreateProxy L r w = (case authenticatedUser r of
     Inl resp \<Rightarrow> (resp, w)
   | Inr user \<Rightarrow> (case pathUUID L r ''project_id'' of
       Inl resp \<Rightarrow> (resp, w)
     | Inr project_id \<Rightarrow> (case RequireProjectAccess project_id (au_id user) w of
         (Inl err, w) \<Rightarrow> (writeAuthzError err, w)
       | (Inr _, w) \<Rightarrow> (case readJSON L proxyCreateRequest_fields proxyCreateRequest_zero r of
           Inl err \<Rightarrow> (writeBodyError err, w)
         | Inr req \<Rightarrow> (case validateName (xcq_name req) minProxyNameLength maxProxyNameLength of
             Inl err \<Rightarrow> (writeError 400 codeBadRequest err, w)
           | Inr name \<Rightarrow>
               (case validateTrimmedLength ''host'' (xcq_host req) minProxyHostLength maxProxyHostLength of
                  Inl err \<Rightarrow> (writeError 400 codeBadRequest err, w)
                | Inr host \<Rightarrow> (case xcq_port req of
                    None \<Rightarrow> (writeError 400 codeBadRequest ''port is required'', w)
                  | Some port \<Rightarrow> (case validateProxyFields (xcq_proxy_type req) (xcq_port req) of
                      Some err \<Rightarrow> (writeError 400 codeBadRequest err, w)
                    | None \<Rightarrow>
                        (case exec (CreateProxy project_id name (coalesce (xcq_proxy_type req) ''http'') host
                            port (coalesce (xcq_username req) []) (coalesce (xcq_bypass req) [])) w of
                           (Inl err, w) \<Rightarrow> (writeProxyError err, w)
                         | (Inr p, w) \<Rightarrow> (writeJSON 201 (newProxyResponse L p), w))))))))))"

definition handleListProxies :: "lib \<Rightarrow> http_request \<Rightarrow> world \<Rightarrow> response \<times> world" where
  "handleListProxies L r w = (case authenticatedUser r of
     Inl resp \<Rightarrow> (resp, w)
   | Inr user \<Rightarrow> (case pathUUID L r ''project_id'' of
       Inl resp \<Rightarrow> (resp, w)
     | Inr project_id \<Rightarrow> (case RequireProjectAccess project_id (au_id user) w of
         (Inl err, w) \<Rightarrow> (writeAuthzError err, w)
       | (Inr _, w) \<Rightarrow> (case exec (ListProxiesByProject project_id) w of
           (Inl err, w) \<Rightarrow> (serverError err, w)
         | (Inr rows, w) \<Rightarrow> (writeJSON 200 (JArr (map (newProxyResponse L) rows)), w)))))"

definition handleGetProxy :: "lib \<Rightarrow> http_request \<Rightarrow> world \<Rightarrow> response \<times> world" where
  "handleGetProxy L r w = (case proxyFromPath L r w of
     (Inl resp, w) \<Rightarrow> (resp, w)
   | (Inr p, w) \<Rightarrow> (writeJSON 200 (newProxyResponse L p), w))"

text \<open>The checks of an update; the result is the update's parameters.\<close>

definition proxy_update_params :: "UpdateProxyParams \<Rightarrow> string + UpdateProxyParams" where
  "proxy_update_params req =
     (if pp_name req = None \<and> pp_proxy_type req = None \<and> pp_host req = None \<and> pp_port req = None \<and>
         pp_username req = None \<and> pp_bypass req = None then
        Inl ''provide at least one of name, proxy_type, host, port, username or bypass''
      else
        bindR (case pp_name req of
                 None \<Rightarrow> Inr None
               | Some raw \<Rightarrow> bindR (validateName raw minProxyNameLength maxProxyNameLength) (\<lambda>v. Inr (Some v))) (\<lambda>name.
        bindR (case pp_host req of
                 None \<Rightarrow> Inr None
               | Some raw \<Rightarrow> bindR (validateTrimmedLength ''host'' raw minProxyHostLength maxProxyHostLength)
                   (\<lambda>v. Inr (Some v))) (\<lambda>host.
        bindR (or_fail (validateProxyFields (pp_proxy_type req) (pp_port req))) (\<lambda>_.
        Inr (req\<lparr> pp_name := name, pp_host := host \<rparr>)))))"

definition handleUpdateProxy :: "lib \<Rightarrow> http_request \<Rightarrow> world \<Rightarrow> response \<times> world" where
  "handleUpdateProxy L r w = (case proxyFromPath L r w of
     (Inl resp, w) \<Rightarrow> (resp, w)
   | (Inr p, w) \<Rightarrow> (case readJSON L proxyUpdateRequest_fields proxyUpdateRequest_zero r of
       Inl err \<Rightarrow> (writeBodyError err, w)
     | Inr req \<Rightarrow> (case proxy_update_params req of
         Inl err \<Rightarrow> (writeError 400 codeBadRequest err, w)
       | Inr params \<Rightarrow> (case exec (UpdateProxy (x_id p) params) w of
           (Inl err, w) \<Rightarrow> (writeProxyError err, w)
         | (Inr updated, w) \<Rightarrow> (writeJSON 200 (newProxyResponse L updated), w)))))"

definition handleDeleteProxy :: "lib \<Rightarrow> http_request \<Rightarrow> world \<Rightarrow> response \<times> world" where
  "handleDeleteProxy L r w = (case proxyFromPath L r w of
     (Inl resp, w) \<Rightarrow> (resp, w)
   | (Inr p, w) \<Rightarrow> (case exec (DeleteProxy (x_id p)) w of
       (Inl err, w) \<Rightarrow> (serverError err, w)
     | (Inr _, w) \<Rightarrow> (noContent, w)))"

definition handleReorderProxies :: "lib \<Rightarrow> http_request \<Rightarrow> world \<Rightarrow> response \<times> world" where
  "handleReorderProxies L r w = (case authenticatedUser r of
     Inl resp \<Rightarrow> (resp, w)
   | Inr user \<Rightarrow> (case readJSON L proxyOrderRequest_fields \<lparr> xoq_project_id = [], xoq_proxy_ids = [] \<rparr> r of
       Inl err \<Rightarrow> (writeBodyError err, w)
     | Inr req \<Rightarrow> (case uuid_parse L (xoq_project_id req) of
         None \<Rightarrow> (writeError 400 codeBadRequest ''project_id must be a valid uuid'', w)
       | Some project_id \<Rightarrow> (case RequireProjectAccess project_id (au_id user) w of
           (Inl err, w) \<Rightarrow> (writeAuthzError err, w)
         | (Inr _, w) \<Rightarrow> (case parseUUIDs L (xoq_proxy_ids req) ''proxy_ids'' of
             Inl err \<Rightarrow> (writeError 400 codeBadRequest err, w)
           | Inr proxy_ids \<Rightarrow>
               (case ReorderProxies project_id proxy_ids
                   (same_ids_check L proxy_ids ''proxy_ids'' ''a proxy of this project''
                      ''proxies of this project'') w of
                  (Inl err, w) \<Rightarrow> (writeProxyError err, w)
                | (Inr _, w) \<Rightarrow> (noContent, w)))))))"

section \<open>Examples\<close>

definition minExampleNameLength :: nat where "minExampleNameLength = 1"
definition maxExampleNameLength :: nat where "maxExampleNameLength = 100"
definition minExampleStatus :: int where "minExampleStatus = 100"
definition maxExampleStatus :: int where "maxExampleStatus = 599"
definition defaultExampleStatus :: int where "defaultExampleStatus = 200"
definition maxExampleContentType :: nat where "maxExampleContentType = 200"
definition MaxExampleBodySize :: nat where "MaxExampleBodySize = 2 ^ 20"

record exampleCreateRequest =
  ecq_name :: string
  ecq_status :: "int option"
  ecq_headers :: raw_message
  ecq_content_type :: "string option"
  ecq_body :: "string option"

definition exampleCreateRequest_fields :: "exampleCreateRequest field list" where
  "exampleCreateRequest_fields =
     [(''name'', fString (\<lambda>v q. q\<lparr> ecq_name := v \<rparr>)),
      (''status'', fOptInt32 (\<lambda>v q. q\<lparr> ecq_status := v \<rparr>)),
      (''headers'', fRaw (\<lambda>v q. q\<lparr> ecq_headers := v \<rparr>)),
      (''content_type'', fOptString (\<lambda>v q. q\<lparr> ecq_content_type := v \<rparr>)),
      (''body'', fOptString (\<lambda>v q. q\<lparr> ecq_body := v \<rparr>))]"

definition exampleCreateRequest_zero :: exampleCreateRequest where
  "exampleCreateRequest_zero = \<lparr> ecq_name = [], ecq_status = None, ecq_headers = None,
     ecq_content_type = None, ecq_body = None \<rparr>"

record exampleUpdateRequest =
  exq_name :: "string option"
  exq_status :: "int option"
  exq_headers :: raw_message
  exq_content_type :: "string option"
  exq_body :: "string option"

definition exampleUpdateRequest_fields :: "exampleUpdateRequest field list" where
  "exampleUpdateRequest_fields =
     [(''name'', fOptString (\<lambda>v q. q\<lparr> exq_name := v \<rparr>)),
      (''status'', fOptInt32 (\<lambda>v q. q\<lparr> exq_status := v \<rparr>)),
      (''headers'', fRaw (\<lambda>v q. q\<lparr> exq_headers := v \<rparr>)),
      (''content_type'', fOptString (\<lambda>v q. q\<lparr> exq_content_type := v \<rparr>)),
      (''body'', fOptString (\<lambda>v q. q\<lparr> exq_body := v \<rparr>))]"

definition exampleUpdateRequest_zero :: exampleUpdateRequest where
  "exampleUpdateRequest_zero = \<lparr> exq_name = None, exq_status = None, exq_headers = None,
     exq_content_type = None, exq_body = None \<rparr>"

record exampleOrderRequest =
  xeo_request_id :: string
  xeo_example_ids :: "string list"

definition exampleOrderRequest_fields :: "exampleOrderRequest field list" where
  "exampleOrderRequest_fields =
     [(''request_id'', fString (\<lambda>v q. q\<lparr> xeo_request_id := v \<rparr>)),
      (''example_ids'', fStrings xeo_example_ids (\<lambda>v q. q\<lparr> xeo_example_ids := v \<rparr>))]"

definition exampleSummaryResponse :: "lib \<Rightarrow> RequestExample \<Rightarrow> json" where
  "exampleSummaryResponse L x = JObj
     [(''id'', JStr (uuid_string L (ex_id x))), (''name'', JStr (ex_name x)), (''status'', JInt (ex_status x)),
      (''content_type'', JStr (ex_content_type x)), (''body_size'', JInt (ex_body_size x)),
      (''sort_order'', JInt (ex_sort_order x)), (''updated_at'', JStr (fmt_time L (ex_updated_at x)))]"

definition newExampleResponse :: "lib \<Rightarrow> RequestExample \<Rightarrow> json" where
  "newExampleResponse L x = JObj
     [(''id'', JStr (uuid_string L (ex_id x))), (''request_id'', JStr (uuid_string L (ex_request_id x))),
      (''name'', JStr (ex_name x)), (''status'', JInt (ex_status x)), (''headers'', ex_headers x),
      (''content_type'', JStr (ex_content_type x)),
      (''body'', case ex_body x of None \<Rightarrow> JNull | Some b \<Rightarrow> JStr (b64_encode b)),
      (''body_size'', JInt (ex_body_size x)), (''sort_order'', JInt (ex_sort_order x)),
      (''created_at'', JStr (fmt_time L (ex_created_at x))),
      (''updated_at'', JStr (fmt_time L (ex_updated_at x)))]"

definition validateExampleStatus :: "int \<Rightarrow> string option" where
  "validateExampleStatus status =
     (if status < minExampleStatus \<or> status > maxExampleStatus then
        Some (''status must be between '' @ show_int minExampleStatus @ '' and '' @ show_int maxExampleStatus)
      else None)"

definition validateExampleContentType :: "string \<Rightarrow> string + string" where
  "validateExampleContentType raw = validateTrimmedLength ''content_type'' raw 0 maxExampleContentType"

definition decodeExampleBody :: "string \<Rightarrow> string + string option" where
  "decodeExampleBody raw =
     (if raw = [] then Inr None
      else if b64_decoded_len (length raw) > MaxExampleBodySize + 2 then Inl messageExampleBodyTooLarge
      else (case b64_decode raw of
          None \<Rightarrow> Inl ''body must be base64 (standard alphabet, padded)''
        | Some body \<Rightarrow>
            if length body > MaxExampleBodySize then Inl messageExampleBodyTooLarge else Inr (Some body)))"

definition body_length :: "string option \<Rightarrow> int" where
  "body_length b = (case b of None \<Rightarrow> 0 | Some s \<Rightarrow> int (length s))"

definition writeExampleError :: "goerr \<Rightarrow> response" where
  "writeExampleError err = (case as_bad_request err of
     Some msg \<Rightarrow> writeError 400 codeBadRequest msg
   | None \<Rightarrow>
       if IsExampleRequestGone err then writeError 404 codeNotFound messageRequestNotFound
       else if errors_is err ErrNoRows then writeError 404 codeNotFound messageExampleNotFound
       else serverError err)"

definition exampleFromPath :: "lib \<Rightarrow> http_request \<Rightarrow> world \<Rightarrow> (response + RequestExample) \<times> world" where
  "exampleFromPath L r w = (case authenticatedUser r of
     Inl resp \<Rightarrow> (Inl resp, w)
   | Inr user \<Rightarrow> (case pathUUID L r ''id'' of
       Inl resp \<Rightarrow> (Inl resp, w)
     | Inr i \<Rightarrow> (case RequireExampleAccess i (au_id user) w of
         (Inl err, w) \<Rightarrow> (Inl (writeAuthzError err), w)
       | (Inr x, w) \<Rightarrow> (Inr x, w))))"

text \<open>An optional field: absent is passed on, anything else goes through its check.\<close>

definition opt_field :: "('a \<Rightarrow> string + 'b) \<Rightarrow> 'a option \<Rightarrow> string + 'b option" where
  "opt_field f v = (case v of None \<Rightarrow> Inr None | Some x \<Rightarrow> bindR (f x) (\<lambda>y. Inr (Some y)))"

definition example_create_params :: "exampleCreateRequest \<Rightarrow>
    string + string \<times> int \<times> json \<times> string \<times> string option" where
  "example_create_params req =
     bindR (validateName (ecq_name req) minExampleNameLength maxExampleNameLength) (\<lambda>name.
     bindR (or_fail (check_opt validateExampleStatus (ecq_status req))) (\<lambda>_.
     bindR (parseKeyValueRows (ecq_headers req) ''headers'') (\<lambda>headers.
     bindR (opt_field validateExampleContentType (ecq_content_type req)) (\<lambda>content_type.
     bindR (opt_field decodeExampleBody (ecq_body req)) (\<lambda>body.
     Inr (name, coalesce (ecq_status req) defaultExampleStatus, coalesce headers (JArr []),
          coalesce content_type [], coalesce body None))))))"

definition example_update_params :: "exampleUpdateRequest \<Rightarrow> string + UpdateRequestExampleParams" where
  "example_update_params req =
     bindR (parseKeyValueRows (exq_headers req) ''headers'') (\<lambda>headers.
     if exq_name req = None \<and> exq_status req = None \<and> headers = None \<and> exq_content_type req = None \<and>
        exq_body req = None then
       Inl ''provide at least one of name, status, headers, content_type or body''
     else
     bindR (opt_field (\<lambda>raw. validateName raw minExampleNameLength maxExampleNameLength) (exq_name req)) (\<lambda>name.
     bindR (or_fail (check_opt validateExampleStatus (exq_status req))) (\<lambda>_.
     bindR (opt_field validateExampleContentType (exq_content_type req)) (\<lambda>content_type.
     bindR (opt_field decodeExampleBody (exq_body req)) (\<lambda>body.
     Inr \<lparr> xp_name = name, xp_status = exq_status req, xp_headers = headers,
           xp_content_type = content_type, xp_set_body = (body \<noteq> None), xp_body = coalesce body None,
           xp_body_size = body_length (coalesce body None) \<rparr>)))))"

definition handleCreateExample :: "lib \<Rightarrow> http_request \<Rightarrow> world \<Rightarrow> response \<times> world" where
  "handleCreateExample L r w = (case authenticatedUser r of
     Inl resp \<Rightarrow> (resp, w)
   | Inr user \<Rightarrow> (case pathUUID L r ''request_id'' of
       Inl resp \<Rightarrow> (resp, w)
     | Inr request_id \<Rightarrow> (case RequireRequestAccess request_id (au_id user) w of
         (Inl err, w) \<Rightarrow> (writeAuthzError err, w)
       | (Inr _, w) \<Rightarrow> (case readJSON L exampleCreateRequest_fields exampleCreateRequest_zero r of
           Inl err \<Rightarrow> (writeBodyError err, w)
         | Inr req \<Rightarrow> (case example_create_params req of
             Inl err \<Rightarrow> (writeError 400 codeBadRequest err, w)
           | Inr (name, status, headers, content_type, body) \<Rightarrow>
               (case exec (CreateRequestExample request_id name status headers content_type body
                   (body_length body)) w of
                  (Inl err, w) \<Rightarrow> (writeExampleError err, w)
                | (Inr x, w) \<Rightarrow> (writeJSON 201 (newExampleResponse L x), w)))))))"

definition handleListExamples :: "lib \<Rightarrow> http_request \<Rightarrow> world \<Rightarrow> response \<times> world" where
  "handleListExamples L r w = (case authenticatedUser r of
     Inl resp \<Rightarrow> (resp, w)
   | Inr user \<Rightarrow> (case pathUUID L r ''request_id'' of
       Inl resp \<Rightarrow> (resp, w)
     | Inr request_id \<Rightarrow> (case RequireRequestAccess request_id (au_id user) w of
         (Inl err, w) \<Rightarrow> (writeAuthzError err, w)
       | (Inr _, w) \<Rightarrow> (case exec (ListRequestExampleSummaries request_id) w of
           (Inl err, w) \<Rightarrow> (serverError err, w)
         | (Inr rows, w) \<Rightarrow> (writeJSON 200 (JArr (map (exampleSummaryResponse L) rows)), w)))))"

definition handleGetExample :: "lib \<Rightarrow> http_request \<Rightarrow> world \<Rightarrow> response \<times> world" where
  "handleGetExample L r w = (case exampleFromPath L r w of
     (Inl resp, w) \<Rightarrow> (resp, w)
   | (Inr x, w) \<Rightarrow> (writeJSON 200 (newExampleResponse L x), w))"

definition handleUpdateExample :: "lib \<Rightarrow> http_request \<Rightarrow> world \<Rightarrow> response \<times> world" where
  "handleUpdateExample L r w = (case exampleFromPath L r w of
     (Inl resp, w) \<Rightarrow> (resp, w)
   | (Inr x, w) \<Rightarrow> (case readJSON L exampleUpdateRequest_fields exampleUpdateRequest_zero r of
       Inl err \<Rightarrow> (writeBodyError err, w)
     | Inr req \<Rightarrow> (case example_update_params req of
         Inl err \<Rightarrow> (writeError 400 codeBadRequest err, w)
       | Inr params \<Rightarrow> (case exec (UpdateRequestExample (ex_id x) params) w of
           (Inl err, w) \<Rightarrow> (writeExampleError err, w)
         | (Inr updated, w) \<Rightarrow> (writeJSON 200 (newExampleResponse L updated), w)))))"

definition handleDeleteExample :: "lib \<Rightarrow> http_request \<Rightarrow> world \<Rightarrow> response \<times> world" where
  "handleDeleteExample L r w = (case exampleFromPath L r w of
     (Inl resp, w) \<Rightarrow> (resp, w)
   | (Inr x, w) \<Rightarrow> (case exec (DeleteRequestExample (ex_id x)) w of
       (Inl err, w) \<Rightarrow> (serverError err, w)
     | (Inr _, w) \<Rightarrow> (noContent, w)))"

definition handleReorderExamples :: "lib \<Rightarrow> http_request \<Rightarrow> world \<Rightarrow> response \<times> world" where
  "handleReorderExamples L r w = (case authenticatedUser r of
     Inl resp \<Rightarrow> (resp, w)
   | Inr user \<Rightarrow> (case readJSON L exampleOrderRequest_fields \<lparr> xeo_request_id = [], xeo_example_ids = [] \<rparr> r of
       Inl err \<Rightarrow> (writeBodyError err, w)
     | Inr req \<Rightarrow> (case uuid_parse L (xeo_request_id req) of
         None \<Rightarrow> (writeError 400 codeBadRequest ''request_id must be a valid uuid'', w)
       | Some request_id \<Rightarrow> (case RequireRequestAccess request_id (au_id user) w of
           (Inl err, w) \<Rightarrow> (writeAuthzError err, w)
         | (Inr _, w) \<Rightarrow> (case parseUUIDs L (xeo_example_ids req) ''example_ids'' of
             Inl err \<Rightarrow> (writeError 400 codeBadRequest err, w)
           | Inr example_ids \<Rightarrow>
               (case ReorderRequestExamples request_id example_ids
                   (same_ids_check L example_ids ''example_ids'' ''an example of this request''
                      ''examples of this request'') w of
                  (Inl err, w) \<Rightarrow> (writeExampleError err, w)
                | (Inr _, w) \<Rightarrow> (noContent, w)))))))"

lemma example_body_again:
  assumes "decodeExampleBody raw = Inr (Some body)"
  shows "body = [] \<or> decodeExampleBody (b64_encode body) = Inr (Some body)"
proof -
  have l: "length body \<le> MaxExampleBodySize"
    using assms by (auto simp: decodeExampleBody_def split: if_splits option.splits)
  have "b64_encode body \<noteq> []" if "body \<noteq> []"
    using that by (cases body rule: b64_encode.cases) simp_all
  moreover have "\<not> b64_decoded_len (length (b64_encode body)) > MaxExampleBodySize + 2"
    using l b64_decoded_len_encode [of body] by simp
  ultimately show ?thesis using l by (auto simp: decodeExampleBody_def b64_decode_encode)
qed

end
