(* ===== verification/Webhooks.thy ===== *)
theory Webhooks
  imports ProxiesExamples Net "HOL-Library.Word"
begin

text \<open>
  Webhook endpoints: \<^verbatim>\<open>CreateWebhookEndpointWithQuota\<close> of
  \<^verbatim>\<open>internal/db/webhooks.go\<close>, the slugs, and the handlers of
  \<^verbatim>\<open>internal/api/webhooks.go\<close>. \<open>domains\<close> is \<^verbatim>\<open>a.hooksDomains\<close>.
\<close>

section \<open>Store operations\<close>

definition create_endpoint_tx ::
  "uuid \<Rightarrow> string \<Rightarrow> string \<Rightarrow> string \<Rightarrow> uuid \<Rightarrow> nat \<Rightarrow> world \<Rightarrow> (goerr + WebhookEndpoint) \<times> world" where
  "create_endpoint_tx project_id name slug domain created_by max_endpoints w =
     (case exec (LockProject project_id) w of
        (Inl err, w) \<Rightarrow> (Inl (Wrapped ''lock project: '' err), w)
      | (Inr _, w) \<Rightarrow> (case exec (CountWebhookEndpointsInProject project_id) w of
          (Inl err, w) \<Rightarrow> (Inl (Wrapped ''count webhook endpoints: '' err), w)
        | (Inr n, w) \<Rightarrow>
            if max_endpoints \<le> n then (Inl ErrWebhookQuota, w)
            else (case exec (CreateWebhookEndpoint project_id name slug domain created_by) w of
                (Inl err, w) \<Rightarrow> (Inl (Wrapped ''create webhook endpoint: '' err), w)
              | (Inr endpoint, w) \<Rightarrow> (Inr endpoint, w))))"

definition CreateWebhookEndpointWithQuota ::
  "uuid \<Rightarrow> string \<Rightarrow> string \<Rightarrow> string \<Rightarrow> uuid \<Rightarrow> nat \<Rightarrow> world \<Rightarrow> (goerr + WebhookEndpoint) \<times> world" where
  "CreateWebhookEndpointWithQuota project_id name slug domain created_by max_endpoints =
     inTx (create_endpoint_tx project_id name slug domain created_by max_endpoints)"

definition webhookSlugKey :: string where
  "webhookSlugKey = ''webhook_endpoints_slug_key''"

definition IsWebhookSlugCollision :: "goerr \<Rightarrow> bool" where
  "IsWebhookSlugCollision err = isConstraintViolation err ''23505'' webhookSlugKey"

section \<open>Slugs\<close>

definition slugLength :: nat where "slugLength = 10"

definition slugAlphabet :: string where
  "slugAlphabet = ''abcdefghijklmnopqrstuvwxyz0123456789''"

definition isValidSlug :: "string \<Rightarrow> bool" where
  "isValidSlug slug = (length slug = slugLength \<and> list_all (\<lambda>c. c \<in> set slugAlphabet) slug)"

text \<open>
  The reads of \<^verbatim>\<open>crypto/rand\<close> are the source \<open>rnd\<close>: its \<open>n\<close>-th read fails or fills the
  buffer. A source may fill every buffer with bytes the loop rejects, so the loop is partial.
\<close>

type_synonym random = "nat \<Rightarrow> goerr + 8 word list"

definition unbiased :: nat where
  "unbiased = 256 - 256 mod length slugAlphabet"

fun slug_pass :: "8 word list \<Rightarrow> string \<Rightarrow> string" where
  "slug_pass [] slug = slug"
| "slug_pass (b # buf) slug = slug_pass buf
     (if unat b < unbiased \<and> length slug < slugLength
      then slug @ [slugAlphabet ! (unat b mod length slugAlphabet)] else slug)"

partial_function (option) slug_loop ::
  "random \<Rightarrow> nat \<Rightarrow> string \<Rightarrow> ((goerr + string) \<times> nat) option" where
  "slug_loop rnd n slug =
     (if length slug < slugLength then
        (case rnd n of
           Inl err \<Rightarrow> Some (Inl (Wrapped ''generating webhook slug: '' err), Suc n)
         | Inr buf \<Rightarrow> slug_loop rnd (Suc n) (slug_pass buf slug))
      else Some (Inr slug, n))"

definition newWebhookSlug :: "random \<Rightarrow> nat \<Rightarrow> ((goerr + string) \<times> nat) option" where
  "newWebhookSlug rnd n = slug_loop rnd n []"

section \<open>Requests and responses\<close>

definition maxWebhooksPerProject :: nat where "maxWebhooksPerProject = 20"
definition minWebhookNameLength :: nat where "minWebhookNameLength = 1"
definition maxWebhookNameLength :: nat where "maxWebhookNameLength = 100"
definition minRespStatus :: int where "minRespStatus = 100"
definition maxRespStatus :: int where "maxRespStatus = 599"
definition maxRespBodyLength :: nat where "maxRespBodyLength = 65536"
definition defaultCapturePage :: int where "defaultCapturePage = 100"
definition maxCapturePage :: int where "maxCapturePage = 100"
definition slugAttempts :: nat where "slugAttempts = 5"

record webhookCreateRequest =
  wcq_name :: string
  wcq_domain :: "string option"

definition webhookCreateRequest_fields :: "webhookCreateRequest field list" where
  "webhookCreateRequest_fields =
     [(''name'', fString (\<lambda>v q. q\<lparr> wcq_name := v \<rparr>)),
      (''domain'', fOptString (\<lambda>v q. q\<lparr> wcq_domain := v \<rparr>))]"

definition webhookCreateRequest_zero :: webhookCreateRequest where
  "webhookCreateRequest_zero = \<lparr> wcq_name = [], wcq_domain = None \<rparr>"

text \<open>The fields of \<^verbatim>\<open>webhookUpdateRequest\<close> are those of the update's parameters.\<close>

definition webhookUpdateRequest_fields :: "UpdateWebhookEndpointParams field list" where
  "webhookUpdateRequest_fields =
     [(''name'', fOptString (\<lambda>v q. q\<lparr> wp_name := v \<rparr>)),
      (''domain'', fOptString (\<lambda>v q. q\<lparr> wp_domain := v \<rparr>)),
      (''resp_status'', fOptInt32 (\<lambda>v q. q\<lparr> wp_resp_status := v \<rparr>)),
      (''resp_headers'', fRaw (\<lambda>v q. q\<lparr> wp_resp_headers := v \<rparr>)),
      (''resp_body'', fOptString (\<lambda>v q. q\<lparr> wp_resp_body := v \<rparr>))]"

definition webhookUpdateRequest_zero :: UpdateWebhookEndpointParams where
  "webhookUpdateRequest_zero = \<lparr> wp_name = None, wp_domain = None, wp_resp_status = None,
     wp_resp_headers = None, wp_resp_body = None \<rparr>"

definition webhookSummaryResponse :: "lib \<Rightarrow> WebhookEndpoint \<Rightarrow> json" where
  "webhookSummaryResponse L e = JObj
     [(''id'', JStr (uuid_string L (w_id e))), (''name'', JStr (w_name e)), (''slug'', JStr (w_slug e)),
      (''domain'', JStr (w_domain e)), (''resp_status'', JInt (w_resp_status e)),
      (''created_at'', JStr (fmt_time L (w_created_at e)))]"

definition newWebhookResponse :: "lib \<Rightarrow> WebhookEndpoint \<Rightarrow> json" where
  "newWebhookResponse L e = JObj
     [(''id'', JStr (uuid_string L (w_id e))), (''project_id'', JStr (uuid_string L (w_project_id e))),
      (''name'', JStr (w_name e)), (''slug'', JStr (w_slug e)), (''domain'', JStr (w_domain e)),
      (''resp_status'', JInt (w_resp_status e)), (''resp_headers'', w_resp_headers e),
      (''resp_body'', JStr (w_resp_body e)), (''created_by'', JStr (uuid_string L (w_created_by e))),
      (''created_at'', JStr (fmt_time L (w_created_at e)))]"

definition capture_summary_fields :: "lib \<Rightarrow> WebhookCapture \<Rightarrow> (string \<times> json) list" where
  "capture_summary_fields L c =
     [(''id'', JInt (c_id c)), (''method'', JStr (c_method c)), (''path'', JStr (c_path c)),
      (''query'', JStr (c_query c)), (''content_type'', JStr (c_content_type c)),
      (''body_size'', JInt (c_body_size c)), (''body_truncated'', JBool (c_body_truncated c)),
      (''source_ip'', JStr (c_source_ip c)), (''received_at'', JStr (fmt_time L (c_received_at c)))]"

definition captureSummaryResponse :: "lib \<Rightarrow> WebhookCapture \<Rightarrow> json" where
  "captureSummaryResponse L c = JObj (capture_summary_fields L c)"

definition captureResponse :: "lib \<Rightarrow> WebhookCapture \<Rightarrow> json" where
  "captureResponse L c = JObj (capture_summary_fields L c @
     [(''headers'', c_headers c),
      (''body'', case c_body c of None \<Rightarrow> JNull | Some b \<Rightarrow> JStr (b64_encode b))])"

section \<open>Helpers\<close>

definition webhookFromPath :: "lib \<Rightarrow> http_request \<Rightarrow> world \<Rightarrow> (response + WebhookEndpoint) \<times> world" where
  "webhookFromPath L r w = (case authenticatedUser r of
     Inl resp \<Rightarrow> (Inl resp, w)
   | Inr user \<Rightarrow> (case pathUUID L r ''id'' of
       Inl resp \<Rightarrow> (Inl resp, w)
     | Inr i \<Rightarrow> (case RequireWebhookAccess i (au_id user) w of
         (Inl err, w) \<Rightarrow> (Inl (writeAuthzError err), w)
       | (Inr e, w) \<Rightarrow> (Inr e, w))))"

definition validateWebhookDomain :: "lib \<Rightarrow> string list \<Rightarrow> string option \<Rightarrow> string + string" where
  "validateWebhookDomain L domains raw = (case raw of
     None \<Rightarrow> Inr []
   | Some s \<Rightarrow>
       let domain = ToLower (lower_uni L) (TrimSpace s) in
       if domain = [] \<or> domain \<in> set domains then Inr domain
       else if domains = [] then Inl (''domain must be empty: '' @ messageHooksNotConfigured)
       else Inl (''domain must be one of '' @ joined domains @
           '', or empty for the default ('' @ hd domains @ '')''))"

text \<open>A maximum below zero means none.\<close>

definition queryInt :: "http_request \<Rightarrow> string \<Rightarrow> int \<Rightarrow> int \<Rightarrow> int \<Rightarrow> string + int" where
  "queryInt r name fallback min_value max_value =
     (let raw = rq_query r name in
      if raw = [] then Inr fallback
      else
        let bad = Inl (if 0 \<le> max_value
              then name @ '' must be an integer between '' @ show_int min_value @ '' and '' @ show_int max_value
              else name @ '' must be an integer of at least '' @ show_int min_value) in
        case ParseInt64 raw of
          None \<Rightarrow> bad
        | Some v \<Rightarrow> if v < min_value \<or> (0 \<le> max_value \<and> max_value < v) then bad else Inr v)"

section \<open>Handlers\<close>

definition handleMeta :: "string list \<Rightarrow> http_request \<Rightarrow> world \<Rightarrow> response \<times> world" where
  "handleMeta domains r w =
     (writeJSON 200 (JObj [(''hooks_domains'', JArr (map JStr domains))]), w)"

text \<open>
  The creation loop: up to \<open>slugAttempts\<close> slugs, another one after a collision only. It returns unless
  a slug never completes.
\<close>

function create_attempts :: "lib \<Rightarrow> random \<Rightarrow> uuid \<Rightarrow> string \<Rightarrow> string \<Rightarrow> uuid \<Rightarrow> nat \<Rightarrow> nat \<Rightarrow> world \<Rightarrow>
    (response \<times> world) option" where
  "create_attempts L rnd project_id name domain user_id attempt n w = (case newWebhookSlug rnd n of
     None \<Rightarrow> None
   | Some (Inl err, n) \<Rightarrow> Some (serverError err, w)
   | Some (Inr slug, n) \<Rightarrow>
       (case CreateWebhookEndpointWithQuota project_id name slug domain user_id maxWebhooksPerProject w of
          (Inr endpoint, w) \<Rightarrow> Some (writeJSON 201 (newWebhookResponse L endpoint), w)
        | (Inl err, w) \<Rightarrow>
            if errors_is err ErrWebhookQuota then
              Some (writeError 409 codeConflict (''a project can have at most '' @
                show_nat maxWebhooksPerProject @ '' webhook endpoints''), w)
            else if IsWebhookSlugCollision err \<and> attempt < slugAttempts then
              create_attempts L rnd project_id name domain user_id (Suc attempt) n w
            else Some (serverError err, w)))"
  by pat_completeness auto
termination
  by (relation "measure (\<lambda>(L, rnd, p, name, domain, u, attempt, n, w). slugAttempts - attempt)") auto

declare create_attempts.simps [simp del]

definition handleCreateWebhook :: "lib \<Rightarrow> random \<Rightarrow> string list \<Rightarrow> http_request \<Rightarrow> world \<Rightarrow>
    (response \<times> world) option" where
  "handleCreateWebhook L rnd domains r w = (case authenticatedUser r of
     Inl resp \<Rightarrow> Some (resp, w)
   | Inr user \<Rightarrow> (case pathUUID L r ''project_id'' of
       Inl resp \<Rightarrow> Some (resp, w)
     | Inr project_id \<Rightarrow> (case RequireProjectAccess project_id (au_id user) w of
         (Inl err, w) \<Rightarrow> Some (writeAuthzError err, w)
       | (Inr _, w) \<Rightarrow>
           if domains = [] then Some (writeError 409 codeConflict messageHooksNotConfigured, w)
           else (case readJSON L webhookCreateRequest_fields webhookCreateRequest_zero r of
               Inl err \<Rightarrow> Some (writeBodyError err, w)
             | Inr req \<Rightarrow> (case validateName (wcq_name req) minWebhookNameLength maxWebhookNameLength of
                 Inl err \<Rightarrow> Some (writeError 400 codeBadRequest err, w)
               | Inr name \<Rightarrow> (case validateWebhookDomain L domains (wcq_domain req) of
                   Inl err \<Rightarrow> Some (writeError 400 codeBadRequest err, w)
                 | Inr domain \<Rightarrow>
                     create_attempts L rnd project_id name domain (au_id user) 1 0 w))))))"

definition handleListWebhooks :: "lib \<Rightarrow> http_request \<Rightarrow> world \<Rightarrow> response \<times> world" where
  "handleListWebhooks L r w = (case authenticatedUser r of
     Inl resp \<Rightarrow> (resp, w)
   | Inr user \<Rightarrow> (case pathUUID L r ''project_id'' of
       Inl resp \<Rightarrow> (resp, w)
     | Inr project_id \<Rightarrow> (case RequireProjectAccess project_id (au_id user) w of
         (Inl err, w) \<Rightarrow> (writeAuthzError err, w)
       | (Inr _, w) \<Rightarrow> (case exec (ListWebhookEndpointsByProject project_id) w of
           (Inl err, w) \<Rightarrow> (serverError err, w)
         | (Inr rows, w) \<Rightarrow> (writeJSON 200 (JArr (map (webhookSummaryResponse L) rows)), w)))))"

definition handleGetWebhook :: "lib \<Rightarrow> http_request \<Rightarrow> world \<Rightarrow> response \<times> world" where
  "handleGetWebhook L r w = (case webhookFromPath L r w of
     (Inl resp, w) \<Rightarrow> (resp, w)
   | (Inr endpoint, w) \<Rightarrow> (writeJSON 200 (newWebhookResponse L endpoint), w))"

text \<open>The checks of a partial update, in the order of the handler.\<close>

definition webhook_update_params :: "lib \<Rightarrow> string list \<Rightarrow> UpdateWebhookEndpointParams \<Rightarrow>
    string + UpdateWebhookEndpointParams" where
  "webhook_update_params L domains req =
     bindR (parseKeyValueRows (wp_resp_headers req) ''resp_headers'') (\<lambda>hs.
     if wp_name req = None \<and> wp_domain req = None \<and> wp_resp_status req = None \<and> hs = None \<and>
        wp_resp_body req = None then
       Inl ''provide at least one of name, domain, resp_status, resp_headers or resp_body''
     else
       bindR (opt_field (\<lambda>s. validateName s minWebhookNameLength maxWebhookNameLength) (wp_name req)) (\<lambda>name.
       bindR (opt_field (\<lambda>s. validateWebhookDomain L domains (Some s)) (wp_domain req)) (\<lambda>domain.
       if (case wp_resp_status req of None \<Rightarrow> False | Some s \<Rightarrow> s < minRespStatus \<or> s > maxRespStatus) then
         Inl (''resp_status must be between '' @ show_int minRespStatus @ '' and '' @ show_int maxRespStatus)
       else if (case wp_resp_body req of None \<Rightarrow> False | Some b \<Rightarrow> rune_count b > maxRespBodyLength) then
         Inl (''resp_body must be at most '' @ show_nat maxRespBodyLength @ '' characters'')
       else Inr \<lparr> wp_name = name, wp_domain = domain, wp_resp_status = wp_resp_status req,
                  wp_resp_headers = hs, wp_resp_body = wp_resp_body req \<rparr>)))"

definition handleUpdateWebhook :: "lib \<Rightarrow> string list \<Rightarrow> http_request \<Rightarrow> world \<Rightarrow> response \<times> world" where
  "handleUpdateWebhook L domains r w = (case webhookFromPath L r w of
     (Inl resp, w) \<Rightarrow> (resp, w)
   | (Inr endpoint, w) \<Rightarrow>
       (case readJSON L webhookUpdateRequest_fields webhookUpdateRequest_zero r of
          Inl err \<Rightarrow> (writeBodyError err, w)
        | Inr req \<Rightarrow> (case webhook_update_params L domains req of
            Inl err \<Rightarrow> (writeError 400 codeBadRequest err, w)
          | Inr params \<Rightarrow> (case exec (UpdateWebhookEndpoint (w_id endpoint) params) w of
              (Inl err, w) \<Rightarrow>
                if errors_is err ErrNoRows then (writeError 404 codeNotFound messageWebhookNotFound, w)
                else (serverError err, w)
            | (Inr updated, w) \<Rightarrow> (writeJSON 200 (newWebhookResponse L updated), w)))))"

definition handleDeleteWebhook :: "lib \<Rightarrow> http_request \<Rightarrow> world \<Rightarrow> response \<times> world" where
  "handleDeleteWebhook L r w = (case webhookFromPath L r w of
     (Inl resp, w) \<Rightarrow> (resp, w)
   | (Inr endpoint, w) \<Rightarrow> (case exec (DeleteWebhookEndpoint (w_id endpoint)) w of
       (Inl err, w) \<Rightarrow> (serverError err, w)
     | (Inr _, w) \<Rightarrow> (noContent, w)))"

definition handleListCaptures :: "lib \<Rightarrow> http_request \<Rightarrow> world \<Rightarrow> response \<times> world" where
  "handleListCaptures L r w = (case webhookFromPath L r w of
     (Inl resp, w) \<Rightarrow> (resp, w)
   | (Inr endpoint, w) \<Rightarrow> (case queryInt r ''after'' 0 0 (- 1) of
       Inl err \<Rightarrow> (writeError 400 codeBadRequest err, w)
     | Inr after \<Rightarrow> (case queryInt r ''limit'' defaultCapturePage 1 maxCapturePage of
         Inl err \<Rightarrow> (writeError 400 codeBadRequest err, w)
       | Inr limit \<Rightarrow>
           (case exec (ListWebhookCapturesAfter (w_id endpoint) after (nat limit)) w of
              (Inl err, w) \<Rightarrow> (serverError err, w)
            | (Inr rows, w) \<Rightarrow> (writeJSON 200 (JArr (map (captureSummaryResponse L) rows)), w)))))"

definition handleGetCapture :: "lib \<Rightarrow> http_request \<Rightarrow> world \<Rightarrow> response \<times> world" where
  "handleGetCapture L r w = (case webhookFromPath L r w of
     (Inl resp, w) \<Rightarrow> (resp, w)
   | (Inr endpoint, w) \<Rightarrow>
       (case (case ParseInt64 (rq_path r ''capture_id'') of None \<Rightarrow> None
              | Some i \<Rightarrow> if i \<le> 0 then None else Some i) of
          None \<Rightarrow> (writeError 400 codeBadRequest ''capture_id must be a positive integer'', w)
        | Some capture_id \<Rightarrow> (case exec (GetWebhookCapture capture_id (w_id endpoint)) w of
            (Inl err, w) \<Rightarrow>
              if errors_is err ErrNoRows then (writeError 404 codeNotFound messageCaptureNotFound, w)
              else (serverError err, w)
          | (Inr c, w) \<Rightarrow> (writeJSON 200 (captureResponse L c), w))))"

definition handleClearCaptures :: "lib \<Rightarrow> http_request \<Rightarrow> world \<Rightarrow> response \<times> world" where
  "handleClearCaptures L r w = (case webhookFromPath L r w of
     (Inl resp, w) \<Rightarrow> (resp, w)
   | (Inr endpoint, w) \<Rightarrow> (case exec (DeleteWebhookCaptures (w_id endpoint)) w of
       (Inl err, w) \<Rightarrow> (serverError err, w)
     | (Inr _, w) \<Rightarrow> (noContent, w)))"

section \<open>What a slug is\<close>

lemma unbiased_eq: "unbiased = 252" "length slugAlphabet = 36" "slugLength = 10"
  by (simp_all add: unbiased_def slugAlphabet_def slugLength_def)

lemma slug_pass_spec:
  assumes "list_all (\<lambda>c. c \<in> set slugAlphabet) slug" "length slug \<le> slugLength"
  shows "list_all (\<lambda>c. c \<in> set slugAlphabet) (slug_pass buf slug) \<and>
    length (slug_pass buf slug) \<le> slugLength \<and> length slug \<le> length (slug_pass buf slug)"
  using assms
proof (induction buf slug rule: slug_pass.induct)
  case (2 b buf slug)
  show ?case
  proof (cases "unat b < unbiased \<and> length slug < slugLength")
    case True
    have "unat b mod length slugAlphabet < length slugAlphabet" by (simp add: unbiased_eq)
    then have "slugAlphabet ! (unat b mod length slugAlphabet) \<in> set slugAlphabet" by (rule nth_mem)
    with True 2 show ?thesis by simp
  next
    case False
    with 2 show ?thesis by (simp only: slug_pass.simps if_False)
  qed
qed simp

lemma slug_pass_grows:
  assumes "\<exists>b \<in> set buf. unat b < unbiased" "length slug < slugLength"
    "list_all (\<lambda>c. c \<in> set slugAlphabet) slug"
  shows "length slug < length (slug_pass buf slug)"
  using assms
proof (induction buf slug rule: slug_pass.induct)
  case (2 b buf slug)
  show ?case
  proof (cases "unat b < unbiased")
    case True
    let ?s = "slug @ [slugAlphabet ! (unat b mod length slugAlphabet)]"
    have "unat b mod length slugAlphabet < length slugAlphabet" by (simp add: unbiased_eq)
    then have "slugAlphabet ! (unat b mod length slugAlphabet) \<in> set slugAlphabet" by (rule nth_mem)
    with 2 have "length ?s \<le> length (slug_pass buf ?s)"
      using slug_pass_spec [of ?s buf] by simp
    with True 2 show ?thesis by simp
  qed (use 2 in auto)
qed simp

lemma slug_loop_result:
  assumes "slug_loop rnd n slug = Some (r, m)" "list_all (\<lambda>c. c \<in> set slugAlphabet) slug"
    "length slug \<le> slugLength"
  shows "case r of Inl e \<Rightarrow> \<exists>k err. rnd k = Inl err \<and> e = Wrapped ''generating webhook slug: '' err
    | Inr s \<Rightarrow> isValidSlug s"
proof -
  have "list_all (\<lambda>c. c \<in> set slugAlphabet) slug \<longrightarrow> length slug \<le> slugLength \<longrightarrow>
      (case r of Inl e \<Rightarrow> \<exists>k err. rnd k = Inl err \<and> e = Wrapped ''generating webhook slug: '' err
       | Inr s \<Rightarrow> isValidSlug s)"
    using assms(1)
  proof (induction rnd n slug "(r, m)" rule: slug_loop.raw_induct [rotated, consumes 1, case_names 1])
    case (1 f rnd n slug)
    show ?case
    proof (cases "length slug < slugLength")
      case False
      with 1(2) show ?thesis by (auto simp: isValidSlug_def)
    next
      case True
      show ?thesis
      proof (cases "rnd n")
        case (Inl e)
        with True 1(2) show ?thesis by auto
      next
        case (Inr buf)
        with True 1(2) have "f rnd (Suc n) (slug_pass buf slug) = Some (r, m)" by simp
        from 1(1) [OF this] slug_pass_spec [of slug buf] show ?thesis by blast
      qed
    qed
  qed
  with assms(2,3) show ?thesis by simp
qed

text \<open>What a slug is made of: the accepted bytes of the reads, in order, ten of them.\<close>

lemma slug_pass_take:
  assumes "length slug \<le> slugLength"
  shows "slug_pass buf slug = take slugLength (slug @
    map (\<lambda>b. slugAlphabet ! (unat b mod length slugAlphabet)) (filter (\<lambda>b. unat b < unbiased) buf))"
  using assms
proof (induction buf slug rule: slug_pass.induct)
  case (2 b buf slug)
  show ?case
  proof (cases "unat b < unbiased \<and> length slug < slugLength")
    case True
    with 2 show ?thesis by simp
  next
    case False
    with 2 show ?thesis by (auto simp: not_less)
  qed
qed simp

lemma take_take_append: "take k (take k xs @ ys) = take k (xs @ ys)"
  by (cases "length xs \<le> k") simp_all

lemma slug_loop_reads:
  assumes "slug_loop rnd n slug = Some (Inr s, m)" "length slug \<le> slugLength"
  shows "\<exists>bufs. map rnd [n..<m] = map Inr bufs \<and> n \<le> m \<and> s = take slugLength (slug @
    map (\<lambda>b. slugAlphabet ! (unat b mod length slugAlphabet)) (filter (\<lambda>b. unat b < unbiased) (concat bufs)))"
proof -
  have "length slug \<le> slugLength \<longrightarrow> (\<forall>s. r = Inr s \<longrightarrow> (\<exists>bufs. map rnd [n..<m] = map Inr bufs \<and> n \<le> m \<and>
      s = take slugLength (slug @ map (\<lambda>b. slugAlphabet ! (unat b mod length slugAlphabet))
        (filter (\<lambda>b. unat b < unbiased) (concat bufs)))))"
    if "slug_loop rnd n slug = Some (r, m)" for r
    using that
  proof (induction rnd n slug "(r, m)" rule: slug_loop.raw_induct [rotated, consumes 1, case_names 1])
    case (1 f rnd n slug)
    show ?case
    proof (cases "length slug < slugLength")
      case False
      with 1(2) show ?thesis by (auto intro!: exI [of _ "[]"])
    next
      case True
      show ?thesis
      proof (cases "rnd n")
        case (Inl e)
        with True 1(2) show ?thesis by auto
      next
        case (Inr buf)
        with True 1(2) have "f rnd (Suc n) (slug_pass buf slug) = Some (r, m)" by simp
        note IH = 1(1) [OF this]
        let ?p = "slug_pass buf slug"
        let ?l = "\<lambda>bs. map (\<lambda>b. slugAlphabet ! (unat b mod length slugAlphabet)) (filter (\<lambda>b. unat b < unbiased) bs)"
        have p: "?p = take slugLength (slug @ ?l buf)" using True by (intro slug_pass_take) simp
        show ?thesis
        proof (intro impI allI)
          fix s assume "r = Inr s"
          with IH p obtain bufs where b: "map rnd [Suc n..<m] = map Inr bufs" "Suc n \<le> m"
            "s = take slugLength (?p @ ?l (concat bufs))" by auto
          have "take slugLength (?p @ ys) = take slugLength (slug @ ?l buf @ ys)" for ys
            unfolding p take_take_append append_assoc ..
          with b Inr show "\<exists>bufs. map rnd [n..<m] = map Inr bufs \<and> n \<le> m \<and> s = take slugLength (slug @ ?l (concat bufs))"
            by (intro exI [of _ "buf # bufs"]) (simp add: upt_conv_Cons)
        qed
      qed
    qed
  qed
  with assms show ?thesis by blast
qed

text \<open>
  A read that fails or brings a usable byte takes the loop on; ten of them finish the slug, and no
  later read plays a part in it.
\<close>

definition usable :: "goerr + 8 word list \<Rightarrow> bool" where
  "usable x \<longleftrightarrow> (case x of Inl e \<Rightarrow> True | Inr buf \<Rightarrow> \<exists>b \<in> set buf. unat b < unbiased)"

lemma slug_loop_returns:
  assumes "\<forall>k < n + (slugLength - length slug). usable (rnd k)"
    and "list_all (\<lambda>c. c \<in> set slugAlphabet) slug" "length slug \<le> slugLength"
  shows "\<exists>r m. m \<le> n + (slugLength - length slug) \<and>
    (\<forall>rnd'. (\<forall>k < n + (slugLength - length slug). rnd' k = rnd k) \<longrightarrow> slug_loop rnd' n slug = Some (r, m))"
  using assms
proof (induction "slugLength - length slug" arbitrary: slug n rule: less_induct)
  case less
  show ?case
  proof (cases "length slug < slugLength")
    case False
    then show ?thesis by (intro exI [of _ "Inr slug"] exI [of _ n]) (simp add: slug_loop.simps [of _ n slug])
  next
    case True
    then have here: "n < n + (slugLength - length slug)" by simp
    show ?thesis
    proof (cases "rnd n")
      case (Inl e)
      with True here show ?thesis
        by (intro exI [of _ "Inl (Wrapped ''generating webhook slug: '' e)"] exI [of _ "Suc n"])
          (simp add: slug_loop.simps [of _ n slug])
    next
      case (Inr buf)
      let ?s = "slug_pass buf slug"
      have "\<exists>b \<in> set buf. unat b < unbiased"
        using less.prems(1) here Inr by (auto simp: usable_def dest!: spec [of _ n])
      from slug_pass_grows [OF this True less.prems(2)] have g: "length slug < length ?s" .
      have s: "list_all (\<lambda>c. c \<in> set slugAlphabet) ?s" "length ?s \<le> slugLength"
        using slug_pass_spec [OF less.prems(2,3)] by auto
      have le: "Suc n + (slugLength - length ?s) \<le> n + (slugLength - length slug)" using g s True by simp
      have "slugLength - length ?s < slugLength - length slug" using g True by simp
      moreover have "\<forall>k < Suc n + (slugLength - length ?s). usable (rnd k)"
        using less.prems(1) le by auto
      ultimately obtain r m where
        m: "m \<le> Suc n + (slugLength - length ?s)" and
        same: "\<forall>rnd'. (\<forall>k < Suc n + (slugLength - length ?s). rnd' k = rnd k) \<longrightarrow> slug_loop rnd' (Suc n) ?s = Some (r, m)"
        using less.hyps [OF _ _ s, of "Suc n"] by blast
      have "slug_loop rnd' n slug = Some (r, m)" if "\<forall>k < n + (slugLength - length slug). rnd' k = rnd k" for rnd'
      proof -
        have "rnd' n = Inr buf" using that here Inr by simp
        moreover have "\<forall>k < Suc n + (slugLength - length ?s). rnd' k = rnd k" using that le by auto
        then have "slug_loop rnd' (Suc n) ?s = Some (r, m)" using same by blast
        ultimately show ?thesis using True by (simp add: slug_loop.simps [of _ n slug])
      qed
      moreover have "m \<le> n + (slugLength - length slug)" using m le by simp
      ultimately show ?thesis by blast
    qed
  qed
qed

lemma newWebhookSlug_returns:
  assumes "\<forall>k < n + slugLength. usable (rnd k)"
  shows "\<exists>r m. m \<le> n + slugLength \<and>
    (\<forall>rnd'. (\<forall>k < n + slugLength. rnd' k = rnd k) \<longrightarrow> newWebhookSlug rnd' n = Some (r, m))"
  unfolding newWebhookSlug_def using slug_loop_returns [of n "[]" rnd] assms by simp

lemma create_attempts_returns:
  assumes "attempt \<le> slugAttempts" "\<forall>k < n + (Suc slugAttempts - attempt) * slugLength. usable (rnd k)"
  shows "\<exists>resp v. \<forall>rnd'. (\<forall>k < n + (Suc slugAttempts - attempt) * slugLength. rnd' k = rnd k) \<longrightarrow>
    create_attempts L rnd' p name domain u attempt n w = Some (resp, v)"
  using assms
proof (induction L rnd p name domain u attempt n w rule: create_attempts.induct)
  case (1 L rnd p name domain u attempt n w)
  let ?n = "n + (Suc slugAttempts - attempt) * slugLength"
  have step: "(Suc slugAttempts - attempt) * slugLength = slugLength + (slugAttempts - attempt) * slugLength"
    using 1(2) by (simp add: Suc_diff_le)
  with 1(3) have "\<forall>k < n + slugLength. usable (rnd k)" by simp
  from newWebhookSlug_returns [OF this] obtain r m where m: "m \<le> n + slugLength"
    and s: "\<And>rnd'. (\<forall>k < n + slugLength. rnd' k = rnd k) \<Longrightarrow> newWebhookSlug rnd' n = Some (r, m)" by blast
  have s': "newWebhookSlug rnd' n = Some (r, m)" if "\<forall>k < ?n. rnd' k = rnd k" for rnd'
    using that step by (intro s) simp
  show ?case
  proof (cases r)
    case (Inl e)
    with s' show ?thesis
      by (intro exI [of _ "serverError e"] exI [of _ w]) (simp add: create_attempts.simps [of L _ p])
  next
    case (Inr slug)
    obtain q v where q: "CreateWebhookEndpointWithQuota p name slug domain u maxWebhooksPerProject w = (q, v)"
      by fastforce
    show ?thesis
    proof (cases "\<exists>err. q = Inl err \<and> \<not> errors_is err ErrWebhookQuota \<and> IsWebhookSlugCollision err \<and> attempt < slugAttempts")
      case True
      then obtain err where err: "q = Inl err" "\<not> errors_is err ErrWebhookQuota"
        "IsWebhookSlugCollision err" "attempt < slugAttempts" by blast
      have le: "m + (Suc slugAttempts - Suc attempt) * slugLength \<le> ?n"
        using m step by simp
      have "newWebhookSlug rnd n = Some (Inr slug, m)" using s' [of rnd] Inr by simp
      note IH = "1.IH" [OF this refl refl q [symmetric] err(1,2)]
      have c: "IsWebhookSlugCollision err \<and> attempt < slugAttempts" "Suc attempt \<le> slugAttempts"
        using err(3,4) by auto
      have u: "\<forall>k < m + (Suc slugAttempts - Suc attempt) * slugLength. usable (rnd k)" using 1(3) le by auto
      from IH [OF c u] obtain resp v' where later:
        "\<forall>rnd'. (\<forall>k < m + (Suc slugAttempts - Suc attempt) * slugLength. rnd' k = rnd k) \<longrightarrow>
          create_attempts L rnd' p name domain u (Suc attempt) m v = Some (resp, v')" by blast
      have "create_attempts L rnd' p name domain u attempt n w = Some (resp, v')"
        if a: "\<forall>k < ?n. rnd' k = rnd k" for rnd'
      proof -
        have "\<forall>k < m + (Suc slugAttempts - Suc attempt) * slugLength. rnd' k = rnd k" using a le by auto
        with later have "create_attempts L rnd' p name domain u (Suc attempt) m v = Some (resp, v')" by blast
        with s' [OF a] err q Inr show ?thesis by (simp add: create_attempts.simps [of L rnd' p])
      qed
      then show ?thesis by blast
    next
      case False
      define out where "out = (case q of Inr endpoint \<Rightarrow> (writeJSON 201 (newWebhookResponse L endpoint), v)
        | Inl err \<Rightarrow> if errors_is err ErrWebhookQuota then (writeError 409 codeConflict (''a project can have at most '' @
              show_nat maxWebhooksPerProject @ '' webhook endpoints''), v) else (serverError err, v))"
      have "create_attempts L rnd' p name domain u attempt n w = Some (fst out, snd out)"
        if "\<forall>k < ?n. rnd' k = rnd k" for rnd'
        using s' [OF that] False q Inr
        by (auto simp: create_attempts.simps [of L _ p] out_def split: sum.splits)
      then show ?thesis by blast
    qed
  qed
qed

text \<open>Every character of the alphabet stands for seven of the bytes the loop accepts.\<close>

lemma residues: "map (\<lambda>b. b mod 36) [0..<252] = concat (replicate 7 [0..<36])"
  by code_simp

lemma filter_concat_replicate:
  "length (filter p (concat (replicate n xs))) = n * length (filter p xs)"
  by (induction n) auto

lemma alphabet_even:
  assumes "c \<in> set slugAlphabet"
  shows "length (filter (\<lambda>b. slugAlphabet ! (b mod length slugAlphabet) = c) [0..<unbiased]) = 7"
proof -
  have one: "length (filter (\<lambda>x. x = c) xs) = 1" if "distinct xs" "c \<in> set xs" for xs :: string
    using that by (induction xs) (auto simp: filter_empty_conv)
  have d: "distinct slugAlphabet" by code_simp
  have m: "map ((!) slugAlphabet) [0..<36] = slugAlphabet"
    using map_nth [of slugAlphabet] by (simp add: unbiased_eq)
  have "length (filter (\<lambda>b. slugAlphabet ! (b mod 36) = c) [0..<252])
      = length (filter (\<lambda>k. slugAlphabet ! k = c) (map (\<lambda>b. b mod 36) [0..<252]))"
    unfolding filter_map length_map o_def ..
  also have "\<dots> = 7 * length (filter (\<lambda>k. slugAlphabet ! k = c) [0..<36])"
    unfolding residues filter_concat_replicate ..
  also have "length (filter (\<lambda>k. slugAlphabet ! k = c) [0..<36])
      = length (filter (\<lambda>x. x = c) (map ((!) slugAlphabet) [0..<36]))"
    unfolding filter_map length_map o_def ..
  also have "\<dots> = 1" unfolding m by (rule one [OF d assms])
  finally show ?thesis unfolding unbiased_eq by simp
qed

end
