(* ===== verification/Capture.thy ===== *)
theory Capture
  imports RateLimit Webhooks
begin

text \<open>
  Capturing requests: \<^verbatim>\<open>CaptureWebhook\<close> of \<^verbatim>\<open>internal/db/webhooks.go\<close> and
  \<^verbatim>\<open>internal/api/capture.go\<close>. A response holds the status and headers as the
  handler leaves them to \<^verbatim>\<open>net/http\<close>.
\<close>

definition maxStoredCaptureBody :: nat where "maxStoredCaptureBody = 2 ^ 20"
definition maxReadCaptureBody :: nat where "maxReadCaptureBody = 10 * 2 ^ 20"
definition maxCapturesPerEndpoint :: nat where "maxCapturesPerEndpoint = 500"
definition captureRequestsPerSecond :: rat where "captureRequestsPerSecond = 10"
definition captureRequestsBurst :: nat where "captureRequestsBurst = 30"
definition captureIDHeader :: string where "captureIDHeader = ''X-Ghostman-Capture-Id''"

definition framingHeaders :: "string list" where
  "framingHeaders = [''Content-Length'', ''Transfer-Encoding'', ''Connection'']"

section \<open>Storing\<close>

definition capture_tx :: "InsertWebhookCaptureParams \<Rightarrow> nat \<Rightarrow> world \<Rightarrow> (goerr + int) \<times> world" where
  "capture_tx p keep w = (case exec (InsertWebhookCapture p) w of
     (Inl err, w) \<Rightarrow> (Inl (Wrapped ''insert webhook capture: '' err), w)
   | (Inr i, w) \<Rightarrow> (case exec (PruneWebhookCaptures (cp_endpoint_id p) (keep - 1)) w of
       (Inl err, w) \<Rightarrow> (Inl (Wrapped ''prune webhook captures: '' err), w)
     | (Inr _, w) \<Rightarrow> (Inr i, w)))"

definition CaptureWebhook :: "InsertWebhookCaptureParams \<Rightarrow> nat \<Rightarrow> world \<Rightarrow> (goerr + int) \<times> world" where
  "CaptureWebhook p keep = inTx (capture_tx p keep)"

section \<open>The request\<close>

text \<open>
  What the handler reads of a request. \<open>cr_path\<close> is \<^verbatim>\<open>r.URL.EscapedPath()\<close>. The body is
  the bytes that arrive and what ends them: \<open>None\<close> for the end of the body, otherwise the error of
  the read that follows the last byte.
\<close>

record capture_request =
  cr_method :: string
  cr_host :: string
  cr_path :: string
  cr_raw_query :: string
  cr_header :: header
  cr_remote :: string
  cr_body :: "string \<times> goerr option"

definition isCaptureHost :: "lib \<Rightarrow> string list \<Rightarrow> string \<Rightarrow> bool" where
  "isCaptureHost L domains host =
     (let h = normalizeHost L host in
      list_ex (\<lambda>domain. h = domain \<or> CutSuffix h (CHR ''.'' # domain) \<noteq> None) domains)"

fun target_loop :: "string \<Rightarrow> string \<Rightarrow> string list \<Rightarrow> string \<times> string \<times> bool" where
  "target_loop host path [] = ([], [], False)"
| "target_loop host path (domain # domains) =
     (if host = domain then
        (case CutPrefix path ''/h/'' of
           None \<Rightarrow> ([], [], False)
         | Some rest \<Rightarrow>
             (case Cut_at CHR ''/'' rest of (slug, tail) \<Rightarrow> (slug, CHR ''/'' # tail, isValidSlug slug)))
      else (case CutSuffix host (CHR ''.'' # domain) of
          Some label \<Rightarrow> (label, (if path = [] then ''/'' else path), isValidSlug label)
        | None \<Rightarrow> target_loop host path domains))"

definition captureTarget :: "lib \<Rightarrow> string list \<Rightarrow> string \<Rightarrow> string \<Rightarrow> string \<times> string \<times> bool" where
  "captureTarget L domains host path = target_loop (normalizeHost L host) path domains"

text \<open>The stored bytes, the number of bytes received, whether the stored body is cut short.\<close>

definition readCaptureBody :: "string \<times> goerr option \<Rightarrow> goerr + string option \<times> nat \<times> bool" where
  "readCaptureBody body = (case body of (data, err) \<Rightarrow>
     if length data \<le> maxStoredCaptureBody then
       (case err of
          Some e \<Rightarrow> Inl e
        | None \<Rightarrow> Inr (if data = [] then (None, 0, False) else (Some data, length data, False)))
     else if length data < maxReadCaptureBody then
       (case err of
          Some e \<Rightarrow> Inl e
        | None \<Rightarrow> Inr (Some (take maxStoredCaptureBody data), length data, True))
     else Inr (Some (take maxStoredCaptureBody data), maxReadCaptureBody, True))"

text \<open>The same by arithmetic on integers, for evaluation.\<close>

lemma readCaptureBody_code [code]:
  "readCaptureBody body = (case body of (data, err) \<Rightarrow>
     let n = int (length data) in
     if n \<le> 1048576 then
       (case err of
          Some e \<Rightarrow> Inl e
        | None \<Rightarrow> Inr (if data = [] then (None, 0, False) else (Some data, length data, False)))
     else if n < 10485760 then
       (case err of
          Some e \<Rightarrow> Inl e
        | None \<Rightarrow> Inr (Some (take maxStoredCaptureBody data), length data, True))
     else Inr (Some (take maxStoredCaptureBody data), maxReadCaptureBody, True))"
  by (simp add: readCaptureBody_def maxStoredCaptureBody_def maxReadCaptureBody_def split: prod.splits)

text \<open>\<^verbatim>\<open>encoding/json\<close> writes each byte that is part of no rune as U+FFFD.\<close>

function coerce_utf8 :: "string \<Rightarrow> string" where
  "coerce_utf8 s =
     (if s = [] then []
      else (case rune_at s of
          None \<Rightarrow> [CHR 0xEF, CHR 0xBF, CHR 0xBD] @ coerce_utf8 (tl s)
        | Some n \<Rightarrow> take n s @ coerce_utf8 (drop n s)))"
  by pat_completeness auto
termination
  by (relation "measure length") (auto dest: rune_at_le)

declare coerce_utf8.simps [simp del]

lemma coerce_utf8_Nil [simp]: "coerce_utf8 [] = []"
  by (simp add: coerce_utf8.simps)

text \<open>Whether a text begins with a rune of some width shows in the bytes of that width.\<close>

lemma rune_at_take:
  assumes "rune_at s = Some n" shows "rune_at (take n s @ t) = Some n"
proof (cases s)
  case (Cons b s1)
  show ?thesis
  proof (cases "byte b < 0x80")
    case True
    with assms Cons show ?thesis by (auto simp: rune_at_def)
  next
    case False
    with assms Cons obtain c s2 where s1: "s1 = c # s2" by (cases s1) (auto simp: rune_at_def)
    show ?thesis
    proof (cases "lead2 b")
      case True
      with False assms Cons s1 show ?thesis by (auto simp: rune_at_def split: if_splits)
    next
      case n2: False
      with False assms Cons s1 obtain d s3 where s2: "s2 = d # s3" "second_ok b c"
        by (cases s2) (auto simp: rune_at_def split: if_splits)
      show ?thesis
      proof (cases "lead3 b")
        case True
        with False n2 assms Cons s1 s2 show ?thesis
          by (auto simp: rune_at_def numeral_3_eq_3 split: if_splits)
      next
        case n3: False
        with False n2 assms Cons s1 s2 obtain e s4 where "s3 = e # s4"
          by (cases s3) (auto simp: rune_at_def split: if_splits)
        with n3 False n2 assms Cons s1 s2 show ?thesis
          by (auto simp: rune_at_def eval_nat_numeral split: if_splits)
      qed
    qed
  qed
qed (use assms in \<open>simp add: rune_at_def\<close>)

lemma valid_utf8_Nil [simp]: "valid_utf8 []"
  by (simp add: valid_utf8.simps)

lemma valid_utf8_rune: "rune_at s = Some n \<Longrightarrow> valid_utf8 (take n s @ t) = valid_utf8 t"
  using rune_at_take [of s n t] rune_at_le [of s n]
  by (auto simp: valid_utf8.simps [of "take n s @ t"])

lemma coerce_utf8_valid: "valid_utf8 (coerce_utf8 s)"
proof (induction s rule: coerce_utf8.induct)
  case (1 s)
  show ?case
  proof (cases "s = []")
    case False
    show ?thesis
    proof (cases "rune_at s")
      case None
      have "rune_at [CHR 0xEF, CHR 0xBF, CHR 0xBD] = Some 3" by code_simp
      from valid_utf8_rune [OF this, of "coerce_utf8 (tl s)"] 1(1) False None show ?thesis
        by (simp add: coerce_utf8.simps [of s])
    next
      case (Some n)
      with 1(2) False show ?thesis
        by (simp add: coerce_utf8.simps [of s] valid_utf8_rune)
    qed
  qed (simp add: coerce_utf8.simps)
qed

lemma coerce_utf8_set: "CHR 0x00 \<notin> set s \<Longrightarrow> CHR 0x00 \<notin> set (coerce_utf8 s)"
proof (induction s rule: coerce_utf8.induct)
  case (1 s)
  then show ?case
    by (cases "s = []"; cases "rune_at s")
      (auto simp: coerce_utf8.simps [of s] dest: in_set_takeD in_set_dropD list.set_sel(2))
qed

text \<open>Valid text is stored as it is.\<close>

lemma coerce_utf8_id: "valid_utf8 s \<Longrightarrow> coerce_utf8 s = s"
proof (induction s rule: coerce_utf8.induct)
  case (1 s)
  then show ?case
    by (cases "s = []"; cases "rune_at s")
      (auto simp: coerce_utf8.simps [of s] valid_utf8.simps [of s])
qed

definition captured_header :: "string \<Rightarrow> string \<Rightarrow> json" where
  "captured_header key val =
     JObj [(''key'', JStr (coerce_utf8 key)), (''value'', JStr (coerce_utf8 val))]"

definition captureHeaders :: "capture_request \<Rightarrow> json" where
  "captureHeaders r = JArr (captured_header ''Host'' (cr_host r) #
     concat (map (\<lambda>name. map (captured_header name)
         (case map_of (cr_header r) name of None \<Rightarrow> [] | Some vs \<Rightarrow> vs))
       (sort_by bytes_le (map fst (cr_header r)))))"

section \<open>The response\<close>

text \<open>
  \<^verbatim>\<open>json.Unmarshal\<close> into \<^verbatim>\<open>[]keyValueRow\<close> with its error ignored: what does not fit
  is left at the zero value.
\<close>

definition fBool :: "(bool \<Rightarrow> 's \<Rightarrow> 's) \<Rightarrow> json \<Rightarrow> 's \<Rightarrow> 's option" where
  "fBool set_it j s = (case j of JBool v \<Rightarrow> Some (set_it v s) | JNull \<Rightarrow> Some s | _ \<Rightarrow> None)"

definition keyValueRow_fields :: "keyValueRow field list" where
  "keyValueRow_fields =
     [(''key'', fString (\<lambda>v q. q\<lparr> kv_key := v \<rparr>)),
      (''value'', fString (\<lambda>v q. q\<lparr> kv_value := v \<rparr>)),
      (''enabled'', fBool (\<lambda>v q. q\<lparr> kv_enabled := v \<rparr>))]"

fun decode_leniently :: "'s field list \<Rightarrow> (string \<times> json) list \<Rightarrow> 's \<Rightarrow> 's" where
  "decode_leniently fs [] s = s"
| "decode_leniently fs ((k, j) # kvs) s = decode_leniently fs kvs
     (case find_field fs k of
        None \<Rightarrow> s
      | Some f \<Rightarrow> (case snd f j s of None \<Rightarrow> s | Some s' \<Rightarrow> s'))"

definition decoded_row :: "json \<Rightarrow> keyValueRow" where
  "decoded_row j = (case j of
     JObj kvs \<Rightarrow> decode_leniently keyValueRow_fields kvs \<lparr> kv_key = [], kv_value = [], kv_enabled = False \<rparr>
   | _ \<Rightarrow> \<lparr> kv_key = [], kv_value = [], kv_enabled = False \<rparr>)"

definition decoded_rows :: "json \<Rightarrow> keyValueRow list" where
  "decoded_rows j = (case j of JArr js \<Rightarrow> map decoded_row js | _ \<Rightarrow> [])"

definition sends_header :: "keyValueRow \<Rightarrow> bool" where
  "sends_header row = (kv_enabled row \<and> CanonicalHeaderKey (kv_key row) \<notin> set framingHeaders)"

text \<open>
  \<^verbatim>\<open>WriteHeader\<close> with an informational status other than 101 sends that as an interim
  response; the final one is then the implicit 200 of a handler that has written nothing.
\<close>

definition final_status :: "int \<Rightarrow> nat" where
  "final_status status = (if 100 \<le> status \<and> status \<le> 199 \<and> status \<noteq> 101 then 200 else nat status)"

definition writeConfiguredResponse :: "WebhookEndpoint \<Rightarrow> int \<Rightarrow> response" where
  "writeConfiguredResponse endpoint capture_id =
     (let status = w_resp_status endpoint in
      \<lparr> rs_status = final_status status,
        rs_headers = header_set captureIDHeader (show_int capture_id)
          (fold (\<lambda>row. header_add (kv_key row) (kv_value row))
             (filter sends_header (decoded_rows (w_resp_headers endpoint))) []),
        rs_payload = (if 200 \<le> status \<and> status \<noteq> 204 \<and> status \<noteq> 304
          then RawBody (w_resp_body endpoint) else NoContent) \<rparr>)"

section \<open>The handler\<close>

definition captureError :: response where
  "captureError = http_Error [] ''internal error'' 500"

definition capture_limited :: "int \<Rightarrow> response" where
  "capture_limited wait =
     http_Error [(''Retry-After'', show_int (retryAfterSeconds wait))] ''too many requests'' 429"

definition capture_params :: "'ip iplib \<Rightarrow> capture_request \<Rightarrow> WebhookEndpoint \<Rightarrow> string \<Rightarrow>
    string option \<times> nat \<times> bool \<Rightarrow> InsertWebhookCaptureParams" where
  "capture_params I r endpoint path body = (case body of (stored, received, truncated) \<Rightarrow>
     \<lparr> cp_endpoint_id = w_id endpoint, cp_method = cr_method r, cp_path = path,
       cp_query = cr_raw_query r, cp_headers = captureHeaders r,
       cp_content_type = header_get (cr_header r) ''Content-Type'', cp_body = stored,
       cp_body_size = int received, cp_body_truncated = truncated,
       cp_source_ip = clientIP I (cr_remote r) (cr_header r) \<rparr>)"

definition handleCapture :: "lib \<Rightarrow> 'ip iplib \<Rightarrow> string list \<Rightarrow> int \<Rightarrow> capture_request \<Rightarrow>
    limiter option \<Rightarrow> world \<Rightarrow> response \<times> limiter option \<times> world" where
  "handleCapture L I domains tm r lm w =
     (case captureTarget L domains (cr_host r) (cr_path r) of (slug, path, ok) \<Rightarrow>
      if \<not> ok then (http_NotFound, lm, w)
      else (case exec (GetWebhookEndpointBySlug slug) w of
          (Inl err, w) \<Rightarrow>
            (if errors_is err ErrNoRows then http_NotFound else captureError, lm, w)
        | (Inr endpoint, w) \<Rightarrow>
            (case limit_call tm slug lm of ((allowed, wait), lm) \<Rightarrow>
             if \<not> allowed then (capture_limited wait, lm, w)
             else (case readCaptureBody (cr_body r) of
                 Inl err \<Rightarrow> (http_Error [] ''could not read request body'' 400, lm, w)
               | Inr body \<Rightarrow>
                   (case CaptureWebhook (capture_params I r endpoint path body) maxCapturesPerEndpoint w of
                      (Inl err, w) \<Rightarrow> (captureError, lm, w)
                    | (Inr capture_id, w) \<Rightarrow> (writeConfiguredResponse endpoint capture_id, lm, w))))))"

section \<open>Lemmas\<close>

lemma captureTarget_valid:
  "captureTarget L domains host path = (slug, tail, True) \<Longrightarrow> isValidSlug slug"
proof -
  have "target_loop h path ds = (slug, tail, True) \<Longrightarrow> isValidSlug slug" for h ds
    by (induction h path ds rule: target_loop.induct) (auto split: if_splits option.splits prod.splits)
  then show "captureTarget L domains host path = (slug, tail, True) \<Longrightarrow> isValidSlug slug"
    by (simp add: captureTarget_def)
qed

lemma target_loop_host:
  "target_loop h path ds = (slug, tail, True) \<Longrightarrow>
     \<exists>d \<in> set ds. h = d \<or> CutSuffix h (CHR ''.'' # d) \<noteq> None"
  by (induction h path ds rule: target_loop.induct) (auto split: if_splits option.splits)

lemma capture_tx_insert:
  assumes "capture_tx p keep w = (Inr i, v)" "in_tx w = Some m"
  obtains s d u where "InsertWebhookCapture p s (dbs w) = Inr (i, d)"
    "PruneWebhookCaptures (cp_endpoint_id p) (keep - 1) u d = Inr ((), dbs v)"
proof -
  from assms(1) obtain w1 where w1: "exec (InsertWebhookCapture p) w = (Inr i, w1)"
      "exec (PruneWebhookCaptures (cp_endpoint_id p) (keep - 1)) w1 = (Inr (), v)"
    by (auto simp: capture_tx_def split: prod.splits sum.splits)
  from exec_tx_Inr [OF w1(1) assms(2)] obtain s where
    s: "InsertWebhookCapture p s (dbs w) = Inr (i, dbs w1)" "in_tx w1 = Some m" by blast
  from exec_tx_Inr [OF w1(2) s(2)] s(1) that show ?thesis by blast
qed

lemma prune_keeps_newest:
  assumes "PruneWebhookCaptures e n s d = Inr (x, d')" "c \<in> set (webhook_captures d)"
    "c_endpoint_id c = e \<longrightarrow> (\<forall>b \<in> set (webhook_captures d). c_endpoint_id b = e \<longrightarrow> c_id b \<le> c_id c)"
  shows "c \<in> set (webhook_captures d')"
proof -
  let ?xs = "rev (sort_key c_id (filter (\<lambda>c. c_endpoint_id c = e) (webhook_captures d)))"
  have "c_endpoint_id c = e \<Longrightarrow> n < length ?xs \<Longrightarrow> \<not> c_id c < c_id (?xs ! n)"
  proof -
    assume "c_endpoint_id c = e" "n < length ?xs"
    then have "?xs ! n \<in> set ?xs" by (intro nth_mem) simp
    then have "?xs ! n \<in> set (webhook_captures d)" "c_endpoint_id (?xs ! n) = e" by simp_all
    with assms(3) \<open>c_endpoint_id c = e\<close> show "\<not> c_id c < c_id (?xs ! n)" by fastforce
  qed
  with assms(1,2) show ?thesis
    by (auto simp: PruneWebhookCaptures_def Let_def set_delete_rows split: if_splits)
qed

lemma insert_capture_Inr:
  assumes "InsertWebhookCapture p s d = Inr (i, d')"
  shows "\<exists>c. webhook_captures d' = webhook_captures d @ [c] \<and> c_id c = i \<and> i = capture_seq d + 1 \<and>
    capture_seq d' = i \<and> c_endpoint_id c = cp_endpoint_id p \<and> c_method c = cp_method p \<and>
    c_path c = cp_path p \<and> c_query c = cp_query p \<and> c_headers c = cp_headers p \<and>
    c_body c = cp_body p \<and> c_body_size c = cp_body_size p \<and> c_body_truncated c = cp_body_truncated p \<and>
    c_source_ip c = cp_source_ip p \<and> cp_endpoint_id p \<in> w_id ` set (webhook_endpoints d)"
  using assms unfolding InsertWebhookCapture_def
  by (auto simp: with_texts_Inr with_jsonb_Inr require_Inr Let_def)

text \<open>The sequence is never behind the ids it gave out.\<close>

definition captures_ok :: "db \<Rightarrow> bool" where
  "captures_ok d \<longleftrightarrow> pkey c_id (webhook_captures d) \<and> (\<forall>c \<in> set (webhook_captures d). c_id c \<le> capture_seq d)"

lemma readCaptureBody_bounds:
  assumes "readCaptureBody body = Inr (stored, received, truncated)"
  shows "received \<le> maxReadCaptureBody"
    "case stored of None \<Rightarrow> received = 0 | Some b \<Rightarrow> b = take maxStoredCaptureBody (fst body) \<and> length b \<le> maxStoredCaptureBody"
    "truncated = (maxStoredCaptureBody < length (fst body))"
  using assms
  by (auto simp: readCaptureBody_def maxStoredCaptureBody_def maxReadCaptureBody_def
      split: prod.splits if_splits option.splits)

end
