(* ===== verification/Service.thy ===== *)
theory Service
  imports Auth Environments ProxiesExamples Capture
begin

text \<open>
  The service as \<^verbatim>\<open>internal/api/routes.go\<close>, \<^verbatim>\<open>middleware.go\<close>,
  \<^verbatim>\<open>server.go\<close> and \<^verbatim>\<open>withCapture\<close> of \<^verbatim>\<open>capture.go\<close>
  put it together: the route table and its matching, the middleware, the host switch in front, and
  the state that outlives a request.
\<close>

section \<open>Paths\<close>

text \<open>
  \<^verbatim>\<open>http.ServeMux\<close> works on the escaped path: it cleans it as
  \<^verbatim>\<open>path.Clean\<close> does, keeping a trailing slash, and decodes each segment on its own.
  (It leaves the path of a \<^verbatim>\<open>CONNECT\<close> request alone; such requests are not modelled.)
\<close>

definition clean_step :: "string list \<Rightarrow> string \<Rightarrow> string list" where
  "clean_step done_segs seg =
     (if seg = [] \<or> seg = ''.'' then done_segs
      else if seg = ''..'' then butlast done_segs
      else done_segs @ [seg])"

definition cleanPath :: "string \<Rightarrow> string" where
  "cleanPath p =
     (let segs = foldl clean_step [] (split_on CHR ''/'' p) in
      if segs = [] then ''/''
      else concat (map (\<lambda>s. CHR ''/'' # s) segs) @ (if last p = CHR ''/'' then ''/'' else []))"

definition hex_value :: "char \<Rightarrow> nat option" where
  "hex_value c =
     (if 48 \<le> byte c \<and> byte c \<le> 57 then Some (byte c - 48)
      else if 97 \<le> byte c \<and> byte c \<le> 102 then Some (byte c - 87)
      else if 65 \<le> byte c \<and> byte c \<le> 70 then Some (byte c - 55) else None)"

fun PathUnescape :: "string \<Rightarrow> string option" where
  "PathUnescape [] = Some []"
| "PathUnescape (c # s) =
     (if c \<noteq> CHR ''%'' then map_option ((#) c) (PathUnescape s)
      else (case s of
          a # b # rest \<Rightarrow> (case (hex_value a, hex_value b) of
              (Some x, Some y) \<Rightarrow> map_option ((#) (char_of (16 * x + y))) (PathUnescape rest)
            | _ \<Rightarrow> None)
        | _ \<Rightarrow> None))"

definition pathUnescape :: "string \<Rightarrow> string" where
  "pathUnescape s = (case PathUnescape s of None \<Rightarrow> s | Some t \<Rightarrow> t)"

text \<open>The segments of a clean path; a trailing slash is a segment of its own.\<close>

definition path_segments :: "string \<Rightarrow> string list" where
  "path_segments p =
     (let segs = split_on CHR ''/'' (tl p) in
      map pathUnescape (butlast segs) @ [if last segs = [] then ''/'' else pathUnescape (last segs)])"

section \<open>Patterns\<close>

datatype pattern_segment = Literal string | Wildcard string

definition pattern_segment_of :: "string \<Rightarrow> pattern_segment" where
  "pattern_segment_of s =
     (if s \<noteq> [] \<and> hd s = CHR ''{'' then Wildcard (butlast (tl s)) else Literal s)"

definition parse_pattern :: "string \<Rightarrow> string \<times> pattern_segment list" where
  "parse_pattern s = (case Cut_at CHR '' '' s of (verb, path) \<Rightarrow>
     (verb, map pattern_segment_of (split_on CHR ''/'' (tl path))))"

text \<open>The values of the wildcards, if the segments match. A wildcard takes no trailing slash.\<close>

fun match_segments :: "pattern_segment list \<Rightarrow> string list \<Rightarrow> (string \<times> string) list option" where
  "match_segments [] [] = Some []"
| "match_segments (Literal l # ps) (s # ss) = (if l = s then match_segments ps ss else None)"
| "match_segments (Wildcard n # ps) (s # ss) =
     (if s = ''/'' then None else map_option ((#) (n, s)) (match_segments ps ss))"
| "match_segments _ _ = None"

text \<open>A \<^verbatim>\<open>GET\<close> pattern also serves \<^verbatim>\<open>HEAD\<close>.\<close>

definition match_route :: "string \<Rightarrow> string list \<Rightarrow> string \<Rightarrow> (string \<times> string) list option" where
  "match_route verb segs pattern = (case parse_pattern pattern of (v, ps) \<Rightarrow>
     if v = verb \<or> (v = ''GET'' \<and> verb = ''HEAD'') then match_segments ps segs else None)"

section \<open>The parts of the service\<close>

text \<open>
  What is fixed when the server starts: the libraries the code calls, the configured capture domains,
  the version of the binary, and what \<^verbatim>\<open>ServeMux\<close> answers (verb, clean path, query) to
  a request whose path is not clean.
\<close>

record 'ip site =
  st_lib :: lib
  st_ip :: "'ip iplib"
  st_argon :: argon
  st_domains :: "string list"
  st_version :: string
  st_redirect :: "string \<Rightarrow> string \<Rightarrow> string \<Rightarrow> response"

text \<open>
  What a request meets when it arrives: the monotonic clock of the limiters, the wall clock, and what
  the random source gives.
\<close>

record arrival =
  ar_now :: int
  ar_time :: time
  ar_salt :: "goerr + string"
  ar_token :: "goerr + string"
  ar_random :: random

text \<open>
  A request as the server receives it: what the capture side reads of it, the declared length (\<open>-1\<close>
  if there is none), the query parameters and what the decoder makes of the body, cut off at the
  limit \<^verbatim>\<open>limitRequestBody\<close> sets.
\<close>

record web_request = capture_request +
  wr_length :: int
  wr_query :: "string \<Rightarrow> string"
  wr_body :: body_in

text \<open>The state of \<^verbatim>\<open>api\<close>: the store and the three limiters.\<close>

record service =
  sv_world :: world
  sv_login :: "limiter option"
  sv_register :: "limiter option"
  sv_capture :: "limiter option"

definition new_service :: "world \<Rightarrow> service" where
  "new_service w = \<lparr> sv_world = w,
     sv_login = Some (PerMinute authAttemptsPerMinute authAttemptsBurst),
     sv_register = Some (PerMinute authAttemptsPerMinute authAttemptsBurst),
     sv_capture = Some (newLimiter captureRequestsPerSecond captureRequestsBurst) \<rparr>"

section \<open>Handlers of the router\<close>

text \<open>The ping of the pool; its deadline is one of the ways it fails.\<close>

definition ping :: "unit query" where
  "ping = reading (\<lambda>d. Inr ())"

definition handleHealthz :: "string \<Rightarrow> http_request \<Rightarrow> world \<Rightarrow> response \<times> world" where
  "handleHealthz version r w = (case exec ping w of
     (Inl err, w) \<Rightarrow> (writeError 503 codeUnavailable messageDBUnready, w)
   | (Inr _, w) \<Rightarrow> (writeJSON 200 (JObj [(''status'', JStr ''ok''), (''version'', JStr version)]), w))"

definition handleHello :: "http_request \<Rightarrow> world \<Rightarrow> response \<times> world" where
  "handleHello r w = (writeJSON 200 (JObj [(''message'', JStr ''hello from ghostman'')]), w)"

definition handleNotFound :: "http_request \<Rightarrow> world \<Rightarrow> response \<times> world" where
  "handleNotFound r w = (writeError 404 codeNotFound ''the requested resource was not found'', w)"

section \<open>The route table\<close>

datatype target =
    Public "http_request \<Rightarrow> world \<Rightarrow> response \<times> world"
  | Registering
  | LoggingIn
  | Authed handler

definition returning :: "(http_request \<Rightarrow> world \<Rightarrow> response \<times> world) \<Rightarrow> handler" where
  "returning h r w = Some (h r w)"

definition routes :: "'ip site \<Rightarrow> arrival \<Rightarrow> (string \<times> target) list" where
  "routes S A = (let L = st_lib S in [
(''GET /healthz'', Public (handleHealthz (st_version S))),
      (''GET /api/v1/hello'', Public handleHello),
      (''GET /api/v1/meta'', Public (handleMeta (st_domains S))),
      (''POST /api/v1/auth/register'', Registering),
      (''POST /api/v1/auth/login'', LoggingIn),
      (''POST /api/v1/auth/logout'', Authed (returning (handleLogout L))),
      (''GET /api/v1/me'', Authed (returning (handleMe L))),
      (''GET /api/v1/me/invitations'', Authed (returning (handleListMyInvitations L))),
      (''POST /api/v1/teams'', Authed (returning (handleCreateTeam L))),
      (''GET /api/v1/teams'', Authed (returning (handleListTeams L))),
      (''GET /api/v1/teams/{id}'', Authed (returning (handleGetTeam L))),
      (''PATCH /api/v1/teams/{id}'', Authed (returning (handleUpdateTeam L))),
      (''DELETE /api/v1/teams/{id}'', Authed (returning (handleDeleteTeam L))),
      (''POST /api/v1/teams/{team_id}/invitations'', Authed (returning (handleCreateInvitation L))),
      (''GET /api/v1/teams/{team_id}/invitations'', Authed (returning (handleListTeamInvitations L))),
      (''DELETE /api/v1/teams/{team_id}/members/{user_id}'', Authed (returning (handleDeleteTeamMember L))),
      (''POST /api/v1/invitations/{id}/accept'', Authed (returning (handleAcceptInvitation L))),
      (''POST /api/v1/invitations/{id}/reject'', Authed (returning (handleRejectInvitation L))),
      (''DELETE /api/v1/invitations/{id}'', Authed (returning (handleDeleteInvitation L))),
      (''POST /api/v1/teams/{team_id}/projects'', Authed (returning (handleCreateProject L))),
      (''GET /api/v1/teams/{team_id}/projects'', Authed (returning (handleListProjects L))),
      (''PUT /api/v1/teams/{team_id}/projects/order'', Authed (returning (handleReorderProjects L))),
      (''GET /api/v1/projects/{id}'', Authed (returning (handleGetProject L))),
      (''PATCH /api/v1/projects/{id}'', Authed (returning (handleUpdateProject L))),
      (''DELETE /api/v1/projects/{id}'', Authed (returning (handleDeleteProject L))),
      (''GET /api/v1/projects/{id}/access'', Authed (returning (handleListProjectAccess L))),
      (''PUT /api/v1/projects/{id}/access'', Authed (returning (handleSetProjectAccess L))),
      (''POST /api/v1/projects/{project_id}/folders'', Authed (returning (handleCreateFolder L))),
      (''GET /api/v1/projects/{project_id}/folders'', Authed (returning (handleListFolders L))),
      (''PUT /api/v1/folders/order'', Authed (returning (handleReorderFolders L))),
      (''PATCH /api/v1/folders/{id}'', Authed (returning (handleUpdateFolder L))),
      (''DELETE /api/v1/folders/{id}'', Authed (returning (handleDeleteFolder L))),
      (''POST /api/v1/folders/{id}/move'', Authed (returning (handleMoveFolder L))),
      (''POST /api/v1/projects/{project_id}/environments'', Authed (returning (handleCreateEnvironment L))),
      (''GET /api/v1/projects/{project_id}/environments'', Authed (returning (handleListEnvironments L))),
      (''PUT /api/v1/environments/order'', Authed (returning (handleReorderEnvironments L))),
      (''PATCH /api/v1/environments/{id}'', Authed (returning (handleUpdateEnvironment L))),
      (''DELETE /api/v1/environments/{id}'', Authed (returning (handleDeleteEnvironment L))),
      (''POST /api/v1/environments/{env_id}/variables'', Authed (returning (handleCreateVariable L))),
      (''GET /api/v1/environments/{env_id}/variables'', Authed (returning (handleListVariables L))),
      (''PUT /api/v1/variables/order'', Authed (returning (handleReorderVariables L))),
      (''PATCH /api/v1/variables/{id}'', Authed (returning (handleUpdateVariable L))),
      (''DELETE /api/v1/variables/{id}'', Authed (returning (handleDeleteVariable L))),
      (''POST /api/v1/projects/{project_id}/requests'', Authed (returning (handleCreateRequest L))),
      (''GET /api/v1/projects/{project_id}/requests'', Authed (returning (handleListRequests L))),
      (''PUT /api/v1/requests/order'', Authed (returning (handleReorderRequests L))),
      (''GET /api/v1/requests/{id}'', Authed (returning (handleGetRequest L))),
      (''PATCH /api/v1/requests/{id}'', Authed (returning (handleUpdateRequest L))),
      (''DELETE /api/v1/requests/{id}'', Authed (returning (handleDeleteRequest L))),
      (''POST /api/v1/requests/{id}/move'', Authed (returning (handleMoveRequest L))),
      (''PUT /api/v1/teams/{team_id}/members/{user_id}/access'', Authed (returning (handleSetMemberAccess L))),
      (''POST /api/v1/projects/{project_id}/proxies'', Authed (returning (handleCreateProxy L))),
      (''GET /api/v1/projects/{project_id}/proxies'', Authed (returning (handleListProxies L))),
      (''PUT /api/v1/proxies/order'', Authed (returning (handleReorderProxies L))),
      (''GET /api/v1/proxies/{id}'', Authed (returning (handleGetProxy L))),
      (''PATCH /api/v1/proxies/{id}'', Authed (returning (handleUpdateProxy L))),
      (''DELETE /api/v1/proxies/{id}'', Authed (returning (handleDeleteProxy L))),
      (''POST /api/v1/requests/{request_id}/examples'', Authed (returning (handleCreateExample L))),
      (''GET /api/v1/requests/{request_id}/examples'', Authed (returning (handleListExamples L))),
      (''PUT /api/v1/examples/order'', Authed (returning (handleReorderExamples L))),
      (''GET /api/v1/examples/{id}'', Authed (returning (handleGetExample L))),
      (''PATCH /api/v1/examples/{id}'', Authed (returning (handleUpdateExample L))),
      (''DELETE /api/v1/examples/{id}'', Authed (returning (handleDeleteExample L))),
      (''POST /api/v1/projects/{project_id}/webhooks'', Authed (handleCreateWebhook L (ar_random A) (st_domains S))),
      (''GET /api/v1/projects/{project_id}/webhooks'', Authed (returning (handleListWebhooks L))),
      (''GET /api/v1/webhooks/{id}'', Authed (returning (handleGetWebhook L))),
      (''PATCH /api/v1/webhooks/{id}'', Authed (returning (handleUpdateWebhook L (st_domains S)))),
      (''DELETE /api/v1/webhooks/{id}'', Authed (returning (handleDeleteWebhook L))),
      (''GET /api/v1/webhooks/{id}/captures'', Authed (returning (handleListCaptures L))),
      (''DELETE /api/v1/webhooks/{id}/captures'', Authed (returning (handleClearCaptures L))),
      (''GET /api/v1/webhooks/{id}/captures/{capture_id}'', Authed (returning (handleGetCapture L)))])"

text \<open>
  The first route that matches. No two of them match the same request, so the precedence
  \<^verbatim>\<open>ServeMux\<close> gives to literal segments never decides.
\<close>

fun find_route :: "string \<Rightarrow> string list \<Rightarrow> (string \<times> target) list \<Rightarrow> ((string \<times> string) list \<times> target) option" where
  "find_route verb segs [] = None"
| "find_route verb segs ((pattern, t) # rs) = (case match_route verb segs pattern of
     None \<Rightarrow> find_route verb segs rs
   | Some vals \<Rightarrow> Some (vals, t))"

definition handler_request :: "web_request \<Rightarrow> (string \<times> string) list \<Rightarrow> http_request" where
  "handler_request r vals = \<lparr> rq_auth = None,
     rq_path = (\<lambda>n. case map_of vals n of None \<Rightarrow> [] | Some v \<Rightarrow> v),
     rq_query = wr_query r, rq_body = wr_body r \<rparr>"

definition run_target :: "'ip site \<Rightarrow> arrival \<Rightarrow> web_request \<Rightarrow> (string \<times> string) list \<Rightarrow> target \<Rightarrow>
    service \<Rightarrow> (response \<times> service) option" where
  "run_target S A r vals t sv =
     (let L = st_lib S; K = st_argon S; q = handler_request r vals; w = sv_world sv;
          limit = rateLimitByIP (st_ip S) (ar_now A) (cr_remote r) (cr_header r) in
      case t of
        Public h \<Rightarrow> (case h q w of (resp, w) \<Rightarrow> Some (resp, sv\<lparr> sv_world := w \<rparr>))
      | Registering \<Rightarrow>
          (case limit (handleRegister L K (ar_salt A) (ar_token A) (ar_time A) q) (sv_register sv) w of
             (resp, lm, w) \<Rightarrow> Some (resp, sv\<lparr> sv_world := w, sv_register := lm \<rparr>))
      | LoggingIn \<Rightarrow>
          (case limit (handleLogin L K (ar_token A) (ar_time A) q) (sv_login sv) w of
             (resp, lm, w) \<Rightarrow> Some (resp, sv\<lparr> sv_world := w, sv_login := lm \<rparr>))
      | Authed h \<Rightarrow>
          (case requireAuth L (header_get (cr_header r) ''Authorization'') h q w of
             None \<Rightarrow> None
           | Some (resp, w) \<Rightarrow> Some (resp, sv\<lparr> sv_world := w \<rparr>)))"

definition serve_mux :: "'ip site \<Rightarrow> arrival \<Rightarrow> web_request \<Rightarrow> service \<Rightarrow> (response \<times> service) option" where
  "serve_mux S A r sv =
     (let path = cleanPath (cr_path r) in
      if path \<noteq> cr_path r then Some (st_redirect S (cr_method r) path (cr_raw_query r), sv)
      else (case find_route (cr_method r) (path_segments path) (routes S A) of
          Some (vals, t) \<Rightarrow> run_target S A r vals t sv
        | None \<Rightarrow> run_target S A r [] (Public handleNotFound) sv))"

section \<open>Middleware\<close>

definition limitRequestBody ::
  "(web_request \<Rightarrow> service \<Rightarrow> (response \<times> service) option) \<Rightarrow>
   web_request \<Rightarrow> service \<Rightarrow> (response \<times> service) option" where
  "limitRequestBody inner r sv =
     (if wr_length r > int maxRequestBody then
        Some (writeError 413 codeTooLarge (body_error_text (BodyTooLarge maxRequestBody)), sv)
      else inner r sv)"

definition corsMaxAge :: string where "corsMaxAge = ''300''"

definition corsHeaders :: "(string \<times> string) list" where
  "corsHeaders = [(''Access-Control-Allow-Origin'', ''*''), (''Vary'', ''Origin'')]"

definition preflight :: response where
  "preflight = \<lparr> rs_status = 204,
     rs_headers = corsHeaders @
       [(''Access-Control-Allow-Methods'', ''GET, POST, PUT, PATCH, DELETE, OPTIONS''),
        (''Access-Control-Allow-Headers'', ''Content-Type, Authorization''),
        (''Access-Control-Max-Age'', corsMaxAge),
        (''Vary'', ''Access-Control-Request-Method''), (''Vary'', ''Access-Control-Request-Headers'')],
     rs_payload = NoContent \<rparr>"

definition withCORS ::
  "(web_request \<Rightarrow> service \<Rightarrow> (response \<times> service) option) \<Rightarrow>
   web_request \<Rightarrow> service \<Rightarrow> (response \<times> service) option" where
  "withCORS inner r sv =
     (if cr_method r = ''OPTIONS'' \<and> header_get (cr_header r) ''Access-Control-Request-Method'' \<noteq> [] then
        Some (preflight, sv)
      else (case inner r sv of
          None \<Rightarrow> None
        | Some (resp, sv) \<Rightarrow> Some (resp\<lparr> rs_headers := corsHeaders @ rs_headers resp \<rparr>, sv)))"

definition api_handler :: "'ip site \<Rightarrow> arrival \<Rightarrow> web_request \<Rightarrow> service \<Rightarrow> (response \<times> service) option" where
  "api_handler S A = withCORS (limitRequestBody (serve_mux S A))"

definition capture_handler :: "'ip site \<Rightarrow> arrival \<Rightarrow> web_request \<Rightarrow> service \<Rightarrow> (response \<times> service) option" where
  "capture_handler S A r sv =
     (case handleCapture (st_lib S) (st_ip S) (st_domains S) (ar_now A) (capture_request.truncate r)
         (sv_capture sv) (sv_world sv) of
        (resp, lm, w) \<Rightarrow> Some (resp, sv\<lparr> sv_world := w, sv_capture := lm \<rparr>))"

definition withCapture :: "'ip site \<Rightarrow> arrival \<Rightarrow> web_request \<Rightarrow> service \<Rightarrow> (response \<times> service) option" where
  "withCapture S A r sv =
     (if st_domains S \<noteq> [] \<and> isCaptureHost (st_lib S) (st_domains S) (cr_host r) then
        capture_handler S A r sv
      else api_handler S A r sv)"

text \<open>
  One step of the running server: a request that is answered, or the sweep of expired sessions.
\<close>

inductive server_step :: "'ip site \<Rightarrow> service \<Rightarrow> service \<Rightarrow> bool" for S where
  request: "withCapture S A r sv = Some (resp, sv') \<Longrightarrow> server_step S sv sv'"
| cleanup: "server_step S sv (sv\<lparr> sv_world := deleteExpiredSessionsOnce (sv_world sv) \<rparr>)"

inductive_cases server_stepE: "server_step S sv sv'"

definition reachable :: "'ip site \<Rightarrow> service \<Rightarrow> service \<Rightarrow> bool" where
  "reachable S = (server_step S)\<^sup>*\<^sup>*"

end
