(* ===== verification/StoreInterface.thy ===== *)
theory StoreInterface
  imports Auth Environments ProxiesExamples Capture
begin

text \<open>
  The interface between the handlers and the store, \<^verbatim>\<open>internal/api/store.go\<close>, as a
  contract: a relation on worlds that every method of \<^verbatim>\<open>Store\<close> keeps is kept by every
  handler. The methods that only read need no law of their own. Two handlers check the proxy they are
  about to set themselves and are part of the contract.
\<close>

named_theorems store_intros \<open>operations that keep the relation of the contract\<close>

text \<open>What reads do to the world: the writes of others arrive, and that is all.\<close>

lemma exec_readonly_world: "readonly q \<Longrightarrow> snd (exec q w) = arrive w"
  by (auto simp: exec_def readonly_def Let_def split: outcome.splits sum.splits prod.splits)

text \<open>For the handlers that may fail to return.\<close>

definition opt_runs :: "(world \<Rightarrow> world \<Rightarrow> bool) \<Rightarrow> (world \<Rightarrow> ('r \<times> world) option) \<Rightarrow> bool" where
  "opt_runs R f \<longleftrightarrow> (\<forall>w r v. f w = Some (r, v) \<longrightarrow> R w v)"

locale read_keeps = step_rel R for R :: "world \<Rightarrow> world \<Rightarrow> bool" +
  assumes arrives: "R w (arrive w)"
begin

lemma reads: "readonly q \<Longrightarrow> runs R (exec q)"
  by (simp add: runs_def exec_readonly_world arrives)

lemmas store_rules = runs_return runs_bind runs_if runs_let runs_sum runs_option runs_prod reads readonly_intros

lemma kept_requireProxyInProject [store_intros]: "runs R (requireProxyInProject p i)"
  unfolding requireProxyInProject_def [abs_def] by (intro store_rules store_intros)

lemma kept_RequireTeamMember [store_intros]: "runs R (RequireTeamMember team_id user_id)"
  unfolding RequireTeamMember_def [abs_def] by (intro store_rules store_intros)

lemma kept_RequireTeamOwner [store_intros]: "runs R (RequireTeamOwner team_id user_id)"
  unfolding RequireTeamOwner_def [abs_def] by (intro store_rules store_intros)

lemma kept_RequireProjectAccess [store_intros]: "runs R (RequireProjectAccess project_id user_id)"
  unfolding RequireProjectAccess_def [abs_def] by (intro store_rules store_intros)

lemma kept_RequireProjectManage [store_intros]: "runs R (RequireProjectManage project_id user_id)"
  unfolding RequireProjectManage_def [abs_def] by (intro store_rules store_intros)

lemma kept_RequireFolderAccess [store_intros]: "runs R (RequireFolderAccess folder_id user_id)"
  unfolding RequireFolderAccess_def [abs_def] by (intro store_rules store_intros)

lemma kept_RequireEnvironmentAccess [store_intros]: "runs R (RequireEnvironmentAccess environment_id user_id)"
  unfolding RequireEnvironmentAccess_def [abs_def] by (intro store_rules store_intros)

lemma kept_RequireVariableAccess [store_intros]: "runs R (RequireVariableAccess variable_id user_id)"
  unfolding RequireVariableAccess_def [abs_def] by (intro store_rules store_intros)

lemma kept_RequireRequestAccess [store_intros]: "runs R (RequireRequestAccess request_id user_id)"
  unfolding RequireRequestAccess_def [abs_def] by (intro store_rules store_intros)

lemma kept_RequireWebhookAccess [store_intros]: "runs R (RequireWebhookAccess endpoint_id user_id)"
  unfolding RequireWebhookAccess_def [abs_def] by (intro store_rules store_intros)

lemma kept_RequireProxyAccess [store_intros]: "runs R (RequireProxyAccess i user_id)"
  unfolding RequireProxyAccess_def [abs_def] by (intro store_rules store_intros)

lemma kept_RequireExampleAccess [store_intros]: "runs R (RequireExampleAccess example_id user_id)"
  unfolding RequireExampleAccess_def [abs_def] by (intro store_rules store_intros)

lemma kept_requireAllTeamMembers [store_intros]: "runs R (requireAllTeamMembers team_id user_ids)"
  unfolding requireAllTeamMembers_def [abs_def] by (intro store_rules store_intros)

lemma kept_requireAllTeamProjects [store_intros]: "runs R (requireAllTeamProjects team_id project_ids)"
  unfolding requireAllTeamProjects_def [abs_def] by (intro store_rules store_intros)

lemma kept_writeRequestDetail [store_intros]: "runs R (writeRequestDetail L request)"
  unfolding writeRequestDetail_def [abs_def] by (intro store_rules store_intros)

lemma kept_authenticate [store_intros]: "runs R (authenticate L authorization)"
  unfolding authenticate_def [abs_def] by (intro store_rules store_intros)

end

text \<open>
  The brackets of a transaction, for relations that look at the database, the environment and the
  order of the steps only. A relation on databases gives such a relation, amid other sessions whose
  statements keep it.
\<close>

lemma inTx_ends:
  assumes "inTx body w = (r, v)"
  shows "\<exists>u. (u = (arrive w)\<lparr> in_tx := Some (tick w) \<rparr> \<or> (\<exists>x. body ((arrive w)\<lparr> in_tx := Some (tick w) \<rparr>) = (x, u))) \<and>
    tick u \<le> tick v \<and> (dbs v = dbs (arrive w) \<or> dbs v = dbs u)"
  using assms by (cases "body ((arrive w)\<lparr> in_tx := Some (tick w) \<rparr>)")
    (auto simp: inTx_def Let_def split: outcome.splits sum.splits)

locale tx_keeps = read_keeps R for R :: "world \<Rightarrow> world \<Rightarrow> bool" +
  assumes keeps_env: "R w v \<Longrightarrow> same_env w v"
    and ends: "R ((arrive w)\<lparr> in_tx := Some (tick w) \<rparr>) u \<Longrightarrow> same_env w v \<Longrightarrow> tick u \<le> tick v \<Longrightarrow>
      dbs v = dbs (arrive w) \<or> dbs v = dbs u \<Longrightarrow> R w v"
begin

lemma brackets:
  assumes "runs R body" shows "runs R (inTx body)"
  unfolding runs_def
proof
  fix w
  obtain r v where e: "inTx body w = (r, v)" by fastforce
  have env: "same_env w v"
    using inTx_env [OF e] keeps_env [OF runsD [OF assms]] by blast
  from inTx_ends [OF e] obtain u where
    "R ((arrive w)\<lparr> in_tx := Some (tick w) \<rparr>) u" "tick u \<le> tick v" "dbs v = dbs (arrive w) \<or> dbs v = dbs u"
    using refl_R runsD [OF assms] by blast
  from ends [OF this(1) env this(2,3)] show "R w (snd (inTx body w))" by (simp add: e)
qed

end

lemma tx_keeps_keeping:
  assumes "db_rel P" shows "tx_keeps (keeping P)"
proof (intro tx_keeps.intro read_keeps.intro db_rel.step_rel_keeping read_keeps_axioms.intro tx_keeps_axioms.intro)
  show "keeping P w (arrive w)" for w
    using db_rel.arrive_keeps [OF assms, of w] by (simp add: keeping_def)
  show "same_env w v" if "keeping P w v" for w v
    using that by (simp add: keeping_def)
  show "keeping P w v" if "keeping P ((arrive w)\<lparr> in_tx := Some (tick w) \<rparr>) u" "same_env w v"
    "dbs v = dbs (arrive w) \<or> dbs v = dbs u" for w u v
    using that db_rel.arrive_keeps [OF assms, of w] 
    by (auto simp: keeping_def others_keep_def intro: db_rel.trans_P [OF assms])
qed (rule assms)

text \<open>The methods that are one statement, and the writes behind a check.\<close>

locale calls_keep = read_keeps R for R :: "world \<Rightarrow> world \<Rightarrow> bool" +
  assumes call_CreateUser: "\<And>email h name. runs R (exec (CreateUser email h name))"
    and call_CreateSession: "\<And>h u t. runs R (exec (CreateSession h u t))"
    and call_DeleteSession: "\<And>h. runs R (exec (DeleteSession h))"
    and call_DeleteExpiredSessions: "runs R (exec DeleteExpiredSessions)"
    and call_UpdateTeamName: "\<And>i name. runs R (exec (UpdateTeamName i name))"
    and call_DeleteTeam: "\<And>i. runs R (exec (DeleteTeam i))"
    and call_CreateInvitation: "\<And>t e u. runs R (exec (CreateInvitation t e u))"
    and call_UpdateInvitationStatus: "\<And>i st. runs R (exec (UpdateInvitationStatus i st))"
    and call_DeleteInvitation: "\<And>i. runs R (exec (DeleteInvitation i))"
    and call_CreateProject: "\<And>t name u. runs R (exec (CreateProject t name u))"
    and call_UpdateProjectName: "\<And>i name. runs R (exec (UpdateProjectName i name))"
    and call_DeleteProject: "\<And>i. runs R (exec (DeleteProject i))"
    and call_BulkUpdateProjectOrder: "\<And>t ids. runs R (exec (BulkUpdateProjectOrder t ids))"
    and call_DeleteFolder: "\<And>i. runs R (exec (DeleteFolder i))"
    and call_CreateEnvironment: "\<And>p name. runs R (exec (CreateEnvironment p name))"
    and call_UpdateEnvironmentName: "\<And>i name. runs R (exec (UpdateEnvironmentName i name))"
    and call_DeleteEnvironment: "\<And>i. runs R (exec (DeleteEnvironment i))"
    and call_CreateVariable: "\<And>e k ty val. runs R (exec (CreateVariable e k ty val))"
    and call_UpdateVariable: "\<And>i ko tyo sv val. runs R (exec (UpdateVariable i ko tyo sv val))"
    and call_DeleteVariable: "\<And>i. runs R (exec (DeleteVariable i))"
    and call_DeleteRequest: "\<And>i. runs R (exec (DeleteRequest i))"
    and call_UpdateWebhookEndpoint: "\<And>i wp. runs R (exec (UpdateWebhookEndpoint i wp))"
    and call_DeleteWebhookEndpoint: "\<And>i. runs R (exec (DeleteWebhookEndpoint i))"
    and call_DeleteWebhookCaptures: "\<And>i. runs R (exec (DeleteWebhookCaptures i))"
    and call_CreateProxy: "\<And>p name ty host port user bypass. runs R (exec (CreateProxy p name ty host port user bypass))"
    and call_UpdateProxy: "\<And>i xp. runs R (exec (UpdateProxy i xp))"
    and call_DeleteProxy: "\<And>i. runs R (exec (DeleteProxy i))"
    and call_CreateRequestExample: "\<And>i name code hs ct content sz. runs R (exec (CreateRequestExample i name code hs ct content sz))"
    and call_UpdateRequestExample: "\<And>i ep. runs R (exec (UpdateRequestExample i ep))"
    and call_DeleteRequestExample: "\<And>i. runs R (exec (DeleteRequestExample i))"
    and call_CreateFolderInProject: "\<And>p k name. runs R (CreateFolderInProject p k name)"
    and call_MoveFolder: "\<And>i k so. runs R (MoveFolder i k so)"
    and call_CreateRequestInProject: "\<And>p k name m url. runs R (CreateRequestInProject p k name m url)"
    and call_MoveRequest: "\<And>i k so. runs R (MoveRequest i k so)"
    and node_update: "\<And>L r. runs R (handleUpdateFolder L r)" "\<And>L r. runs R (handleUpdateRequest L r)"
begin

lemmas single_calls [store_intros] =
  call_CreateUser call_CreateSession call_DeleteSession call_DeleteExpiredSessions
  call_UpdateTeamName call_DeleteTeam call_CreateInvitation call_UpdateInvitationStatus
  call_DeleteInvitation call_CreateProject call_UpdateProjectName call_DeleteProject
  call_BulkUpdateProjectOrder call_DeleteFolder call_CreateEnvironment call_UpdateEnvironmentName
  call_DeleteEnvironment call_CreateVariable call_UpdateVariable call_DeleteVariable
  call_DeleteRequest call_UpdateWebhookEndpoint call_DeleteWebhookEndpoint call_DeleteWebhookCaptures
  call_CreateProxy call_UpdateProxy call_DeleteProxy call_CreateRequestExample
  call_UpdateRequestExample call_DeleteRequestExample call_CreateFolderInProject call_MoveFolder
  call_CreateRequestInProject call_MoveRequest node_update

end

text \<open>The whole interface: those, and the methods that are transactions.\<close>

locale store_keeps = calls_keep R for R :: "world \<Rightarrow> world \<Rightarrow> bool" +
  assumes call_CreateTeamWithOwner: "\<And>name u. runs R (CreateTeamWithOwner name u)"
    and call_RemoveTeamMember: "\<And>t u. runs R (RemoveTeamMember t u)"
    and call_AcceptInvitation: "\<And>i u. runs R (AcceptInvitation i u)"
    and call_ReplaceProjectAccess: "\<And>p ids. runs R (ReplaceProjectAccess p ids)"
    and call_SetMemberProjectAccess: "\<And>t u every ids. runs R (SetMemberProjectAccess t u every ids)"
    and call_ReorderFolders: "\<And>p k ids chk. runs R (ReorderFolders p k ids chk)"
    and call_ReorderRequests: "\<And>p k ids chk. runs R (ReorderRequests p k ids chk)"
    and call_ReorderEnvironments: "\<And>p ids chk. runs R (ReorderEnvironments p ids chk)"
    and call_ReorderVariables: "\<And>i ids chk. runs R (ReorderVariables i ids chk)"
    and call_ReorderProxies: "\<And>p ids chk. runs R (ReorderProxies p ids chk)"
    and call_ReorderRequestExamples: "\<And>i ids chk. runs R (ReorderRequestExamples i ids chk)"
    and call_CreateWebhookEndpointWithQuota: "\<And>p name slug domain u quota. runs R (CreateWebhookEndpointWithQuota p name slug domain u quota)"
    and call_CaptureWebhook: "\<And>cp quota. runs R (CaptureWebhook cp quota)"
begin

lemmas calls [store_intros] =
  call_CreateTeamWithOwner call_RemoveTeamMember call_AcceptInvitation call_ReplaceProjectAccess
  call_SetMemberProjectAccess call_ReorderFolders call_ReorderRequests call_ReorderEnvironments
  call_ReorderVariables call_ReorderProxies call_ReorderRequestExamples call_CreateWebhookEndpointWithQuota
  call_CaptureWebhook

lemma kept_writeTeamDetail [store_intros]: "runs R (writeTeamDetail L team user_id)"
  unfolding writeTeamDetail_def [abs_def] by (intro store_rules store_intros)

lemma kept_handleCreateTeam [store_intros]: "runs R (handleCreateTeam L r)"
  unfolding handleCreateTeam_def [abs_def] by (intro store_rules store_intros)

lemma kept_handleListTeams [store_intros]: "runs R (handleListTeams L r)"
  unfolding handleListTeams_def [abs_def] by (intro store_rules store_intros)

lemma kept_handleGetTeam [store_intros]: "runs R (handleGetTeam L r)"
  unfolding handleGetTeam_def [abs_def] by (intro store_rules store_intros)

lemma kept_handleUpdateTeam [store_intros]: "runs R (handleUpdateTeam L r)"
  unfolding handleUpdateTeam_def [abs_def] by (intro store_rules store_intros)

lemma kept_handleDeleteTeam [store_intros]: "runs R (handleDeleteTeam L r)"
  unfolding handleDeleteTeam_def [abs_def] by (intro store_rules store_intros)

lemma kept_handleDeleteTeamMember [store_intros]: "runs R (handleDeleteTeamMember L r)"
  unfolding handleDeleteTeamMember_def [abs_def] by (intro store_rules store_intros)

lemma kept_handleCreateInvitation [store_intros]: "runs R (handleCreateInvitation L r)"
  unfolding handleCreateInvitation_def [abs_def] by (intro store_rules store_intros)

lemma kept_handleListTeamInvitations [store_intros]: "runs R (handleListTeamInvitations L r)"
  unfolding handleListTeamInvitations_def [abs_def] by (intro store_rules store_intros)

lemma kept_handleListMyInvitations [store_intros]: "runs R (handleListMyInvitations L r)"
  unfolding handleListMyInvitations_def [abs_def] by (intro store_rules store_intros)

lemma kept_pendingInvitationForCaller [store_intros]: "runs R (pendingInvitationForCaller L r)"
  unfolding pendingInvitationForCaller_def [abs_def] by (intro store_rules store_intros)

lemma kept_handleAcceptInvitation [store_intros]: "runs R (handleAcceptInvitation L r)"
  unfolding handleAcceptInvitation_def [abs_def] by (intro store_rules store_intros)

lemma kept_handleRejectInvitation [store_intros]: "runs R (handleRejectInvitation L r)"
  unfolding handleRejectInvitation_def [abs_def] by (intro store_rules store_intros)

lemma kept_handleDeleteInvitation [store_intros]: "runs R (handleDeleteInvitation L r)"
  unfolding handleDeleteInvitation_def [abs_def] by (intro store_rules store_intros)

lemma kept_handleCreateProject [store_intros]: "runs R (handleCreateProject L r)"
  unfolding handleCreateProject_def [abs_def] by (intro store_rules store_intros)

lemma kept_handleListProjects [store_intros]: "runs R (handleListProjects L r)"
  unfolding handleListProjects_def [abs_def] by (intro store_rules store_intros)

lemma kept_handleGetProject [store_intros]: "runs R (handleGetProject L r)"
  unfolding handleGetProject_def [abs_def] by (intro store_rules store_intros)

lemma kept_handleUpdateProject [store_intros]: "runs R (handleUpdateProject L r)"
  unfolding handleUpdateProject_def [abs_def] by (intro store_rules store_intros)

lemma kept_handleDeleteProject [store_intros]: "runs R (handleDeleteProject L r)"
  unfolding handleDeleteProject_def [abs_def] by (intro store_rules store_intros)

lemma kept_handleReorderProjects [store_intros]: "runs R (handleReorderProjects L r)"
  unfolding handleReorderProjects_def [abs_def] by (intro store_rules store_intros)

lemma kept_handleSetProjectAccess [store_intros]: "runs R (handleSetProjectAccess L r)"
  unfolding handleSetProjectAccess_def [abs_def] by (intro store_rules store_intros)

lemma kept_handleListProjectAccess [store_intros]: "runs R (handleListProjectAccess L r)"
  unfolding handleListProjectAccess_def [abs_def] by (intro store_rules store_intros)

lemma kept_handleSetMemberAccess [store_intros]: "runs R (handleSetMemberAccess L r)"
  unfolding handleSetMemberAccess_def [abs_def] by (intro store_rules store_intros)

lemma kept_handleCreateFolder [store_intros]: "runs R (handleCreateFolder L r)"
  unfolding handleCreateFolder_def [abs_def] by (intro store_rules store_intros)

lemma kept_handleListFolders [store_intros]: "runs R (handleListFolders L r)"
  unfolding handleListFolders_def [abs_def] by (intro store_rules store_intros)

lemma kept_handleMoveFolder [store_intros]: "runs R (handleMoveFolder L r)"
  unfolding handleMoveFolder_def [abs_def] by (intro store_rules store_intros)

lemma kept_handleReorderFolders [store_intros]: "runs R (handleReorderFolders L r)"
  unfolding handleReorderFolders_def [abs_def] by (intro store_rules store_intros)

lemma kept_handleDeleteFolder [store_intros]: "runs R (handleDeleteFolder L r)"
  unfolding handleDeleteFolder_def [abs_def] by (intro store_rules store_intros)

lemma kept_handleCreateEnvironment [store_intros]: "runs R (handleCreateEnvironment L r)"
  unfolding handleCreateEnvironment_def [abs_def] by (intro store_rules store_intros)

lemma kept_handleListEnvironments [store_intros]: "runs R (handleListEnvironments L r)"
  unfolding handleListEnvironments_def [abs_def] by (intro store_rules store_intros)

lemma kept_handleUpdateEnvironment [store_intros]: "runs R (handleUpdateEnvironment L r)"
  unfolding handleUpdateEnvironment_def [abs_def] by (intro store_rules store_intros)

lemma kept_handleDeleteEnvironment [store_intros]: "runs R (handleDeleteEnvironment L r)"
  unfolding handleDeleteEnvironment_def [abs_def] by (intro store_rules store_intros)

lemma kept_handleReorderEnvironments [store_intros]: "runs R (handleReorderEnvironments L r)"
  unfolding handleReorderEnvironments_def [abs_def] by (intro store_rules store_intros)

lemma kept_handleCreateVariable [store_intros]: "runs R (handleCreateVariable L r)"
  unfolding handleCreateVariable_def [abs_def] by (intro store_rules store_intros)

lemma kept_handleListVariables [store_intros]: "runs R (handleListVariables L r)"
  unfolding handleListVariables_def [abs_def] by (intro store_rules store_intros)

lemma kept_handleUpdateVariable [store_intros]: "runs R (handleUpdateVariable L r)"
  unfolding handleUpdateVariable_def [abs_def] by (intro store_rules store_intros)

lemma kept_handleDeleteVariable [store_intros]: "runs R (handleDeleteVariable L r)"
  unfolding handleDeleteVariable_def [abs_def] by (intro store_rules store_intros)

lemma kept_handleReorderVariables [store_intros]: "runs R (handleReorderVariables L r)"
  unfolding handleReorderVariables_def [abs_def] by (intro store_rules store_intros)

lemma kept_handleCreateRequest [store_intros]: "runs R (handleCreateRequest L r)"
  unfolding handleCreateRequest_def [abs_def] by (intro store_rules store_intros)

lemma kept_handleListRequests [store_intros]: "runs R (handleListRequests L r)"
  unfolding handleListRequests_def [abs_def] by (intro store_rules store_intros)

lemma kept_handleGetRequest [store_intros]: "runs R (handleGetRequest L r)"
  unfolding handleGetRequest_def [abs_def] by (intro store_rules store_intros)

lemma kept_handleMoveRequest [store_intros]: "runs R (handleMoveRequest L r)"
  unfolding handleMoveRequest_def [abs_def] by (intro store_rules store_intros)

lemma kept_handleReorderRequests [store_intros]: "runs R (handleReorderRequests L r)"
  unfolding handleReorderRequests_def [abs_def] by (intro store_rules store_intros)

lemma kept_handleDeleteRequest [store_intros]: "runs R (handleDeleteRequest L r)"
  unfolding handleDeleteRequest_def [abs_def] by (intro store_rules store_intros)

lemma kept_proxyFromPath [store_intros]: "runs R (proxyFromPath L r)"
  unfolding proxyFromPath_def [abs_def] by (intro store_rules store_intros)

lemma kept_handleCreateProxy [store_intros]: "runs R (handleCreateProxy L r)"
  unfolding handleCreateProxy_def [abs_def] by (intro store_rules store_intros)

lemma kept_handleListProxies [store_intros]: "runs R (handleListProxies L r)"
  unfolding handleListProxies_def [abs_def] by (intro store_rules store_intros)

lemma kept_handleGetProxy [store_intros]: "runs R (handleGetProxy L r)"
  unfolding handleGetProxy_def [abs_def] by (intro store_rules store_intros)

lemma kept_handleUpdateProxy [store_intros]: "runs R (handleUpdateProxy L r)"
  unfolding handleUpdateProxy_def [abs_def] by (intro store_rules store_intros)

lemma kept_handleDeleteProxy [store_intros]: "runs R (handleDeleteProxy L r)"
  unfolding handleDeleteProxy_def [abs_def] by (intro store_rules store_intros)

lemma kept_handleReorderProxies [store_intros]: "runs R (handleReorderProxies L r)"
  unfolding handleReorderProxies_def [abs_def] by (intro store_rules store_intros)

lemma kept_exampleFromPath [store_intros]: "runs R (exampleFromPath L r)"
  unfolding exampleFromPath_def [abs_def] by (intro store_rules store_intros)

lemma kept_handleCreateExample [store_intros]: "runs R (handleCreateExample L r)"
  unfolding handleCreateExample_def [abs_def] by (intro store_rules store_intros)

lemma kept_handleListExamples [store_intros]: "runs R (handleListExamples L r)"
  unfolding handleListExamples_def [abs_def] by (intro store_rules store_intros)

lemma kept_handleGetExample [store_intros]: "runs R (handleGetExample L r)"
  unfolding handleGetExample_def [abs_def] by (intro store_rules store_intros)

lemma kept_handleUpdateExample [store_intros]: "runs R (handleUpdateExample L r)"
  unfolding handleUpdateExample_def [abs_def] by (intro store_rules store_intros)

lemma kept_handleDeleteExample [store_intros]: "runs R (handleDeleteExample L r)"
  unfolding handleDeleteExample_def [abs_def] by (intro store_rules store_intros)

lemma kept_handleReorderExamples [store_intros]: "runs R (handleReorderExamples L r)"
  unfolding handleReorderExamples_def [abs_def] by (intro store_rules store_intros)

lemma kept_webhookFromPath [store_intros]: "runs R (webhookFromPath L r)"
  unfolding webhookFromPath_def [abs_def] by (intro store_rules store_intros)

lemma kept_handleMeta [store_intros]: "runs R (handleMeta domains r)"
  unfolding handleMeta_def [abs_def] by (intro store_rules store_intros)

lemma kept_handleListWebhooks [store_intros]: "runs R (handleListWebhooks L r)"
  unfolding handleListWebhooks_def [abs_def] by (intro store_rules store_intros)

lemma kept_handleGetWebhook [store_intros]: "runs R (handleGetWebhook L r)"
  unfolding handleGetWebhook_def [abs_def] by (intro store_rules store_intros)

lemma kept_handleUpdateWebhook [store_intros]: "runs R (handleUpdateWebhook L domains r)"
  unfolding handleUpdateWebhook_def [abs_def] by (intro store_rules store_intros)

lemma kept_handleDeleteWebhook [store_intros]: "runs R (handleDeleteWebhook L r)"
  unfolding handleDeleteWebhook_def [abs_def] by (intro store_rules store_intros)

lemma kept_handleListCaptures [store_intros]: "runs R (handleListCaptures L r)"
  unfolding handleListCaptures_def [abs_def] by (intro store_rules store_intros)

lemma kept_handleGetCapture [store_intros]: "runs R (handleGetCapture L r)"
  unfolding handleGetCapture_def [abs_def] by (intro store_rules store_intros)

lemma kept_handleClearCaptures [store_intros]: "runs R (handleClearCaptures L r)"
  unfolding handleClearCaptures_def [abs_def] by (intro store_rules store_intros)

lemma kept_issueSession [store_intros]: "runs R (issueSession L token_read tm user_id)"
  unfolding issueSession_def [abs_def] by (intro store_rules store_intros)

lemma kept_handleRegister [store_intros]: "runs R (handleRegister L K salt_read token_read tm r)"
  unfolding handleRegister_def [abs_def] by (intro store_rules store_intros)

lemma kept_handleLogout [store_intros]: "runs R (handleLogout L r)"
  unfolding handleLogout_def [abs_def] by (intro store_rules store_intros)

lemma kept_handleMe [store_intros]: "runs R (handleMe L r)"
  unfolding handleMe_def [abs_def] by (intro store_rules store_intros)

lemma kept_handleLogin [store_intros]: "runs R (handleLogin L K token_read tm r)"
  unfolding handleLogin_def [abs_def] by (intro store_rules store_intros)

text \<open>Operations with another result.\<close>

lemma kept_sweep: "R w (deleteExpiredSessionsOnce w)"
  using call_DeleteExpiredSessions by (simp add: deleteExpiredSessionsOnce_def runs_def)

lemma kept_lookup: "runs R (exec (GetWebhookEndpointBySlug slug))"
  by (intro store_rules)

lemma kept_handleCapture:
  assumes "handleCapture L I domains tm r lm w = (resp, lm', v)" shows "R w v"
  using assms unfolding handleCapture_def
  by (auto split: prod.splits if_splits sum.splits simp: refl_R
    dest!: runsD [OF kept_lookup] runsD [OF call_CaptureWebhook] elim: trans_R)

lemma kept_create_attempts:
  "create_attempts L rnd p name dm u k n w = Some (resp, v) \<Longrightarrow> R w v"
proof (induction L rnd p name dm u k n w rule: create_attempts.induct)
  case (1 L rnd p name dm u k n w)
  show ?case
  proof (cases "newWebhookSlug rnd n")
    case (Some slug)
    obtain s m where sm: "slug = (s, m)" by fastforce
    show ?thesis
    proof (cases s)
      case (Inl err)
      with Some sm "1.prems" show ?thesis by (simp add: create_attempts.simps [of L] refl_R)
    next
      case (Inr chosen)
      obtain x u' where x: "CreateWebhookEndpointWithQuota p name chosen dm u maxWebhooksPerProject w = (x, u')"
        by fastforce
      from runsD [OF call_CreateWebhookEndpointWithQuota this] have first: "R w u'" .
      note step = create_attempts.simps [of L rnd p name dm u k n w, unfolded Some sm Inr option.case prod.case sum.case x]
      show ?thesis
      proof (cases x)
        case (Inl err)
        show ?thesis
        proof (cases "\<not> errors_is err ErrWebhookQuota \<and> IsWebhookSlugCollision err \<and> k < slugAttempts")
          case True
          with "1.prems" step Inl have "create_attempts L rnd p name dm u (Suc k) m u' = Some (resp, v)" by simp
          with "1.IH" Some sm \<open>s = Inr chosen\<close> x [symmetric] Inl True have "R u' v" by simp
          with first show ?thesis by (rule trans_R)
        next
          case False
          with "1.prems" step Inl first show ?thesis by (auto split: if_splits)
        qed
      qed (use "1.prems" step first in simp)
    qed
  qed (use "1.prems" in \<open>simp add: create_attempts.simps [of L]\<close>)
qed

lemma kept_handleCreateWebhook: "opt_runs R (handleCreateWebhook L rnd domains r)"
  unfolding opt_runs_def handleCreateWebhook_def
  by (auto split: option.splits sum.splits prod.splits if_splits simp: refl_R
    dest!: runsD [OF kept_RequireProjectAccess] kept_create_attempts elim: trans_R)

end

text \<open>
  A transaction keeps what its statements keep, if the transaction brackets do. What is left of a
  proof that a relation is kept is a law per statement.
\<close>

locale statements_keep = calls_keep R + tx_keeps R for R :: "world \<Rightarrow> world \<Rightarrow> bool" +
  assumes run_CreateTeam: "\<And>name u. runs R (exec (CreateTeam name u))"
    and run_CreateTeamMember: "\<And>t u every. runs R (exec (CreateTeamMember t u every))"
    and run_CreateTeamMemberIfAbsent: "\<And>t u. runs R (exec (CreateTeamMemberIfAbsent t u))"
    and run_DeleteTeamMember: "\<And>t u. runs R (exec (DeleteTeamMember t u))"
    and run_UpdateMemberAllProjects: "\<And>t u every. runs R (exec (UpdateMemberAllProjects t u every))"
    and run_DeleteAllProjectAccess: "\<And>i. runs R (exec (DeleteAllProjectAccess i))"
    and run_DeleteAllUserAccessInTeam: "\<And>u t. runs R (exec (DeleteAllUserAccessInTeam u t))"
    and run_GrantProjectAccess: "\<And>p us. runs R (exec (GrantProjectAccess p us))"
    and run_GrantUserProjectAccess: "\<And>ps u. runs R (exec (GrantUserProjectAccess ps u))"
    and run_BulkUpdateFolderOrder: "\<And>p k ids. runs R (exec (BulkUpdateFolderOrder p k ids))"
    and run_BulkUpdateRequestOrder: "\<And>p k ids. runs R (exec (BulkUpdateRequestOrder p k ids))"
    and run_BulkUpdateEnvironmentOrder: "\<And>p ids. runs R (exec (BulkUpdateEnvironmentOrder p ids))"
    and run_BulkUpdateVariableOrder: "\<And>e ids. runs R (exec (BulkUpdateVariableOrder e ids))"
    and run_BulkUpdateProxyOrder: "\<And>p ids. runs R (exec (BulkUpdateProxyOrder p ids))"
    and run_BulkUpdateRequestExampleOrder: "\<And>i ids. runs R (exec (BulkUpdateRequestExampleOrder i ids))"
    and run_CreateWebhookEndpoint: "\<And>p name slug domain u. runs R (exec (CreateWebhookEndpoint p name slug domain u))"
    and run_InsertWebhookCapture: "\<And>cp. runs R (exec (InsertWebhookCapture cp))"
    and run_PruneWebhookCaptures: "\<And>i n. runs R (exec (PruneWebhookCaptures i n))"
begin

lemmas inner_calls [store_intros] =
  run_CreateTeam run_CreateTeamMember run_CreateTeamMemberIfAbsent run_DeleteTeamMember
  run_UpdateMemberAllProjects run_DeleteAllProjectAccess run_DeleteAllUserAccessInTeam run_GrantProjectAccess
  run_GrantUserProjectAccess run_BulkUpdateFolderOrder run_BulkUpdateRequestOrder run_BulkUpdateEnvironmentOrder
  run_BulkUpdateVariableOrder run_BulkUpdateProxyOrder run_BulkUpdateRequestExampleOrder run_CreateWebhookEndpoint
  run_InsertWebhookCapture run_PruneWebhookCaptures

lemma keeps_check_then_write [store_intros]:
  assumes "runs R (exec current)" "runs R (exec bulk)"
  shows "runs R (check_then_write current a check bulk b)"
  unfolding check_then_write_def [abs_def] by (intro store_rules assms)

lemma keeps_create_team_tx [store_intros]: "runs R (create_team_tx name owner_id)"
  unfolding create_team_tx_def [abs_def] by (intro store_rules brackets store_intros)

lemma keeps_CreateTeamWithOwner [store_intros]: "runs R (CreateTeamWithOwner name owner_id)"
  unfolding CreateTeamWithOwner_def by (intro store_rules brackets store_intros)

lemma keeps_remove_member_tx [store_intros]: "runs R (remove_member_tx team_id user_id)"
  unfolding remove_member_tx_def [abs_def] by (intro store_rules brackets store_intros)

lemma keeps_RemoveTeamMember [store_intros]: "runs R (RemoveTeamMember team_id user_id)"
  unfolding RemoveTeamMember_def by (intro store_rules brackets store_intros)

lemma keeps_accept_tx [store_intros]: "runs R (accept_tx invitation_id user_id)"
  unfolding accept_tx_def [abs_def] by (intro store_rules brackets store_intros)

lemma keeps_AcceptInvitation [store_intros]: "runs R (AcceptInvitation invitation_id user_id)"
  unfolding AcceptInvitation_def by (intro store_rules brackets store_intros)

lemma keeps_replace_access_tx [store_intros]: "runs R (replace_access_tx project_id user_ids)"
  unfolding replace_access_tx_def [abs_def] by (intro store_rules brackets store_intros)

lemma keeps_ReplaceProjectAccess [store_intros]: "runs R (ReplaceProjectAccess project_id user_ids)"
  unfolding ReplaceProjectAccess_def by (intro store_rules brackets store_intros)

lemma keeps_member_access_tx [store_intros]: "runs R (member_access_tx team_id user_id all_projects project_ids)"
  unfolding member_access_tx_def [abs_def] by (intro store_rules brackets store_intros)

lemma keeps_SetMemberProjectAccess [store_intros]: "runs R (SetMemberProjectAccess team_id user_id all_projects project_ids)"
  unfolding SetMemberProjectAccess_def by (intro store_rules brackets store_intros)

lemma keeps_requireFolderInProject [store_intros]: "runs R (requireFolderInProject folder_id project_id not_in_project)"
  unfolding requireFolderInProject_def [abs_def] by (intro store_rules brackets store_intros)

lemma keeps_reorder_folders_tx [store_intros]: "runs R (reorder_folders_tx project_id parent_id folder_ids checkSiblings)"
  unfolding reorder_folders_tx_def [abs_def] by (intro store_rules brackets store_intros)

lemma keeps_ReorderFolders [store_intros]: "runs R (ReorderFolders project_id parent_id folder_ids checkSiblings)"
  unfolding ReorderFolders_def by (intro store_rules brackets store_intros)

lemma keeps_ReorderEnvironments [store_intros]: "runs R (ReorderEnvironments project_id environment_ids check)"
  unfolding ReorderEnvironments_def by (intro store_rules brackets store_intros)

lemma keeps_ReorderVariables [store_intros]: "runs R (ReorderVariables environment_id variable_ids check)"
  unfolding ReorderVariables_def by (intro store_rules brackets store_intros)

lemma keeps_require_request_folder [store_intros]: "runs R (require_request_folder folder_id project_id)"
  unfolding require_request_folder_def [abs_def] by (intro store_rules brackets store_intros)

lemma keeps_reorder_requests_tx [store_intros]: "runs R (reorder_requests_tx project_id folder_id request_ids checkSiblings)"
  unfolding reorder_requests_tx_def [abs_def] by (intro store_rules brackets store_intros)

lemma keeps_ReorderRequests [store_intros]: "runs R (ReorderRequests project_id folder_id request_ids checkSiblings)"
  unfolding ReorderRequests_def by (intro store_rules brackets store_intros)

lemma keeps_ReorderProxies [store_intros]: "runs R (ReorderProxies project_id proxy_ids check)"
  unfolding ReorderProxies_def by (intro store_rules brackets store_intros)

lemma keeps_ReorderRequestExamples [store_intros]: "runs R (ReorderRequestExamples request_id example_ids check)"
  unfolding ReorderRequestExamples_def by (intro store_rules brackets store_intros)

lemma keeps_create_endpoint_tx [store_intros]: "runs R (create_endpoint_tx project_id name slug domain created_by max_endpoints)"
  unfolding create_endpoint_tx_def [abs_def] by (intro store_rules brackets store_intros)

lemma keeps_CreateWebhookEndpointWithQuota [store_intros]: "runs R (CreateWebhookEndpointWithQuota project_id name slug domain created_by max_endpoints)"
  unfolding CreateWebhookEndpointWithQuota_def by (intro store_rules brackets store_intros)

lemma keeps_capture_tx [store_intros]: "runs R (capture_tx p keep)"
  unfolding capture_tx_def [abs_def] by (intro store_rules brackets store_intros)

lemma keeps_CaptureWebhook [store_intros]: "runs R (CaptureWebhook p keep)"
  unfolding CaptureWebhook_def by (intro store_rules brackets store_intros)

end

sublocale statements_keep \<subseteq> store_keeps
  by unfold_locales (intro store_intros)+

end
