(* ===== verification/ServiceRuns.thy ===== *)
theory ServiceRuns
  imports Service StoreInterface
begin

text \<open>
  What the routes, the middleware and the host switch add to the contract of the store: a relation
  every store method keeps is kept by every request, by the sweep of expired sessions, and so between
  a state of the server and all states reachable from it.
\<close>

lemma find_route_in:
  "find_route verb segs rs = Some (vals, t) \<Longrightarrow> \<exists>p. (p, t) \<in> set rs \<and> match_route verb segs p = Some vals"
  by (induction rs rule: find_route.induct) (auto split: option.splits)

lemma find_route_nth:
  "k < length rs \<Longrightarrow> list_all (\<lambda>e. match_route verb segs (fst e) = None) (take k rs) \<Longrightarrow>
     match_route verb segs (fst (rs ! k)) = Some vals \<Longrightarrow> find_route verb segs rs = Some (vals, snd (rs ! k))"
  by (induction verb segs rs arbitrary: k rule: find_route.induct; case_tac k) auto

text \<open>What the entries of the table are, kind by kind.\<close>

definition harmless :: "(world \<Rightarrow> world \<Rightarrow> bool) \<Rightarrow> (http_request \<Rightarrow> world \<Rightarrow> response \<times> world) \<Rightarrow> bool" where
  "harmless R h \<longleftrightarrow> (\<forall>r. runs unchanged (h r) \<and> runs R (h r))"

definition registered :: "(world \<Rightarrow> world \<Rightarrow> bool) \<Rightarrow> string \<times> target \<Rightarrow> bool" where
  "registered R e = (case snd e of
     Public h \<Rightarrow> harmless R h
   | Registering \<Rightarrow> fst e = ''POST /api/v1/auth/register''
   | LoggingIn \<Rightarrow> fst e = ''POST /api/v1/auth/login''
   | Authed h \<Rightarrow> \<forall>r. opt_runs R (h r))"

lemma opt_runs_returning [intro]: "runs R (h r) \<Longrightarrow> opt_runs R (returning h r)"
  by (auto simp: opt_runs_def returning_def dest: runsD)

lemma api_handler_cases:
  assumes "api_handler S A r sv = Some (resp, sv')"
  obtains "sv' = sv" | resp' where "serve_mux S A r sv = Some (resp', sv')"
  using assms unfolding api_handler_def withCORS_def limitRequestBody_def
  by (auto split: if_splits option.splits)

context store_keeps
begin

lemma harmless_handlers [simp]:
  "harmless R (handleHealthz v)" "harmless R handleHello" "harmless R (handleMeta ds)" "harmless R handleNotFound"
proof -
  have "readonly ping" by (simp add: ping_def readonly_reading)
  then show "harmless R (handleHealthz v)" unfolding harmless_def handleHealthz_def [abs_def]
    by (intro allI conjI; intro unchanged_rules store_rules) simp_all
  show "harmless R handleHello" "harmless R (handleMeta ds)" "harmless R handleNotFound"
    by (simp_all add: harmless_def handleHello_def [abs_def] handleMeta_def [abs_def] handleNotFound_def [abs_def]
      runs_def unch.refl_R refl_R)
qed

lemma routes_registered: "list_all (registered R) (routes S A)"
  unfolding routes_def Let_def registered_def
  by (simp add: store_intros kept_handleCreateWebhook opt_runs_returning)

lemma run_target_keeps:
  assumes "registered R (p, t)" "run_target S A r vals t sv = Some (resp, sv')"
  shows "R (sv_world sv) (sv_world sv')"
proof (cases t)
  case (Public h)
  with assms(1) have "runs R (h q)" for q by (simp add: registered_def harmless_def)
  from runsD [OF this] assms(2) Public show ?thesis
    by (auto simp: run_target_def Let_def split: prod.splits)
next
  case Registering
  with assms(2) show ?thesis
    by (auto simp: run_target_def Let_def rateLimitByIP_def refl_R split: prod.splits if_splits
      dest: runsD [OF kept_handleRegister])
next
  case LoggingIn
  with assms(2) show ?thesis
    by (auto simp: run_target_def Let_def rateLimitByIP_def refl_R split: prod.splits if_splits
      dest: runsD [OF kept_handleLogin])
next
  case (Authed h)
  with assms(1) have "opt_runs R (h q)" for q by (simp add: registered_def)
  then have h: "h q w = Some (x, v) \<Longrightarrow> R w v" for q w x v by (auto simp: opt_runs_def)
  from assms(2) Authed show ?thesis
    by (auto simp: run_target_def Let_def requireAuth_def split: prod.splits option.splits sum.splits
      dest!: runsD [OF kept_authenticate] h elim: trans_R)
qed

lemma serve_mux_cases:
  assumes "serve_mux S A r sv = Some (resp, sv')"
  obtains (same) "sv' = sv"
  | (routed) p t vals where "registered R (p, t)" "run_target S A r vals t sv = Some (resp, sv')"
      "match_route (cr_method r) (path_segments (cr_path r)) p = Some vals \<or> t = Public handleNotFound \<and> p = []"
proof (cases "cleanPath (cr_path r) = cr_path r")
  case True
  show ?thesis
  proof (cases "find_route (cr_method r) (path_segments (cr_path r)) (routes S A)")
    case None
    with assms True show ?thesis
      by (intro routed [of "[]" "Public handleNotFound" "[]"]) (auto simp: serve_mux_def Let_def registered_def)
  next
    case (Some x)
    obtain vals t where x: "x = (vals, t)" by fastforce
    with find_route_in Some obtain p where
      p: "(p, t) \<in> set (routes S A)" "match_route (cr_method r) (path_segments (cr_path r)) p = Some vals" by blast
    then have "registered R (p, t)" using routes_registered [of S A] by (simp add: list_all_iff)
    with p(2) assms True Some x show ?thesis by (intro routed [of p t vals]) (auto simp: serve_mux_def Let_def)
  qed
qed (use assms in \<open>auto simp: serve_mux_def Let_def intro: same\<close>)

lemma server_step_keeps: "server_step S sv sv' \<Longrightarrow> R (sv_world sv) (sv_world sv')"
proof (erule server_stepE)
  fix A r resp assume "withCapture S A r sv = Some (resp, sv')"
  then consider "capture_handler S A r sv = Some (resp, sv')" | "api_handler S A r sv = Some (resp, sv')"
    by (auto simp: withCapture_def split: if_splits)
  then show ?thesis
  proof cases
    case 1
    then show ?thesis by (auto simp: capture_handler_def split: prod.splits intro: kept_handleCapture)
  next
    case 2
    then show ?thesis
      by (rule api_handler_cases) (auto simp: refl_R elim!: serve_mux_cases dest: run_target_keeps)
  qed
qed (simp add: kept_sweep)

lemma reachable_keeps: "reachable S sv sv' \<Longrightarrow> R (sv_world sv) (sv_world sv')"
  unfolding reachable_def
  by (induction rule: rtranclp_induct) (auto simp: refl_R intro: trans_R server_step_keeps)

end

end
