(* ===== verification/Kept.thy ===== *)
theory Kept
  imports Wellformed ServiceRuns
begin

text \<open>
  The store meets its contract for the schema: every transaction and every query of
  \<^verbatim>\<open>internal/db\<close> keeps what the migrations declare, so that every handler does.
\<close>

named_theorems schema_intros \<open>operations that keep the schema\<close>

interpretation schema_reads: tx_keeps "keeping keeps_ok"
  by (rule tx_keeps_keeping [OF schema.db_rel_axioms])

lemmas [schema_intros] = schema_reads.kept_requireProxyInProject schema_reads.kept_RequireFolderAccess
  schema_reads.kept_RequireRequestAccess schema_reads.kept_writeRequestDetail

lemma schema_requireFolderInProject [schema_intros]: "keeps_schema (requireFolderInProject folder_id project_id not_in_project)"
  unfolding requireFolderInProject_def [abs_def] by (intro kept_rules schema_intros)

lemma schema_CreateFolderInProject [schema_intros]: "keeps_schema (CreateFolderInProject project_id parent_id name)"
  unfolding CreateFolderInProject_def [abs_def] by (intro kept_rules schema_intros)

lemma schema_check_new_parent [schema_intros]: "keeps_schema (check_new_parent i parent_id project_id)"
  unfolding check_new_parent_def [abs_def] by (intro kept_rules schema_intros)

lemma schema_move_folder_tx [schema_intros]: "keeps_schema (move_folder_tx i parent_id sort_order)"
  unfolding move_folder_tx_def [abs_def] by (intro kept_rules schema_intros)

lemma schema_MoveFolder [schema_intros]: "keeps_schema (MoveFolder i parent_id sort_order)"
  unfolding MoveFolder_def by (intro kept_rules schema_intros)

lemma schema_require_request_folder [schema_intros]: "keeps_schema (require_request_folder folder_id project_id)"
  unfolding require_request_folder_def [abs_def] by (intro kept_rules schema_intros)

lemma schema_CreateRequestInProject [schema_intros]: "keeps_schema (CreateRequestInProject project_id folder_id name rmethod url)"
  unfolding CreateRequestInProject_def [abs_def] by (intro kept_rules schema_intros)

lemma schema_move_request_tx [schema_intros]: "keeps_schema (move_request_tx i folder_id sort_order)"
  unfolding move_request_tx_def [abs_def] by (intro kept_rules schema_intros)

lemma schema_MoveRequest [schema_intros]: "keeps_schema (MoveRequest i folder_id sort_order)"
  unfolding MoveRequest_def by (intro kept_rules schema_intros)

lemma schema_handleUpdateFolder [schema_intros]: "keeps_schema (handleUpdateFolder L r)"
  unfolding handleUpdateFolder_def [abs_def] by (intro kept_rules schema_intros)

lemma schema_handleUpdateRequest [schema_intros]: "keeps_schema (handleUpdateRequest L r)"
  unfolding handleUpdateRequest_def [abs_def] by (intro kept_rules schema_intros)

interpretation schema_store: statements_keep "keeping keeps_ok"
  by unfold_locales (intro kept_rules schema_intros)+

end
