(* ===== verification/Answered.thy ===== *)
theory Answered
  imports Kept
begin

text \<open>
  An invitation that was accepted stays answered: no run of the server reopens it. The one statement
  that writes a status is guarded on a pending row, new rows get new ids, and everything else leaves
  \<^verbatim>\<open>team_invitations\<close> alone or deletes from it. Hence what the three handlers of one
  invitation answer from then on.
\<close>

section \<open>The relation\<close>

text \<open>Accepted, or gone with its team.\<close>

definition accepted :: "uuid \<Rightarrow> db \<Rightarrow> bool" where
  "accepted i d \<longleftrightarrow> (\<forall>x \<in> set (team_invitations d). i_id x = i \<longrightarrow> i_status x = InvitationAccepted)"

definition stays_accepted :: "uuid \<Rightarrow> world \<Rightarrow> world \<Rightarrow> bool" where
  "stays_accepted i w v \<longleftrightarrow> same_env w v \<and> tick w \<le> tick v \<and>
     (isolated w \<longrightarrow> (\<forall>n \<ge> tick w. gen_uuid w n \<noteq> i) \<longrightarrow> accepted i (dbs w) \<longrightarrow> accepted i (dbs v))"

lemma accepted_fewer:
  "accepted i d \<Longrightarrow> set (team_invitations e) \<subseteq> set (team_invitations d) \<Longrightarrow> accepted i e"
  by (auto simp: accepted_def)

lemma accepted_not_pending: "accepted i d \<Longrightarrow> pending i d = None"
  by (auto simp: accepted_def pending_def find_row_None)

interpretation answered_runs: step_rel "stays_accepted i" for i
proof
  show "stays_accepted i u w" if "stays_accepted i u v" "stays_accepted i v w" for u v w
    using that same_env_isolated [of u v]
    by (auto simp: stays_accepted_def same_env_def)
qed (simp add: stays_accepted_def)

interpretation answered_tx: tx_keeps "stays_accepted i" for i
proof
  show "stays_accepted i w (arrive w)" for w
    by (simp add: stays_accepted_def arrive_isolated)
  show "same_env w v" if "stays_accepted i w v" for w v
    using that by (simp add: stays_accepted_def)
  show "stays_accepted i w v" if "stays_accepted i ((arrive w)\<lparr> in_tx := Some (tick w) \<rparr>) u" "same_env w v"
    "tick u \<le> tick v" "dbs v = dbs (arrive w) \<or> dbs v = dbs u" for w u v
    using that same_env_isolated [of w "arrive w"]
    by (auto simp: stays_accepted_def arrive_isolated dest: Suc_leD)
qed

section \<open>Statements\<close>

named_theorems answered_intros \<open>what leaves an accepted invitation accepted\<close>

lemma answered_exec:
  assumes "\<And>s d x d'. new_id s \<noteq> i \<Longrightarrow> accepted i d \<Longrightarrow> q s d = Inr (x, d') \<Longrightarrow> accepted i d'"
  shows "runs (stays_accepted i) (exec q)"
  unfolding runs_def
proof
  fix w
  obtain r v where e: "exec q w = (r, v)" by fastforce
  have "tick v = Suc (tick w)"
    using e by (auto simp: exec_def Let_def split: outcome.splits sum.splits prod.splits)
  moreover have "accepted i (dbs v)"
    if w: "isolated w" "\<forall>n \<ge> tick w. gen_uuid w n \<noteq> i" "accepted i (dbs w)"
  proof -
    have a: "dbs (arrive w) = dbs w" "new_id (stamp_of w) \<noteq> i"
      using w by (simp_all add: arrive_isolated stamp_of_def)
    with w(3) exec_failed [of q w _ v] exec_result [of q w _ v] assms [of "stamp_of w" "dbs w" _ "dbs v"] e
    show ?thesis by (cases r) auto
  qed
  ultimately show "stays_accepted i w (snd (exec q w))"
    using exec_env [OF e] by (simp add: stays_accepted_def e)
qed

definition fewer_invitations :: "db \<Rightarrow> db \<Rightarrow> bool" where
  "fewer_invitations d e \<longleftrightarrow> set (team_invitations e) \<subseteq> set (team_invitations d)"

lemma answered_fewer [answered_intros]:
  "preserves fewer_invitations q \<Longrightarrow> runs (stays_accepted i) (exec q)"
  by (rule answered_exec) (unfold preserves_def fewer_invitations_def, blast intro: accepted_fewer)

lemma answered_CreateInvitation [answered_intros]: "runs (stays_accepted i) (exec (CreateInvitation t email u))"
  by (rule answered_exec) (auto simp: CreateInvitation_def accepted_def stmt_simps Let_def split: if_splits)

lemma answered_UpdateInvitationStatus [answered_intros]:
  "runs (stays_accepted i) (exec (UpdateInvitationStatus k status))"
proof (rule answered_exec)
  fix s d x d'
  assume a: "accepted i d" and u: "UpdateInvitationStatus k status s d = Inr (x, d')"
  from answer_status_Inr [OF u] obtain p where p: "pending k d = Some p" "d' = answer k status (now s) d" by blast
  with a accepted_not_pending [OF a] have "k \<noteq> i" by auto
  with a show "accepted i d'"
    unfolding p(2) by (auto simp: accepted_def answer_def update_rows_def)
qed

lemma fewerI: "(\<And>s d x d'. q s d = Inr (x, d') \<Longrightarrow> fewer_invitations d d') \<Longrightarrow> preserves fewer_invitations q"
  by (auto simp: preserves_def)

lemma fewer_users [answered_intros]:
  "preserves fewer_invitations (CreateUser email h name)"
  "preserves fewer_invitations (CreateSession h u t)"
  "preserves fewer_invitations (DeleteSession h)"
  "preserves fewer_invitations DeleteExpiredSessions"
  by (auto intro!: fewerI simp: fewer_invitations_def CreateUser_def CreateSession_def DeleteSession_def DeleteExpiredSessions_def
    stmt_simps split: option.splits if_splits)

lemma fewer_teams [answered_intros]:
  "preserves fewer_invitations (CreateTeam name u)"
  "preserves fewer_invitations (UpdateTeamName i name)"
  "preserves fewer_invitations (CreateTeamMember t u a)"
  "preserves fewer_invitations (CreateTeamMemberIfAbsent t u)"
  "preserves fewer_invitations (DeleteTeamMember t u)"
  "preserves fewer_invitations (UpdateMemberAllProjects t u a)"
  "preserves fewer_invitations (DeleteInvitation i)"
  by (auto intro!: fewerI simp: fewer_invitations_def CreateTeam_def UpdateTeamName_def CreateTeamMember_def
    CreateTeamMemberIfAbsent_def DeleteTeamMember_def UpdateMemberAllProjects_def DeleteInvitation_def set_delete_rows
    stmt_simps split: option.splits if_splits)

lemma fewer_projects [answered_intros]:
  "preserves fewer_invitations (CreateProject t name u)"
  "preserves fewer_invitations (UpdateProjectName i name)"
  "preserves fewer_invitations (BulkUpdateProjectOrder t ids)"
  "preserves fewer_invitations (DeleteAllProjectAccess i)"
  "preserves fewer_invitations (DeleteAllUserAccessInTeam u t)"
  "preserves fewer_invitations (GrantProjectAccess i us)"
  "preserves fewer_invitations (GrantUserProjectAccess is u)"
  by (auto intro!: fewerI simp: fewer_invitations_def CreateProject_def UpdateProjectName_def BulkUpdateProjectOrder_def
    DeleteAllProjectAccess_def DeleteAllUserAccessInTeam_def GrantProjectAccess_def GrantUserProjectAccess_def
    grant_pairs_def stmt_simps split: option.splits if_splits)

lemma fewer_folders [answered_intros]:
  "preserves fewer_invitations (CreateFolder p k name)"
  "preserves fewer_invitations (UpdateFolder i no sp)"
  "preserves fewer_invitations (UpdateFolderParent i k so)"
  "preserves fewer_invitations (BulkUpdateFolderOrder p k ids)"
  "preserves fewer_invitations (CreateRequest p k name m url)"
  "preserves fewer_invitations (UpdateRequest i up)"
  "preserves fewer_invitations (UpdateRequestFolder i k so)"
  "preserves fewer_invitations (BulkUpdateRequestOrder p k ids)"
  by (auto intro!: fewerI simp: fewer_invitations_def CreateFolder_def UpdateFolder_def UpdateFolderParent_def
    BulkUpdateFolderOrder_def CreateRequest_def UpdateRequest_def UpdateRequestFolder_def BulkUpdateRequestOrder_def
    stmt_simps Let_def split: option.splits if_splits)

lemma fewer_environments [answered_intros]:
  "preserves fewer_invitations (CreateEnvironment i name)"
  "preserves fewer_invitations (UpdateEnvironmentName i name)"
  "preserves fewer_invitations (DeleteEnvironment i)"
  "preserves fewer_invitations (CreateVariable i k ty val)"
  "preserves fewer_invitations (UpdateVariable i ko tyo sv val)"
  "preserves fewer_invitations (DeleteVariable i)"
  "preserves fewer_invitations (BulkUpdateEnvironmentOrder i ids)"
  "preserves fewer_invitations (BulkUpdateVariableOrder i ids)"
  by (auto intro!: fewerI simp: fewer_invitations_def CreateEnvironment_def UpdateEnvironmentName_def DeleteEnvironment_def
    CreateVariable_def UpdateVariable_def DeleteVariable_def BulkUpdateEnvironmentOrder_def BulkUpdateVariableOrder_def
    delete_environments_def stmt_simps split: option.splits if_splits)

lemma fewer_proxies [answered_intros]:
  "preserves fewer_invitations (CreateProxy p name ty host port u b)"
  "preserves fewer_invitations (UpdateProxy i xp)"
  "preserves fewer_invitations (BulkUpdateProxyOrder i ids)"
  "preserves fewer_invitations (CreateRequestExample i name st h ct content n)"
  "preserves fewer_invitations (UpdateRequestExample i ep)"
  "preserves fewer_invitations (DeleteRequestExample i)"
  "preserves fewer_invitations (BulkUpdateRequestExampleOrder i ids)"
  by (auto intro!: fewerI simp: fewer_invitations_def CreateProxy_def UpdateProxy_def BulkUpdateProxyOrder_def
    CreateRequestExample_def UpdateRequestExample_def DeleteRequestExample_def BulkUpdateRequestExampleOrder_def
    stmt_simps split: option.splits if_splits)

lemma fewer_webhooks [answered_intros]:
  "preserves fewer_invitations (CreateWebhookEndpoint i name sl dm u)"
  "preserves fewer_invitations (UpdateWebhookEndpoint i wp)"
  "preserves fewer_invitations (DeleteWebhookEndpoint i)"
  "preserves fewer_invitations (DeleteWebhookCaptures i)"
  "preserves fewer_invitations (InsertWebhookCapture cp)"
  "preserves fewer_invitations (PruneWebhookCaptures i n)"
  by (auto intro!: fewerI simp: fewer_invitations_def CreateWebhookEndpoint_def UpdateWebhookEndpoint_def
    DeleteWebhookEndpoint_def DeleteWebhookCaptures_def InsertWebhookCapture_def PruneWebhookCaptures_def
    delete_endpoints_def stmt_simps split: option.splits if_splits)

lemma fewer_cascades:
  "team_invitations (delete_requests p d) = team_invitations d"
  "team_invitations (delete_proxies x d) = team_invitations d"
  "team_invitations (delete_folders ids d) = team_invitations d"
  "set (team_invitations (delete_teams q d)) \<subseteq> set (team_invitations d)"
  by (simp_all add: delete_requests_def delete_proxies_def delete_folders_def delete_teams_def delete_projects_frame
    Let_def set_delete_rows)

lemma fewer_deletes [answered_intros]:
  "preserves fewer_invitations (DeleteTeam i)" "preserves fewer_invitations (DeleteProject i)"
  "preserves fewer_invitations (DeleteFolder i)" "preserves fewer_invitations (DeleteRequest i)"
  "preserves fewer_invitations (DeleteProxy i)"
  using fewer_cascades(4)
  by (auto simp: preserves_def fewer_invitations_def DeleteTeam_def DeleteProject_def DeleteFolder_def DeleteRequest_def
    DeleteProxy_def fewer_cascades(1-3) delete_projects_rest)

section \<open>Runs\<close>

lemma answered_node_operations [answered_intros]:
  "runs (stays_accepted i) (CreateFolderInProject p k name)" "runs (stays_accepted i) (MoveFolder j k so)"
  "runs (stays_accepted i) (CreateRequestInProject p k name m url)" "runs (stays_accepted i) (MoveRequest j k so)"
  "runs (stays_accepted i) (handleUpdateFolder L r)" "runs (stays_accepted i) (handleUpdateRequest L r)"
  unfolding CreateFolderInProject_def [abs_def] requireFolderInProject_def [abs_def] MoveFolder_def
    move_folder_tx_def [abs_def] check_new_parent_def [abs_def] CreateRequestInProject_def [abs_def]
    require_request_folder_def [abs_def] MoveRequest_def move_request_tx_def [abs_def]
    handleUpdateFolder_def [abs_def] handleUpdateRequest_def [abs_def]
  by (intro answered_tx.store_rules answered_tx.brackets answered_tx.kept_RequireFolderAccess
      answered_tx.kept_RequireRequestAccess answered_tx.kept_requireProxyInProject
      answered_tx.kept_writeRequestDetail answered_intros)+

interpretation answered_store: statements_keep "stays_accepted i" for i
  by unfold_locales (intro answered_intros)+

lemma accepted_for_ever:
  assumes "reachable S sv sv'" "isolated (sv_world sv)" "accepted i (dbs (sv_world sv))"
    and "\<forall>n \<ge> tick (sv_world sv). gen_uuid (sv_world sv) n \<noteq> i"
  shows "accepted i (dbs (sv_world sv')) \<and> isolated (sv_world sv')"
  using answered_store.reachable_keeps [OF assms(1), of i] assms(2-4)
  by (auto simp: stays_accepted_def same_env_isolated)

section \<open>What is answered then\<close>

lemma accept_refused:
  assumes "isolated w" "uuid_parse L (rq_path r ''id'') = Some i" "pending i (dbs w) = None"
    and "handleAcceptInvitation L r w = (resp, v) \<or> handleRejectInvitation L r w = (resp, v)"
  shows "rs_status resp \<noteq> 200 \<and> rs_status resp \<noteq> 204 \<and> dbs v = dbs w"
proof -
  obtain x w1 where c: "pendingInvitationForCaller L r w = (x, w1)" by fastforce
  show ?thesis
  proof (cases x)
    case (Inl y)
    then have "resp = y" "v = w1"
      using assms(4) c by (auto simp: handleAcceptInvitation_def handleRejectInvitation_def)
    moreover have "rs_status y \<noteq> 200 \<and> rs_status y \<noteq> 204"
      using c Inl by (auto simp: pendingInvitationForCaller_def authenticatedUser_def pathUUID_def
        split: sum.splits prod.splits option.splits if_splits)
    ultimately show ?thesis using unchangedD [OF unchanged_pending_caller c assms(1)] by simp
  next
    case (Inr p)
    then have "pendingInvitationForCaller L r w = (Inr (fst p, snd p), w1)" using c by simp
    from pending_caller_sound [OF assms(1) this] assms(2,3) show ?thesis
      by (auto simp: pending_def find_row_None)
  qed
qed

lemma delete_refused:
  assumes "isolated w" "uuid_parse L (rq_path r ''id'') = Some i" "accepted i (dbs w)"
    and "handleDeleteInvitation L r w = (resp, v)"
  shows "rs_status resp \<noteq> 200 \<and> rs_status resp \<noteq> 204 \<and> dbs v = dbs w"
proof (cases "UserFromContext r")
  case None
  with assms(4) show ?thesis by (auto simp: handleDeleteInvitation_def authenticatedUser_def)
next
  case (Some user)
  obtain x w1 where g: "exec (GetInvitationByID i) w = (x, w1)" by fastforce
  note w1 = exec_readonly_isolated [OF g readonly_team_queries(7) assms(1)]
  show ?thesis
  proof (cases x)
    case (Inl e)
    with assms(2,4) Some g w1 show ?thesis
      by (auto simp: handleDeleteInvitation_def authenticatedUser_def pathUUID_def split: if_splits)
  next
    case (Inr inv)
    have "find_row (\<lambda>x. i_id x = i) (team_invitations (dbs w)) = Some inv"
      using exec_reading_Inr [OF g [unfolded GetInvitationByID_def Inr] assms(1)] by (auto split: option.splits)
    with assms(3) have st: "i_status inv \<noteq> InvitationPending"
      by (auto simp: accepted_def dest!: find_row_SomeD)
    obtain y w2 where o: "RequireTeamOwner (i_team_id inv) (au_id user) w1 = (y, w2)" by fastforce
    from w1 unchangedD [OF unchanged_team_checks(2) o] have w2: "dbs w2 = dbs w" by simp
    show ?thesis
      using assms(2,4) Some g Inr o st w2
      by (cases y) (auto simp: handleDeleteInvitation_def authenticatedUser_def pathUUID_def split: if_splits)
  qed
qed

text \<open>The row of an invitation once it has been accepted.\<close>

lemma accepted_row:
  assumes "p \<in> set (team_invitations d)" "pkey i_id (team_invitations d)" "i_status p = InvitationPending"
  shows "accepted (i_id p) (add_member t u tm (answer (i_id p) InvitationAccepted tm d)) \<and>
    (\<exists>q \<in> set (team_invitations (add_member t u tm (answer (i_id p) InvitationAccepted tm d))).
       i_id q = i_id p \<and> i_status q = InvitationAccepted)"
proof -
  let ?e = "add_member t u tm (answer (i_id p) InvitationAccepted tm d)"
  let ?f = "\<lambda>x. if i_id x = i_id p \<and> i_status x = InvitationPending
    then x\<lparr> i_status := InvitationAccepted, i_responded_at := Some tm \<rparr> else x"
  have e: "team_invitations ?e = map ?f (team_invitations d)"
    by (simp add: add_member_def answer_def update_rows_def)
  have "accepted (i_id p) ?e"
    using pkey_unique [OF assms(2) _ assms(1)] assms(3) by (auto simp: accepted_def e)
  moreover have "?f p \<in> set (team_invitations ?e)" using assms(1) by (simp add: e)
  moreover have "i_id (?f p) = i_id p" "i_status (?f p) = InvitationAccepted" using assms(3) by simp_all
  ultimately show ?thesis by blast
qed

end
