(* ===== verification/TeamProperties.thy ===== *)
theory TeamProperties
  imports Sample Projects Answered
begin

text \<open>
  What the handlers over teams, memberships and invitations promise
  (\<^verbatim>\<open>internal/api/teams.go\<close>, \<^verbatim>\<open>invitations.go\<close> and the transactions of
  \<^verbatim>\<open>internal/db/teams.go\<close>), each with a witness on the sample database.
\<close>

lemma owns_new_team: "owns_team i u (new_team name u i tm d)"
  by (simp add: owns_team_def in_team_def new_team_def is_member_def)

text \<open>
  \<^verbatim>\<open>POST /teams\<close> is all or nothing. Whatever statement or commit fails, either the
  database is untouched and the answer is not 201, or both rows are there: the team, under the
  trimmed name, and the membership that makes the caller its owner.
\<close>

lemma create_team_all_or_nothing:
  assumes "isolated w" "handleCreateTeam L r w = (resp, v)"
  shows "dbs v = dbs w \<and> rs_status resp \<noteq> 201 \<or>
    (\<exists>user name i tm. UserFromContext r = Some user \<and> readTeamName L r = Inr name \<and>
       dbs v = new_team name (au_id user) i tm (dbs w) \<and> i \<notin> t_id ` set (teams (dbs w)) \<and>
       pg_name_ok 100 name \<and> owns_team i (au_id user) (dbs v) \<and>
       (rs_status resp = 201 \<or> rs_status resp = 500))"
proof (cases "\<exists>user name. UserFromContext r = Some user \<and> readTeamName L r = Inr name")
  case True
  then obtain user name where u: "UserFromContext r = Some user" "readTeamName L r = Inr name" by blast
  obtain x v' where c: "CreateTeamWithOwner name (au_id user) w = (x, v')" by fastforce
  have resp: "v = v'" "rs_status resp = (case x of Inl _ \<Rightarrow> 500 | Inr _ \<Rightarrow> 201)"
    using assms(2) u c by (auto simp: handleCreateTeam_def authenticatedUser_def split: sum.splits)
  have a: "dbs (arrive w) = dbs w" using assms(1) by (rule arrive_isolated)
  from c show ?thesis
  proof (rule create_team_effect)
    fix t
    assume "dbs v' = new_team name (au_id user) (t_id t) (t_created_at t) (dbs (arrive w))"
      "t_id t \<notin> t_id ` set (teams (dbs (arrive w)))" "pg_name_ok 100 name"
    with u resp a show ?thesis by (auto simp: owns_new_team split: sum.splits)
  qed (use resp a in auto)
next
  case False
  with assms(2) have "v = w \<and> rs_status resp \<noteq> 201"
    by (auto simp: handleCreateTeam_def authenticatedUser_def readTeamName_def Let_def
      split: sum.splits option.splits if_splits)
  then show ?thesis by simp
qed

lemma create_team_all_or_nothing_witness:
  "let (resp, v) = handleCreateTeam sampleL (sample_req 2 [] (JObj [(''name'', JStr '' ops '')])) sample_world
   in owns_team 101 2 (dbs v) \<and> dbs v \<noteq> dbs sample_world"
proof -
  let ?r = "sample_req 2 [] (JObj [(''name'', JStr '' ops '')])"
  obtain resp v where h: "handleCreateTeam sampleL ?r sample_world = (resp, v)" by fastforce
  have "fst (handleCreateTeam sampleL ?r sample_world) = writeJSON 201 (teamResponse sampleL
      \<lparr> t_id = 101, t_name = ''ops'', t_owner_id = 2, t_created_at = 1000 \<rparr>)" by code_simp
  have ids: "map t_id (teams (dbs (snd (handleCreateTeam sampleL ?r sample_world)))) = [1, 2, 101]" by code_simp
  have "rs_status (fst (handleCreateTeam sampleL ?r sample_world)) = 201" by code_simp
  with create_team_all_or_nothing [OF sample_quiet(2) h] h obtain name i tm where
    v: "dbs v = new_team name 2 i tm sample_db" "owns_team i 2 (dbs v)"
    by (auto simp: sample_arrive)
  with ids h have "i = 101" by (simp add: new_team_def)
  with v h have "owns_team 101 2 (dbs v) \<and> length (teams (dbs v)) \<noteq> length (teams sample_db)"
    by (simp add: new_team_def)
  with h show ?thesis by (auto simp: sample_arrive)
qed

text \<open>
  C6: Only the owner changes a team: if \<^verbatim>\<open>PATCH /teams/{id}\<close> or
  \<^verbatim>\<open>DELETE /teams/{id}\<close> alters the database at all, the caller is a member of that team and
  its owner.
\<close>

theorem team_changed_by_owner_only:
  assumes "isolated w" "handleUpdateTeam L r w = (resp, v) \<or> handleDeleteTeam L r w = (resp, v)"
    and "dbs v \<noteq> dbs w"
  shows "\<exists>user i. UserFromContext r = Some user \<and> uuid_parse L (rq_path r ''id'') = Some i \<and>
    owns_team i (au_id user) (dbs w)"
  using assms update_team_by_owner delete_team_by_owner by blast

theorem team_changed_by_owner_only_witness:
  "owns_team 1 1 sample_db"
proof -
  let ?r = "sample_req 1 [(''id'', ''1'')] (JObj [(''name'', JStr ''new'')])"
  obtain resp v where h: "handleUpdateTeam sampleL ?r sample_world = (resp, v)" by fastforce
  have "t_name (hd (teams (dbs (snd (handleUpdateTeam sampleL ?r sample_world))))) = ''new''"
    "t_name (hd (teams sample_db)) = ''one''" by (code_simp, code_simp)
  with h have "dbs v \<noteq> dbs sample_world" by (auto simp: sample_arrive)
  from team_changed_by_owner_only [OF sample_quiet(2) disjI1 [OF h] this] show ?thesis
    by (simp add: sample_arrive)
qed

text \<open>
  C7: Leaving and removal. An answer of
  \<^verbatim>\<open>DELETE /teams/{team_id}/members/{user_id}\<close> other than 204 leaves the database alone,
  unless it is the 500 of a removal whose acknowledgement was lost. A request that does remove
  somebody, in particular every one answered 204, came from the owner of the team or from the member
  itself; the one removed was a member and not the owner; the database loses that membership and that
  member's grants in the team and nothing else; and afterwards that user can open no project of the
  team, even one they own.
\<close>

theorem removed_member_loses_access:
  assumes "isolated w" "handleDeleteTeamMember L r w = (resp, v)"
  shows "(rs_status resp \<noteq> 204 \<and> dbs v \<noteq> dbs w \<longrightarrow>
      rs_status resp = 500 \<and> (\<exists>n e. fault w n = AckLost e)) \<and>
    (rs_status resp = 204 \<or> dbs v \<noteq> dbs w \<longrightarrow>
     (\<exists>user t target T. UserFromContext r = Some user \<and>
      uuid_parse L (rq_path r ''team_id'') = Some t \<and> uuid_parse L (rq_path r ''user_id'') = Some target \<and>
      T \<in> set (teams (dbs w)) \<and> t_id T = t \<and> target \<noteq> t_owner_id T \<and>
      (t_owner_id T = au_id user \<or> target = au_id user) \<and> in_team t target (dbs w) \<and>
      dbs v = without_member t target (dbs w) \<and>
      \<not> in_team t target (dbs v) \<and> team_grants t target (dbs v) = {} \<and>
      (\<forall>p \<in> set (projects (dbs v)). p_team_id p = t \<longrightarrow> \<not> (\<exists>T'. opens (dbs v) target p T'))))"
  using assms
proof (rule delete_member_effect)
  fix user t target T
  assume *: "UserFromContext r = Some user" "uuid_parse L (rq_path r ''team_id'') = Some t"
    "uuid_parse L (rq_path r ''user_id'') = Some target" "T \<in> set (teams (dbs w))" "t_id T = t"
    "target \<noteq> t_owner_id T" "t_owner_id T = au_id user \<or> target = au_id user" "in_team t target (dbs w)"
    and st: "rs_status resp = 204 \<or> rs_status resp = 500 \<and> (\<exists>n f. fault w n = AckLost f)"
    and v: "dbs v = without_member t target (dbs w)"
  have out: "\<not> in_team t target (dbs v)" "team_grants t target (dbs v) = {}"
    unfolding v by (auto simp: in_team_def team_grants_def without_member_def table_simps mem_grants)
  then have "\<forall>p \<in> set (projects (dbs v)). p_team_id p = t \<longrightarrow> \<not> (\<exists>T'. opens (dbs v) target p T')"
    by (auto simp: opens_def in_team_def)
  with * out v have "\<exists>user t target T. UserFromContext r = Some user \<and>
      uuid_parse L (rq_path r ''team_id'') = Some t \<and> uuid_parse L (rq_path r ''user_id'') = Some target \<and>
      T \<in> set (teams (dbs w)) \<and> t_id T = t \<and> target \<noteq> t_owner_id T \<and>
      (t_owner_id T = au_id user \<or> target = au_id user) \<and> in_team t target (dbs w) \<and>
      dbs v = without_member t target (dbs w) \<and>
      \<not> in_team t target (dbs v) \<and> team_grants t target (dbs v) = {} \<and>
      (\<forall>p \<in> set (projects (dbs v)). p_team_id p = t \<longrightarrow> \<not> (\<exists>T'. opens (dbs v) target p T'))" by blast
  with st show ?thesis by blast
qed simp

theorem removed_member_loses_access_witness:
  "\<not> in_team 1 2 (dbs (snd (handleDeleteTeamMember sampleL
      (sample_req 1 [(''team_id'', ''1''), (''user_id'', ''2'')] JNull) sample_world)))"
proof -
  let ?r = "sample_req 1 [(''team_id'', ''1''), (''user_id'', ''2'')] JNull"
  obtain resp v where h: "handleDeleteTeamMember sampleL ?r sample_world = (resp, v)" by fastforce
  have "rs_status (fst (handleDeleteTeamMember sampleL ?r sample_world)) = 204" by code_simp
  with removed_member_loses_access [OF sample_quiet(2) h] h show ?thesis
    by auto
qed




end
