(* ===== verification/ProjectProperties.thy ===== *)
theory ProjectProperties
  imports Sample Projects
begin

text \<open>
  What the handlers over projects and the access to them promise
  (\<^verbatim>\<open>internal/api/projects.go\<close>, \<^verbatim>\<open>project_access.go\<close>), each with a
  witness on the sample database.
\<close>

lemma can_open_member:
  "can_open d u i \<longleftrightarrow> (\<exists>p \<in> set (projects d). p_id p = i \<and> (\<exists>t. opens d u p t))"
  by (auto simp: can_open_def opens_def)

lemma can_manage_open: "can_manage d u i \<Longrightarrow> can_open d u i"
  by (auto simp: can_manage_def can_open_def)

text \<open>
  \<^verbatim>\<open>GET /projects/{id}\<close> on a healthy database: 200 with the project itself exactly when
  the caller may open it, and otherwise one and the same 404, whether the project exists or not. It
  never changes the database.
\<close>

lemma get_project_answer:
  assumes "quiet w" "access_keys (dbs w)" "handleGetProject L r w = (resp, v)"
    and "UserFromContext r = Some user" "uuid_parse L (rq_path r ''id'') = Some i"
  shows "dbs v = dbs w \<and>
    (if can_open (dbs w) (au_id user) i
     then \<exists>p \<in> set (projects (dbs w)). p_id p = i \<and> resp = writeJSON 200 (newProjectResponse L p)
     else resp = writeError 404 codeNotFound messageProjectNotFound)"
proof -
  have u: "authenticatedUser r = Inr user" "pathUUID L r ''id'' = Inr i"
    using assms(4,5) by (simp_all add: result_simps)
  obtain x w1 where x: "RequireProjectAccess i (au_id user) w = (x, w1)" by fastforce
  have same: "dbs w1 = dbs w"
    using project.after [OF x] assms(1) by auto
  show ?thesis
  proof (cases x)
    case (Inl e)
    then have no: "\<not> can_open (dbs w) (au_id user) i"
      using project.granted [OF assms(1), of "au_id user" i] x by auto
    then have "e = ErrNoProjectAccess"
      using project.denied [OF assms(1) no] x Inl by simp
    with u x Inl no same assms(3) show ?thesis by (simp add: handleGetProject_def)
  next
    case (Inr a)
    have "isolated w" using assms(1) by auto
    from project_access_sound [OF this x [unfolded Inr]] Inr u x same assms(3) project_access_can_open [OF this x [unfolded Inr]]
    show ?thesis by (auto simp: handleGetProject_def opens_def)
  qed
qed

lemma get_project_answer_witness:
  "fst (handleGetProject sampleL (sample_req 2 [(''id'', ''1'')] JNull) sample_world) =
     writeError 404 codeNotFound messageProjectNotFound"
proof -
  obtain resp v where h: "handleGetProject sampleL (sample_req 2 [(''id'', ''1'')] JNull) sample_world = (resp, v)"
    by fastforce
  have "\<not> can_open sample_db 2 1" by code_simp
  then show ?thesis
    using get_project_answer [OF sample_quiet(1) _ h] h by (simp add: sample_arrive sample_keys)
qed

text \<open>
  C4: What an owner writes for a member is what the member gets. When
  \<^verbatim>\<open>PUT /teams/{team_id}/members/{user_id}/access\<close> answers 200, the caller owns the team, the
  member can open exactly the team's projects that were listed (all of them when all_projects is
  set) and the ones they own, and nobody's access to anything else changes.
\<close>

theorem member_access_exact:
  assumes "isolated w" "handleSetMemberAccess L r w = (resp, v)" "rs_status resp = 200"
    and keys: "access_keys (dbs w)"
  shows "\<exists>user t target req all parsed. UserFromContext r = Some user \<and>
    uuid_parse L (rq_path r ''team_id'') = Some t \<and> uuid_parse L (rq_path r ''user_id'') = Some target \<and>
    readJSON L memberAccessRequest_fields \<lparr> maq_all_projects = None, maq_project_ids = [] \<rparr> r = Inr req \<and>
    maq_all_projects req = Some all \<and> map (uuid_parse L) (maq_project_ids req) = map Some parsed \<and>
    owns_team t (au_id user) (dbs w) \<and> (all \<or> (\<forall>p \<in> set parsed. project_in t (dbs w) p)) \<and>
    (\<forall>p \<in> set (projects (dbs w)). p_team_id p = t \<longrightarrow>
       can_open (dbs v) target (p_id p) = (all \<or> p_owner_id p = target \<or> p_id p \<in> set parsed)) \<and>
    (\<forall>u i. \<not> (u = target \<and> project_in t (dbs w) i) \<longrightarrow> can_open (dbs v) u i = can_open (dbs w) u i)"
proof -
  from set_member_ok [OF assms(1-3)] obtain user t target T req all parsed a where
    u: "UserFromContext r = Some user" "uuid_parse L (rq_path r ''team_id'') = Some t"
      "uuid_parse L (rq_path r ''user_id'') = Some target"
      "readJSON L memberAccessRequest_fields \<lparr> maq_all_projects = None, maq_project_ids = [] \<rparr> r = Inr req"
      "maq_all_projects req = Some all" "map (uuid_parse L) (maq_project_ids req) = map Some parsed" and
    o: "owns_team t (au_id user) (dbs w)" and
    T: "T \<in> set (teams (dbs w))" "t_id T = t" "t_owner_id T \<noteq> target" and
    m: "in_team t target (dbs w)" and
    pr: "\<not> all \<longrightarrow> (\<forall>p \<in> set parsed. project_in t (dbs w) p)" and
    v: "dbs v = with_access t target all a (dbs w)" and
    g: "grants a = (grants (project_access (dbs w)) - team_grants t target (dbs w)) \<union>
      (if all then {} else set parsed \<times> {target})"
    using keys by blast
  have "can_open (dbs v) target (p_id p) = (all \<or> p_owner_id p = target \<or> p_id p \<in> set parsed)"
    if p: "p \<in> set (projects (dbs w))" "p_team_id p = t" for p
  proof -
    have "(p_id p, target) \<in> grants a \<longleftrightarrow> \<not> all \<and> p_id p \<in> set parsed"
      using p by (auto simp: g team_grants_def split: if_splits)
    with access_after [OF keys m T p, of all a] show ?thesis unfolding v by blast
  qed
  moreover have "can_open (dbs v) x i = can_open (dbs w) x i" if "\<not> (x = target \<and> project_in t (dbs w) i)" for x i
  proof -
    have "(i, x) \<in> grants a \<longleftrightarrow> (i, x) \<in> grants (project_access (dbs w))"
      using that pr by (auto simp: g team_grants_def project_in_def split: if_splits)
    with access_elsewhere [OF that] show ?thesis unfolding v by blast
  qed
  moreover have "all \<or> (\<forall>p \<in> set parsed. project_in t (dbs w) p)" using pr by blast
  ultimately show ?thesis using u o by blast
qed

theorem member_access_exact_witness:
  "\<not> can_open (dbs (snd (handleSetMemberAccess sampleL (sample_req 1 [(''team_id'', ''1''), (''user_id'', ''2'')]
       (JObj [(''all_projects'', JBool False), (''project_ids'', JArr [JStr ''1''])])) sample_world))) 2 2"
proof -
  let ?r = "sample_req 1 [(''team_id'', ''1''), (''user_id'', ''2'')]
    (JObj [(''all_projects'', JBool False), (''project_ids'', JArr [JStr ''1''])])"
  obtain resp v where h: "handleSetMemberAccess sampleL ?r sample_world = (resp, v)" by fastforce
  have "rs_status (fst (handleSetMemberAccess sampleL ?r sample_world)) = 200" by code_simp
  with h have ok: "rs_status resp = 200" by simp
  have read: "readJSON sampleL memberAccessRequest_fields \<lparr> maq_all_projects = None, maq_project_ids = [] \<rparr> ?r =
      Inr \<lparr> maq_all_projects = Some False, maq_project_ids = [''1''] \<rparr>"
    "projects sample_db ! 1 \<in> set (projects sample_db)" "p_id (projects sample_db ! 1) = 2"
    "p_team_id (projects sample_db ! 1) = 1" "p_owner_id (projects sample_db ! 1) = 1"
    by (code_simp, code_simp, code_simp, code_simp, code_simp)
  from member_access_exact [OF sample_quiet(2) h ok] have
    "\<forall>p \<in> set (projects sample_db). p_team_id p = 1 \<longrightarrow>
       can_open (dbs v) 2 (p_id p) = (p_owner_id p = 2 \<or> p_id p = 1)"
    unfolding sample_arrive read(1) using sample_keys by auto
  with read(2-) have "can_open (dbs v) 2 2 \<longleftrightarrow> False" by force
  with h show ?thesis by simp
qed

text \<open>Replacing the list of a project changes who may open it, and nothing else.\<close>

lemma open_after_grants:
  assumes keys: "access_keys d" and p: "p \<in> set (projects d)" "p_id p = i"
    and g: "grants a = {g \<in> grants (project_access d). fst g \<noteq> i} \<union> {i} \<times> us"
  shows "can_open (d\<lparr> project_access := a \<rparr>) x i \<longleftrightarrow> (\<exists>T \<in> set (teams d). t_id T = p_team_id p \<and>
       admitted d (p_team_id p) x (t_owner_id T = x \<or> p_owner_id p = x \<or> x \<in> us))" (is "?l \<longleftrightarrow> ?r")
    and "j \<noteq> i \<Longrightarrow> can_open (d\<lparr> project_access := a \<rparr>) x j = can_open d x j"
proof -
  have only: "q = p" if "q \<in> set (projects d)" "p_id q = i" for q
    using that p keys by (auto simp: access_keys_def intro: pkey_unique)
  have here: "(p_id p, x) \<in> grants a \<longleftrightarrow> x \<in> us" by (auto simp: g p)
  have adm: "admitted (d\<lparr> project_access := a \<rparr>) = admitted d"
    by (simp add: admitted_def fun_eq_iff)
  show "?l \<longleftrightarrow> ?r"
  proof
    assume ?l
    then obtain q T where q: "q \<in> set (projects d)" "T \<in> set (teams d)" "p_id q = i" "t_id T = p_team_id q"
      "admitted d (p_team_id q) x (t_owner_id T = x \<or> p_owner_id q = x \<or> (p_id q, x) \<in> grants a)"
      unfolding can_open_admitted adm by force
    moreover have "q = p" using only q by blast
    ultimately show ?r by (auto simp: here)
  next
    assume ?r
    then obtain T where "T \<in> set (teams d)" "t_id T = p_team_id p"
      "admitted d (p_team_id p) x (t_owner_id T = x \<or> p_owner_id p = x \<or> (p_id p, x) \<in> grants a)"
      unfolding here by blast
    with p show ?l unfolding can_open_admitted adm by auto
  qed
  assume j: "j \<noteq> i"
  then have "(j, x) \<in> grants a \<longleftrightarrow> (j, x) \<in> grants (project_access d)" by (auto simp: g)
  with j show "can_open (d\<lparr> project_access := a \<rparr>) x j = can_open d x j"
    unfolding can_open_admitted adm by (simp cong: bex_cong conj_cong)
qed

text \<open>
  C9: \<^verbatim>\<open>PUT /projects/{id}/access\<close>, when it answers 200, was sent by someone who manages the
  project, names members of its team only, and leaves exactly the listed users with a grant on the
  project: the grants on it are those of the list, no other grant is added or lost, and no other table
  is written. So a user can open the project afterwards if and only if they are a member of the team
  who has all projects, owns the team or the project, or is on the list, and who can open any other
  project has not changed.
\<close>

theorem project_access_exact:
  assumes "isolated w" "handleSetProjectAccess L r w = (resp, v)" "rs_status resp = 200"
    and keys: "access_keys (dbs w)" "member_keys (dbs w)"
  shows "\<exists>user i req parsed p. UserFromContext r = Some user \<and> uuid_parse L (rq_path r ''id'') = Some i \<and>
    readJSON L projectAccessRequest_fields \<lparr> paq_user_ids = [] \<rparr> r = Inr req \<and>
    map (uuid_parse L) (paq_user_ids req) = map Some parsed \<and>
    can_manage (dbs w) (au_id user) i \<and> p \<in> set (projects (dbs w)) \<and> p_id p = i \<and>
    (\<forall>x \<in> set parsed. in_team (p_team_id p) x (dbs w)) \<and>
    grants (project_access (dbs v)) = {g \<in> grants (project_access (dbs w)). fst g \<noteq> i} \<union> {i} \<times> set parsed \<and>
    dbs v = (dbs w)\<lparr> project_access := project_access (dbs v) \<rparr> \<and>
    (\<forall>x. can_open (dbs v) x i \<longleftrightarrow> (\<exists>T \<in> set (teams (dbs w)). t_id T = p_team_id p \<and>
       admitted (dbs w) (p_team_id p) x (t_owner_id T = x \<or> p_owner_id p = x \<or> x \<in> set parsed))) \<and>
    (\<forall>x j. j \<noteq> i \<longrightarrow> can_open (dbs v) x j = can_open (dbs w) x j)"
proof -
  from set_project_ok [OF assms(1-3)] obtain user i req parsed p a where
    u: "UserFromContext r = Some user" "uuid_parse L (rq_path r ''id'') = Some i"
      "readJSON L projectAccessRequest_fields \<lparr> paq_user_ids = [] \<rparr> r = Inr req"
      "map (uuid_parse L) (paq_user_ids req) = map Some parsed" and
    m: "can_manage (dbs w) (au_id user) i" and p: "p \<in> set (projects (dbs w))" "p_id p = i" and
    t: "member_keys (dbs w) \<longrightarrow> (\<forall>x \<in> set parsed. in_team (p_team_id p) x (dbs w))" and
    v: "dbs v = (dbs w)\<lparr> project_access := a \<rparr>" and
    g: "grants a = {g \<in> grants (project_access (dbs w)). fst g \<noteq> i} \<union> {i} \<times> set parsed"
    by (elim exE conjE) (rule that)
  note opened = open_after_grants [OF keys(1) p g, folded v]
  have t': "\<forall>x \<in> set parsed. in_team (p_team_id p) x (dbs w)" using t keys(2) by blast
  have frame: "grants (project_access (dbs v)) = {g \<in> grants (project_access (dbs w)). fst g \<noteq> i} \<union> {i} \<times> set parsed"
    "dbs v = (dbs w)\<lparr> project_access := project_access (dbs v) \<rparr>"
    using g by (simp_all add: v)
  show ?thesis by (intro exI conjI) (use u m p t' frame opened in blast)+
qed

theorem project_access_exact_witness:
  "can_open (dbs (snd (handleSetProjectAccess sampleL (sample_req 1 [(''id'', ''2'')]
       (JObj [(''user_ids'', JArr [JStr ''1''])])) sample_world))) 1 1"
proof -
  let ?r = "sample_req 1 [(''id'', ''2'')] (JObj [(''user_ids'', JArr [JStr ''1''])])"
  obtain resp v where h: "handleSetProjectAccess sampleL ?r sample_world = (resp, v)" by fastforce
  have "rs_status (fst (handleSetProjectAccess sampleL ?r sample_world)) = 200" by code_simp
  moreover have "member_keys sample_db" by (simp add: member_keys_def pkey_def sample_db_def)
  ultimately have "\<forall>x j. j \<noteq> 2 \<longrightarrow> can_open (dbs v) x j = can_open sample_db x j"
    using project_access_exact [OF sample_quiet(2) h] h unfolding sample_arrive by (force simp: sample_keys)
  moreover have "can_open sample_db 1 1" by code_simp
  ultimately show ?thesis using h by simp
qed

text \<open>
  C10: Only a manager changes a project: when \<^verbatim>\<open>PATCH /projects/{id}\<close>, its
  \<^verbatim>\<open>DELETE\<close> or \<^verbatim>\<open>PUT /projects/{id}/access\<close> alters the database, the caller is
  a member of the project's team who owns the team or the project.
\<close>

theorem project_changed_by_manager_only:
  assumes "isolated w" "dbs v \<noteq> dbs w"
    and "handleUpdateProject L r w = (resp, v) \<or> handleDeleteProject L r w = (resp, v) \<or>
      handleSetProjectAccess L r w = (resp, v)"
  shows "\<exists>user i. UserFromContext r = Some user \<and> uuid_parse L (rq_path r ''id'') = Some i \<and>
    can_manage (dbs w) (au_id user) i"
  using assms by (rule project_change_by_manager)

theorem project_changed_by_manager_only_witness:
  "can_manage sample_db 3 3"
proof -
  let ?r = "sample_req 3 [(''id'', ''3'')] (JObj [(''name'', JStr ''new'')])"
  obtain resp v where h: "handleUpdateProject sampleL ?r sample_world = (resp, v)" by fastforce
  have "map p_name (projects (dbs (snd (handleUpdateProject sampleL ?r sample_world)))) = [''p1'', ''p2'', ''new'']"
    "map p_name (projects sample_db) = [''p1'', ''p2'', ''p3'']" by (code_simp, code_simp)
  with h have "dbs v \<noteq> dbs sample_world" by (auto simp: sample_arrive)
  from project_changed_by_manager_only [OF sample_quiet(2) this disjI1 [OF h]] show ?thesis
    by (simp add: sample_arrive)
qed

text \<open>
  \<^verbatim>\<open>PUT /teams/{team_id}/projects/order\<close>, when it answers 204, was sent by a member of the
  team and leaves the projects of the team listed in exactly the order of the request, which names
  each of them once; the projects of other teams keep their rows.
\<close>

lemma projects_reordered:
  assumes "isolated w" "handleReorderProjects L r w = (resp, v)" "rs_status resp = 204"
    and "pkey p_id (projects (dbs w))"
  shows "\<exists>user t req ids. UserFromContext r = Some user \<and>
    uuid_parse L (rq_path r ''team_id'') = Some t \<and> in_team t (au_id user) (dbs w) \<and>
    readJSON L projectOrderRequest_fields \<lparr> po_project_ids = [] \<rparr> r = Inr req \<and>
    map (uuid_parse L) (po_project_ids req) = map Some ids \<and>
    project_order.listing t (dbs v) = ids \<and>
    filter (\<lambda>p. p_team_id p \<noteq> t) (projects (dbs v)) = filter (\<lambda>p. p_team_id p \<noteq> t) (projects (dbs w))"
  using assms by (rule reorder_projects_ok)

lemma projects_reordered_witness:
  "project_order.listing 1 (dbs (snd (handleReorderProjects sampleL (sample_req 2 [(''team_id'', ''1'')]
     (JObj [(''project_ids'', JArr [JStr ''2'', JStr ''1''])])) sample_world))) = [2, 1]"
proof -
  let ?r = "sample_req 2 [(''team_id'', ''1'')] (JObj [(''project_ids'', JArr [JStr ''2'', JStr ''1''])])"
  obtain resp v where h: "handleReorderProjects sampleL ?r sample_world = (resp, v)" by fastforce
  have "rs_status (fst (handleReorderProjects sampleL ?r sample_world)) = 204" by code_simp
  with h have ok: "rs_status resp = 204" by simp
  have read: "readJSON sampleL projectOrderRequest_fields \<lparr> po_project_ids = [] \<rparr> ?r =
      Inr \<lparr> po_project_ids = [''2'', ''1''] \<rparr>" by code_simp
  have key: "pkey p_id (projects (dbs sample_world))" using sample_keys by (simp add: access_keys_def sample_arrive)
  from projects_reordered [OF sample_quiet(2) h ok key] have "project_order.listing 1 (dbs v) = [2, 1]"
    unfolding read by auto
  with h show ?thesis by simp
qed





end
