(* ===== verification/FolderProperties.thy ===== *)
theory FolderProperties
  imports Sample FolderTree
begin

text \<open>
  What the folder handlers promise of the folder trees (\<^verbatim>\<open>internal/api/folders.go\<close> over
  \<^verbatim>\<open>internal/db/folders.go\<close>), each with a witness on the sample database, whose folders
  1, 2 and 3 are nested and whose folder 4 stands beside them.
\<close>

lemma sample_parents: "parent_rel (folders sample_db) = {(2, 1), (3, 2)}"
proof -
  have "(x, q) \<in> parent_rel (folders sample_db) \<longleftrightarrow> (x, q) \<in> {(2, 1), (3, 2)}" for x q
    by (auto simp: mem_parent_rel sample_db_def sample_folder_def)
  then show ?thesis by auto
qed

lemma sample_below: "(x, q) \<in> (parent_rel (folders sample_db))\<^sup>* \<longleftrightarrow> x = q \<or> (x, q) \<in> {(2, 1), (3, 2), (3, 1)}"
proof
  assume "(x, q) \<in> (parent_rel (folders sample_db))\<^sup>*"
  then show "x = q \<or> (x, q) \<in> {(2, 1), (3, 2), (3, 1)}"
    unfolding sample_parents by (induction rule: rtrancl_induct) auto
next
  have "(3, 1) \<in> (parent_rel (folders sample_db))\<^sup>*"
    unfolding sample_parents by (rule converse_rtrancl_into_rtrancl [of _ 2]) auto
  then show "(x, q) \<in> (parent_rel (folders sample_db))\<^sup>*"
    if "x = q \<or> (x, q) \<in> {(2, 1), (3, 2), (3, 1)}"
    using that by (auto simp: sample_parents)
qed

lemma sample_forest: "forest (folders sample_db)"
proof -
  have "acyclic (parent_rel (folders sample_db))"
    unfolding sample_parents by (rule acyclic_subset [OF wf_acyclic [OF wf_measure [of "\<lambda>x. 5 - x"]]]) auto
  then show ?thesis
    by (auto simp: forest_def pkey_def same_project_parent_def sample_db_def sample_folder_def)
qed

text \<open>
  C12: The recursive query \<^verbatim>\<open>IsDescendant\<close> answers whether one folder lies in the subtree of
  another, itself included: it walks the chain of parents to its end even where that chain is a
  cycle, and finds exactly the folders that reach the root of the subtree by parent links.
\<close>

theorem descendant_query_exact:
  assumes "pkey f_id (folders d)" "folder_id \<in> f_id ` set (folders d)"
  shows "IsDescendant root_id folder_id s d =
    Inr ((folder_id, root_id) \<in> (parent_rel (folders d))\<^sup>*, d)"
  using assms by (rule IsDescendant_iff)

theorem descendant_query_exact_witness:
  "IsDescendant 1 3 (stamp_of sample_world) sample_db = Inr (True, sample_db)"
proof -
  have "3 \<in> f_id ` set (folders sample_db)" by (force simp: sample_db_def sample_folder_def)
  from descendant_query_exact [OF _ this] show ?thesis
    using sample_forest by (simp add: forest_def sample_below)
qed

lemma writeFolderError_status:
  "rs_status (writeFolderError L e) \<noteq> 200" "rs_status (writeFolderError L e) \<noteq> 201"
  "rs_status (writeFolderError L e) \<noteq> 204"
  by (auto simp: writeFolderError_def split: option.splits)

lemma folder_access_sound:
  assumes "isolated w" "RequireFolderAccess i u w = (Inr f, v)"
  shows "f \<in> set (folders (dbs w)) \<and> f_id f = i \<and> can_open (dbs w) u (f_project_id f) \<and>
    dbs v = dbs w \<and> isolated v"
proof -
  have "fetch_folder (dbs w) i = Some f" by (rule folder.fetched [OF assms])
  then have "f \<in> set (folders (dbs w)) \<and> f_id f = i"
    by (auto simp: fetch_folder_def dest: find_row_SomeD)
  moreover have "can_open (dbs w) u (f_project_id f)"
    using folder.sound [OF assms] \<open>fetch_folder (dbs w) i = Some f\<close> by (simp add: reach_via_def)
  moreover have "dbs v = dbs w \<and> isolated v"
    using folder.after [OF assms(2,1)] assms(1) by (auto simp: same_env_isolated)
  ultimately show ?thesis by blast
qed

lemma move_handler_cases:
  assumes "isolated w" "handleMoveFolder L r w = (resp, v)"
  obtains (refused) "dbs v = dbs w" "rs_status resp \<noteq> 200"
  | (ran) user i f w1 parent_id so x where "UserFromContext r = Some user"
      "uuid_parse L (rq_path r ''id'') = Some i" "RequireFolderAccess i (au_id user) w = (Inr f, w1)"
      "MoveFolder i parent_id so w1 = (x, v)" "rs_status resp = 200 \<longleftrightarrow> (\<exists>y. x = Inr y)"
proof (cases "\<exists>user i f w1 parent_id so x. authenticatedUser r = Inr user \<and> pathUUID L r ''id'' = Inr i \<and>
    RequireFolderAccess i (au_id user) w = (Inr f, w1) \<and> MoveFolder i parent_id so w1 = (x, v) \<and>
    (rs_status resp = 200 \<longleftrightarrow> (\<exists>y. x = Inr y))")
  case True
  then show thesis using ran by (fastforce simp: result_simps)
next
  case False
  note quit = unchangedD [OF unchanged_scoped_checks(1) _ assms(1)]
  from assms(2) False have "dbs v = dbs w \<and> rs_status resp \<noteq> 200"
    by (auto simp: handleMoveFolder_def writeFolderError_status
      dest: quit dest!: authenticatedUser_status pathUUID_status
      split: sum.splits prod.splits if_splits) (metis sum.distinct(1), metis)
  then show thesis using refused by blast
qed

text \<open>
  C3: \<^verbatim>\<open>POST /folders/{id}/move\<close> keeps every folder tree a tree. Either nothing changed
  and the answer is not 200; or the caller may open the project, the new parent is a folder of the
  same project outside the moved subtree (or none), and the one difference is that the folder now
  hangs below it. If the folders formed a forest whose links stay within projects, they still do.
\<close>

theorem move_keeps_forest:
  assumes "isolated w" "forest (folders (dbs w))" "handleMoveFolder L r w = (resp, v)"
  shows "forest (folders (dbs v)) \<and>
    (dbs v = dbs w \<and> rs_status resp \<noteq> 200 \<or>
     (\<exists>user f parent_id n. UserFromContext r = Some user \<and> f \<in> set (folders (dbs w)) \<and>
       uuid_parse L (rq_path r ''id'') = Some (f_id f) \<and> can_open (dbs w) (au_id user) (f_project_id f) \<and>
       movable (folders (dbs w)) f parent_id \<and>
       dbs v = (dbs w)\<lparr> folders := moved_to (f_id f) parent_id n (folders (dbs w)) \<rparr>))"
  using assms(1,3)
proof (rule move_handler_cases)
  assume "dbs v = dbs w" "rs_status resp \<noteq> 200"
  with assms(2) show ?thesis by simp
next
  fix user i f w1 parent_id so x
  assume u: "UserFromContext r = Some user" "uuid_parse L (rq_path r ''id'') = Some i"
    and a: "RequireFolderAccess i (au_id user) w = (Inr f, w1)"
    and m: "MoveFolder i parent_id so w1 = (x, v)" and st: "rs_status resp = 200 \<longleftrightarrow> (\<exists>y. x = Inr y)"
  note s = folder_access_sound [OF assms(1) a]
  then have w1: "dbs (arrive w1) = dbs w" by (simp add: arrive_isolated)
  have key: "pkey f_id (folders (dbs (arrive w1)))" using assms(2) by (simp add: w1 forest_def)
  have "forest (folders (dbs v))" using move_folder_forest [OF m] assms(2) by (simp add: w1)
  moreover from m key have "dbs v = dbs w \<and> rs_status resp \<noteq> 200 \<or>
    (\<exists>n. movable (folders (dbs w)) f parent_id \<and>
       dbs v = (dbs w)\<lparr> folders := moved_to i parent_id n (folders (dbs w)) \<rparr>)"
  proof (rule move_folder_effect)
    fix g n
    assume "g \<in> set (folders (dbs (arrive w1)))" "f_id g = i"
    with s w1 key have "g = f" by (auto intro: pkey_unique)
    moreover assume "movable (folders (dbs (arrive w1))) g parent_id"
      "dbs v = (dbs (arrive w1))\<lparr> folders := moved_to i parent_id n (folders (dbs (arrive w1))) \<rparr>"
    ultimately show ?thesis unfolding w1 by blast
  qed (use st w1 in auto)
  ultimately show ?thesis using u s by blast
qed

theorem move_keeps_forest_witness:
  "forest (folders (dbs (snd (handleMoveFolder sampleL
     (sample_req 1 [(''id'', ''2'')] (JObj [(''parent_id'', JStr ''4'')])) sample_world))))"
proof -
  let ?r = "sample_req 1 [(''id'', ''2'')] (JObj [(''parent_id'', JStr ''4'')])"
  obtain resp v where h: "handleMoveFolder sampleL ?r sample_world = (resp, v)" by fastforce
  show ?thesis
    using move_keeps_forest [OF sample_quiet(2) _ h] h by (simp add: sample_arrive sample_forest)
qed

text \<open>
  A folder is never moved below itself: when the folder named as the new parent lies in the
  subtree of the folder to be moved, \<^verbatim>\<open>Store.MoveFolder\<close> fails and writes nothing, whatever
  else the database does. On a healthy database the failure is \<^verbatim>\<open>ErrFolderCycle\<close>.
\<close>

lemma move_below_itself_refused:
  assumes "pkey f_id (folders (dbs w))" "isolated w" "MoveFolder i (Some p) so w = (x, v)"
    and "(p, i) \<in> (parent_rel (folders (dbs w)))\<^sup>*"
  shows "(\<exists>e. x = Inl e) \<and> dbs v = dbs w"
proof -
  have a: "dbs (arrive w) = dbs w" using assms(2) by (rule arrive_isolated)
  show ?thesis
    by (rule move_folder_effect [OF assms(3)]) (use assms in \<open>auto simp: a movable_def\<close>)
qed

lemma move_below_itself_refused_witness:
  "dbs (snd (MoveFolder 1 (Some 3) None sample_world)) = sample_db"
proof -
  obtain x v where m: "MoveFolder 1 (Some 3) None sample_world = (x, v)" by fastforce
  have "pkey f_id (folders (dbs sample_world))" using sample_forest by (simp add: forest_def sample_arrive)
  from move_below_itself_refused [OF this sample_quiet(2) m] m show ?thesis
    by (simp add: sample_arrive sample_below)
qed

text \<open>
  C13: \<^verbatim>\<open>DELETE /folders/{id}\<close> that answers 204 removes the folder, every folder below it
  and the requests filed in any of them, and no other folder or request; the rest is still a forest.
\<close>

theorem delete_removes_subtree:
  assumes "isolated w" "forest (folders (dbs w))" "handleDeleteFolder L r w = (resp, v)" "rs_status resp = 204"
  shows "\<exists>user f. UserFromContext r = Some user \<and> f \<in> set (folders (dbs w)) \<and>
    uuid_parse L (rq_path r ''id'') = Some (f_id f) \<and> can_open (dbs w) (au_id user) (f_project_id f) \<and>
    folders (dbs v) = filter (\<lambda>g. (f_id g, f_id f) \<notin> (parent_rel (folders (dbs w)))\<^sup>*) (folders (dbs w)) \<and>
    requests (dbs v) = filter (\<lambda>q. case r_folder_id q of None \<Rightarrow> True
      | Some k \<Rightarrow> (k, f_id f) \<notin> (parent_rel (folders (dbs w)))\<^sup>*) (requests (dbs w)) \<and>
    forest (folders (dbs v))"
proof -
  from assms(3,4) obtain user i f w1 where
    u: "UserFromContext r = Some user" "uuid_parse L (rq_path r ''id'') = Some i"
    and a: "RequireFolderAccess i (au_id user) w = (Inr f, w1)"
    and x: "exec (DeleteFolder i) w1 = (Inr (), v)"
    by (auto simp: handleDeleteFolder_def result_simps split: sum.splits prod.splits
      dest!: authenticatedUser_status pathUUID_status)
  note s = folder_access_sound [OF assms(1) a]
  then have "dbs (arrive w1) = dbs w" by (simp add: arrive_isolated)
  with exec_result [OF x] obtain st where "DeleteFolder i st (dbs w) = Inr ((), dbs v)" by auto
  note d = delete_folder_effect [OF this assms(2)]
  have "i \<in> f_id ` set (folders (dbs w))" using s by force
  with d u s show ?thesis by (auto cong: option.case_cong)
qed

theorem delete_removes_subtree_witness:
  "forest (folders (dbs (snd (handleDeleteFolder sampleL (sample_req 1 [(''id'', ''2'')] JNull) sample_world))))"
proof -
  let ?r = "sample_req 1 [(''id'', ''2'')] JNull"
  obtain resp v where h: "handleDeleteFolder sampleL ?r sample_world = (resp, v)" by fastforce
  have "rs_status (fst (handleDeleteFolder sampleL ?r sample_world)) = 204" by code_simp
  with delete_removes_subtree [OF sample_quiet(2) _ h] h show ?thesis
    by (auto simp: sample_arrive sample_forest)
qed

end
