(* ===== verification/OrderProperties.thy ===== *)
theory OrderProperties
  imports Sample FolderTree Requests Environments ProxiesExamples
begin

text \<open>
  The user-chosen order of folders, requests, environments, variables, proxies and examples: one
  argument, in the locale of ordered rows, for the six transactions
  \<^verbatim>\<open>Store.Reorder...\<close> of \<^verbatim>\<open>internal/db\<close>.
\<close>

section \<open>One argument for all kinds\<close>

text \<open>
  How a transaction that is to bring about \<open>written\<close> may end: with that, or with an error and the
  database as it was, or with that and an error because the acknowledgement of the commit was lost.
\<close>

definition all_or_nothing :: "world \<Rightarrow> goerr + unit \<Rightarrow> world \<Rightarrow> bool \<Rightarrow> bool" where
  "all_or_nothing w r v written \<longleftrightarrow> (case r of
     Inr _ \<Rightarrow> written
   | Inl _ \<Rightarrow> dbs v = dbs (arrive w) \<or> written \<and> (\<exists>n e. fault w n = AckLost e))"

lemma all_or_nothingI:
  assumes "inTx body w = (r, v)" "runs same_env body"
    and "\<And>x u. body ((arrive w)\<lparr> in_tx := Some (tick w) \<rparr>) = (Inr x, u) \<Longrightarrow> P (dbs u)"
  shows "all_or_nothing w r v (P (dbs v))"
proof (cases r)
  case (Inl e)
  from inTx_Inl [OF assms(1) [unfolded Inl] assms(2)] assms(3) show ?thesis
    by (auto simp: all_or_nothing_def Inl)
next
  case (Inr x)
  from inTx_Inr [OF assms(1) [unfolded Inr]] assms(3) show ?thesis
    by (auto simp: all_or_nothing_def Inr)
qed

lemma env_check_then_write: "runs same_env (check_then_write current m1 check bulk m2)"
  unfolding check_then_write_def [abs_def] by (intro env_rules)

context ordered_rows begin

text \<open>The list comes out as sent; every other row, and every other table, is as it was.\<close>

definition listed_as :: "'k \<Rightarrow> uuid list \<Rightarrow> db \<Rightarrow> db \<Rightarrow> bool" where
  "listed_as k ids d d' \<longleftrightarrow> listing k d' = ids \<and>
     filter (\<lambda>r. \<not> mine k r) (rows d') = filter (\<lambda>r. \<not> mine k r) (rows d) \<and> d' = put (rows d') d"

lemma in_transaction:
  assumes "inTx (check_then_write current m1 (same_ids_check L ids field one all) (bulk k ids) m2) w = (r, v)"
    and "readonly current" "\<And>s d is d'. current s d = Inr (is, d') \<Longrightarrow> set is = set (listing k d)"
    and "pkey rid (rows (dbs (arrive w)))"
  shows "all_or_nothing w r v (listed_as k ids (dbs (arrive w)) (dbs v))"
proof (rule all_or_nothingI [OF assms(1) env_check_then_write])
  fix x u
  assume "check_then_write current m1 (same_ids_check L ids field one all) (bulk k ids) m2
    ((arrive w)\<lparr> in_tx := Some (tick w) \<rparr>) = (Inr x, u)"
  from checked [OF this _ assms(2,3)] assms(4) show "listed_as k ids (dbs (arrive w)) (dbs u)"
    by (simp add: listed_as_def)
qed

end

lemma folders_before_check:
  assumes "reorder_folders_tx p q ids check w = (Inr x, v)" "in_tx w = Some m"
  obtains u where "dbs u = dbs w" "in_tx u = Some m"
    "check_then_write (ListSiblingFolderIDs p q) ''list sibling folders: '' check
       (BulkUpdateFolderOrder p q ids) ''update folder order: '' u = (Inr x, v)"
  using assms
  by (fastforce simp: reorder_folders_tx_def LockProject_def split: sum.splits prod.splits option.splits
    dest: exec_tx_reading require_folder_tx)

lemma requests_before_check:
  assumes "reorder_requests_tx p q ids check w = (Inr x, v)" "in_tx w = Some m"
  obtains u where "dbs u = dbs w" "in_tx u = Some m"
    "check_then_write (ListSiblingRequestIDs p q) ''list sibling requests: '' check
       (BulkUpdateRequestOrder p q ids) ''update request order: '' u = (Inr x, v)"
  using assms
  by (fastforce simp: reorder_requests_tx_def require_request_folder_def LockProject_def
    split: sum.splits prod.splits option.splits dest: exec_tx_reading require_folder_tx)

lemmas listing_queries = reading_Inr ListSiblingFolderIDs_def folder_siblings_def
  ListSiblingRequestIDs_def request_siblings_def ListEnvironmentIDsForUpdate_def
  ListVariableIDsForUpdate_def ListProxyIDsForUpdate_def ListRequestExampleIDsForUpdate_def

lemma listing_sets:
  "ListEnvironmentIDsForUpdate p s d = Inr (is, d') \<Longrightarrow> set is = set (environment_order.listing p d)"
  "ListVariableIDsForUpdate p s d = Inr (is, d') \<Longrightarrow> set is = set (variable_order.listing p d)"
  "ListProxyIDsForUpdate p s d = Inr (is, d') \<Longrightarrow> set is = set (proxy_order.listing p d)"
  "ListRequestExampleIDsForUpdate p s d = Inr (is, d') \<Longrightarrow> set is = set (example_order.listing p d)"
  by (auto simp: listing_queries environment_order.set_listing variable_order.set_listing
    proxy_order.set_listing example_order.set_listing)

lemma folder_listing_set:
  "ListSiblingFolderIDs p q s d = Inr (is, d') \<Longrightarrow> set is = set (folder_order.listing (p, q) d)"
  by (auto simp: listing_queries folder_order.set_listing)

lemma request_listing_set:
  "ListSiblingRequestIDs p q s d = Inr (is, d') \<Longrightarrow> set is = set (request_order.listing (p, q) d)"
  by (auto simp: listing_queries request_order.set_listing)

lemma folders_in_order:
  assumes "ReorderFolders p q ids (same_ids_check L ids field one all) w = (r, v)"
    and "pkey f_id (folders (dbs (arrive w)))"
  shows "all_or_nothing w r v (folder_order.listed_as (p, q) ids (dbs (arrive w)) (dbs v))"
proof (rule all_or_nothingI [OF assms(1) [unfolded ReorderFolders_def]])
  show "runs same_env (reorder_folders_tx p q ids (same_ids_check L ids field one all))"
    unfolding reorder_folders_tx_def [abs_def] requireFolderInProject_def [abs_def]
    by (intro env_rules env_check_then_write)
  fix x z
  assume "reorder_folders_tx p q ids (same_ids_check L ids field one all)
      ((arrive w)\<lparr> in_tx := Some (tick w) \<rparr>) = (Inr x, z)"
  then obtain u where u: "dbs u = dbs (arrive w)" "in_tx u = Some (tick w)" and
    c: "check_then_write (ListSiblingFolderIDs p q) ''list sibling folders: ''
       (same_ids_check L ids field one all) (BulkUpdateFolderOrder (fst (p, q)) (snd (p, q)) ids)
       ''update folder order: '' u = (Inr x, z)"
    by (rule folders_before_check) auto
  show "folder_order.listed_as (p, q) ids (dbs (arrive w)) (dbs z)"
    using folder_order.checked [OF c u(2) readonly_folder_queries(4) folder_listing_set] assms(2)
    unfolding u(1) folder_order.listed_as_def by simp
qed

lemma requests_in_order:
  assumes "ReorderRequests p q ids (same_ids_check L ids field one all) w = (r, v)"
    and "pkey r_id (requests (dbs (arrive w)))"
  shows "all_or_nothing w r v (request_order.listed_as (p, q) ids (dbs (arrive w)) (dbs v))"
proof (rule all_or_nothingI [OF assms(1) [unfolded ReorderRequests_def]])
  show "runs same_env (reorder_requests_tx p q ids (same_ids_check L ids field one all))"
    unfolding reorder_requests_tx_def [abs_def] require_request_folder_def [abs_def]
    requireFolderInProject_def [abs_def]
    by (intro env_rules env_check_then_write)
  fix x z
  assume "reorder_requests_tx p q ids (same_ids_check L ids field one all)
      ((arrive w)\<lparr> in_tx := Some (tick w) \<rparr>) = (Inr x, z)"
  then obtain u where u: "dbs u = dbs (arrive w)" "in_tx u = Some (tick w)" and
    c: "check_then_write (ListSiblingRequestIDs p q) ''list sibling requests: ''
       (same_ids_check L ids field one all) (BulkUpdateRequestOrder (fst (p, q)) (snd (p, q)) ids)
       ''update request order: '' u = (Inr x, z)"
    by (rule requests_before_check) auto
  show "request_order.listed_as (p, q) ids (dbs (arrive w)) (dbs z)"
    using request_order.checked [OF c u(2) readonly_request_queries(3) request_listing_set] assms(2)
    unfolding u(1) request_order.listed_as_def by simp
qed

lemma environments_in_order:
  assumes "ReorderEnvironments p ids (same_ids_check L ids field one all) w = (r, v)"
    and "pkey e_id (environments (dbs (arrive w)))"
  shows "all_or_nothing w r v (environment_order.listed_as p ids (dbs (arrive w)) (dbs v))"
  using environment_order.in_transaction [OF assms(1) [unfolded ReorderEnvironments_def] readonly_environment_queries(2) listing_sets(1) assms(2)] .

lemma variables_in_order:
  assumes "ReorderVariables p ids (same_ids_check L ids field one all) w = (r, v)"
    and "pkey v_id (environment_variables (dbs (arrive w)))"
  shows "all_or_nothing w r v (variable_order.listed_as p ids (dbs (arrive w)) (dbs v))"
  using variable_order.in_transaction [OF assms(1) [unfolded ReorderVariables_def] readonly_environment_queries(5) listing_sets(2) assms(2)] .

lemma proxies_in_order:
  assumes "ReorderProxies p ids (same_ids_check L ids field one all) w = (r, v)"
    and "pkey x_id (proxies (dbs (arrive w)))"
  shows "all_or_nothing w r v (proxy_order.listed_as p ids (dbs (arrive w)) (dbs v))"
  using proxy_order.in_transaction [OF assms(1) [unfolded ReorderProxies_def] readonly_environment_queries(9) listing_sets(3) assms(2)] .

lemma examples_in_order:
  assumes "ReorderRequestExamples p ids (same_ids_check L ids field one all) w = (r, v)"
    and "pkey ex_id (request_examples (dbs (arrive w)))"
  shows "all_or_nothing w r v (example_order.listed_as p ids (dbs (arrive w)) (dbs v))"
  using example_order.in_transaction [OF assms(1) [unfolded ReorderRequestExamples_def] readonly_request_queries(6) listing_sets(4) assms(2)] .

lemmas listed_as_defs = folder_order.listed_as_def request_order.listed_as_def environment_order.listed_as_def
  variable_order.listed_as_def proxy_order.listed_as_def example_order.listed_as_def

text \<open>
  C19: Reordering writes the list as it was sent, completely or not at all. However one of the six
  transactions of \<^verbatim>\<open>internal/db\<close> that reorder a list ends, on a database with unique
  keys: if it succeeds, the rows of that list come back in exactly the order of the request, which
  therefore named each of them once, and every row of another list and every other table is as it
  was. If it fails, at whatever statement, the database is as it was when the transaction began,
  unless the commit went through and only its acknowledgement was lost; then it is as after a success.
\<close>

theorem reordered_as_sent:
  assumes "pkey f_id (folders (dbs (arrive w)))" "pkey r_id (requests (dbs (arrive w)))"
    and "pkey e_id (environments (dbs (arrive w)))" "pkey v_id (environment_variables (dbs (arrive w)))"
    and "pkey x_id (proxies (dbs (arrive w)))" "pkey ex_id (request_examples (dbs (arrive w)))"
  shows
    "(case ReorderFolders p q ids (same_ids_check L ids field one all) w of (r, v) \<Rightarrow> all_or_nothing w r v
        (folder_order.listing (p, q) (dbs v) = ids \<and>
         filter (\<lambda>f. \<not> (f_project_id f = p \<and> f_parent_id f = q)) (folders (dbs v)) = filter (\<lambda>f. \<not> (f_project_id f = p \<and> f_parent_id f = q)) (folders (dbs (arrive w))) \<and>
         dbs v = (dbs (arrive w))\<lparr> folders := folders (dbs v) \<rparr>)) \<and>
     (case ReorderRequests p q ids (same_ids_check L ids field one all) w of (r, v) \<Rightarrow> all_or_nothing w r v
        (request_order.listing (p, q) (dbs v) = ids \<and>
         filter (\<lambda>f. \<not> (r_project_id f = p \<and> r_folder_id f = q)) (requests (dbs v)) = filter (\<lambda>f. \<not> (r_project_id f = p \<and> r_folder_id f = q)) (requests (dbs (arrive w))) \<and>
         dbs v = (dbs (arrive w))\<lparr> requests := requests (dbs v) \<rparr>)) \<and>
     (case ReorderEnvironments p ids (same_ids_check L ids field one all) w of (r, v) \<Rightarrow> all_or_nothing w r v
        (environment_order.listing p (dbs v) = ids \<and>
         filter (\<lambda>e. e_project_id e \<noteq> p) (environments (dbs v)) = filter (\<lambda>e. e_project_id e \<noteq> p) (environments (dbs (arrive w))) \<and>
         dbs v = (dbs (arrive w))\<lparr> environments := environments (dbs v) \<rparr>)) \<and>
     (case ReorderVariables p ids (same_ids_check L ids field one all) w of (r, v) \<Rightarrow> all_or_nothing w r v
        (variable_order.listing p (dbs v) = ids \<and>
         filter (\<lambda>x. v_environment_id x \<noteq> p) (environment_variables (dbs v)) = filter (\<lambda>x. v_environment_id x \<noteq> p) (environment_variables (dbs (arrive w))) \<and>
         dbs v = (dbs (arrive w))\<lparr> environment_variables := environment_variables (dbs v) \<rparr>)) \<and>
     (case ReorderProxies p ids (same_ids_check L ids field one all) w of (r, v) \<Rightarrow> all_or_nothing w r v
        (proxy_order.listing p (dbs v) = ids \<and>
         filter (\<lambda>x. x_project_id x \<noteq> p) (proxies (dbs v)) = filter (\<lambda>x. x_project_id x \<noteq> p) (proxies (dbs (arrive w))) \<and>
         dbs v = (dbs (arrive w))\<lparr> proxies := proxies (dbs v) \<rparr>)) \<and>
     (case ReorderRequestExamples p ids (same_ids_check L ids field one all) w of (r, v) \<Rightarrow> all_or_nothing w r v
        (example_order.listing p (dbs v) = ids \<and>
         filter (\<lambda>x. ex_request_id x \<noteq> p) (request_examples (dbs v)) = filter (\<lambda>x. ex_request_id x \<noteq> p) (request_examples (dbs (arrive w))) \<and>
         dbs v = (dbs (arrive w))\<lparr> request_examples := request_examples (dbs v) \<rparr>))"
  using folders_in_order [OF _ assms(1), of p q ids L field one all]
    requests_in_order [OF _ assms(2), of p q ids L field one all]
    environments_in_order [OF _ assms(3), of p ids L field one all]
    variables_in_order [OF _ assms(4), of p ids L field one all]
    proxies_in_order [OF _ assms(5), of p ids L field one all]
    examples_in_order [OF _ assms(6), of p ids L field one all]
  unfolding listed_as_defs fst_conv snd_conv by (auto split: prod.split)

theorem reordered_as_sent_witness:
  "environment_order.listing 1 (dbs (snd (ReorderEnvironments 1 [2, 1]
     (same_ids_check sampleL [2, 1] [] [] []) sample_world))) = [2, 1]"
proof -
  have k: "pkey f_id (folders sample_db)" "pkey r_id (requests sample_db)" "pkey e_id (environments sample_db)"
    "pkey v_id (environment_variables sample_db)" "pkey x_id (proxies sample_db)"
    "pkey ex_id (request_examples sample_db)"
    by (simp_all add: pkey_def sample_db_def sample_folder_def sample_request_def)
  have "fst (ReorderEnvironments 1 [2, 1] (same_ids_check sampleL [2, 1] [] [] []) sample_world) = Inr ()"
    by code_simp
  then obtain v where r: "ReorderEnvironments 1 [2, 1] (same_ids_check sampleL [2, 1] [] [] []) sample_world = (Inr (), v)"
    by (metis prod.collapse)
  have "all_or_nothing sample_world (Inr ()) v (environment_order.listing 1 (dbs v) = [2, 1] \<and>
      filter (\<lambda>e. e_project_id e \<noteq> 1) (environments (dbs v)) =
      filter (\<lambda>e. e_project_id e \<noteq> 1) (environments (dbs (arrive sample_world))) \<and>
      dbs v = (dbs (arrive sample_world))\<lparr> environments := environments (dbs v) \<rparr>)"
    using reordered_as_sent [of sample_world 1 None "[2, 1]" sampleL "[]" "[]" "[]"
      , unfolded sample_arrive, OF k, THEN conjunct2, THEN conjunct2, THEN conjunct1] unfolding r sample_arrive prod.case .
  then have "environment_order.listing 1 (dbs v) = [2, 1]" by (simp add: all_or_nothing_def)
  then show ?thesis unfolding r snd_conv .
qed

end
