(* ===== verification/Scope.thy ===== *)
theory Scope
  imports Kept
begin

text \<open>
  The boundaries of a project: folders lie in folders of their project and never below themselves,
  requests lie in folders of their project, and the proxy a folder or a request names is one of its
  project. No constraint of the schema says so; the checks of \<^verbatim>\<open>internal/db\<close> and of the two
  update handlers do. For a server whose statements no other session interleaves with, they are kept
  by every run.
\<close>

section \<open>The invariant\<close>

definition in_scope :: "db \<Rightarrow> bool" where
  "in_scope d \<longleftrightarrow> acyclic (parent_rel (folders d)) \<and>
     (\<forall>f \<in> set (folders d). \<forall>g \<in> set (folders d). f_parent_id f = Some (f_id g) \<longrightarrow> f_project_id g = f_project_id f) \<and>
     (\<forall>r \<in> set (requests d). \<forall>g \<in> set (folders d). r_folder_id r = Some (f_id g) \<longrightarrow> f_project_id g = r_project_id r) \<and>
     (\<forall>f \<in> set (folders d). \<forall>x \<in> set (proxies d).
        proxy_id (f_settings f) = Some (x_id x) \<longrightarrow> x_project_id x = f_project_id f) \<and>
     (\<forall>r \<in> set (requests d). \<forall>x \<in> set (proxies d).
        proxy_id (r_settings r) = Some (x_id x) \<longrightarrow> x_project_id x = r_project_id r)"

lemma in_scopeD:
  assumes "in_scope d"
  shows "acyclic (parent_rel (folders d))"
    "f \<in> set (folders d) \<Longrightarrow> g \<in> set (folders d) \<Longrightarrow> f_parent_id f = Some (f_id g) \<Longrightarrow> f_project_id g = f_project_id f"
    "r \<in> set (requests d) \<Longrightarrow> g \<in> set (folders d) \<Longrightarrow> r_folder_id r = Some (f_id g) \<Longrightarrow> f_project_id g = r_project_id r"
    "f \<in> set (folders d) \<Longrightarrow> x \<in> set (proxies d) \<Longrightarrow> proxy_id (f_settings f) = Some (x_id x) \<Longrightarrow> x_project_id x = f_project_id f"
    "r \<in> set (requests d) \<Longrightarrow> x \<in> set (proxies d) \<Longrightarrow> proxy_id (r_settings r) = Some (x_id x) \<Longrightarrow> x_project_id x = r_project_id r"
  using assms by (simp_all add: in_scope_def)

lemma empty_in_scope: "in_scope (empty_db low)"
  by (simp add: in_scope_def empty_db_def parent_rel_def acyclic_def)

text \<open>With the foreign keys of the schema it says that the folders form a forest.\<close>

lemma forest_in_scope:
  assumes "db_ok d" "in_scope d" shows "forest (folders d)"
proof -
  have "same_project_parent (folders d) f" if "f \<in> set (folders d)" for f
    using db_okD(8) [OF assms(1)] in_scopeD(2) [OF assms(2) that] that
    by (force simp: folders_ok_def opt_refs_def same_project_parent_def split: option.split)
  then show ?thesis
    using db_okD(8) [OF assms(1)] in_scopeD(1) [OF assms(2)] by (simp add: forest_def folders_ok_def)
qed

lemma in_scope_forest:
  assumes "forest (folders d)"
  shows "acyclic (parent_rel (folders d))"
    "f \<in> set (folders d) \<Longrightarrow> g \<in> set (folders d) \<Longrightarrow> f_parent_id f = Some (f_id g) \<Longrightarrow> f_project_id g = f_project_id f"
  using assms by (auto simp: forest_def dest: forest_parent [OF assms] pkey_unique [of f_id])

text \<open>
  Only the place and the proxy of a row count. A row that takes the place of another, and drops its
  proxy at most, is a \<open>trace\<close> of it; statements that leave nothing but traces keep the boundaries.
\<close>

definition folder_trace :: "Folder \<Rightarrow> Folder \<Rightarrow> bool" where
  "folder_trace f g \<longleftrightarrow> f_id g = f_id f \<and> f_project_id g = f_project_id f \<and> f_parent_id g = f_parent_id f \<and>
     (proxy_id (f_settings f) = None \<or> proxy_id (f_settings f) = proxy_id (f_settings g))"

definition request_trace :: "Request \<Rightarrow> Request \<Rightarrow> bool" where
  "request_trace r s \<longleftrightarrow> r_project_id s = r_project_id r \<and> r_folder_id s = r_folder_id r \<and>
     (proxy_id (r_settings r) = None \<or> proxy_id (r_settings r) = proxy_id (r_settings s))"

definition proxy_trace :: "Proxy \<Rightarrow> Proxy \<Rightarrow> bool" where
  "proxy_trace x y \<longleftrightarrow> x_id y = x_id x \<and> x_project_id y = x_project_id x"

lemma in_scope_traces:
  assumes "in_scope d"
    "\<forall>f \<in> set (folders e). \<exists>g \<in> set (folders d). folder_trace f g"
    "\<forall>r \<in> set (requests e). \<exists>s \<in> set (requests d). request_trace r s"
    "\<forall>x \<in> set (proxies e). \<exists>y \<in> set (proxies d). proxy_trace x y"
  shows "in_scope e"
proof -
  have "parent_rel (folders e) \<subseteq> parent_rel (folders d)"
    using assms(2) by (intro parent_rel_mono) (auto simp: folder_trace_def)
  then have "acyclic (parent_rel (folders e))" by (rule acyclic_subset [OF in_scopeD(1) [OF assms(1)]])
  then show ?thesis unfolding in_scope_def
    using assms(2-4) in_scopeD(2-5) [OF assms(1)]
    unfolding folder_trace_def request_trace_def proxy_trace_def by (intro conjI ballI impI) (metis option.distinct(1))+
qed

lemma traces_refl [simp, intro]: "folder_trace f f" "request_trace r r" "proxy_trace x x"
  by (simp_all add: folder_trace_def request_trace_def proxy_trace_def)

lemma in_scope_same:
  assumes "in_scope d" "folders e = folders d" "requests e = requests d" "proxies e = proxies d"
  shows "in_scope e"
  by (rule in_scope_traces [OF assms(1)]) (use assms(2-4) in auto)

section \<open>Statements\<close>

definition keeps_scope :: "db \<Rightarrow> db \<Rightarrow> bool" where
  "keeps_scope d e \<longleftrightarrow> (db_ok d \<and> in_scope d \<longrightarrow> db_ok e \<and> in_scope e)"

named_theorems scope_intros \<open>what keeps the boundaries of the projects\<close>

lemma keeps_scopeI:
  assumes "preserves keeps_ok q" "\<And>s d x d'. db_ok d \<Longrightarrow> in_scope d \<Longrightarrow> q s d = Inr (x, d') \<Longrightarrow> in_scope d'"
  shows "preserves keeps_scope q"
  using assms unfolding preserves_def keeps_ok_def keeps_scope_def by blast

text \<open>Most statements leave the three tables alone.\<close>

definition same_nodes :: "db \<Rightarrow> db \<Rightarrow> bool" where
  "same_nodes d e \<longleftrightarrow> folders e = folders d \<and> requests e = requests d \<and> proxies e = proxies d"

lemma same_nodesI: "(\<And>s d x d'. q s d = Inr (x, d') \<Longrightarrow> same_nodes d d') \<Longrightarrow> preserves same_nodes q"
  by (auto simp: preserves_def)

lemma scope_nodes: "preserves keeps_ok q \<Longrightarrow> preserves same_nodes q \<Longrightarrow> preserves keeps_scope q"
  by (rule keeps_scopeI) (auto simp: preserves_def same_nodes_def intro: in_scope_same)

lemma keeps_nodes_users:
  "preserves same_nodes (CreateUser email h name)"
  "preserves same_nodes (CreateSession h u t)"
  "preserves same_nodes (DeleteSession h)"
  "preserves same_nodes DeleteExpiredSessions"
  by (auto intro!: same_nodesI simp: same_nodes_def CreateUser_def CreateSession_def DeleteSession_def DeleteExpiredSessions_def
    stmt_simps split: option.splits if_splits)

lemma keeps_nodes_teams:
  "preserves same_nodes (CreateTeam name u)"
  "preserves same_nodes (UpdateTeamName i name)"
  "preserves same_nodes (CreateTeamMember t u a)"
  "preserves same_nodes (CreateTeamMemberIfAbsent t u)"
  "preserves same_nodes (DeleteTeamMember t u)"
  "preserves same_nodes (UpdateMemberAllProjects t u a)"
  by (auto intro!: same_nodesI simp: same_nodes_def CreateTeam_def UpdateTeamName_def CreateTeamMember_def CreateTeamMemberIfAbsent_def DeleteTeamMember_def UpdateMemberAllProjects_def
    stmt_simps split: option.splits if_splits)

lemma keeps_nodes_invitations:
  "preserves same_nodes (CreateInvitation t email u)"
  "preserves same_nodes (UpdateInvitationStatus i st)"
  "preserves same_nodes (DeleteInvitation i)"
  by (auto intro!: same_nodesI simp: same_nodes_def CreateInvitation_def UpdateInvitationStatus_def DeleteInvitation_def
    stmt_simps split: option.splits if_splits)

lemma keeps_nodes_projects:
  "preserves same_nodes (CreateProject t name u)"
  "preserves same_nodes (UpdateProjectName i name)"
  "preserves same_nodes (BulkUpdateProjectOrder t ids)"
  "preserves same_nodes (DeleteAllProjectAccess i)"
  "preserves same_nodes (DeleteAllUserAccessInTeam u t)"
  "preserves same_nodes (GrantProjectAccess i us)"
  "preserves same_nodes (GrantUserProjectAccess is u)"
  by (auto intro!: same_nodesI simp: same_nodes_def CreateProject_def UpdateProjectName_def BulkUpdateProjectOrder_def DeleteAllProjectAccess_def DeleteAllUserAccessInTeam_def GrantProjectAccess_def GrantUserProjectAccess_def grant_pairs_def
    stmt_simps split: option.splits if_splits)

lemma keeps_nodes_environments:
  "preserves same_nodes (CreateEnvironment i name)"
  "preserves same_nodes (UpdateEnvironmentName i name)"
  "preserves same_nodes (DeleteEnvironment i)"
  "preserves same_nodes (CreateVariable i k ty val)"
  "preserves same_nodes (UpdateVariable i ko tyo sv val)"
  "preserves same_nodes (DeleteVariable i)"
  "preserves same_nodes (BulkUpdateEnvironmentOrder i ids)"
  "preserves same_nodes (BulkUpdateVariableOrder i ids)"
  by (auto intro!: same_nodesI simp: same_nodes_def CreateEnvironment_def UpdateEnvironmentName_def DeleteEnvironment_def CreateVariable_def UpdateVariable_def DeleteVariable_def BulkUpdateEnvironmentOrder_def BulkUpdateVariableOrder_def delete_environments_def
    stmt_simps split: option.splits if_splits)

lemma keeps_nodes_examples:
  "preserves same_nodes (CreateRequestExample i name st h ct b n)"
  "preserves same_nodes (UpdateRequestExample i ep)"
  "preserves same_nodes (DeleteRequestExample i)"
  "preserves same_nodes (BulkUpdateRequestExampleOrder i ids)"
  by (auto intro!: same_nodesI simp: same_nodes_def CreateRequestExample_def UpdateRequestExample_def DeleteRequestExample_def BulkUpdateRequestExampleOrder_def
    stmt_simps split: option.splits if_splits)

lemma keeps_nodes_webhooks:
  "preserves same_nodes (CreateWebhookEndpoint i name sl dm u)"
  "preserves same_nodes (UpdateWebhookEndpoint i wp)"
  "preserves same_nodes (DeleteWebhookEndpoint i)"
  "preserves same_nodes (DeleteWebhookCaptures i)"
  "preserves same_nodes (InsertWebhookCapture cp)"
  "preserves same_nodes (PruneWebhookCaptures i n)"
  by (auto intro!: same_nodesI simp: same_nodes_def CreateWebhookEndpoint_def UpdateWebhookEndpoint_def DeleteWebhookEndpoint_def DeleteWebhookCaptures_def InsertWebhookCapture_def PruneWebhookCaptures_def delete_endpoints_def
    stmt_simps split: option.splits if_splits)

lemmas [scope_intros] =
  scope_nodes [OF keeps_CreateUser keeps_nodes_users(1)] scope_nodes [OF keeps_CreateSession keeps_nodes_users(2)]
  scope_nodes [OF keeps_DeleteSession keeps_nodes_users(3)] scope_nodes [OF keeps_DeleteExpiredSessions keeps_nodes_users(4)]
  scope_nodes [OF keeps_CreateTeam keeps_nodes_teams(1)] scope_nodes [OF keeps_UpdateTeamName keeps_nodes_teams(2)]
  scope_nodes [OF keeps_CreateTeamMember keeps_nodes_teams(3)] scope_nodes [OF keeps_CreateTeamMemberIfAbsent keeps_nodes_teams(4)]
  scope_nodes [OF keeps_DeleteTeamMember keeps_nodes_teams(5)] scope_nodes [OF keeps_UpdateMemberAllProjects keeps_nodes_teams(6)]
  scope_nodes [OF keeps_CreateInvitation keeps_nodes_invitations(1)] scope_nodes [OF keeps_UpdateInvitationStatus keeps_nodes_invitations(2)]
  scope_nodes [OF keeps_DeleteInvitation keeps_nodes_invitations(3)] scope_nodes [OF keeps_CreateProject keeps_nodes_projects(1)]
  scope_nodes [OF keeps_UpdateProjectName keeps_nodes_projects(2)] scope_nodes [OF keeps_BulkUpdateProjectOrder keeps_nodes_projects(3)]
  scope_nodes [OF keeps_DeleteAllProjectAccess keeps_nodes_projects(4)] scope_nodes [OF keeps_DeleteAllUserAccessInTeam keeps_nodes_projects(5)]
  scope_nodes [OF keeps_grants(1) keeps_nodes_projects(6)] scope_nodes [OF keeps_grants(2) keeps_nodes_projects(7)]
  scope_nodes [OF keeps_CreateEnvironment keeps_nodes_environments(1)] scope_nodes [OF keeps_UpdateEnvironmentName keeps_nodes_environments(2)]
  scope_nodes [OF keeps_deletes(5) keeps_nodes_environments(3)] scope_nodes [OF keeps_CreateVariable keeps_nodes_environments(4)]
  scope_nodes [OF keeps_UpdateVariable keeps_nodes_environments(5)] scope_nodes [OF keeps_DeleteVariable keeps_nodes_environments(6)]
  scope_nodes [OF keeps_BulkUpdateEnvironmentOrder keeps_nodes_environments(7)] scope_nodes [OF keeps_BulkUpdateVariableOrder keeps_nodes_environments(8)]
  scope_nodes [OF keeps_CreateRequestExample keeps_nodes_examples(1)] scope_nodes [OF keeps_UpdateRequestExample keeps_nodes_examples(2)]
  scope_nodes [OF keeps_DeleteRequestExample keeps_nodes_examples(3)] scope_nodes [OF keeps_BulkUpdateRequestExampleOrder keeps_nodes_examples(4)]
  scope_nodes [OF keeps_CreateWebhookEndpoint keeps_nodes_webhooks(1)] scope_nodes [OF keeps_UpdateWebhookEndpoint keeps_nodes_webhooks(2)]
  scope_nodes [OF keeps_deletes(7) keeps_nodes_webhooks(3)] scope_nodes [OF keeps_DeleteWebhookCaptures keeps_nodes_webhooks(4)]
  scope_nodes [OF keeps_InsertWebhookCapture keeps_nodes_webhooks(5)] scope_nodes [OF keeps_PruneWebhookCaptures keeps_nodes_webhooks(6)]

text \<open>Reordering, and the deletes with their cascades, leave traces.\<close>

definition leaves_traces :: "db \<Rightarrow> db \<Rightarrow> bool" where
  "leaves_traces d e \<longleftrightarrow> (\<forall>f \<in> set (folders e). \<exists>g \<in> set (folders d). folder_trace f g) \<and>
     (\<forall>r \<in> set (requests e). \<exists>s \<in> set (requests d). request_trace r s) \<and>
     (\<forall>x \<in> set (proxies e). \<exists>y \<in> set (proxies d). proxy_trace x y)"

lemma trace_trans:
  "folder_trace f g \<Longrightarrow> folder_trace g h \<Longrightarrow> folder_trace f h"
  "request_trace r s \<Longrightarrow> request_trace s t \<Longrightarrow> request_trace r t"
  "proxy_trace x y \<Longrightarrow> proxy_trace y z \<Longrightarrow> proxy_trace x z"
  by (auto simp: folder_trace_def request_trace_def proxy_trace_def)

lemma leaves_traces_refl [simp]: "leaves_traces d d"
  by (auto simp: leaves_traces_def)

lemma leaves_traces_trans: "leaves_traces d e \<Longrightarrow> leaves_traces e f \<Longrightarrow> leaves_traces d f"
  unfolding leaves_traces_def by (meson trace_trans)

lemma scope_traces: "preserves keeps_ok q \<Longrightarrow> preserves leaves_traces q \<Longrightarrow> preserves keeps_scope q"
  by (rule keeps_scopeI) (auto simp: preserves_def leaves_traces_def intro: in_scope_traces)

lemma traces_I:
  "(\<And>s d x d'. q s d = Inr (x, d') \<Longrightarrow> leaves_traces d d') \<Longrightarrow> preserves leaves_traces q"
  by (auto simp: preserves_def)

lemma traces_of_nodes: "same_nodes d e \<Longrightarrow> leaves_traces d e"
  by (auto simp: same_nodes_def leaves_traces_def)

lemma traces_update:
  "(\<And>f. folder_trace (g f) f) \<Longrightarrow> leaves_traces d (d\<lparr> folders := map g (folders d) \<rparr>)"
  "(\<And>r. request_trace (h r) r) \<Longrightarrow> leaves_traces d (d\<lparr> requests := map h (requests d) \<rparr>)"
  "(\<And>x. proxy_trace (k x) x) \<Longrightarrow> leaves_traces d (d\<lparr> proxies := map k (proxies d) \<rparr>)"
  by (auto simp: leaves_traces_def)

lemma traces_orders:
  "preserves leaves_traces (BulkUpdateFolderOrder p k ids)"
  "preserves leaves_traces (BulkUpdateRequestOrder p k ids)"
  "preserves leaves_traces (BulkUpdateProxyOrder i ids)"
  "preserves leaves_traces (UpdateProxy i xp)"
  by (auto intro!: traces_I traces_update simp: folder_trace_def request_trace_def proxy_trace_def
    BulkUpdateFolderOrder_def BulkUpdateRequestOrder_def BulkUpdateProxyOrder_def UpdateProxy_def update_rows_def
    stmt_simps split: option.splits)

lemma traces_unset:
  "folder_trace (f\<lparr> f_settings := unset_proxy gone (f_settings f) \<rparr>) f"
  "request_trace (r\<lparr> r_settings := unset_proxy gone (r_settings r) \<rparr>) r"
  by (auto simp: folder_trace_def request_trace_def unset_proxy_def split: option.split)

lemma traces_cascades:
  "leaves_traces d (delete_requests p d)" "leaves_traces d (delete_environments q d)"
  "leaves_traces d (delete_endpoints s d)" "leaves_traces d (delete_proxies x d)"
  "leaves_traces d (delete_folders ids d)"
  by (auto simp: leaves_traces_def delete_requests_def delete_environments_def delete_endpoints_def delete_proxies_def
    delete_folders_def set_delete_rows Let_def intro: traces_unset)

lemmas traces_then = leaves_traces_trans [OF _ traces_cascades(1)] leaves_traces_trans [OF _ traces_cascades(2)]
  leaves_traces_trans [OF _ traces_cascades(3)] leaves_traces_trans [OF _ traces_cascades(4)]

lemma traces_rest: "leaves_traces d e \<Longrightarrow> leaves_traces d (e\<lparr> projects := ps, project_access := as \<rparr>)"
  by (auto simp: leaves_traces_def)

lemma traces_delete_projects: "leaves_traces d (delete_projects p d)"
  unfolding delete_projects_split Let_def by (intro traces_rest traces_then traces_cascades(5))

lemma traces_delete_teams: "leaves_traces d (delete_teams p d)"
  unfolding delete_teams_def Let_def delete_projects_frame
  by (rule leaves_traces_trans [OF traces_delete_projects traces_of_nodes]) (simp add: same_nodes_def)

lemma traces_deletes:
  "preserves leaves_traces (DeleteTeam i)" "preserves leaves_traces (DeleteProject i)"
  "preserves leaves_traces (DeleteFolder i)" "preserves leaves_traces (DeleteRequest i)"
  "preserves leaves_traces (DeleteProxy i)"
  by (auto simp: preserves_def DeleteTeam_def DeleteProject_def DeleteFolder_def DeleteRequest_def DeleteProxy_def
    traces_delete_teams traces_delete_projects traces_cascades)

lemmas [scope_intros] = scope_traces [OF keeps_BulkUpdateFolderOrder traces_orders(1)]
  scope_traces [OF keeps_BulkUpdateRequestOrder traces_orders(2)]
  scope_traces [OF keeps_BulkUpdateProxyOrder traces_orders(3)] scope_traces [OF keeps_UpdateProxy traces_orders(4)]
  scope_traces [OF keeps_deletes(1) traces_deletes(1)] scope_traces [OF keeps_deletes(2) traces_deletes(2)]
  scope_traces [OF keeps_deletes(3) traces_deletes(3)] scope_traces [OF keeps_deletes(4) traces_deletes(4)]
  scope_traces [OF keeps_deletes(6) traces_deletes(5)]

text \<open>A new proxy is named by nobody.\<close>

lemma scope_CreateProxy [scope_intros]: "preserves keeps_scope (CreateProxy p name ty host port u b)"
proof (rule keeps_scopeI [OF keeps_CreateProxy])
  fix s d x d' assume ok: "db_ok d" "in_scope d" and q: "CreateProxy p name ty host port u b s d = Inr (x, d')"
  then have new: "x_id x \<notin> x_id ` set (proxies d)" "d' = d\<lparr> proxies := proxies d @ [x] \<rparr>"
    by (auto simp: CreateProxy_def stmt_simps)
  have "proxy_id (f_settings f) \<noteq> Some (x_id x)" if "f \<in> set (folders d)" for f
    using db_okD(8) [OF ok(1)] that new(1) by (auto simp: folders_ok_def opt_refs_def)
  moreover have "proxy_id (r_settings r) \<noteq> Some (x_id x)" if "r \<in> set (requests d)" for r
    using db_okD(11) [OF ok(1)] that new(1) by (auto simp: requests_ok_def opt_refs_def)
  ultimately show "in_scope d'" using ok(2) new(2) by (auto simp: in_scope_def)
qed

section \<open>Runs\<close>

text \<open>
  Kept by a run when no other session writes in between: the guards and the writes they guard are
  separate statements, of one transaction or of none.
\<close>

definition scoped :: "world \<Rightarrow> world \<Rightarrow> bool" where
  "scoped w v \<longleftrightarrow> same_env w v \<and> (isolated w \<longrightarrow> keeps_scope (dbs w) (dbs v))"

interpretation scope_db: db_rel keeps_scope
  by unfold_locales (auto simp: keeps_scope_def)

interpretation scope_runs: step_rel scoped
  by unfold_locales (auto simp: scoped_def same_env_isolated intro: same_env_trans scope_db.refl_P scope_db.trans_P)

lemma isolated_others_keep: "isolated w \<Longrightarrow> (\<And>d. P d d) \<Longrightarrow> others_keep P w"
  by (simp add: isolated_def others_keep_def)

lemma scoped_of_keeping: "runs (keeping keeps_scope) f \<Longrightarrow> runs scoped f"
  by (auto simp: runs_def keeping_def scoped_def intro: isolated_others_keep scope_db.refl_P)

lemma scoped_exec: "preserves keeps_scope q \<Longrightarrow> runs scoped (exec q)"
  by (intro scoped_of_keeping scope_db.runs_exec)

lemma scoped_unchanged: "runs unchanged f \<Longrightarrow> runs scoped f"
  by (simp add: runs_def unchanged_def scoped_def scope_db.refl_P)

interpretation scope_tx: tx_keeps scoped
proof
  show "scoped w (arrive w)" for w
    by (simp add: scoped_def arrive_isolated scope_db.refl_P)
  show "same_env w v" if "scoped w v" for w v
    using that by (simp add: scoped_def)
  show "scoped w v" if "scoped ((arrive w)\<lparr> in_tx := Some (tick w) \<rparr>) u" "same_env w v"
    "dbs v = dbs (arrive w) \<or> dbs v = dbs u" for w u v
    using that same_env_isolated [of w "arrive w"] by (auto simp: scoped_def arrive_isolated scope_db.refl_P)
qed

text \<open>The schema is kept anyway, so that only the boundaries need an argument.\<close>

lemma scopedI:
  assumes "runs (keeping keeps_ok) f"
    "\<And>w r v. isolated w \<Longrightarrow> db_ok (dbs w) \<Longrightarrow> in_scope (dbs w) \<Longrightarrow> f w = (r, v) \<Longrightarrow> in_scope (dbs v)"
  shows "runs scoped f"
  unfolding runs_def scoped_def
proof (intro allI conjI impI)
  fix w
  obtain r v where e: "f w = (r, v)" by fastforce
  from runsD [OF assms(1) e] show "same_env w (snd (f w))" by (simp add: keeping_def e)
  assume "isolated w"
  with runsD [OF assms(1) e] isolated_others_keep [of w keeps_ok] assms(2) [OF this _ _ e]
  show "keeps_scope (dbs w) (dbs (snd (f w)))" by (auto simp: keeping_def keeps_scope_def keeps_ok_def e)
qed

lemma exec_isolated:
  assumes "exec q w = (r, v)" "isolated w"
  obtains (nothing) "dbs v = dbs w" | (wrote) s x where "q s (dbs w) = Inr (x, dbs v)"
  using assms by (auto simp: exec_def Let_def arrive_isolated split: outcome.splits sum.splits prod.splits)

lemma exec_in_scope:
  assumes "exec q w = (r, v)" "isolated w" "in_scope (dbs w)"
    "\<And>s x d'. q s (dbs w) = Inr (x, d') \<Longrightarrow> in_scope d'"
  shows "in_scope (dbs v)"
  using assms(1,2) by (rule exec_isolated) (use assms(3,4) in auto)

text \<open>What the guards read.\<close>

interpretation guards: read_keeps unchanged
  by unfold_locales (simp add: unchanged_def arrive_isolated)

lemma unchanged_require_folder: "runs unchanged (requireFolderInProject p project_id e)"
  unfolding requireFolderInProject_def [abs_def] by (intro guards.store_rules)

lemma require_folder_isolated:
  assumes "requireFolderInProject p project_id e w = (Inr x, v)" "isolated w"
  shows "\<exists>g \<in> set (folders (dbs w)). f_id g = p \<and> f_project_id g = project_id"
proof -
  from assms(1) obtain g v where g: "exec (GetFolderByID p) w = (Inr g, v)" "f_project_id g = project_id"
    by (auto simp: requireFolderInProject_def split: prod.splits sum.splits if_splits)
  from exec_reading_Inr [OF g(1) [unfolded GetFolderByID_def] assms(2)] g(2) show ?thesis
    by (auto split: option.splits dest: find_row_SomeD)
qed

lemma require_proxy_isolated:
  assumes "requireProxyInProject patch project_id w = (Inr u, v)" "isolated w" "patch = Some p" "pp_proxy_id p = Some i"
  shows "\<exists>x \<in> set (proxies (dbs w)). x_id x = i \<and> x_project_id x = project_id"
proof -
  from assms(1,3,4) obtain x v where x: "exec (GetProxyByID i) w = (Inr x, v)" "x_project_id x = project_id"
    by (auto simp: requireProxyInProject_def split: prod.splits sum.splits if_splits)
  from exec_reading_Inr [OF x(1) [unfolded GetProxyByID_def] assms(2)] x(2) show ?thesis
    by (auto split: option.splits dest: find_row_SomeD)
qed

section \<open>Guarded statements\<close>

text \<open>What the guards establish: the folder, the proxy, is one of the project.\<close>

definition folder_of :: "db \<Rightarrow> uuid \<Rightarrow> uuid option \<Rightarrow> bool" where
  "folder_of d project_id k \<longleftrightarrow>
     (\<forall>p. k = Some p \<longrightarrow> (\<exists>g \<in> set (folders d). f_id g = p \<and> f_project_id g = project_id))"

definition proxy_of :: "db \<Rightarrow> uuid \<Rightarrow> settings_params \<Rightarrow> bool" where
  "proxy_of d project_id p \<longleftrightarrow> (\<forall>i. sp_set_proxy p \<longrightarrow> sp_proxy_id p = Some i \<longrightarrow>
     (\<exists>x \<in> set (proxies d). x_id x = i \<and> x_project_id x = project_id))"

lemma proxy_of_merge:
  assumes "proxy_of d pr p" "pkey x_id (proxies d)" "x \<in> set (proxies d)"
    "proxy_id (merge_settings p s) = Some (x_id x)" "proxy_id s = Some (x_id x) \<Longrightarrow> x_project_id x = pr"
  shows "x_project_id x = pr"
  using assms unfolding proxy_of_def merge_settings_def
  by (auto split: if_splits dest: pkey_unique)

lemma folder_of_only:
  assumes "folder_of d pr k" "pkey f_id (folders d)" "g \<in> set (folders d)" "k = Some (f_id g)"
  shows "f_project_id g = pr"
  using assms unfolding folder_of_def by (auto dest: pkey_unique)

lemma in_scopeI:
  assumes "forest (folders d)"
    "\<And>r g. r \<in> set (requests d) \<Longrightarrow> g \<in> set (folders d) \<Longrightarrow> r_folder_id r = Some (f_id g) \<Longrightarrow> f_project_id g = r_project_id r"
    "\<And>f x. f \<in> set (folders d) \<Longrightarrow> x \<in> set (proxies d) \<Longrightarrow> proxy_id (f_settings f) = Some (x_id x) \<Longrightarrow> x_project_id x = f_project_id f"
    "\<And>r x. r \<in> set (requests d) \<Longrightarrow> x \<in> set (proxies d) \<Longrightarrow> proxy_id (r_settings r) = Some (x_id x) \<Longrightarrow> x_project_id x = r_project_id r"
  shows "in_scope d"
  unfolding in_scope_def
  by (intro conjI ballI impI in_scope_forest [OF assms(1)]; (erule (2) assms(2-4) in_scope_forest(2) [OF assms(1)])?)

lemma in_scope_keys:
  assumes "db_ok d"
  shows "pkey f_id (folders d)" "pkey r_id (requests d)" "pkey x_id (proxies d)"
  using db_okD [OF assms] by (simp_all add: folders_ok_def requests_ok_def proxies_ok_def)

lemma CreateFolder_scope:
  assumes "db_ok d" "in_scope d" "folder_of d pr k" "CreateFolder pr k name s d = Inr (f, d')"
  shows "in_scope d'"
proof -
  from assms(4) have f: "f_id f \<notin> f_id ` set (folders d)" "f_project_id f = pr" "f_parent_id f = k"
    "f_settings f = default_settings" "d' = d\<lparr> folders := folders d @ [f] \<rparr>"
    by (auto simp: CreateFolder_def stmt_simps)
  have "forest (folders d')" unfolding f(5)
    using forest_append [OF forest_in_scope [OF assms(1,2)] f(1)] assms(3) f(2,3)
    by (auto simp: same_project_parent_def folder_of_def split: option.split)
  moreover have "r_folder_id r \<noteq> Some (f_id f)" if "r \<in> set (requests d)" for r
    using db_okD(11) [OF assms(1)] that f(1) by (auto simp: requests_ok_def opt_refs_def)
  ultimately show ?thesis
    by (intro in_scopeI) (auto simp: f(4,5) dest: in_scopeD(3-5) [OF assms(2)])
qed

lemma CreateRequest_scope:
  assumes "db_ok d" "in_scope d" "folder_of d pr k" "CreateRequest pr k name m url s d = Inr (r, d')"
  shows "in_scope d'"
proof -
  from assms(4) have r: "r_project_id r = pr" "r_folder_id r = k" "r_settings r = default_settings"
    "d' = d\<lparr> requests := requests d @ [r] \<rparr>"
    by (auto simp: CreateRequest_def stmt_simps)
  with assms(2) folder_of_only [OF assms(3) in_scope_keys(1) [OF assms(1)]] show ?thesis
    by (auto simp: in_scope_def)
qed

lemma UpdateFolder_scope:
  assumes "db_ok d" "in_scope d" "UpdateFolder i name p s d = Inr (f', d')"
    "\<And>f. f \<in> set (folders d) \<Longrightarrow> f_id f = i \<Longrightarrow> proxy_of d (f_project_id f) p"
  shows "in_scope d'"
proof -
  define upd :: "Folder \<Rightarrow> Folder" where "upd f = (if f_id f = i then f\<lparr> f_name := coalesce name (f_name f),
    f_settings := merge_settings p (f_settings f) \<rparr> else f)" for f
  have d': "d' = d\<lparr> folders := map upd (folders d) \<rparr>"
    using assms(3) by (auto simp: UpdateFolder_def stmt_simps update_rows_def upd_def [abs_def] split: option.splits)
  have upd: "f_id (upd f) = f_id f" "f_project_id (upd f) = f_project_id f" "f_parent_id (upd f) = f_parent_id f" for f
    by (simp_all add: upd_def)
  have "forest (folders d')" unfolding d'
    by (simp, rule forest_map [OF forest_in_scope [OF assms(1,2)]]) (simp add: same_place_def upd)
  moreover have "x_project_id x = f_project_id f"
    if "f \<in> set (folders d)" "x \<in> set (proxies d)" "proxy_id (f_settings (upd f)) = Some (x_id x)" for f x
    using that in_scopeD(4) [OF assms(2) that(1,2)]
      proxy_of_merge [OF assms(4) [OF that(1)] in_scope_keys(3) [OF assms(1)] that(2)]
    by (auto simp: upd_def split: if_splits)
  ultimately show ?thesis
    by (intro in_scopeI) (auto simp: d' upd dest: in_scopeD(3,5) [OF assms(2)])
qed

lemma UpdateRequest_scope:
  assumes "db_ok d" "in_scope d" "UpdateRequest i p s d = Inr (r', d')"
    "\<And>r. r \<in> set (requests d) \<Longrightarrow> r_id r = i \<Longrightarrow> proxy_of d (r_project_id r) (up_settings p)"
  shows "in_scope d'"
proof -
  from assms(3) obtain upd where d': "d' = d\<lparr> requests := map upd (requests d) \<rparr>"
    and upd: "\<And>r. r_project_id (upd r) = r_project_id r" "\<And>r. r_folder_id (upd r) = r_folder_id r"
      "\<And>r. r_id r = i \<Longrightarrow> r_settings (upd r) = merge_settings (up_settings p) (r_settings r)"
      "\<And>r. r_id r \<noteq> i \<Longrightarrow> r_settings (upd r) = r_settings r"
    by (auto simp: UpdateRequest_def stmt_simps update_rows_def split: option.splits)
  have "x_project_id x = r_project_id r"
    if "r \<in> set (requests d)" "x \<in> set (proxies d)" "proxy_id (r_settings (upd r)) = Some (x_id x)" for r x
    using that in_scopeD(5) [OF assms(2) that(1,2)] upd(3,4) [of r]
      proxy_of_merge [OF assms(4) [OF that(1)] in_scope_keys(3) [OF assms(1)] that(2)]
    by (cases "r_id r = i") auto
  then show ?thesis
    using assms(2) unfolding in_scope_def by (simp add: d' upd)
qed

lemma UpdateRequestFolder_scope:
  assumes "db_ok d" "in_scope d" "UpdateRequestFolder i k so s d = Inr (r', d')"
    "\<And>r. r \<in> set (requests d) \<Longrightarrow> r_id r = i \<Longrightarrow> folder_of d (r_project_id r) k"
  shows "in_scope d'"
proof -
  from assms(3) obtain upd where d': "d' = d\<lparr> requests := map upd (requests d) \<rparr>"
    and upd: "\<And>r. r_project_id (upd r) = r_project_id r" "\<And>r. r_settings (upd r) = r_settings r"
      "\<And>r. r_folder_id (upd r) = (if r_id r = i then k else r_folder_id r)"
    by (auto simp: UpdateRequestFolder_def stmt_simps update_rows_def split: option.splits)
  with assms(2) folder_of_only [OF assms(4) in_scope_keys(1) [OF assms(1)]] show ?thesis
    unfolding in_scope_def by (auto simp: d' upd)
qed

section \<open>Guarded operations\<close>

lemma scope_CreateFolderInProject [scope_intros]: "runs scoped (CreateFolderInProject pr k name)"
proof (rule scopedI [OF schema_CreateFolderInProject])
  fix w r v
  assume i: "isolated w" "db_ok (dbs w)" "in_scope (dbs w)" and c: "CreateFolderInProject pr k name w = (r, v)"
  define g where "g = (\<lambda>w. case k of None \<Rightarrow> (Inr (), w) | Some p \<Rightarrow> requireFolderInProject p pr ErrInvalidParentFolder w)"
  obtain t w1 where t: "g w = (t, w1)" by fastforce
  have "runs unchanged g" unfolding g_def by (intro guards.store_rules unchanged_require_folder)
  from unchangedD [OF this t i(1)] have w1: "dbs w1 = dbs w" "isolated w1" by simp_all
  show "in_scope (dbs v)"
  proof (cases t)
    case (Inl e)
    with c t w1 i(3) show ?thesis by (simp add: CreateFolderInProject_def g_def)
  next
    case (Inr u)
    then have f: "folder_of (dbs w) pr k"
      using t require_folder_isolated [OF _ i(1)] by (auto simp: g_def folder_of_def)
    from c t Inr obtain q where "exec (CreateFolder pr k name) w1 = (q, v)"
      by (auto simp: CreateFolderInProject_def g_def split: prod.splits sum.splits if_splits)
    then show ?thesis
      by (rule exec_in_scope [OF _ w1(2)]) (use i(3) CreateFolder_scope [OF i(2,3) f] in \<open>auto simp: w1(1)\<close>)
  qed
qed

lemma unchanged_request_folder: "runs unchanged (require_request_folder k pr)"
  unfolding require_request_folder_def [abs_def] by (intro guards.store_rules unchanged_require_folder)

lemma request_folder_isolated:
  "require_request_folder k pr w = (Inr u, v) \<Longrightarrow> isolated w \<Longrightarrow> folder_of (dbs w) pr k"
  by (auto simp: require_request_folder_def folder_of_def dest: require_folder_isolated split: option.splits)

lemma scope_CreateRequestInProject [scope_intros]: "runs scoped (CreateRequestInProject pr k name m url)"
proof (rule scopedI [OF schema_CreateRequestInProject])
  fix w r v
  assume i: "isolated w" "db_ok (dbs w)" "in_scope (dbs w)" and c: "CreateRequestInProject pr k name m url w = (r, v)"
  obtain t w1 where t: "require_request_folder k pr w = (t, w1)" by fastforce
  from unchangedD [OF unchanged_request_folder t i(1)] have w1: "dbs w1 = dbs w" "isolated w1" by simp_all
  show "in_scope (dbs v)"
  proof (cases t)
    case (Inl e)
    with c t w1 i(3) show ?thesis by (simp add: CreateRequestInProject_def)
  next
    case (Inr u)
    with t i(1) have f: "folder_of (dbs w) pr k" by (auto dest: request_folder_isolated)
    from c t Inr obtain q where "exec (CreateRequest pr k name m url) w1 = (q, v)"
      by (auto simp: CreateRequestInProject_def split: prod.splits sum.splits if_splits)
    then show ?thesis
      by (rule exec_in_scope [OF _ w1(2)]) (use i(3) CreateRequest_scope [OF i(2,3) f] in \<open>auto simp: w1(1)\<close>)
  qed
qed

lemma scope_MoveFolder [scope_intros]: "runs scoped (MoveFolder i k so)"
proof (rule scopedI [OF schema_MoveFolder])
  fix w r v
  assume a: "isolated w" "db_ok (dbs w)" "in_scope (dbs w)" and m: "MoveFolder i k so w = (r, v)"
  have pk: "pkey f_id (folders (dbs (arrive w)))" using in_scope_keys(1) [OF a(2)] by (simp add: a(1) arrive_isolated)
  have forest: "forest (folders (dbs v))"
    by (rule move_folder_forest [OF m]) (simp add: a arrive_isolated forest_in_scope)
  from m pk show "in_scope (dbs v)"
  proof (rule move_folder_effect)
    fix f n
    assume v: "dbs v = (dbs (arrive w))\<lparr> folders := moved_to i k n (folders (dbs (arrive w))) \<rparr>"
    show ?thesis
      by (rule in_scopeI [OF forest])
        (auto simp: v a(1) arrive_isolated moved_to_def set_update_rows dest: in_scopeD(3-5) [OF a(3)])
  qed (simp add: a arrive_isolated)
qed

lemma scope_move_request_tx: "runs scoped (move_request_tx i k so)"
proof (rule scopedI [OF schema_move_request_tx])
  fix w r v
  assume a: "isolated w" "db_ok (dbs w)" "in_scope (dbs w)" and m: "move_request_tx i k so w = (r, v)"
  note read = unchangedD [OF runs_unchanged_exec]
  obtain t1 w1 where 1: "exec (GetRequestByID i) w = (t1, w1)" by fastforce
  with read [OF _ 1 a(1)] have w1: "dbs w1 = dbs w" "isolated w1" by (simp_all add: readonly_intros)
  show "in_scope (dbs v)"
  proof (cases t1)
    case (Inl e)
    with m 1 w1 a(3) show ?thesis by (simp add: move_request_tx_def)
  next
    case request: (Inr request)
    obtain t2 w2 where 2: "exec (LockProject (r_project_id request)) w1 = (t2, w2)" by fastforce
    with read [OF _ 2 w1(2)] w1 have w2: "dbs w2 = dbs w" "isolated w2" by (simp_all add: readonly_intros)
    obtain t3 w3 where 3: "require_request_folder k (r_project_id request) w2 = (t3, w3)" by fastforce
    from unchangedD [OF unchanged_request_folder 3 w2(2)] w2(1) have w3: "dbs w3 = dbs w" "isolated w3" by simp_all
    show ?thesis
    proof (cases "\<exists>e. t2 = Inl e \<or> t3 = Inl e")
      case True
      with m 1 2 3 request w2 w3 a(3) show ?thesis by (auto simp: move_request_tx_def split: sum.splits)
    next
      case False
      then obtain u x where ok: "t2 = Inr x" "t3 = Inr u" by (cases t2; cases t3) auto
      with m 1 2 3 request obtain q where q: "exec (UpdateRequestFolder i k so) w3 = (q, v)"
        by (auto simp: move_request_tx_def split: prod.splits sum.splits if_splits)
      have "folder_of (dbs w) (r_project_id request) k"
        using request_folder_isolated [OF 3 [unfolded ok] w2(2)] w2(1) by simp
      moreover have "r = request" if "r \<in> set (requests (dbs w))" "r_id r = i" for r
        using exec_reading_Inr [OF 1 [unfolded request GetRequestByID_def] a(1)]
          that find_row_pkey [OF in_scope_keys(2) [OF a(2)] that(1)] by auto
      ultimately have "in_scope d'" if "UpdateRequestFolder i k so s (dbs w) = Inr (x, d')" for s x d'
        using UpdateRequestFolder_scope [OF a(2,3) that] by blast
      then show ?thesis
        by (intro exec_in_scope [OF q w3(2)]) (auto simp: w3(1) a(3))
    qed
  qed
qed

lemma scope_MoveRequest [scope_intros]: "runs scoped (MoveRequest i k so)"
  unfolding MoveRequest_def by (rule scope_tx.brackets [OF scope_move_request_tx])

text \<open>The update handlers: the proxy must be one of the project the node was found in.\<close>

lemma proxy_values_of:
  assumes "requireProxyInProject patch pr w = (Inr u, v)" "isolated w"
    "proxy_values patch = (sp_proxy_mode p, sp_set_proxy p, sp_proxy_id p)"
  shows "proxy_of (dbs w) pr p"
  using assms require_proxy_isolated [OF assms(1,2)] unfolding proxy_of_def proxy_values_def
  by (auto split: option.splits)

lemma folder_access_isolated:
  assumes "RequireFolderAccess i u w = (Inr cur, v)" "isolated w"
  shows "find_row (\<lambda>f. f_id f = i) (folders (dbs w)) = Some cur \<and> dbs v = dbs w \<and> isolated v"
proof -
  from assms(1) obtain w1 where "exec (GetFolderByID i) w = (Inr cur, w1)"
    by (auto simp: RequireFolderAccess_def split: prod.splits sum.splits if_splits)
  from exec_reading_Inr [OF this [unfolded GetFolderByID_def] assms(2)] show ?thesis
    using unchangedD [OF guards.kept_RequireFolderAccess assms] by (auto split: option.splits)
qed

lemma request_access_isolated:
  assumes "RequireRequestAccess i u w = (Inr cur, v)" "isolated w"
  shows "find_row (\<lambda>r. r_id r = i) (requests (dbs w)) = Some cur \<and> dbs v = dbs w \<and> isolated v"
proof -
  from assms(1) obtain w1 where "exec (GetRequestByID i) w = (Inr cur, w1)"
    by (auto simp: RequireRequestAccess_def split: prod.splits sum.splits if_splits)
  from exec_reading_Inr [OF this [unfolded GetRequestByID_def] assms(2)] show ?thesis
    using unchangedD [OF guards.kept_RequireRequestAccess assms] by (auto split: option.splits)
qed

lemma handleUpdateFolder_write:
  assumes "handleUpdateFolder L r w = (resp, v)" "isolated w" "dbs v \<noteq> dbs w"
  obtains i uid cur w1 where "RequireFolderAccess i uid w = (Inr cur, w1)"
    "\<exists>patch u w2 name req auth q. requireProxyInProject patch (f_project_id cur) w1 = (Inr u, w2) \<and>
      exec (UpdateFolder i name (folder_settings_params req auth patch)) w2 = (q, v)"
proof -
  from assms(1,3) obtain user i where a: "authenticatedUser r = Inr user" "pathUUID L r ''id'' = Inr i"
    by (auto simp: handleUpdateFolder_def split: sum.splits)
  obtain t1 w1 where 1: "RequireFolderAccess i (au_id user) w = (t1, w1)" by fastforce
  from unchangedD [OF guards.kept_RequireFolderAccess 1 assms(2)] have w1: "dbs w1 = dbs w" "isolated w1" by auto
  from a 1 w1 assms(1,3) obtain cur where cur: "t1 = Inr cur"
    by (cases t1) (auto simp: handleUpdateFolder_def)
  have same: "dbs w2 = dbs w" if "requireProxyInProject patch (f_project_id cur) w1 = (t2, w2)" for patch t2 w2
    using unchangedD [OF guards.kept_requireProxyInProject that w1(2)] w1(1) by simp
  from assms(1) a 1 w1 cur assms(3) obtain req where req: "readJSON L folderUpdateRequest_fields folderUpdateRequest_zero r = Inr req"
    by (auto simp: handleUpdateFolder_def split: sum.splits)
  from assms(1) a 1 w1 cur req assms(3) obtain auth where auth: "parseAuthPatch (fuq_auth req) = Inr auth"
    by (auto simp: handleUpdateFolder_def split: sum.splits)
  from assms(1) a 1 w1 cur req auth assms(3) obtain patch where patch: "parseProxyPatch L (fuq_proxy req) = Inr patch"
    by (auto simp: handleUpdateFolder_def split: sum.splits)
  obtain t2 w2 where 2: "requireProxyInProject patch (f_project_id cur) w1 = (t2, w2)" by fastforce
  from assms(1) a 1 w1 cur req auth patch 2 same [OF 2] assms(3) obtain u where u: "t2 = Inr u"
    by (cases t2) (auto simp: handleUpdateFolder_def split: if_splits)
  from assms(1) a 1 w1 cur req auth patch 2 u same [OF 2] assms(3) obtain name where
    name: "folder_update_name req = Inr name"
    by (auto simp: handleUpdateFolder_def split: if_splits option.splits sum.splits)
  from assms(1) a 1 w1 cur req auth patch 2 u name same [OF 2] assms(3) obtain q where
    q: "exec (UpdateFolder i name (folder_settings_params req auth patch)) w2 = (q, v)"
    by (auto simp: handleUpdateFolder_def split: if_splits option.splits sum.splits prod.splits)
  show thesis by (rule that [OF 1 [unfolded cur]]) (use 2 u q in blast)
qed

lemma scope_handleUpdateFolder: "runs scoped (handleUpdateFolder L r)"
proof (rule scopedI [OF schema_handleUpdateFolder])
  fix w resp v
  assume a: "isolated w" "db_ok (dbs w)" "in_scope (dbs w)" and h: "handleUpdateFolder L r w = (resp, v)"
  show "in_scope (dbs v)"
  proof (cases "dbs v = dbs w")
    case False
    from handleUpdateFolder_write [OF h a(1) False] obtain i uid cur w1 where
      1: "RequireFolderAccess i uid w = (Inr cur, w1)" and
      e: "\<exists>patch u w2 name req auth q. requireProxyInProject patch (f_project_id cur) w1 = (Inr u, w2) \<and>
        exec (UpdateFolder i name (folder_settings_params req auth patch)) w2 = (q, v)" .
    from e obtain patch u w2 name req auth q where
      2: "requireProxyInProject patch (f_project_id cur) w1 = (Inr u, w2)" and
      3: "exec (UpdateFolder i name (folder_settings_params req auth patch)) w2 = (q, v)"
      by blast
    note w1 = folder_access_isolated [OF 1 a(1)]
    then have w2: "dbs w2 = dbs w" "isolated w2"
      using unchangedD [OF guards.kept_requireProxyInProject 2] by simp_all
    have "proxy_of (dbs w) (f_project_id f) (folder_settings_params req auth patch)"
      if "f \<in> set (folders (dbs w))" "f_id f = i" for f
      using proxy_values_of [OF 2, of "folder_settings_params req auth patch"] w1
        find_row_pkey [OF in_scope_keys(1) [OF a(2)] that(1)] that(2)
      by (auto simp: folder_settings_params_def split: prod.splits)
    then show ?thesis
      by (intro exec_in_scope [OF 3 w2(2)]) (auto simp: w2(1) a(3) intro: UpdateFolder_scope [OF a(2,3)])
  qed (simp add: a)
qed

lemma handleUpdateRequest_write:
  assumes "handleUpdateRequest L r w = (resp, v)" "isolated w" "dbs v \<noteq> dbs w"
  obtains i uid cur w1 where "RequireRequestAccess i uid w = (Inr cur, w1)"
    "\<exists>parts u w2 v1 name req q. requireProxyInProject (rp_proxy parts) (r_project_id cur) w1 = (Inr u, w2) \<and>
      exec (UpdateRequest i (request_update_params req parts name)) w2 = (q, v1) \<and> dbs v = dbs v1"
proof -
  from assms(1,3) obtain user i where a: "authenticatedUser r = Inr user" "pathUUID L r ''id'' = Inr i"
    by (auto simp: handleUpdateRequest_def split: sum.splits)
  obtain t1 w1 where 1: "RequireRequestAccess i (au_id user) w = (t1, w1)" by fastforce
  from unchangedD [OF guards.kept_RequireRequestAccess 1 assms(2)] have w1: "dbs w1 = dbs w" "isolated w1" by auto
  from a 1 w1 assms(1,3) obtain cur where cur: "t1 = Inr cur"
    by (cases t1) (auto simp: handleUpdateRequest_def)
  from assms(1) a 1 w1 cur assms(3) obtain req where req: "readJSON L requestUpdateRequest_fields requestUpdateRequest_zero r = Inr req"
    by (auto simp: handleUpdateRequest_def split: sum.splits)
  from assms(1) a 1 w1 cur req assms(3) obtain parts where parts: "request_update_parts L req = Inr parts"
    by (auto simp: handleUpdateRequest_def split: sum.splits)
  obtain t2 w2 where 2: "requireProxyInProject (rp_proxy parts) (r_project_id cur) w1 = (t2, w2)" by fastforce
  from unchangedD [OF guards.kept_requireProxyInProject 2 w1(2)] w1(1) have w2: "dbs w2 = dbs w" "isolated w2" by simp_all
  from assms(1) a 1 w1 cur req parts 2 w2 assms(3) obtain u where u: "t2 = Inr u"
    by (cases t2) (auto simp: handleUpdateRequest_def)
  from assms(1) a 1 w1 cur req parts 2 u w2 assms(3) obtain name where name: "request_update_name req parts = Inr name"
    by (auto simp: handleUpdateRequest_def split: sum.splits)
  obtain t3 v1 where 3: "exec (UpdateRequest i (request_update_params req parts name)) w2 = (t3, v1)" by fastforce
  with exec_env [OF 3] w2(2) have v1: "isolated v1" by (simp add: same_env_isolated)
  have "dbs v = dbs v1"
  proof (cases t3)
    case (Inr request)
    with assms(1) a 1 cur req parts 2 u name 3 have "writeRequestDetail L request v1 = (resp, v)"
      by (simp add: handleUpdateRequest_def)
    from unchangedD [OF guards.kept_writeRequestDetail this v1] show ?thesis by simp
  qed (use assms(1) a 1 cur req parts 2 u name 3 in \<open>simp add: handleUpdateRequest_def\<close>)
  then show thesis by (intro that [OF 1 [unfolded cur]]) (use 2 u 3 in blast)
qed

lemma scope_handleUpdateRequest: "runs scoped (handleUpdateRequest L r)"
proof (rule scopedI [OF schema_handleUpdateRequest])
  fix w resp v
  assume a: "isolated w" "db_ok (dbs w)" "in_scope (dbs w)" and h: "handleUpdateRequest L r w = (resp, v)"
  show "in_scope (dbs v)"
  proof (cases "dbs v = dbs w")
    case False
    from handleUpdateRequest_write [OF h a(1) False] obtain i uid cur w1 where
      1: "RequireRequestAccess i uid w = (Inr cur, w1)" and
      e: "\<exists>parts u w2 v1 name req q. requireProxyInProject (rp_proxy parts) (r_project_id cur) w1 = (Inr u, w2) \<and>
        exec (UpdateRequest i (request_update_params req parts name)) w2 = (q, v1) \<and> dbs v = dbs v1" .
    from e obtain parts u w2 v1 name req q where
      2: "requireProxyInProject (rp_proxy parts) (r_project_id cur) w1 = (Inr u, w2)" and
      3: "exec (UpdateRequest i (request_update_params req parts name)) w2 = (q, v1)" and v: "dbs v = dbs v1"
      by blast
    let ?p = "request_update_params req parts name"
    note w1 = request_access_isolated [OF 1 a(1)]
    then have w2: "dbs w2 = dbs w" "isolated w2"
      using unchangedD [OF guards.kept_requireProxyInProject 2] by simp_all
    have "proxy_of (dbs w) (r_project_id f) (up_settings ?p)"
      if "f \<in> set (requests (dbs w))" "r_id f = i" for f
      using proxy_values_of [OF 2, of "up_settings ?p"] w1
        find_row_pkey [OF in_scope_keys(2) [OF a(2)] that(1)] that(2)
      by (auto simp: request_update_params_def split: prod.splits)
    then show ?thesis unfolding v
      by (intro exec_in_scope [OF 3 w2(2)]) (auto simp: w2(1) a(3) intro: UpdateRequest_scope [OF a(2,3)])
  qed (simp add: a)
qed

text \<open>The store meets its contract for the boundaries as well.\<close>

lemma scope_readonly: "readonly q \<Longrightarrow> preserves keeps_scope q"
  by (auto simp: preserves_def keeps_scope_def readonly_def)

interpretation scope_store: statements_keep scoped
  by unfold_locales (intro scope_intros scope_handleUpdateFolder scope_handleUpdateRequest scoped_exec)+

end
