(* ===== verification/AuthProperties.thy ===== *)
theory AuthProperties
  imports Sample Auth
begin

text \<open>
  What accounts and sessions promise (\<^verbatim>\<open>internal/api/auth.go\<close>,
  \<^verbatim>\<open>auth_middleware.go\<close>, \<^verbatim>\<open>internal/auth\<close>), each with a witness.
\<close>

section \<open>Passwords\<close>

text \<open>What the model assumes of argon2id: the key has the length asked for.\<close>

definition key_length_ok :: "argon \<Rightarrow> bool" where
  "key_length_ok K \<longleftrightarrow> (\<forall>password salt t m p n. length (K password salt t m p n) = n)"

lemma verify_encoded:
  assumes "key_length_ok K" "length salt = argonSaltLen" "HashPassword K (Inr salt) pw = Inr stored"
  shows "VerifyPassword K pw' stored = Inr
    (K pw salt argonTime argonMemory argonThreads argonKeyLen = K pw' salt argonTime argonMemory argonThreads argonKeyLen)"
proof -
  have "length (K pw salt argonTime argonMemory argonThreads argonKeyLen) = argonKeyLen"
    using assms(1) by (simp add: key_length_ok_def)
  from decode_encoded [OF assms(2) this] assms(3) this show ?thesis
    by (simp add: VerifyPassword_def HashPassword_def)
qed

text \<open>
  C31: A stored password hash reads back. What \<^verbatim>\<open>HashPassword\<close> writes,
  \<^verbatim>\<open>VerifyPassword\<close> parses with the same parameters and salt: the password itself
  matches, and another one matches only if argon2id gives both the same key.
\<close>

theorem password_hash_reads_back:
  assumes "key_length_ok K" "length salt = 16" "HashPassword K (Inr salt) pw = Inr stored"
  shows "VerifyPassword K pw stored = Inr True \<and>
    (\<forall>pw'. VerifyPassword K pw' stored = Inr (K pw salt 1 65536 4 32 = K pw' salt 1 65536 4 32))"
  using verify_encoded [OF assms(1) _ assms(3)] assms(2)
  by (simp add: argonSaltLen_def argonTime_def argonMemory_def argonThreads_def argonKeyLen_def)

text \<open>A toy key function of the right length: the password, padded.\<close>

definition sampleK :: argon where
  "sampleK pw salt t m p n = take n (pw @ replicate n CHR ''.'')"

lemma sampleK_ok: "key_length_ok sampleK"
  by (auto simp: key_length_ok_def sampleK_def min_def)

theorem password_hash_reads_back_witness:
  "VerifyPassword sampleK ''secret77'' (encoded_hash ''0123456789abcdef'' (sampleK ''secret77'' ''0123456789abcdef'' 1 65536 4 32)) = Inr True"
proof -
  have "HashPassword sampleK (Inr ''0123456789abcdef'') ''secret77'' =
      Inr (encoded_hash ''0123456789abcdef'' (sampleK ''secret77'' ''0123456789abcdef'' 1 65536 4 32))"
    by (simp add: HashPassword_def argonTime_def argonMemory_def argonThreads_def argonKeyLen_def)
  from password_hash_reads_back [OF sampleK_ok _ this] show ?thesis by simp
qed

section \<open>The bearer check\<close>

lemma authenticate_Inr:
  assumes "authenticate L auth w = (Inr (caller, h), v)" "isolated w"
  shows "\<exists>token user. bearerToken auth = Some token \<and> h = HashToken L token \<and>
    live_session (dbs w) (now (stamp_of w)) h user \<and>
    caller = \<lparr> au_id = u_id user, au_email = u_email user, au_name = u_name user \<rparr>"
proof -
  from assms(1) obtain token x u where t: "bearerToken auth = Some token"
    "exec (GetSessionByTokenHash (HashToken L token)) w = (Inr (x, u), v)"
    "caller = \<lparr> au_id = u_id u, au_email = u_email u, au_name = u_name u \<rparr>" "h = s_token_hash x"
    by (auto simp: authenticate_def split: option.splits sum.splits prod.splits if_splits)
  from exec_result [OF t(2)] arrive_isolated [OF assms(2)] obtain d where
    "GetSessionByTokenHash (HashToken L token) (stamp_of w) (dbs w) = Inr ((x, u), d)" by auto
  from GetSessionByTokenHash_Inr [OF this] t(4) t(1,3) show ?thesis
    by (intro exI [of _ token] exI [of _ u]) simp
qed

lemma authenticate_refused:
  "authenticate L auth w = (Inl resp, v) \<Longrightarrow> rs_status resp = 401 \<or> rs_status resp = 500"
  by (auto simp: authenticate_def split: option.splits sum.splits prod.splits if_splits)

lemma requireAuth_some:
  assumes "\<And>r w. \<exists>resp v. handle r w = Some (resp, v)"
  shows "\<exists>resp v. requireAuth L auth handle r w = Some (resp, v)"
proof (cases "authenticate L auth w")
  case (Pair q u)
  then show ?thesis using assms by (cases q) (simp_all add: requireAuth_def)
qed

text \<open>
  C25: No handler behind \<^verbatim>\<open>requireAuth\<close> runs without a session. Either the request is
  answered 401 (or 500, when the lookup fails) and nothing changes, or it carries a bearer token
  whose hash is that of an unexpired session, and the handler runs on the unchanged database with
  the session's user as the caller.
\<close>

theorem no_handler_without_session:
  assumes "isolated w" "requireAuth L auth handle r w = Some (resp, v)"
  shows "(rs_status resp = 401 \<or> rs_status resp = 500) \<and> dbs v = dbs w \<or>
    (\<exists>token user u. bearerToken auth = Some token \<and>
       live_session (dbs w) (now (stamp_of w)) (HashToken L token) user \<and> dbs u = dbs w \<and>
       handle (r\<lparr> rq_auth := Some (\<lparr> au_id = u_id user, au_email = u_email user, au_name = u_name user \<rparr>,
         HashToken L token) \<rparr>) u = Some (resp, v))"
proof -
  obtain q u where q: "authenticate L auth w = (q, u)" by fastforce
  have u: "dbs u = dbs w" using unchangedD [OF authenticate_unchanged q assms(1)] by simp
  show ?thesis
  proof (cases q)
    case (Inl x)
    with assms(2) q u authenticate_refused [of L auth w] show ?thesis by (auto simp: requireAuth_def)
  next
    case (Inr c)
    obtain caller h where c: "c = (caller, h)" by fastforce
    from assms(2) q Inr c have "handle (r\<lparr> rq_auth := Some (caller, h) \<rparr>) u = Some (resp, v)"
      by (simp add: requireAuth_def)
    with authenticate_Inr [OF q [unfolded Inr c] assms(1)] u show ?thesis by blast
  qed
qed

definition session_db :: db where
  "session_db = sample_db\<lparr> sessions := [
     \<lparr> s_token_hash = ''htok'', s_user_id = 2, s_created_at = 0, s_expires_at = 5000 \<rparr>,
     \<lparr> s_token_hash = ''hold'', s_user_id = 1, s_created_at = 0, s_expires_at = 500 \<rparr>] \<rparr>"

definition session_world :: world where
  "session_world = sample_world\<lparr> dbs := session_db \<rparr>"

lemma session_quiet: "quiet session_world" "isolated session_world" "dbs session_world = session_db"
  using sample_quiet by (simp_all add: session_world_def)

theorem no_handler_without_session_witness:
  "(\<exists>user. live_session session_db 1000 ''htok'' user) \<and>
   rs_status (fst (the (requireAuth sampleL ''Bearer old'' (\<lambda>r w. Some (handleMe sampleL r w))
     (sample_req 1 [] JNull) session_world))) = 401"
proof -
  let ?h = "\<lambda>r w. Some (handleMe sampleL r w)"
  have "\<exists>resp v. ?h r w = Some (resp, v)" for r w by (metis surj_pair)
  from requireAuth_some [where handle = ?h, OF this] obtain resp v where
    h: "requireAuth sampleL ''bearer tok'' ?h (sample_req 1 [] JNull) session_world = Some (resp, v)" by blast
  have "rs_status (fst (the (requireAuth sampleL ''bearer tok'' ?h (sample_req 1 [] JNull) session_world))) = 200"
    by code_simp
  moreover have "bearerToken ''bearer tok'' = Some ''tok''" "HashToken sampleL ''tok'' = ''htok''"
    "now (stamp_of session_world) = 1000"
    by (code_simp, code_simp, code_simp)
  moreover have "rs_status (fst (the (requireAuth sampleL ''Bearer old'' ?h (sample_req 1 [] JNull) session_world))) = 401"
    by code_simp
  ultimately show ?thesis
    using no_handler_without_session [OF session_quiet(2) h] h by (auto simp: session_quiet(3))
qed

lemma logout_effect:
  assumes "isolated w" "handleLogout L r w = (resp, v)"
  obtains (kept) "rs_status resp = 500" "dbs v = dbs w"
  | (deleted) h where "sessionTokenHashFromContext r = Some h"
      "dbs v = (dbs w)\<lparr> sessions := delete_rows (\<lambda>x. s_token_hash x = h) (sessions (dbs w)) \<rparr>"
      "rs_status resp = 204 \<or> rs_status resp = 500 \<and> (\<exists>n e. fault w n = AckLost e)"
proof (cases "sessionTokenHashFromContext r")
  case None
  with assms(2) kept show thesis by (auto simp: handleLogout_def serverError_def writeError_def writeJSON_def)
next
  case (Some h)
  obtain x u where x: "exec (DeleteSession h) w = (x, u)" by fastforce
  with assms(2) Some have resp: "v = u" "resp = (case x of Inl err \<Rightarrow> serverError err | Inr _ \<Rightarrow> noContent)"
    by (auto simp: handleLogout_def split: sum.splits)
  have a: "dbs (arrive w) = dbs w" using assms(1) by (rule arrive_isolated)
  show thesis
  proof (cases x)
    case (Inr y)
    with exec_result [of "DeleteSession h" w y u] x a show thesis
      by (intro deleted [OF Some]) (auto simp: resp DeleteSession_def)
  next
    case (Inl e)
    with exec_Inl [of "DeleteSession h" w e u] x a
    consider "dbs u = dbs w" | f where "DeleteSession h (stamp_of w) (dbs w) = Inr ((), dbs u)" "fault w (tick w) = AckLost f"
      by auto
    then show thesis
    proof cases
      case 1
      with Inl show thesis by (intro kept) (simp_all add: resp)
    next
      case 2
      with Inl show thesis by (intro deleted [OF Some]) (auto simp: resp DeleteSession_def)
    qed
  qed
qed

text \<open>
  C33: Logging out ends exactly one session. The answer is 204 or 500. After a 204 no token with the
  hash of the one that authenticated the request is accepted any more, at any time, while every
  other session, and every other table, is as it was. After a 500 the database is as it was, or the
  session is gone in the same way and only the acknowledgement of its deletion was lost.
\<close>

theorem logout_ends_session:
  assumes "isolated w" "handleLogout L r w = (resp, v)"
    and "sessionTokenHashFromContext r = Some h"
  shows "(rs_status resp = 204 \<or> rs_status resp = 500 \<and> (dbs v = dbs w \<or> (\<exists>n e. fault w n = AckLost e))) \<and>
    (rs_status resp = 204 \<or> dbs v \<noteq> dbs w \<longrightarrow>
      dbs v = (dbs w)\<lparr> sessions := delete_rows (\<lambda>x. s_token_hash x = h) (sessions (dbs w)) \<rparr> \<and>
      (\<forall>auth token u. bearerToken auth = Some token \<and> HashToken L token = h \<and> dbs u = dbs v \<and> isolated u \<longrightarrow>
         (\<exists>x u'. authenticate L auth u = (Inl x, u'))) \<and>
      (\<forall>tm h' user. h' \<noteq> h \<longrightarrow> live_session (dbs v) tm h' user = live_session (dbs w) tm h' user))"
  using assms(1,2)
proof (rule logout_effect)
  fix h'
  assume "sessionTokenHashFromContext r = Some h'" and
    d: "dbs v = (dbs w)\<lparr> sessions := delete_rows (\<lambda>x. s_token_hash x = h') (sessions (dbs w)) \<rparr>"
    and st: "rs_status resp = 204 \<or> rs_status resp = 500 \<and> (\<exists>n e. fault w n = AckLost e)"
  with assms(3) have h': "h' = h" by simp
  have dead: "\<not> live_session (dbs v) tm h user" for tm user
    by (auto simp: live_session_def d h' set_delete_rows)
  have "\<exists>x u'. authenticate L auth u = (Inl x, u')"
    if "bearerToken auth = Some token" "HashToken L token = h" "dbs u = dbs v" "isolated u" for auth token u
  proof (cases "authenticate L auth u")
    case (Pair q u')
    show ?thesis
    proof (cases q)
      case (Inr c)
      with Pair authenticate_Inr [of L auth u "fst c" "snd c" u'] that dead show ?thesis by auto
    qed (use Pair in blast)
  qed
  moreover have "live_session (dbs v) tm k user = live_session (dbs w) tm k user" if "k \<noteq> h" for tm k user
    using that by (auto simp: live_session_def d h' set_delete_rows)
  ultimately show ?thesis using st d h' by blast
qed auto

theorem logout_ends_session_witness:
  "\<exists>x u. authenticate sampleL ''Bearer tok'' (snd (handleLogout sampleL
     ((sample_req 2 [] JNull)\<lparr> rq_auth := Some (sample_user 2, ''htok'') \<rparr>) session_world)) = (Inl x, u)"
proof -
  let ?r = "(sample_req 2 [] JNull)\<lparr> rq_auth := Some (sample_user 2, ''htok'') \<rparr>"
  obtain resp v where h: "handleLogout sampleL ?r session_world = (resp, v)" by fastforce
  have s: "rs_status (fst (handleLogout sampleL ?r session_world)) = 204" by code_simp
  have c: "sessionTokenHashFromContext ?r = Some ''htok''" by (simp add: sessionTokenHashFromContext_def)
  have b: "bearerToken ''Bearer tok'' = Some ''tok''" "HashToken sampleL ''tok'' = ''htok''" by code_simp+
  have "same_env session_world v"
    using h by (auto simp: handleLogout_def c split: sum.splits prod.splits dest: exec_env)
  then have "isolated v" using session_quiet(2) by (simp add: same_env_isolated)
  moreover have "rs_status resp = 204" using s h by simp
  ultimately show ?thesis using logout_ends_session [OF session_quiet(2) h c] b h by simp
qed

section \<open>Logging in\<close>

text \<open>
  C34: A login attempt does not tell whether the account exists: on a healthy database, an unknown
  email and a wrong password get the same answer, byte for byte, and neither writes anything.
\<close>

theorem login_answers_alike:
  assumes "quiet w" "readJSON L loginRequest_fields loginRequest_zero r = Inr req"
    and "pg_text (normalizeEmail L (lq_email req))"
    and "(\<forall>u \<in> set (users (dbs w)). u_email u \<noteq> normalizeEmail L (lq_email req)) \<or>
      (\<exists>user. find_row (\<lambda>u. u_email u = normalizeEmail L (lq_email req)) (users (dbs w)) = Some user \<and>
         VerifyPassword K (lq_password req) (u_password_hash user) = Inr False)"
    and "handleLogin L K token_read tm r w = (resp, v)"
  shows "resp = writeError 401 codeUnauthorized messageBadCredentials \<and> dbs v = dbs w"
proof -
  let ?e = "normalizeEmail L (lq_email req)"
  have q: "exec (GetUserByEmail ?e) w = ((case find_row (\<lambda>u. u_email u = ?e) (users (dbs w)) of
      None \<Rightarrow> Inl ErrNoRows | Some u \<Rightarrow> Inr u), w\<lparr> tick := Suc (tick w) \<rparr>)"
    using assms(3) by (simp add: GetUserByEmail_def exec_reading_quiet [OF assms(1)] with_texts_def)
  from assms(4) show ?thesis
  proof
    assume "\<forall>u \<in> set (users (dbs w)). u_email u \<noteq> ?e"
    then have "find_row (\<lambda>u. u_email u = ?e) (users (dbs w)) = None" by (simp add: find_row_None)
    with assms(2,5) q show ?thesis by (auto simp: handleLogin_def)
  next
    assume "\<exists>user. find_row (\<lambda>u. u_email u = ?e) (users (dbs w)) = Some user \<and>
         VerifyPassword K (lq_password req) (u_password_hash user) = Inr False"
    with assms(2,5) q show ?thesis by (auto simp: handleLogin_def)
  qed
qed

theorem login_answers_alike_witness:
  "fst (handleLogin sampleL sampleK (Inr ''x'') 0 (sample_req 1 [] (JObj [(''email'', JStr ''nobody@x'')])) sample_world) =
   writeError 401 codeUnauthorized messageBadCredentials"
proof -
  let ?r = "sample_req 1 [] (JObj [(''email'', JStr ''nobody@x'')])"
  obtain resp v where h: "handleLogin sampleL sampleK (Inr ''x'') 0 ?r sample_world = (resp, v)" by fastforce
  have r: "readJSON sampleL loginRequest_fields loginRequest_zero ?r = Inr \<lparr> lq_email = ''nobody@x'', lq_password = [] \<rparr>"
    by code_simp
  have e: "normalizeEmail sampleL ''nobody@x'' = ''nobody@x''" "pg_text ''nobody@x''" by code_simp+
  have "\<forall>u \<in> set (users (dbs sample_world)). u_email u \<noteq> ''nobody@x''" by (simp add: sample_arrive sample_db_def)
  with login_answers_alike [OF sample_quiet(1) r _ _ h] e h show ?thesis by simp
qed

section \<open>Tokens\<close>

lemma b64_digit_visible: "n < 64 \<Longrightarrow> 0x21 \<le> byte (b64_digit n) \<and> byte (b64_digit n) < (0x80::nat)"
  by (auto simp: b64_digit_def)

lemma raw_url_char:
  assumes "c \<in> set (raw_url_encode s)" shows "0x21 \<le> byte c \<and> byte c < (0x80::nat)"
proof -
  obtain n where "n < 64" "c = url_char (b64_digit n)"
    using assms raw_encode_chars [of s] by (auto simp: raw_url_encode_def)
  with b64_digit_visible [of n] show ?thesis by (simp add: url_char_def)
qed

text \<open>Text of visible ASCII characters has nothing to trim.\<close>

lemma leading_space_visible:
  assumes "\<forall>c \<in> set s. 0x21 \<le> byte c \<and> byte c < (0x80::nat)"
  shows "leading_space space_runes s = None" "leading_space (map rev space_runes) s = None"
proof -
  have sp: "list_all (\<lambda>p. p \<noteq> [] \<and> \<not> (0x21 \<le> byte (hd p) \<and> byte (hd p) < (0x80::nat)) \<and>
      \<not> (0x21 \<le> byte (last p) \<and> byte (last p) < (0x80::nat))) space_runes"
    by (simp add: space_runes_def)
  have no: "\<not> is_prefix p s" if "p \<noteq> []" "\<not> (0x21 \<le> byte (hd p) \<and> byte (hd p) < (0x80::nat))" for p
    using that assms by (cases p; cases s) auto
  show "leading_space space_runes s = None"
    unfolding leading_space_def find_None_iff using sp no by (auto simp: list_all_iff)
  have "\<not> is_prefix (rev p) s" if "p \<in> set space_runes" for p
    using no [of "rev p"] sp that by (auto simp: list_all_iff hd_rev)
  then show "leading_space (map rev space_runes) s = None"
    unfolding leading_space_def find_None_iff by auto
qed

lemma TrimSpace_visible:
  assumes "\<forall>c \<in> set s. 0x21 \<le> byte c \<and> byte c < (0x80::nat)"
  shows "TrimSpace s = s"
proof -
  have "drop_spaces space_runes s = s"
    using leading_space_visible(1) [OF assms] by (simp add: drop_spaces.simps [of _ s])
  moreover have "drop_spaces (map rev space_runes) (rev s) = rev s"
    using leading_space_visible(2) [of "rev s"] assms by (simp add: drop_spaces.simps [of _ "rev s"])
  ultimately show ?thesis by (simp add: TrimSpace_def)
qed

lemma bearer_of_token:
  assumes "raw \<noteq> []" shows "bearerToken (''Bearer '' @ raw_url_encode raw) = Some (raw_url_encode raw)"
proof -
  have "raw_url_encode raw \<noteq> []"
    using assms by (cases raw rule: b64_encode.cases) (simp_all add: raw_url_encode_def raw_encode_simps)
  moreover have "TrimSpace (raw_url_encode raw) = raw_url_encode raw"
    by (rule TrimSpace_visible) (use raw_url_char in blast)
  ultimately show ?thesis by (simp add: bearerToken_def bearerPrefix_def Let_def)
qed

lemma issueSession_Inr:
  assumes "issueSession L (Inr raw) tm i w = (Inr token, v)" "isolated w"
  shows "token = raw_url_encode raw \<and> HashToken L token \<notin> s_token_hash ` set (sessions (dbs w)) \<and>
    user_exists i (dbs w) \<and> (\<exists>c. dbs v = (dbs w)\<lparr> sessions := sessions (dbs w) @
      [\<lparr> s_token_hash = HashToken L token, s_user_id = i, s_created_at = c, s_expires_at = tm + SessionTTL \<rparr>] \<rparr>)"
proof -
  from assms(1) obtain x where t: "token = raw_url_encode raw"
    "exec (CreateSession (HashToken L token) i (tm + SessionTTL)) w = (Inr x, v)"
    by (auto simp: issueSession_def NewSessionToken_def split: sum.splits prod.splits)
  from exec_result [OF t(2)] arrive_isolated [OF assms(2)] t(1) show ?thesis
    by (auto simp: CreateSession_def require_Inr Let_def)
qed

lemma issued_is_live:
  assumes "issueSession L (Inr raw) tm i w = (Inr token, v)" "isolated w" "raw \<noteq> []"
    "user \<in> set (users (dbs w))" "u_id user = i" "pkey u_id (users (dbs w))"
    "dbs u = dbs v" "quiet u" "now (stamp_of u) < tm + SessionTTL"
  shows "\<exists>u'. authenticate L (''Bearer '' @ token) u =
    (Inr (\<lparr> au_id = i, au_email = u_email user, au_name = u_name user \<rparr>, HashToken L token), u')"
proof -
  note iss = issueSession_Inr [OF assms(1,2)]
  then obtain c where v: "dbs v = (dbs w)\<lparr> sessions := sessions (dbs w) @
      [\<lparr> s_token_hash = HashToken L token, s_user_id = i, s_created_at = c, s_expires_at = tm + SessionTTL \<rparr>] \<rparr>"
    by blast
  have us: "users (dbs u) = users (dbs w)" "sessions (dbs u) = sessions (dbs w) @
      [\<lparr> s_token_hash = HashToken L token, s_user_id = i, s_created_at = c, s_expires_at = tm + SessionTTL \<rparr>]"
    using v assms(7) by simp_all
  have "live_session (dbs u) (now (stamp_of u)) (HashToken L token) user"
    using us assms(4,5,9) by (simp add: live_session_def)
  from GetSessionByTokenHash_live [OF this] obtain x y where
    g: "GetSessionByTokenHash (HashToken L token) (stamp_of u) (dbs u) = Inr ((x, y), dbs u)" by blast
  from GetSessionByTokenHash_Inr [OF g] have l: "live_session (dbs u) (now (stamp_of u)) (HashToken L token) y"
    "s_token_hash x = HashToken L token" by blast+
  from l(1) have y: "y \<in> set (users (dbs w))" "u_id y = i"
    using iss unfolding live_session_def us by (auto simp: image_iff)
  then have "y = user" using assms(4-6) pkey_unique by metis
  moreover have "bearerToken (''Bearer '' @ token) = Some token" using bearer_of_token [OF assms(3)] iss by simp
  ultimately show ?thesis
    using exec_quiet [OF assms(8), of "GetSessionByTokenHash (HashToken L token)"] g y l(2)
    by (simp add: authenticate_def)
qed

text \<open>
  C32: The token a login returns works. It belongs to the account whose stored hash the password
  verified against, only its SHA-256 is stored, and until 30 days after the login (by the server's
  clock) a request that carries it in its \<^verbatim>\<open>Authorization\<close> header is authenticated as that
  user, as long as the database is as the login left it.
\<close>

theorem login_token_works:
  assumes "isolated w" "handleLogin L K (Inr raw) tm r w = (resp, v)" "rs_status resp = 200"
    and "pkey u_id (users (dbs w))" "raw \<noteq> []"
  shows "\<exists>token user req. resp = writeJSON 200 (authResponse L user token) \<and> token = raw_url_encode raw \<and>
    readJSON L loginRequest_fields loginRequest_zero r = Inr req \<and> user \<in> set (users (dbs w)) \<and>
    u_email user = normalizeEmail L (lq_email req) \<and>
    VerifyPassword K (lq_password req) (u_password_hash user) = Inr True \<and>
    sessions (dbs v) = sessions (dbs w) @ [last (sessions (dbs v))] \<and>
    s_token_hash (last (sessions (dbs v))) = HashToken L token \<and>
    (\<forall>u. dbs u = dbs v \<and> quiet u \<and> now (stamp_of u) < tm + SessionTTL \<longrightarrow>
      (\<exists>u'. authenticate L (''Bearer '' @ token) u =
         (Inr (\<lparr> au_id = u_id user, au_email = u_email user, au_name = u_name user \<rparr>, HashToken L token), u')))"
proof -
  from assms(2,3) obtain req user token w1 where h:
    "readJSON L loginRequest_fields loginRequest_zero r = Inr req"
    "exec (GetUserByEmail (normalizeEmail L (lq_email req))) w = (Inr user, w1)"
    "VerifyPassword K (lq_password req) (u_password_hash user) = Inr True"
    "issueSession L (Inr raw) tm (u_id user) w1 = (Inr token, v)"
    "resp = writeJSON 200 (authResponse L user token)"
    by (auto simp: handleLogin_def split: sum.splits prod.splits if_splits)
      (auto simp: writeBodyError_def split: body_error.splits)
  have w1: "dbs w1 = dbs w" "isolated w1"
    using unchangedD [OF runs_unchanged_exec h(2) assms(1)] readonly_intros by auto
  have u: "user \<in> set (users (dbs w))" "u_email user = normalizeEmail L (lq_email req)"
    using exec_reading_Inr [OF h(2) [unfolded GetUserByEmail_def] assms(1)]
    by (auto simp: with_texts_Inr split: option.splits dest: find_row_SomeD)
  note iss = issueSession_Inr [OF h(4) w1(2)]
  have "\<exists>u'. authenticate L (''Bearer '' @ token) x =
      (Inr (\<lparr> au_id = u_id user, au_email = u_email user, au_name = u_name user \<rparr>, HashToken L token), u')"
    if "dbs x = dbs v" "quiet x" "now (stamp_of x) < tm + SessionTTL" for x
    using issued_is_live [OF h(4) w1(2) assms(5) _ refl _ that] u w1(1) assms(4) by simp
  with h u iss w1(1) show ?thesis by auto
qed

definition sample_stored :: string where
  "sample_stored = encoded_hash ''0123456789abcdef''
     (sampleK ''secret77'' ''0123456789abcdef'' argonTime argonMemory argonThreads argonKeyLen)"

lemma sample_stored_verifies: "VerifyPassword sampleK ''secret77'' sample_stored = Inr True"
proof -
  have "HashPassword sampleK (Inr ''0123456789abcdef'') ''secret77'' = Inr sample_stored"
    by (simp add: HashPassword_def sample_stored_def)
  from verify_encoded [OF sampleK_ok _ this, of "''secret77''"] show ?thesis by (simp add: argonSaltLen_def)
qed

definition login_world :: world where
  "login_world = sample_world\<lparr> dbs := sample_db\<lparr> users :=
     [\<lparr> u_id = 7, u_email = ''g@x'', u_password_hash = sample_stored, u_name = ''gil'', u_created_at = 0 \<rparr>] \<rparr> \<rparr>"

definition login_request :: http_request where
  "login_request = sample_req 1 [] (JObj [(''email'', JStr '' G@x''), (''password'', JStr ''secret77'')])"

lemma login_quiet: "quiet login_world" "isolated login_world"
  using sample_quiet by (simp_all add: login_world_def)

lemma sample_login:
  "\<exists>v. handleLogin sampleL sampleK (Inr ''xyz'') 0 login_request login_world = (writeJSON 200 (authResponse sampleL
     (hd (users (dbs login_world))) (raw_url_encode ''xyz'')), v)"
proof -
  have r: "readJSON sampleL loginRequest_fields loginRequest_zero login_request =
      Inr \<lparr> lq_email = '' G@x'', lq_password = ''secret77'' \<rparr>" by code_simp
  have e: "normalizeEmail sampleL '' G@x'' = ''g@x''" "pg_text ''g@x''" by code_simp+
  have q: "exec (GetUserByEmail ''g@x'') login_world =
      (Inr (hd (users (dbs login_world))), login_world\<lparr> tick := Suc (tick login_world) \<rparr>)"
    using e(2) by (simp add: GetUserByEmail_def exec_reading_quiet [OF login_quiet(1)] with_texts_def)
      (simp add: login_world_def)
  have p: "u_password_hash (hd (users (dbs login_world))) = sample_stored" "u_id (hd (users (dbs login_world))) = 7"
    "sessions (dbs login_world) = []" "user_exists 7 (dbs login_world)"
    by (simp_all add: login_world_def sample_db_def empty_db_def user_exists_def)
  have i: "\<exists>v. issueSession sampleL (Inr ''xyz'') 0 7 (login_world\<lparr> tick := Suc (tick login_world) \<rparr>) =
      (Inr (raw_url_encode ''xyz''), v)"
    using p by (simp add: issueSession_def NewSessionToken_def exec_quiet login_quiet(1) CreateSession_def Let_def)
  then show ?thesis
    using r e q p sample_stored_verifies by (auto simp: handleLogin_def)
qed

theorem login_token_works_witness:
  "raw_url_encode ''xyz'' = ''eHl6'' \<and>
   (\<exists>v :: world. rs_status (fst (handleLogin sampleL sampleK (Inr ''xyz'') 0 login_request login_world)) = 200 \<and>
     (\<exists>u'. authenticate sampleL ''Bearer eHl6'' (login_world\<lparr> dbs := dbs v \<rparr>) =
       (Inr (\<lparr> au_id = 7, au_email = ''g@x'', au_name = ''gil'' \<rparr>, HashToken sampleL ''eHl6''), u')))"
proof -
  have x: "raw_url_encode ''xyz'' = ''eHl6''" by code_simp
  obtain v where h: "handleLogin sampleL sampleK (Inr ''xyz'') 0 login_request login_world = (writeJSON 200
      (authResponse sampleL (hd (users (dbs login_world))) (raw_url_encode ''xyz'')), v)"
    using sample_login by blast
  have us: "users (dbs login_world) =
      [\<lparr> u_id = 7, u_email = ''g@x'', u_password_hash = sample_stored, u_name = ''gil'', u_created_at = 0 \<rparr>]"
    by (simp add: login_world_def)
  have k: "pkey u_id (users (dbs login_world))" by (simp add: us pkey_def)
  let ?u = "login_world\<lparr> dbs := dbs v \<rparr>"
  have u: "dbs ?u = dbs v" "quiet ?u" "now (stamp_of ?u) < 0 + SessionTTL"
    using login_quiet(1) by (simp, simp, simp add: stamp_of_def login_world_def sample_world_def SessionTTL_def)
  from login_token_works [OF login_quiet(2) h _ k] obtain user where
    "user \<in> set (users (dbs login_world))"
    "\<forall>u. dbs u = dbs v \<and> quiet u \<and> now (stamp_of u) < 0 + SessionTTL \<longrightarrow>
      (\<exists>u'. authenticate sampleL (''Bearer '' @ ''eHl6'') u =
         (Inr (\<lparr> au_id = u_id user, au_email = u_email user, au_name = u_name user \<rparr>, HashToken sampleL ''eHl6''), u'))"
    unfolding x by auto
  then have "\<exists>u'. authenticate sampleL ''Bearer eHl6'' ?u =
       (Inr (\<lparr> au_id = 7, au_email = ''g@x'', au_name = ''gil'' \<rparr>, HashToken sampleL ''eHl6''), u')"
    using u us by auto
  moreover have "rs_status (fst (handleLogin sampleL sampleK (Inr ''xyz'') 0 login_request login_world)) = 200"
    unfolding h by simp
  ultimately show ?thesis using x by blast
qed

section \<open>Registering\<close>

text \<open>
  C35: Registering creates the account that was asked for. A 201 means: one new user, under the
  trimmed and lowered email, which nobody had, with a hash against which the password verifies, and
  one session of that user that runs out after 30 days, stored under the hash of the token in the
  answer.
\<close>

theorem registered_account:
  assumes "isolated w" "handleRegister L K (Inr salt) (Inr raw) tm r w = (resp, v)" "rs_status resp = 201"
    and "key_length_ok K" "length salt = 16"
  shows "\<exists>req user c. readJSON L registerRequest_fields registerRequest_zero r = Inr req \<and>
    dbs v = (dbs w)\<lparr> users := users (dbs w) @ [user], sessions := sessions (dbs w) @
      [\<lparr> s_token_hash = HashToken L (raw_url_encode raw), s_user_id = u_id user, s_created_at = c,
         s_expires_at = tm + SessionTTL \<rparr>] \<rparr> \<and>
    resp = writeJSON 201 (authResponse L user (raw_url_encode raw)) \<and>
    u_email user = normalizeEmail L (gq_email req) \<and> u_email user \<notin> u_email ` set (users (dbs w)) \<and>
    validateEmail L (u_email user) = None \<and> validatePassword (gq_password req) = None \<and>
    VerifyPassword K (gq_password req) (u_password_hash user) = Inr True"
proof -
  from assms(2,3) obtain req stored user token w1 where h:
    "readJSON L registerRequest_fields registerRequest_zero r = Inr req"
    "validateEmail L (normalizeEmail L (gq_email req)) = None" "validatePassword (gq_password req) = None"
    "HashPassword K (Inr salt) (gq_password req) = Inr stored"
    "exec (CreateUser (normalizeEmail L (gq_email req)) stored (TrimSpace (gq_name req))) w = (Inr user, w1)"
    "issueSession L (Inr raw) tm (u_id user) w1 = (Inr token, v)"
    "resp = writeJSON 201 (authResponse L user token)"
    by (auto simp: handleRegister_def Let_def split: sum.splits prod.splits if_splits option.splits)
      (auto simp: writeBodyError_def split: body_error.splits)
  have w1: "isolated w1" using exec_env [OF h(5)] assms(1) by (simp add: same_env_isolated)
  have u: "dbs w1 = (dbs w)\<lparr> users := users (dbs w) @ [user] \<rparr>" "u_email user = normalizeEmail L (gq_email req)"
    "u_password_hash user = stored" "u_email user \<notin> u_email ` set (users (dbs w))"
    using exec_result [OF h(5)] arrive_isolated [OF assms(1)]
    by (auto simp: CreateUser_def with_texts_Inr require_Inr Let_def)
  have "VerifyPassword K (gq_password req) stored = Inr True"
    using verify_encoded [OF assms(4) _ h(4), of "gq_password req"] assms(5) by (simp add: argonSaltLen_def)
  with issueSession_Inr [OF h(6) w1] h u show ?thesis
    by (intro exI [of _ req] exI [of _ user]) auto
qed

lemma sample_stored_text: "pg_text sample_stored"
proof -
  have k: "sampleK ''secret77'' ''0123456789abcdef'' argonTime argonMemory argonThreads argonKeyLen =
      take 32 (''secret77'' @ replicate 32 CHR ''.'')"
    by (simp add: sampleK_def argonKeyLen_def)
  have "pg_text (''$argon2id$v=19$m=65536,t=1,p=4$'' @ raw_encode ''0123456789abcdef'' @ ''$'' @
      raw_encode (take 32 (''secret77'' @ replicate 32 CHR ''.'')))"
    by code_simp
  moreover have "sample_stored = ''$argon2id$v=19$m=65536,t=1,p=4$'' @ raw_encode ''0123456789abcdef'' @ ''$'' @
      raw_encode (take 32 (''secret77'' @ replicate 32 CHR ''.''))"
    unfolding sample_stored_def encoded_hash_def k using stored_head by simp
  ultimately show ?thesis by simp
qed

lemma sample_register:
  "\<exists>resp v. handleRegister sampleL sampleK (Inr ''0123456789abcdef'') (Inr ''xyz'') 0
     (sample_req 1 [] (JObj [(''email'', JStr ''N@x''), (''password'', JStr ''secret77'')])) sample_world = (resp, v) \<and>
     rs_status resp = 201"
proof -
  let ?r = "sample_req 1 [] (JObj [(''email'', JStr ''N@x''), (''password'', JStr ''secret77'')])"
  have r: "readJSON sampleL registerRequest_fields registerRequest_zero ?r =
      Inr \<lparr> gq_email = ''N@x'', gq_password = ''secret77'', gq_name = [] \<rparr>" by code_simp
  have e: "normalizeEmail sampleL ''N@x'' = ''n@x''" "validateEmail sampleL ''n@x'' = None"
    "validatePassword ''secret77'' = None" "TrimSpace [] = []" "pg_text ''n@x''" "pg_text []"
    "HashToken sampleL (raw_url_encode ''xyz'') = ''heHl6''" by (code_simp, code_simp, code_simp, code_simp, code_simp, code_simp, code_simp)
  have p: "HashPassword sampleK (Inr ''0123456789abcdef'') ''secret77'' = Inr sample_stored"
    by (simp add: HashPassword_def sample_stored_def)
  let ?u = "\<lparr> u_id = 100, u_email = ''n@x'', u_password_hash = sample_stored, u_name = [], u_created_at = 1000 \<rparr>"
  let ?w = "sample_world\<lparr> tick := 1, dbs := sample_db\<lparr> users := users sample_db @ [?u] \<rparr> \<rparr>"
  have c: "exec (CreateUser ''n@x'' sample_stored []) sample_world = (Inr ?u, ?w)"
    using e(5,6) sample_stored_text
    by (simp add: exec_quiet [OF sample_quiet(1)] CreateUser_def with_texts_def Let_def stamp_of_def)
      (simp add: sample_world_def sample_db_def empty_db_def)
  have "quiet ?w" using sample_quiet(1) by simp
  then have "\<exists>v. issueSession sampleL (Inr ''xyz'') 0 100 ?w = (Inr (raw_url_encode ''xyz''), v)"
    using e(7) by (simp add: issueSession_def NewSessionToken_def exec_quiet CreateSession_def Let_def user_exists_def
        sample_db_def empty_db_def)
  then show ?thesis using r e p c by (auto simp: handleRegister_def Let_def)
qed

theorem registered_account_witness:
  "\<exists>user. user \<in> set (users (dbs (snd (handleRegister sampleL sampleK (Inr ''0123456789abcdef'') (Inr ''xyz'') 0
     (sample_req 1 [] (JObj [(''email'', JStr ''N@x''), (''password'', JStr ''secret77'')])) sample_world)))) \<and>
     u_email user = ''n@x'' \<and> VerifyPassword sampleK ''secret77'' (u_password_hash user) = Inr True"
proof -
  let ?r = "sample_req 1 [] (JObj [(''email'', JStr ''N@x''), (''password'', JStr ''secret77'')])"
  obtain resp v where h: "handleRegister sampleL sampleK (Inr ''0123456789abcdef'') (Inr ''xyz'') 0 ?r sample_world = (resp, v)"
    by fastforce
  have s: "rs_status (fst (handleRegister sampleL sampleK (Inr ''0123456789abcdef'') (Inr ''xyz'') 0 ?r sample_world)) = 201"
    using sample_register h by auto
  have r: "readJSON sampleL registerRequest_fields registerRequest_zero ?r =
      Inr \<lparr> gq_email = ''N@x'', gq_password = ''secret77'', gq_name = [] \<rparr>" by code_simp
  have e: "normalizeEmail sampleL ''N@x'' = ''n@x''" by code_simp
  have st: "rs_status resp = 201" using s h by simp
  have len: "length ''0123456789abcdef'' = 16" by simp
  from registered_account [OF sample_quiet(2) h st sampleK_ok len] r e obtain user c where
    "dbs v = (dbs sample_world)\<lparr> users := users (dbs sample_world) @ [user], sessions := c \<rparr>"
    "u_email user = ''n@x''" "VerifyPassword sampleK ''secret77'' (u_password_hash user) = Inr True"
    by (metis Inr_inject registerRequest.select_convs(1,2))
  moreover from this(1) have "user \<in> set (users (dbs v))" by simp
  ultimately show ?thesis unfolding h snd_conv by blast
qed

text \<open>
  The hourly sweep of expired sessions is housekeeping: at no time from then on does it change
  which sessions are accepted, and it removes every session that has run out, unless the statement
  fails, in which case nothing changes.
\<close>

lemma sweep_keeps_live_sessions:
  assumes "isolated w" "now (stamp_of w) \<le> tm"
  shows "live_session (dbs (deleteExpiredSessionsOnce w)) tm h user = live_session (dbs w) tm h user \<and>
    (sessions (dbs (deleteExpiredSessionsOnce w)) = sessions (dbs w) \<or>
     (\<forall>s \<in> set (sessions (dbs (deleteExpiredSessionsOnce w))). now (stamp_of w) < s_expires_at s))"
proof -
  obtain q v where q: "exec DeleteExpiredSessions w = (q, v)" by fastforce
  have "dbs v = dbs w \<or> dbs v = (dbs w)\<lparr> sessions := delete_rows (\<lambda>x. s_expires_at x \<le> now (stamp_of w)) (sessions (dbs w)) \<rparr>"
    using exec_result [of DeleteExpiredSessions w] exec_failed [of DeleteExpiredSessions w] q
      arrive_isolated [OF assms(1)]
    by (cases q) (auto simp: DeleteExpiredSessions_def Let_def)
  with q assms(2) show ?thesis
    by (auto simp: deleteExpiredSessionsOnce_def live_session_def set_delete_rows)
qed

lemma sweep_keeps_live_sessions_witness:
  "live_session (dbs (deleteExpiredSessionsOnce session_world)) 2000 ''htok'' (nth (users session_db) 1)"
proof -
  have n: "now (stamp_of session_world) \<le> 2000"
    by (simp add: stamp_of_def session_world_def sample_world_def)
  have "live_session (dbs session_world) 2000 ''htok'' (nth (users session_db) 1)"
    by (simp add: live_session_def session_quiet(3) session_db_def sample_db_def)
  with sweep_keeps_live_sessions [OF session_quiet(2) n] show ?thesis by blast
qed

end
