(* ===== verification/WebhookProperties.thy ===== *)
theory WebhookProperties
  imports Sample Capture
begin

text \<open>
  What webhook endpoints, their capture hosts and the rate limiter promise
  (\<^verbatim>\<open>internal/api/webhooks.go\<close>, \<^verbatim>\<open>capture.go\<close>,
  \<^verbatim>\<open>client_ip.go\<close>, \<^verbatim>\<open>internal/ratelimit\<close>), each with a witness.
\<close>

section \<open>Captures\<close>

lemma unchanged_slug_lookup: "runs unchanged (exec (GetWebhookEndpointBySlug slug))"
  by (intro runs_unchanged_exec readonly_intros)

lemma env_capture_tx: "capture_tx p keep w = (r, v) \<Longrightarrow> same_env w v"
  by (auto simp: capture_tx_def split: prod.splits sum.splits dest!: exec_env intro: same_env_trans)

text \<open>What storing a capture does to the captures, from the database the transaction began with.\<close>

definition stores :: "InsertWebhookCaptureParams \<Rightarrow> nat \<Rightarrow> int \<Rightarrow> db \<Rightarrow> db \<Rightarrow> bool" where
  "stores p keep i d d' \<longleftrightarrow> (\<exists>s u e. InsertWebhookCapture p s d = Inr (i, e) \<and>
     PruneWebhookCaptures (cp_endpoint_id p) (keep - 1) u e = Inr ((), d'))"

lemma CaptureWebhook_effect:
  assumes "CaptureWebhook p keep w = (r, v)" "isolated w"
  shows "dbs v = dbs w \<and> (\<exists>e. r = Inl e) \<or> (\<exists>i. stores p keep i (dbs w) (dbs v) \<and> (r = Inr i \<or> (\<exists>e. r = Inl e)))"
  using assms(1) unfolding CaptureWebhook_def
proof (rule inTx_cases)
  fix x u
  assume c: "capture_tx p keep ((arrive w)\<lparr> in_tx := Some (tick w) \<rparr>) = (Inr x, u)" "dbs v = dbs u"
    "r = Inr x \<or> (\<exists>e. r = Inl e)"
  from c(1) have "stores p keep x (dbs w) (dbs u)"
    by (rule capture_tx_insert) (auto simp: stores_def arrive_isolated [OF assms(2)])
  with c show ?thesis by metis
qed (auto simp: arrive_isolated [OF assms(2)])

lemma pruned:
  assumes "PruneWebhookCaptures e n s d = Inr (x, d')"
  shows "\<exists>P. d' = d\<lparr> webhook_captures := delete_rows (\<lambda>c. c_endpoint_id c = e \<and> P c) (webhook_captures d) \<rparr>"
proof (cases "n < length (filter (\<lambda>c. c_endpoint_id c = e) (webhook_captures d))")
  case True
  with assms show ?thesis unfolding PruneWebhookCaptures_def Let_def by auto
next
  case False
  with assms have "d' = d" by (simp add: PruneWebhookCaptures_def Let_def)
  then show ?thesis by (intro exI [of _ "\<lambda>c. False"]) (simp add: delete_rows_def)
qed

text \<open>The captures after a request was stored: a new one, and of the old ones a part.\<close>

lemma stores_captures:
  assumes "stores p keep i d d'" "captures_ok d"
  shows "captures_ok d'" "\<And>f. f \<noteq> cp_endpoint_id p \<Longrightarrow> captures_of f d' = captures_of f d"
    "0 < keep \<Longrightarrow> length (captures_of (cp_endpoint_id p) d') \<le> keep"
    "\<exists>c \<in> set (webhook_captures d'). c \<notin> set (webhook_captures d) \<and> c_id c = i \<and>
       c_endpoint_id c = cp_endpoint_id p \<and> c_method c = cp_method p \<and> c_path c = cp_path p \<and>
       c_query c = cp_query p \<and> c_headers c = cp_headers p \<and> c_body c = cp_body p \<and>
       c_body_size c = cp_body_size p \<and> c_body_truncated c = cp_body_truncated p \<and>
       c_source_ip c = cp_source_ip p \<and> (\<forall>b \<in> set (webhook_captures d). c_id b < i)"
proof -
  from assms(1) obtain s u e where i: "InsertWebhookCapture p s d = Inr (i, e)"
    and pr: "PruneWebhookCaptures (cp_endpoint_id p) (keep - 1) u e = Inr ((), d')"
    by (auto simp: stores_def)
  from insert_capture_Inr [OF i] obtain c where c: "webhook_captures e = webhook_captures d @ [c]"
    "c_id c = i" "i = capture_seq d + 1" "capture_seq e = i" "c_endpoint_id c = cp_endpoint_id p"
    "c_method c = cp_method p" "c_path c = cp_path p" "c_query c = cp_query p" "c_headers c = cp_headers p"
    "c_body c = cp_body p" "c_body_size c = cp_body_size p" "c_body_truncated c = cp_body_truncated p"
    "c_source_ip c = cp_source_ip p" by blast
  have old: "c_id b < i" if "b \<in> set (webhook_captures d)" for b
    using assms(2) that c(3) by (fastforce simp: captures_ok_def)
  have e: "captures_ok e"
    using assms(2) c old by (fastforce simp: captures_ok_def table_simps)
  from pruned [OF pr] obtain P where
    d': "d' = e\<lparr> webhook_captures := delete_rows (\<lambda>c. c_endpoint_id c = cp_endpoint_id p \<and> P c) (webhook_captures e) \<rparr>"
    by blast
  show "captures_ok d'"
    using e unfolding d' captures_ok_def by (simp add: pkey_delete table_simps)
  show "captures_of f d' = captures_of f d" if "f \<noteq> cp_endpoint_id p" for f
    using that c(1,5) unfolding d' captures_of_def delete_rows_def by (auto intro: filter_cong)
  show "length (captures_of (cp_endpoint_id p) d') \<le> keep" if "0 < keep"
    using prune_bound [OF pr] e that by (simp add: captures_ok_def)
  have "c \<in> set (webhook_captures d')"
    using prune_keeps_newest [OF pr, of c] c old by fastforce
  then show "\<exists>c \<in> set (webhook_captures d'). c \<notin> set (webhook_captures d) \<and> c_id c = i \<and>
       c_endpoint_id c = cp_endpoint_id p \<and> c_method c = cp_method p \<and> c_path c = cp_path p \<and>
       c_query c = cp_query p \<and> c_headers c = cp_headers p \<and> c_body c = cp_body p \<and>
       c_body_size c = cp_body_size p \<and> c_body_truncated c = cp_body_truncated p \<and>
       c_source_ip c = cp_source_ip p \<and> (\<forall>b \<in> set (webhook_captures d). c_id b < i)"
    using c old by (intro bexI [of _ c]) force+
qed

text \<open>How a run of the handler ends: nothing is stored, or the request is, for the slug's endpoint.\<close>

lemma handleCapture_cases:
  assumes "handleCapture L I domains tm r lm w = (resp, lm', v)" "isolated w"
  obtains (kept) "dbs v = dbs w"
  | (stored) slug path endpoint body i where
      "captureTarget L domains (cr_host r) (cr_path r) = (slug, path, True)"
      "endpoint \<in> set (webhook_endpoints (dbs w))" "w_slug endpoint = slug"
      "readCaptureBody (cr_body r) = Inr body"
      "stores (capture_params I r endpoint path body) maxCapturesPerEndpoint i (dbs w) (dbs v)"
      "resp = writeConfiguredResponse endpoint i \<or> resp = captureError"
proof -
  obtain slug path ok where t: "captureTarget L domains (cr_host r) (cr_path r) = (slug, path, ok)"
    by (metis prod_cases3)
  obtain q w1 where q: "exec (GetWebhookEndpointBySlug slug) w = (q, w1)" by fastforce
  have w1: "dbs w1 = dbs w" "isolated w1"
    using unchangedD [OF unchanged_slug_lookup q assms(2)] by auto
  show ?thesis
  proof (cases "\<exists>endpoint wait lm2 body. ok \<and> q = Inr endpoint \<and>
      limit_call tm slug lm = ((True, wait), lm2) \<and> readCaptureBody (cr_body r) = Inr body")
    case False
    with assms(1) t q have "v = w1 \<or> v = w"
      by (auto simp: handleCapture_def split: if_splits sum.splits prod.splits)
    with w1 kept show ?thesis by auto
  next
    case True
    then obtain endpoint wait lm2 body where k: "ok" "q = Inr endpoint"
      "limit_call tm slug lm = ((True, wait), lm2)" "readCaptureBody (cr_body r) = Inr body" by blast
    obtain a w2 where c: "CaptureWebhook (capture_params I r endpoint path body) maxCapturesPerEndpoint w1 = (a, w2)"
      by fastforce
    from assms(1) t q k c have v: "v = w2"
      "resp = (case a of Inl e \<Rightarrow> captureError | Inr i \<Rightarrow> writeConfiguredResponse endpoint i)"
      by (auto simp: handleCapture_def split: sum.splits)
    have e: "endpoint \<in> set (webhook_endpoints (dbs w))" "w_slug endpoint = slug"
      using exec_reading_Inr [OF q [unfolded k(2) GetWebhookEndpointBySlug_def] assms(2)]
      by (auto simp: with_texts_Inr split: option.splits dest: find_row_SomeD)
    from CaptureWebhook_effect [OF c w1(2)] show ?thesis
    proof (elim disjE exE conjE)
      fix i assume "stores (capture_params I r endpoint path body) maxCapturesPerEndpoint i (dbs w1) (dbs w2)"
        "a = Inr i"
      with stored t k e v w1 show ?thesis by simp
    next
      fix i x assume "stores (capture_params I r endpoint path body) maxCapturesPerEndpoint i (dbs w1) (dbs w2)"
        "a = Inl x"
      with stored t k e v w1 show ?thesis by simp
    qed (use kept v w1 in auto)
  qed
qed


text \<open>
  C26: However many requests arrive, an endpoint keeps at most 500 captures: a run of
  \<^verbatim>\<open>handleCapture\<close> preserves that bound for every endpoint, keeps the capture ids
  unique, and touches the captures of no other endpoint than the one it resolved, whichever
  statement or commit fails.
\<close>

theorem capture_history_bounded:
  assumes "isolated w" "captures_ok (dbs w)"
    and "handleCapture L I domains tm r lm w = (resp, lm', v)"
    and "\<forall>e. length (captures_of e (dbs w)) \<le> 500"
  shows "captures_ok (dbs v) \<and> (\<forall>e. length (captures_of e (dbs v)) \<le> 500) \<and>
    (\<forall>e \<in> w_id ` set (webhook_endpoints (dbs w)). captures_of e (dbs v) \<noteq> captures_of e (dbs w) \<longrightarrow>
       (\<exists>x \<in> set (webhook_endpoints (dbs w)). w_id x = e \<and>
          fst (captureTarget L domains (cr_host r) (cr_path r)) = w_slug x))"
  using assms(3,1)
proof (rule handleCapture_cases)
  fix slug path endpoint body i
  let ?p = "capture_params I r endpoint path body"
  assume t: "captureTarget L domains (cr_host r) (cr_path r) = (slug, path, True)"
    and e: "endpoint \<in> set (webhook_endpoints (dbs w))" "w_slug endpoint = slug"
    and st: "stores ?p maxCapturesPerEndpoint i (dbs w) (dbs v)"
  have p: "cp_endpoint_id ?p = w_id endpoint" by (simp add: capture_params_def split: prod.splits)
  note sc = stores_captures [OF st assms(2), unfolded p]
  have "length (captures_of f (dbs v)) \<le> 500" for f
    using sc(2) [of f] sc(3) assms(4) by (cases "f = w_id endpoint") (auto simp: maxCapturesPerEndpoint_def)
  moreover have "captures_of f (dbs v) \<noteq> captures_of f (dbs w) \<Longrightarrow> f = w_id endpoint" for f
    using sc(2) [of f] by blast
  ultimately show ?thesis using sc(1) t e by (metis fst_conv)
qed (use assms in auto)

definition sample_capture_request :: capture_request where
  "sample_capture_request = \<lparr> cr_method = ''POST'', cr_host = ''Hooks.Example:8443'',
     cr_path = ''/h/abcdefgh12/in'', cr_raw_query = ''a=1'',
     cr_header = [(''X-Forwarded-For'', [''1.2.3.4, 9.9.9.9'']), (''Content-Type'', [''text/plain''])],
     cr_remote = ''127.0.0.1:5000'', cr_body = (''hi'', None) \<rparr>"

text \<open>Addresses that stand for themselves; the loopback ones begin with 127.\<close>

definition sampleI :: "string iplib" where
  "sampleI = \<lparr> parse_ip = (\<lambda>s. if s \<noteq> [] \<and> list_all (\<lambda>c. c \<in> set ''0123456789.'') s then Some s else None),
     is_loopback = is_prefix ''127.'', ip_text = (\<lambda>s. s) \<rparr>"

theorem capture_history_bounded_witness:
  "length (captures_of 1 (dbs (snd (snd (handleCapture sampleL sampleI [''hooks.example''] 0
     sample_capture_request None sample_world))))) \<le> 500 \<and>
   map c_id (webhook_captures (dbs (snd (snd (handleCapture sampleL sampleI [''hooks.example''] 0
     sample_capture_request None sample_world))))) = [1, 2, 3, 4]"
proof -
  obtain resp lm v where h: "handleCapture sampleL sampleI [''hooks.example''] 0
     sample_capture_request None sample_world = (resp, lm, v)" by (metis prod_cases3)
  have "captures_ok (dbs sample_world)" by (simp add: captures_ok_def pkey_def sample_arrive sample_db_def sample_capture_def)
  moreover have "\<forall>e. length (captures_of e (dbs sample_world)) \<le> 500"
  proof
    fix e
    have "length (captures_of e (dbs sample_world)) \<le> length (webhook_captures (dbs sample_world))"
      by (simp add: captures_of_def)
    then show "length (captures_of e (dbs sample_world)) \<le> 500" by (simp add: sample_arrive sample_db_def)
  qed
  moreover have "map c_id (webhook_captures (dbs (snd (snd (handleCapture sampleL sampleI [''hooks.example''] 0
     sample_capture_request None sample_world))))) = [1, 2, 3, 4]" by code_simp
  ultimately show ?thesis using capture_history_bounded [OF sample_quiet(2) _ h] h by simp
qed

section \<open>What is stored\<close>

text \<open>\<^verbatim>\<open>net/http\<close> refuses requests with a zero byte in the host or in a header.\<close>

definition no_zero_bytes :: "capture_request \<Rightarrow> bool" where
  "no_zero_bytes r \<longleftrightarrow> CHR 0x00 \<notin> set (cr_host r) \<and>
     (\<forall>(name, vs) \<in> set (cr_header r). CHR 0x00 \<notin> set name \<and> (\<forall>v \<in> set vs. CHR 0x00 \<notin> set v))"

lemma captured_header_ok:
  "CHR 0x00 \<notin> set key \<Longrightarrow> CHR 0x00 \<notin> set val \<Longrightarrow> pg_jsonb (captured_header key val)"
proof -
  have "pg_text ''key''" "pg_text ''value''" by code_simp+
  then show "CHR 0x00 \<notin> set key \<Longrightarrow> CHR 0x00 \<notin> set val \<Longrightarrow> pg_jsonb (captured_header key val)"
    by (simp add: captured_header_def) (simp add: pg_text_def coerce_utf8_valid coerce_utf8_set)
qed

lemma list_all_concat_map: "list_all p (concat (map f xs)) \<longleftrightarrow> (\<forall>x \<in> set xs. list_all p (f x))"
  by (induction xs) auto

lemma captureHeaders_ok:
  assumes "no_zero_bytes r" shows "pg_jsonb (captureHeaders r)"
proof -
  have "pg_jsonb (captured_header name v)"
    if "name \<in> fst ` set (cr_header r)" "map_of (cr_header r) name = Some vs" "v \<in> set vs" for name vs v
    using assms map_of_SomeD [OF that(2)] that(3)
    by (intro captured_header_ok) (auto simp: no_zero_bytes_def)
  then have "\<forall>name \<in> fst ` set (cr_header r). \<forall>vs. map_of (cr_header r) name = Some vs \<longrightarrow>
      list_all pg_jsonb (map (captured_header name) vs)"
    by (simp add: list_all_iff)
  moreover have "pg_jsonb (captured_header ''Host'' (cr_host r))"
    using assms by (intro captured_header_ok) (simp_all add: no_zero_bytes_def)
  ultimately show ?thesis
    unfolding captureHeaders_def pg_jsonb.simps
    by (simp add: list_all_concat_map split: option.split)
qed


lemma InsertWebhookCapture_ok:
  assumes "list_all pg_text [cp_method p, cp_path p, cp_query p, cp_content_type p, cp_source_ip p]"
    "pg_jsonb (cp_headers p)" "cp_endpoint_id p \<in> w_id ` set (webhook_endpoints d)"
  shows "\<exists>e. InsertWebhookCapture p s d = Inr (capture_seq d + 1, e)"
  using assms by (simp add: InsertWebhookCapture_def with_texts_def with_jsonb_def Let_def)

lemma PruneWebhookCaptures_ok: "\<exists>d'. PruneWebhookCaptures e n s d = Inr ((), d')"
  by (simp add: PruneWebhookCaptures_def Let_def)

lemma CaptureWebhook_ok:
  assumes "quiet w" "list_all pg_text [cp_method p, cp_path p, cp_query p, cp_content_type p, cp_source_ip p]"
    "pg_jsonb (cp_headers p)" "cp_endpoint_id p \<in> w_id ` set (webhook_endpoints (dbs w))"
  shows "\<exists>v. CaptureWebhook p keep w = (Inr (capture_seq (dbs w) + 1), v) \<and>
    stores p keep (capture_seq (dbs w) + 1) (dbs w) (dbs v)"
proof -
  let ?w = "w\<lparr> tick := Suc (tick w), in_tx := Some (tick w) \<rparr>"
  have q: "quiet ?w" "dbs ?w = dbs w" using assms(1) by simp_all
  from InsertWebhookCapture_ok [OF assms(2-4), of "stamp_of ?w"] obtain e where
    e: "InsertWebhookCapture p (stamp_of ?w) (dbs w) = Inr (capture_seq (dbs w) + 1, e)" by blast
  let ?w1 = "?w\<lparr> tick := Suc (tick ?w), dbs := e \<rparr>"
  have q1: "quiet ?w1" "dbs ?w1 = e" using q by simp_all
  obtain d' where d': "PruneWebhookCaptures (cp_endpoint_id p) (keep - 1) (stamp_of ?w1) e = Inr ((), d')"
    using PruneWebhookCaptures_ok by blast
  have "capture_tx p keep ?w = (Inr (capture_seq (dbs w) + 1), ?w1\<lparr> tick := Suc (tick ?w1), dbs := d' \<rparr>)"
    using exec_quiet [OF q(1), of "InsertWebhookCapture p"] exec_quiet [OF q1(1), of "PruneWebhookCaptures (cp_endpoint_id p) (keep - 1)"] e d'
    by (simp add: capture_tx_def)
  then show ?thesis
    using inTx_quiet [OF assms(1), of "capture_tx p keep"] env_capture_tx e d'
    by (auto simp: CaptureWebhook_def stores_def)
qed

text \<open>
  C27: A request to a capture host is recorded as it was sent. When its slug belongs to an endpoint,
  the limiter admits it, its body can be read and no statement fails, the answer is the endpoint's
  configured one under a fresh id, and a row with that id, greater than every earlier one, holds the
  method, path, query, headers and address of the request and its body: cut at 1 MiB if it is
  longer, and counted up to 10 MiB.
\<close>

theorem captured_as_sent:
  assumes "quiet w" "captures_ok (dbs w)"
    and "captureTarget L domains (cr_host r) (cr_path r) = (slug, path, True)"
    and "find_row (\<lambda>x. w_slug x = slug) (webhook_endpoints (dbs w)) = Some endpoint"
    and "\<And>l. lm = Some l \<Longrightarrow> fst (fst (Allow tm slug l))"
    and "cr_body r = (data, None)" "no_zero_bytes r"
    and "list_all pg_text [cr_method r, slug, path, cr_raw_query r,
           header_get (cr_header r) ''Content-Type'', clientIP I (cr_remote r) (cr_header r)]"
    and "handleCapture L I domains tm r lm w = (resp, lm', v)"
  shows "\<exists>i. resp = writeConfiguredResponse endpoint i \<and>
    (\<exists>c \<in> set (webhook_captures (dbs v)). c_id c = i \<and> c_endpoint_id c = w_id endpoint \<and>
       c_method c = cr_method r \<and> c_path c = path \<and> c_query c = cr_raw_query r \<and>
       c_headers c = captureHeaders r \<and> c_source_ip c = clientIP I (cr_remote r) (cr_header r) \<and>
       c_body c = (if data = [] then None else Some (take (2 ^ 20) data)) \<and>
       c_body_size c = int (min (10 * 2 ^ 20) (length data)) \<and>
       c_body_truncated c = (2 ^ 20 < length data) \<and>
       (\<forall>b \<in> set (webhook_captures (dbs w)). c_id b < i))"
proof -
  have lookup: "exec (GetWebhookEndpointBySlug slug) w = (Inr endpoint, w\<lparr> tick := Suc (tick w) \<rparr>)"
    using assms(4,8) by (simp add: GetWebhookEndpointBySlug_def exec_reading_quiet [OF assms(1)] with_texts_def)
  let ?w = "w\<lparr> tick := Suc (tick w) \<rparr>"
  have "fst (fst (limit_call tm slug lm))"
    using assms(5) by (auto simp: limit_call_def split: option.split prod.split)
  then obtain wait lm2 where lim: "limit_call tm slug lm = ((True, wait), lm2)"
    by (metis (full_types) prod.collapse)
  let ?body = "(if data = [] then None else Some (take (2 ^ 20) data),
      min (10 * 2 ^ 20) (length data), 2 ^ 20 < length data)"
  have body: "readCaptureBody (cr_body r) = Inr ?body"
    using assms(6) by (auto simp: readCaptureBody_def maxStoredCaptureBody_def maxReadCaptureBody_def)
  let ?p = "capture_params I r endpoint path ?body"
  have "endpoint \<in> set (webhook_endpoints (dbs w))" using assms(4) by (auto dest: find_row_SomeD)
  then have "\<exists>v. CaptureWebhook ?p maxCapturesPerEndpoint ?w = (Inr (capture_seq (dbs w) + 1), v) \<and>
      stores ?p maxCapturesPerEndpoint (capture_seq (dbs w) + 1) (dbs w) (dbs v)"
    using CaptureWebhook_ok [of ?w ?p maxCapturesPerEndpoint] assms(1,8) captureHeaders_ok [OF assms(7)]
    by (simp add: capture_params_def)
  then obtain v' where v': "CaptureWebhook ?p maxCapturesPerEndpoint ?w = (Inr (capture_seq (dbs w) + 1), v')"
      "stores ?p maxCapturesPerEndpoint (capture_seq (dbs w) + 1) (dbs w) (dbs v')" by blast
  have "resp = writeConfiguredResponse endpoint (capture_seq (dbs w) + 1) \<and> v = v'"
    using assms(3,9) lookup lim body v'(1) by (simp add: handleCapture_def)
  moreover note stores_captures(4) [OF v'(2) assms(2), unfolded capture_params_def]
  ultimately show ?thesis
    by (intro exI [of _ "capture_seq (dbs w) + 1"] conjI) (simp, elim bexE conjE, intro bexI conjI, simp_all)
qed

lemma sample_captures_ok: "captures_ok (dbs sample_world)"
  by (simp add: captures_ok_def pkey_def sample_arrive sample_db_def sample_capture_def)

theorem captured_as_sent_witness:
  "\<exists>c \<in> set (webhook_captures (dbs (snd (snd (handleCapture sampleL sampleI [''hooks.example''] 0
     sample_capture_request None sample_world))))). c_path c = ''/in'' \<and> c_query c = ''a=1'' \<and>
     c_source_ip c = ''9.9.9.9'' \<and> c_body c = Some ''hi'' \<and> c_body_size c = 2"
proof -
  let ?r = "sample_capture_request"
  obtain resp lm v where h: "handleCapture sampleL sampleI [''hooks.example''] 0 ?r None sample_world = (resp, lm, v)"
    by (metis prod_cases3)
  have t: "captureTarget sampleL [''hooks.example''] (cr_host ?r) (cr_path ?r) = (''abcdefgh12'', ''/in'', True)"
    by code_simp
  have e: "find_row (\<lambda>x. w_slug x = ''abcdefgh12'') (webhook_endpoints (dbs sample_world)) =
      Some (hd (webhook_endpoints sample_db))"
    by (simp add: sample_arrive sample_db_def)
  have ip: "clientIP sampleI (cr_remote ?r) (cr_header ?r) = ''9.9.9.9''" by code_simp
  have texts: "list_all pg_text [cr_method ?r, ''abcdefgh12'', ''/in'', cr_raw_query ?r,
           header_get (cr_header ?r) ''Content-Type'', clientIP sampleI (cr_remote ?r) (cr_header ?r)]"
    by code_simp
  have z: "no_zero_bytes ?r" by (simp add: no_zero_bytes_def sample_capture_request_def)
  have b: "cr_body ?r = (''hi'', None)" by (simp add: sample_capture_request_def)
  have two: "take (2 ^ 20) ''hi'' = ''hi''" "min (10 * 2 ^ 20) (length ''hi'') = 2" by simp_all
  have q: "cr_raw_query ?r = ''a=1''" by (simp add: sample_capture_request_def)
  from captured_as_sent [OF sample_quiet(1) sample_captures_ok t e _ b z texts h] obtain c where
    "c \<in> set (webhook_captures (dbs v))" "c_path c = ''/in''" "c_query c = ''a=1''"
    "c_source_ip c = ''9.9.9.9''" "c_body c = Some ''hi''" "c_body_size c = int 2"
    unfolding ip two q by auto
  with h show ?thesis by auto
qed

section \<open>Where a request goes\<close>

text \<open>A host name that \<^verbatim>\<open>normalizeHost\<close> leaves as it is, and hosts below no domain.\<close>

definition plain_domain :: "lib \<Rightarrow> string \<Rightarrow> bool" where
  "plain_domain L d \<longleftrightarrow> normalizeHost L d = d"

definition apart :: "string list \<Rightarrow> string \<Rightarrow> bool" where
  "apart domains host \<longleftrightarrow> (\<forall>d \<in> set domains. CutSuffix host (CHR ''.'' # d) = None)"

lemma slug_chars: "isValidSlug slug \<Longrightarrow> c \<in> set slug \<Longrightarrow> is_lower c \<or> 48 \<le> byte c \<and> byte c \<le> 57"
proof -
  have "list_all (\<lambda>c. is_lower c \<or> 48 \<le> byte c \<and> byte c \<le> 57) slugAlphabet" by code_simp
  then show "isValidSlug slug \<Longrightarrow> c \<in> set slug \<Longrightarrow> is_lower c \<or> 48 \<le> byte c \<and> byte c \<le> 57"
    by (auto simp: isValidSlug_def list_all_iff)
qed

lemma slug_no_sep: "isValidSlug slug \<Longrightarrow> CHR ''/'' \<notin> set slug \<and> CHR ''.'' \<notin> set slug"
  using slug_chars [of slug "CHR ''/''"] slug_chars [of slug "CHR ''.''"] by (auto simp: is_lower_def)

lemma target_on_domain:
  assumes "host \<in> set domains" "apart domains host"
  shows "target_loop host path domains = (case CutPrefix path ''/h/'' of
     None \<Rightarrow> ([], [], False)
   | Some rest \<Rightarrow> (case Cut_at CHR ''/'' rest of (slug, tail) \<Rightarrow> (slug, CHR ''/'' # tail, isValidSlug slug)))"
  using assms by (induction domains) (auto simp: apart_def)

lemma target_below_domain:
  assumes "d \<in> set domains" "host = label @ CHR ''.'' # d" "host \<notin> set domains"
    "\<forall>e \<in> set domains. e \<noteq> d \<longrightarrow> CutSuffix host (CHR ''.'' # e) = None"
  shows "target_loop host path domains = (label, (if path = [] then ''/'' else path), isValidSlug label)"
  using assms
proof (induction domains)
  case (Cons e domains)
  then show ?case by (cases "e = d") auto
qed simp

text \<open>
  C28: Both forms of a capture URL lead back to the slug they were made from: on the domain itself
  under \<^verbatim>\<open>/h/\<close>, where the rest of the path is recorded, and on the slug's subdomain, where
  the whole path is. This holds for every configured domain that is not below another one, if the
  subdomain is not below another one either.
\<close>

theorem capture_urls_resolve:
  assumes "isValidSlug slug" "d \<in> set domains" "plain_domain L d" "apart domains d"
    and "plain_domain L (slug @ CHR ''.'' # d)" "slug @ CHR ''.'' # d \<notin> set domains"
    and "\<forall>e \<in> set domains. e \<noteq> d \<longrightarrow> CutSuffix (slug @ CHR ''.'' # d) (CHR ''.'' # e) = None"
  shows "captureTarget L domains d (''/h/'' @ slug @ CHR ''/'' # tail) = (slug, CHR ''/'' # tail, True) \<and>
    captureTarget L domains d (''/h/'' @ slug) = (slug, ''/'', True) \<and>
    captureTarget L domains (slug @ CHR ''.'' # d) path = (slug, (if path = [] then ''/'' else path), True)"
proof -
  have n: "normalizeHost L d = d" "normalizeHost L (slug @ CHR ''.'' # d) = slug @ CHR ''.'' # d"
    using assms(3,5) by (simp_all add: plain_domain_def)
  note on = target_on_domain [OF assms(2,4)]
  have c: "CutPrefix (''/h/'' @ x) ''/h/'' = Some x" for x by (rule CutPrefix_append)
  show ?thesis
    unfolding captureTarget_def n on c
      target_below_domain [OF assms(2) refl assms(6,7), of path]
    using assms(1) slug_no_sep [OF assms(1)] by (simp add: Cut_at_append Cut_at_none)
qed

theorem capture_urls_resolve_witness:
  "captureTarget sampleL [''a.b'', ''c.d''] ''c.d'' (''/h/'' @ ''abcdefgh12'' @ CHR ''/'' # ''x'') = (''abcdefgh12'', ''/x'', True)"
proof -
  have "isValidSlug ''abcdefgh12''" "plain_domain sampleL ''c.d''" "apart [''a.b'', ''c.d''] ''c.d''"
    "plain_domain sampleL (''abcdefgh12'' @ CHR ''.'' # ''c.d'')"
    "\<forall>e \<in> set [''a.b'', ''c.d'']. e \<noteq> ''c.d'' \<longrightarrow> CutSuffix (''abcdefgh12'' @ CHR ''.'' # ''c.d'') (CHR ''.'' # e) = None"
    by (code_simp, code_simp, code_simp, code_simp, code_simp)
  from capture_urls_resolve [OF this(1) _ this(2,3,4) _ this(5), of "''x''" "[]"] show ?thesis by simp
qed

text \<open>
  A domain below another configured one is lost: with \<^verbatim>\<open>example.com\<close> ahead of
  \<^verbatim>\<open>hooks.example.com\<close> in the list, a request to \<^verbatim>\<open>hooks.example.com/h/<slug>\<close> is
  taken for the subdomain \<^verbatim>\<open>hooks\<close> of the first and answered 404, although the rule
  stated in \<^verbatim>\<open>capture.go\<close> makes it a capture. In the other order it is one.
\<close>

lemma nested_domain_shadowed:
  "captureTarget sampleL [''example.com'', ''hooks.example.com''] ''hooks.example.com'' ''/h/abcdefgh12''
     = (''hooks'', ''/h/abcdefgh12'', False) \<and>
   captureTarget sampleL [''hooks.example.com'', ''example.com''] ''hooks.example.com'' ''/h/abcdefgh12''
     = (''abcdefgh12'', ''/'', True)"
  by code_simp

section \<open>The client's address\<close>

lemma after_last_entry:
  assumes "c \<notin> set t" "s = [] \<or> last s = c" shows "after_last c (s @ t) = t"
proof (cases s rule: rev_cases)
  case Nil
  have "takeWhile (\<lambda>x. x \<noteq> c) (rev t) = rev t" using assms(1) by (auto simp: takeWhile_eq_all_conv)
  then show ?thesis unfolding Nil after_last_def by (simp only: append_Nil rev_rev_ident)
next
  case (snoc u x)
  with assms after_last_append [OF assms(1), of u] show ?thesis by simp
qed

text \<open>
  C39: The address that is rate limited and recorded cannot be chosen by the client. From a peer
  that is not a loopback address it is the peer's, whatever the headers say. Behind the local proxy
  it is the last entry of the last \<^verbatim>\<open>X-Forwarded-For\<close> header, be it the only entry or
  one the proxy appended to whatever the client had sent, in that header or in earlier ones; and it
  is the peer's if that entry is no address or there is no such header.
\<close>

theorem client_ip_not_forged:
  assumes "CHR '','' \<notin> set entry" "sent = [] \<or> last sent = CHR '',''"
  shows "((\<forall>ip. parse_ip I (peer_host remote) = Some ip \<longrightarrow> \<not> is_loopback I ip) \<longrightarrow>
      clientIP I remote h = peer_host remote) \<and>
    (\<forall>ip. parse_ip I (peer_host remote) = Some ip \<and> is_loopback I ip \<longrightarrow>
      (header_values h ''X-Forwarded-For'' = [] \<longrightarrow> clientIP I remote h = peer_host remote) \<and>
      (header_values h ''X-Forwarded-For'' = earlier @ [sent @ entry] \<longrightarrow>
        clientIP I remote h = (case parse_ip I (TrimSpace entry) of
          None \<Rightarrow> peer_host remote | Some ip \<Rightarrow> ip_text I ip)))"
proof -
  have l: "after_last CHR '','' (sent @ entry) = entry" using assms by (rule after_last_entry)
  show ?thesis
  proof (intro conjI impI allI; (elim conjE)?)
    assume "\<forall>ip. parse_ip I (peer_host remote) = Some ip \<longrightarrow> \<not> is_loopback I ip"
    then show "clientIP I remote h = peer_host remote"
      by (simp add: clientIP_def Let_def split: option.split)
  next
    fix ip
    assume "header_values h ''X-Forwarded-For'' = []"
    then show "clientIP I remote h = peer_host remote"
      by (simp add: clientIP_def Let_def split: option.split)
  next
    fix ip
    assume ip: "parse_ip I (peer_host remote) = Some ip" "is_loopback I ip"
      and h: "header_values h ''X-Forwarded-For'' = earlier @ [sent @ entry]"
    obtain v vs where v: "header_values h ''X-Forwarded-For'' = v # vs" using h by (cases earlier) auto
    then have "last (v # vs) = sent @ entry" using h by (metis last_snoc)
    with ip l show "clientIP I remote h = (case parse_ip I (TrimSpace entry) of
        None \<Rightarrow> peer_host remote | Some ip \<Rightarrow> ip_text I ip)"
      unfolding clientIP_def Let_def v by (simp only: option.case list.case if_False not_not simp_thms)
  qed
qed

theorem client_ip_not_forged_witness:
  "clientIP sampleI ''127.0.0.1:5000'' [(''X-Forwarded-For'', [''1.2.3.4, 9.9.9.9''])] = ''9.9.9.9'' \<and>
   clientIP sampleI ''127.0.0.1:5000'' [(''X-Forwarded-For'', [''9.9.9.9''])] = ''9.9.9.9'' \<and>
   clientIP sampleI ''127.0.0.1:5000'' [] = ''127.0.0.1'' \<and>
   clientIP sampleI ''8.8.8.8:5000'' [(''X-Forwarded-For'', [''1.2.3.4, 9.9.9.9''])] = ''8.8.8.8''"
proof -
  let ?h = "[(''X-Forwarded-For'', [''1.2.3.4, 9.9.9.9''])]" and ?one = "[(''X-Forwarded-For'', [''9.9.9.9''])]"
  have c: "CHR '','' \<notin> set '' 9.9.9.9''" "''1.2.3.4,'' = [] \<or> last ''1.2.3.4,'' = CHR '',''"
    "CHR '','' \<notin> set ''9.9.9.9''" "([] :: string) = [] \<or> last [] = CHR '',''" by simp_all
  have p: "peer_host ''127.0.0.1:5000'' = ''127.0.0.1''" "peer_host ''8.8.8.8:5000'' = ''8.8.8.8''" by code_simp+
  have i: "parse_ip sampleI ''127.0.0.1'' = Some ''127.0.0.1''" "is_loopback sampleI ''127.0.0.1''"
    "parse_ip sampleI ''8.8.8.8'' = Some ''8.8.8.8''" "\<not> is_loopback sampleI ''8.8.8.8''"
    "parse_ip sampleI (TrimSpace '' 9.9.9.9'') = Some ''9.9.9.9''" "ip_text sampleI ''9.9.9.9'' = ''9.9.9.9''"
    "parse_ip sampleI (TrimSpace ''9.9.9.9'') = Some ''9.9.9.9''"
    by code_simp+
  have h: "header_values ?h ''X-Forwarded-For'' = [] @ [''1.2.3.4,'' @ '' 9.9.9.9'']"
    "header_values ?one ''X-Forwarded-For'' = [] @ [[] @ ''9.9.9.9'']" "header_values [] ''X-Forwarded-For'' = []"
    by code_simp+
  from client_ip_not_forged [OF c(1,2), of sampleI "''127.0.0.1:5000''" ?h "[]"]
    client_ip_not_forged [OF c(1,2), of sampleI "''8.8.8.8:5000''" ?h "[]"]
    client_ip_not_forged [OF c(3,4), of sampleI "''127.0.0.1:5000''" ?one "[]"]
    client_ip_not_forged [OF c(3,4), of sampleI "''127.0.0.1:5000''" "[]" "[]"]
  show ?thesis using p i h by simp
qed

section \<open>Slugs\<close>

lemma bytes_of_letter:
  assumes "c \<in> set slugAlphabet"
  shows "card {b :: 8 word. unat b < unbiased \<and> slugAlphabet ! (unat b mod length slugAlphabet) = c} = 7"
proof -
  let ?ns = "filter (\<lambda>b. slugAlphabet ! (b mod length slugAlphabet) = c) [0..<unbiased]"
  have lt: "n \<in> set ?ns \<Longrightarrow> n < 2 ^ 8" for n by (auto simp: unbiased_eq)
  have "{b :: 8 word. unat b < unbiased \<and> slugAlphabet ! (unat b mod length slugAlphabet) = c}
      = (word_of_nat :: nat \<Rightarrow> 8 word) ` set ?ns"
  proof (intro set_eqI iffI)
    fix b :: "8 word"
    assume "b \<in> {b. unat b < unbiased \<and> slugAlphabet ! (unat b mod length slugAlphabet) = c}"
    then have "unat b \<in> set ?ns" by simp
    then show "b \<in> word_of_nat ` set ?ns" by (intro image_eqI [of _ _ "unat b"]) simp_all
  next
    fix b :: "8 word"
    assume "b \<in> word_of_nat ` set ?ns"
    then obtain n where n: "n \<in> set ?ns" "b = word_of_nat n" by blast
    then have "unat b = n" using lt [OF n(1)] by (simp add: unat_of_nat take_bit_nat_eq_self)
    with n show "b \<in> {b. unat b < unbiased \<and> slugAlphabet ! (unat b mod length slugAlphabet) = c}" by auto
  qed
  moreover have "unat (word_of_nat n :: 8 word) = n" if "n \<in> set ?ns" for n
    using lt [OF that] by (simp add: unat_of_nat take_bit_nat_eq_self)
  then have "inj_on (word_of_nat :: nat \<Rightarrow> 8 word) (set ?ns)"
    by (rule inj_on_inverseI)
  moreover have "card (set ?ns) = 7"
    using alphabet_even [OF assms] by (simp add: distinct_card del: set_filter)
  ultimately show ?thesis by (simp add: card_image)
qed

lemma letter_bytes:
  assumes "length slug < slugLength" "c \<in> set slugAlphabet"
  shows "card {b. slug_pass [b] slug = slug @ [c]} = 7"
proof -
  have "slug_pass [b] slug = slug @ [c] \<longleftrightarrow>
      unat b < unbiased \<and> slugAlphabet ! (unat b mod length slugAlphabet) = c" for b
    using assms(1) by simp
  with bytes_of_letter [OF assms(2)] show ?thesis by simp
qed

text \<open>
  C38: A slug that \<^verbatim>\<open>newWebhookSlug\<close> returns has ten characters of the alphabet, so that it
  is a DNS label. They come from the reads it made, all of which succeeded: the bytes from 252 on are
  thrown away, each other byte stands for the character at its remainder by 36, and the first ten
  characters are the slug. Whatever a slug begins with, exactly seven bytes add a given character to
  it, so that uniform bytes give uniform slugs.
\<close>

theorem slug_well_formed:
  assumes "newWebhookSlug rnd n = Some (Inr slug, m)"
  shows "isValidSlug slug \<and>
    (\<exists>bufs. map rnd [n..<m] = map Inr bufs \<and> slug = take 10 (map (\<lambda>b. slugAlphabet ! (unat b mod 36))
       (filter (\<lambda>b. unat b < 252) (concat bufs)))) \<and>
    (\<forall>s. \<forall>c \<in> set slugAlphabet. length s < 10 \<longrightarrow> card {b. slug_pass [b] s = s @ [c]} = 7)"
  using slug_loop_result [of rnd n "[]" "Inr slug" m] slug_loop_reads [of rnd n "[]" slug m] assms letter_bytes
  by (simp add: newWebhookSlug_def unbiased_eq del: slug_pass.simps) blast

theorem slug_well_formed_witness: "isValidSlug ''aa9aa9aa9a''"
proof -
  have "newWebhookSlug (\<lambda>n. Inr [0, 36, 71, 255]) 0 = Some (Inr ''aa9aa9aa9a'', 4)"
    by (simp add: newWebhookSlug_def slug_loop.simps unbiased_eq slugAlphabet_def)
  from slug_well_formed [OF this] show ?thesis by simp
qed

lemma create_shape:
  "(\<exists>resp v. \<forall>rnd. handleCreateWebhook L rnd domains r w = Some (resp, v)) \<or>
   (\<exists>p name domain u w1. \<forall>rnd. handleCreateWebhook L rnd domains r w = create_attempts L rnd p name domain u 1 0 w1)"
proof (cases "authenticatedUser r")
  case user: (Inr user)
  show ?thesis
  proof (cases "pathUUID L r ''project_id''")
    case i: (Inr i)
    obtain x w1 where x: "RequireProjectAccess i (au_id user) w = (x, w1)" by fastforce
    show ?thesis
    proof (cases "isl x \<or> domains = []")
      case True
      with user i x show ?thesis by (cases x) (simp_all add: handleCreateWebhook_def)
    next
      case False
      then obtain pa where pa: "x = Inr pa" "domains \<noteq> []" by (cases x) auto
      show ?thesis
      proof (cases "readJSON L webhookCreateRequest_fields webhookCreateRequest_zero r")
        case req: (Inr req)
        show ?thesis
        proof (cases "validateName (wcq_name req) minWebhookNameLength maxWebhookNameLength")
          case name: (Inr name)
          show ?thesis
          proof (cases "validateWebhookDomain L domains (wcq_domain req)")
            case (Inr domain)
            with user i x pa req name
            have "\<forall>rnd. handleCreateWebhook L rnd domains r w = create_attempts L rnd i name domain (au_id user) 1 0 w1"
              by (simp add: handleCreateWebhook_def)
            then show ?thesis by blast
          qed (use user i x pa req name in \<open>simp add: handleCreateWebhook_def\<close>)
        qed (use user i x pa req in \<open>simp add: handleCreateWebhook_def\<close>)
      qed (use user i x pa in \<open>simp add: handleCreateWebhook_def\<close>)
    qed
  qed (use user in \<open>simp add: handleCreateWebhook_def\<close>)
qed (simp add: handleCreateWebhook_def)

lemma create_returns:
  assumes "\<forall>k < 50. usable (rnd k)"
  shows "\<exists>resp v. \<forall>rnd'. (\<forall>k < 50. rnd' k = rnd k) \<longrightarrow> handleCreateWebhook L rnd' domains r w = Some (resp, v)"
  using create_shape [of L domains r w]
proof (elim disjE exE)
  fix p name domain u w1
  assume a: "\<forall>rnd. handleCreateWebhook L rnd domains r w = create_attempts L rnd p name domain u 1 0 w1"
  have "(Suc slugAttempts - 1) * slugLength = 50" "1 \<le> slugAttempts" by (simp_all add: slugAttempts_def slugLength_def)
  with create_attempts_returns [of 1 0 rnd L p name domain u w1] assms show ?thesis by (simp add: a)
qed blast

text \<open>
  C37: Creating an endpoint returns, after at most fifty reads of the random source: five slugs of ten
  reads each. If each of the first fifty reads fails or brings at least one byte below 252, then
  \<^verbatim>\<open>handleCreateWebhook\<close> answers, and its answer and the database it leaves are the same
  for every source that begins with these fifty reads, whatever would come after them.
\<close>

theorem create_webhook_returns:
  assumes "\<forall>k < 50. case rnd k of Inl e \<Rightarrow> True | Inr buf \<Rightarrow> \<exists>b \<in> set buf. unat b < 252"
  shows "\<exists>resp v. \<forall>rnd'. (\<forall>k < 50. rnd' k = rnd k) \<longrightarrow>
    handleCreateWebhook L rnd' domains r w = Some (resp, v)"
  using assms by (rule create_returns [unfolded usable_def unbiased_eq])

theorem create_webhook_returns_witness:
  "\<exists>resp v. handleCreateWebhook sampleL (\<lambda>n. if n < 50 then Inr [0] else Inr []) [''hooks.example'']
     (sample_req 1 [(''project_id'', ''1'')] (JObj [(''name'', JStr ''in'')])) sample_world = Some (resp, v)"
proof -
  have "\<forall>k < 50. case Inr [0] :: goerr + 8 word list of Inl e \<Rightarrow> True | Inr buf \<Rightarrow> \<exists>b \<in> set buf. unat b < 252"
    by simp
  from create_webhook_returns [of "\<lambda>n. Inr [0]", OF this, of sampleL "[''hooks.example'']"
      "sample_req 1 [(''project_id'', ''1'')] (JObj [(''name'', JStr ''in'')])" sample_world]
  obtain resp v where "\<forall>rnd'. (\<forall>k < 50. rnd' k = Inr [0]) \<longrightarrow> handleCreateWebhook sampleL rnd' [''hooks.example'']
      (sample_req 1 [(''project_id'', ''1'')] (JObj [(''name'', JStr ''in'')])) sample_world = Some (resp, v)" by blast
  from this [THEN spec, of "\<lambda>n. if n < 50 then Inr [0] else Inr []"] show ?thesis by simp
qed

section \<open>The quota\<close>

definition endpoints_of :: "uuid \<Rightarrow> db \<Rightarrow> WebhookEndpoint list" where
  "endpoints_of p d = filter (\<lambda>x. w_project_id x = p) (webhook_endpoints d)"

text \<open>A step that adds at most one endpoint, to a project below its quota, under an unused slug.\<close>

definition adds_endpoint :: "uuid \<Rightarrow> nat \<Rightarrow> db \<Rightarrow> db \<Rightarrow> bool" where
  "adds_endpoint p n d d' \<longleftrightarrow> (\<exists>x. d' = d\<lparr> webhook_endpoints := webhook_endpoints d @ [x] \<rparr> \<and>
     w_project_id x = p \<and> isValidSlug (w_slug x) \<and> w_slug x \<notin> w_slug ` set (webhook_endpoints d) \<and>
     length (endpoints_of p d) < n)"

inductive grows :: "uuid \<Rightarrow> nat \<Rightarrow> db \<Rightarrow> db \<Rightarrow> bool" for p n where
  grows_refl: "grows p n d d"
| grows_step: "grows p n d e \<Longrightarrow> adds_endpoint p n e f \<Longrightarrow> grows p n d f"

inductive_cases growsE: "grows p n d f"

lemma grows_trans: "grows p n e f \<Longrightarrow> grows p n d e \<Longrightarrow> grows p n d f"
  by (induction rule: grows.induct) (auto intro: grows_step)

lemma grows_result:
  assumes "grows p n d f"
  shows "(\<forall>q. length (endpoints_of q f) \<le> max n (length (endpoints_of q d))) \<and>
    (\<forall>x \<in> set (webhook_endpoints f) - set (webhook_endpoints d). w_project_id x = p \<and> isValidSlug (w_slug x) \<and>
       w_slug x \<notin> w_slug ` set (webhook_endpoints d)) \<and>
    set (webhook_endpoints d) \<subseteq> set (webhook_endpoints f) \<and>
    (distinct (map w_slug (webhook_endpoints d)) \<longrightarrow> distinct (map w_slug (webhook_endpoints f)))"
  using assms
proof (induction rule: grows.induct)
  case (grows_step d e f)
  then show ?case by (auto simp: adds_endpoint_def endpoints_of_def max_def split: if_splits)
qed simp

lemma CreateWebhookEndpoint_Inr:
  assumes "CreateWebhookEndpoint p name slug domain u s d = Inr (x, d')"
  shows "d' = d\<lparr> webhook_endpoints := webhook_endpoints d @ [x] \<rparr> \<and> w_project_id x = p \<and>
    w_slug x = slug \<and> slug \<notin> w_slug ` set (webhook_endpoints d)"
  using assms by (auto simp: CreateWebhookEndpoint_def Let_def with_texts_Inr require_Inr checks_Inr)

lemma create_endpoint_tx_effect:
  assumes "create_endpoint_tx p name slug domain u n w = (Inr x, v)" "in_tx w = Some m" "isValidSlug slug"
  shows "adds_endpoint p n (dbs w) (dbs v)"
proof -
  from assms(1) obtain a k w1 w2 where l: "exec (LockProject p) w = (Inr a, w1)"
    and c: "exec (CountWebhookEndpointsInProject p) w1 = (Inr k, w2)" "k < n"
    and q: "exec (CreateWebhookEndpoint p name slug domain u) w2 = (Inr x, v)"
    by (auto simp: create_endpoint_tx_def split: prod.splits sum.splits if_splits)
  from exec_tx_Inr [OF l assms(2)] have w1: "dbs w1 = dbs w" "in_tx w1 = Some m"
    by (auto simp: LockProject_def reading_Inr)
  from exec_tx_Inr [OF c(1) w1(2)] w1 have w2: "dbs w2 = dbs w" "in_tx w2 = Some m" "k = length (endpoints_of p (dbs w))"
    by (auto simp: CountWebhookEndpointsInProject_def reading_Inr endpoints_of_def)
  from exec_tx_Inr [OF q w2(2)] w2(1) obtain s where
    "CreateWebhookEndpoint p name slug domain u s (dbs w) = Inr (x, dbs v)" by metis
  from CreateWebhookEndpoint_Inr [OF this] w2(3) c(2) assms(3) show ?thesis
    unfolding adds_endpoint_def by blast
qed

lemma env_create_endpoint_tx: "create_endpoint_tx p name slug domain u n w = (r, v) \<Longrightarrow> same_env w v"
  by (auto simp: create_endpoint_tx_def split: prod.splits sum.splits if_splits dest!: exec_env
      intro: same_env_trans)

lemma quota_effect:
  assumes "CreateWebhookEndpointWithQuota p name slug domain u n w = (r, v)" "isolated w" "isValidSlug slug"
  shows "grows p n (dbs w) (dbs v) \<and> isolated v"
proof -
  have "same_env w v"
    by (rule inTx_env [OF assms(1) [unfolded CreateWebhookEndpointWithQuota_def]]) (rule env_create_endpoint_tx)
  with assms(2) have "isolated v" by (simp add: same_env_isolated)
  moreover from assms(1) have "grows p n (dbs w) (dbs v)"
    unfolding CreateWebhookEndpointWithQuota_def
  proof (rule inTx_cases)
    fix x y assume "create_endpoint_tx p name slug domain u n ((arrive w)\<lparr> in_tx := Some (tick w) \<rparr>) = (Inr x, y)"
      "dbs v = dbs y"
    with create_endpoint_tx_effect [OF this(1) _ assms(3)] show ?thesis
      by (auto simp: arrive_isolated [OF assms(2)] intro: grows_step grows_refl)
  qed (simp add: arrive_isolated [OF assms(2)] grows_refl)
  ultimately show ?thesis by blast
qed

lemma attempts_effect:
  assumes "create_attempts L rnd p name domain u attempt n w = Some (resp, v)" "isolated w"
  shows "grows p maxWebhooksPerProject (dbs w) (dbs v)"
  using assms
proof (induction L rnd p name domain u attempt n w rule: create_attempts.induct)
  case (1 L rnd p name domain u attempt n w)
  from "1.prems"(1) obtain s m where s: "newWebhookSlug rnd n = Some (s, m)"
    by (auto simp: create_attempts.simps [of L rnd p] split: option.splits)
  show ?case
  proof (cases s)
    case (Inl e)
    with "1.prems"(1) s show ?thesis by (simp add: create_attempts.simps [of L rnd p] grows_refl)
  next
    case (Inr slug)
    then have ok: "isValidSlug slug"
      using slug_loop_result [of rnd n "[]" s m] s by (simp add: newWebhookSlug_def)
    obtain q w1 where q: "CreateWebhookEndpointWithQuota p name slug domain u maxWebhooksPerProject w = (q, w1)"
      by fastforce
    note eff = quota_effect [OF q "1.prems"(2) ok]
    show ?thesis
    proof (cases "\<exists>e. q = Inl e \<and> \<not> errors_is e ErrWebhookQuota \<and> IsWebhookSlugCollision e \<and> attempt < slugAttempts")
      case True
      then obtain e where e: "q = Inl e" "\<not> errors_is e ErrWebhookQuota"
        "IsWebhookSlugCollision e \<and> attempt < slugAttempts" by blast
      with "1.prems"(1) s Inr q have "create_attempts L rnd p name domain u (Suc attempt) m w1 = Some (resp, v)"
        by (simp add: create_attempts.simps [of L rnd p name domain u attempt])
      from "1.IH" [OF s [unfolded Inr] refl refl q [symmetric] e this] eff show ?thesis
        by (auto intro: grows_trans)
    next
      case False
      with "1.prems"(1) s Inr q have "v = w1"
        by (auto simp: create_attempts.simps [of L rnd p] split: sum.splits if_splits)
      with eff show ?thesis by simp
    qed
  qed
qed

text \<open>
  C36: The quota. Whatever fails on the way, creating an endpoint leaves every project with at most
  20 endpoints, or as many as it had; what it adds belongs to the project of the path, which the
  caller can open, under a well-formed slug that no endpoint had, and nothing is taken away.
\<close>

theorem webhook_quota:
  assumes "isolated w" "handleCreateWebhook L rnd domains r w = Some (resp, v)"
  shows "(\<forall>p. length (endpoints_of p (dbs v)) \<le> max 20 (length (endpoints_of p (dbs w)))) \<and>
    set (webhook_endpoints (dbs w)) \<subseteq> set (webhook_endpoints (dbs v)) \<and>
    (\<forall>x \<in> set (webhook_endpoints (dbs v)) - set (webhook_endpoints (dbs w)).
       uuid_parse L (rq_path r ''project_id'') = Some (w_project_id x) \<and> isValidSlug (w_slug x) \<and>
       w_slug x \<notin> w_slug ` set (webhook_endpoints (dbs w)) \<and>
       (\<exists>user. UserFromContext r = Some user \<and> can_open (dbs w) (au_id user) (w_project_id x)))"
proof (cases "\<exists>user p a w1 name domain. UserFromContext r = Some user \<and>
    uuid_parse L (rq_path r ''project_id'') = Some p \<and> RequireProjectAccess p (au_id user) w = (Inr a, w1) \<and>
    create_attempts L rnd p name domain (au_id user) 1 0 w1 = Some (resp, v)")
  case True
  then obtain user p a w1 name domain where h: "UserFromContext r = Some user"
    "uuid_parse L (rq_path r ''project_id'') = Some p" "RequireProjectAccess p (au_id user) w = (Inr a, w1)"
    "create_attempts L rnd p name domain (au_id user) 1 0 w1 = Some (resp, v)" by blast
  have w1: "dbs w1 = dbs w" "isolated w1"
    using unchangedD [OF unchanged_project_checks(1) h(3) assms(1)] by auto
  have "can_open (dbs w) (au_id user) p" by (rule project_access_can_open [OF assms(1) h(3)])
  with grows_result [OF attempts_effect [OF h(4) w1(2)]] h(1,2) w1(1) show ?thesis
    by (auto simp: maxWebhooksPerProject_def)
next
  case False
  with assms(2) have "(v = w \<or> (\<exists>p u a. RequireProjectAccess p u w = (a, v)))"
    by (auto simp: handleCreateWebhook_def authenticatedUser_def pathUUID_def
      split: sum.splits prod.splits option.splits if_splits)
  then have "dbs v = dbs w"
    using unchangedD [OF unchanged_project_checks(1) _ assms(1)] by blast
  then show ?thesis by auto
qed

theorem webhook_quota_witness:
  "\<exists>resp v. handleCreateWebhook sampleL (\<lambda>n. Inr [0]) [''hooks.example'']
     (sample_req 1 [(''project_id'', ''1'')] (JObj [(''name'', JStr ''in'')])) sample_world = Some (resp, v) \<and>
     length (endpoints_of 1 (dbs v)) \<le> 20"
proof -
  let ?r = "sample_req 1 [(''project_id'', ''1'')] (JObj [(''name'', JStr ''in'')])"
  have "\<forall>k < (50::nat). usable (Inr [0])" by (simp add: usable_def unbiased_eq)
  from create_returns [of "\<lambda>n. Inr [0]", OF this, of sampleL "[''hooks.example'']" ?r sample_world] obtain resp v where
    h: "handleCreateWebhook sampleL (\<lambda>n. Inr [0]) [''hooks.example''] ?r sample_world = Some (resp, v)" by auto
  have "length (endpoints_of 1 (dbs sample_world)) = 1"
    by (simp add: endpoints_of_def sample_arrive sample_db_def)
  with webhook_quota [OF sample_quiet(2) h] have "length (endpoints_of 1 (dbs v)) \<le> max 20 1" by metis
  with h show ?thesis by auto
qed

section \<open>The configured response\<close>

lemma find_kv_fields:
  "find_field keyValueRow_fields ''key'' = Some (''key'', fString (\<lambda>v q. q\<lparr> kv_key := v \<rparr>))"
  "find_field keyValueRow_fields ''value'' = Some (''value'', fString (\<lambda>v q. q\<lparr> kv_value := v \<rparr>))"
  "find_field keyValueRow_fields ''enabled'' = Some (''enabled'', fBool (\<lambda>v q. q\<lparr> kv_enabled := v \<rparr>))"
  by (simp_all add: find_field_def keyValueRow_fields_def)

lemma decoded_row_again: "decoded_row (keyValueRow_json row) = row"
  by (simp add: decoded_row_def keyValueRow_json_def find_kv_fields fString_def fBool_def)

lemma decoded_rows_again: "decoded_rows (JArr (map keyValueRow_json rows)) = rows"
  by (simp add: decoded_rows_def o_def decoded_row_again)

lemma fold_header_add:
  "fold (\<lambda>row. header_add (kv_key row) (kv_value row)) rows h =
     h @ map (\<lambda>row. (CanonicalHeaderKey (kv_key row), kv_value row)) rows"
  by (induction rows arbitrary: h) (simp_all add: header_add_def)

lemma capture_id_canonical: "CanonicalHeaderKey captureIDHeader = captureIDHeader"
  by code_simp

text \<open>
  C40: The answer to a captured request is the one configured: the enabled rows become its headers,
  in order and under their canonical names, except those that frame the body; the header with the
  capture's id is always there, once, with the id of the stored row even if a row configures it; the
  status is the configured one, except that an informational status other than 101 ends in a 200;
  and there is a body unless the status forbids one.
\<close>

theorem configured_response:
  assumes "w_resp_headers endpoint = JArr (map keyValueRow_json rows)"
  shows "rs_headers (writeConfiguredResponse endpoint i) =
      map (\<lambda>row. (CanonicalHeaderKey (kv_key row), kv_value row))
        (filter (\<lambda>row. kv_enabled row \<and> CanonicalHeaderKey (kv_key row) \<notin>
           {captureIDHeader, ''Content-Length'', ''Transfer-Encoding'', ''Connection''}) rows)
      @ [(captureIDHeader, show_int i)] \<and>
    rs_status (writeConfiguredResponse endpoint i) =
      (if w_resp_status endpoint \<in> {100..199} - {101} then 200 else nat (w_resp_status endpoint)) \<and>
    rs_payload (writeConfiguredResponse endpoint i) =
      (if w_resp_status endpoint < 200 \<or> w_resp_status endpoint \<in> {204, 304} then NoContent
       else RawBody (w_resp_body endpoint))"
  using assms
  by (auto simp: writeConfiguredResponse_def Let_def decoded_rows_again fold_header_add header_set_def
      capture_id_canonical filter_map o_def sends_header_def framingHeaders_def final_status_def
      conj_ac intro!: arg_cong [where f = "map _"] filter_cong)

theorem configured_response_witness:
  "rs_headers (writeConfiguredResponse ((hd (webhook_endpoints sample_db))\<lparr> w_resp_headers := JArr (map keyValueRow_json
      [\<lparr> kv_key = ''x-a'', kv_value = ''1'', kv_enabled = True \<rparr>,
       \<lparr> kv_key = ''content-length'', kv_value = ''9'', kv_enabled = True \<rparr>]) \<rparr>) 7) =
     [(''X-A'', ''1''), (''X-Ghostman-Capture-Id'', ''7'')]"
proof -
  let ?rows = "[\<lparr> kv_key = ''x-a'', kv_value = ''1'', kv_enabled = True \<rparr>,
       \<lparr> kv_key = ''content-length'', kv_value = ''9'', kv_enabled = True \<rparr>]"
  let ?e = "(hd (webhook_endpoints sample_db))\<lparr> w_resp_headers := JArr (map keyValueRow_json ?rows) \<rparr>"
  have c: "CanonicalHeaderKey ''x-a'' = ''X-A''" "CanonicalHeaderKey ''content-length'' = ''Content-Length''"
    "show_int 7 = ''7''" by code_simp+
  have "w_resp_headers ?e = JArr (map keyValueRow_json ?rows)" by simp
  from configured_response [OF this, of 7] show ?thesis by (simp add: c captureIDHeader_def)
qed

section \<open>The rate limiter\<close>

text \<open>
  C30: Dropping idle buckets is invisible: over every sequence of calls at times that do not go
  back, for whatever keys, \<^verbatim>\<open>Allow\<close> gives the answers, waiting times included, of a
  limiter that never sweeps.
\<close>

theorem sweeping_is_invisible:
  assumes "0 \<le> lm_rate l" "sorted (map fst calls)"
  shows "answers l calls = answers_unswept l calls"
proof (cases calls)
  case (Cons c cs)
  have "alike (fst c) l l" by (simp add: alike_def)
  moreover have "sorted (fst c # map fst calls)" using assms(2) Cons by simp
  ultimately show ?thesis using answers_alike assms(1) by blast
qed simp

theorem sweeping_is_invisible_witness:
  "answers (newLimiter 1 2) [(0, ''a''), (1, ''b''), (70000000000, ''a'')] =
   answers_unswept (newLimiter 1 2) [(0, ''a''), (1, ''b''), (70000000000, ''a'')]"
proof -
  have "0 \<le> lm_rate (newLimiter 1 2)" by (simp add: newLimiter_def)
  from sweeping_is_invisible [OF this, of "[(0, ''a''), (1, ''b''), (70000000000, ''a'')]"] show ?thesis by simp
qed

text \<open>
  C29: What a limiter lets through is bounded: of the calls between two times, at most as many are
  admitted for one key as the burst plus what the rate refills in between, whatever the other keys
  do.
\<close>

theorem admitted_calls_bounded:
  assumes "0 \<le> lm_rate l" "0 \<le> lm_burst l" "sorted (s # map fst calls)"
    "\<forall>c \<in> set calls. fst c \<le> e" "s \<le> e"
  shows "of_nat (admitted_calls l key calls) \<le> lm_burst l + seconds (e - s) * lm_rate l"
proof -
  have "level l s key \<le> lm_burst l" by (auto simp: level_def split: option.split)
  moreover have "0 \<le> seconds (e - s) * lm_rate l"
    using seconds_mono [OF assms(5)] assms(1) by simp
  ultimately show ?thesis using admitted_bound [OF assms(1,3,4,5), of key] assms(2) by simp
qed

theorem admitted_calls_bounded_witness:
  "admitted_calls (newLimiter 1 2) ''a'' [(0, ''a''), (0, ''a''), (0, ''a''), (1000000000, ''a'')] \<le> 3"
proof -
  have "0 \<le> lm_rate (newLimiter 1 2)" "0 \<le> lm_burst (newLimiter 1 2)" by (simp_all add: newLimiter_def)
  from admitted_calls_bounded [OF this, of 0 "[(0, ''a''), (0, ''a''), (0, ''a''), (1000000000, ''a'')]" 1000000000 "''a''"]
  have "of_nat (admitted_calls (newLimiter 1 2) ''a'' [(0, ''a''), (0, ''a''), (0, ''a''), (1000000000, ''a'')]) \<le> (3::rat)"
    by (simp add: newLimiter_def seconds_def second_def)
  then show ?thesis by linarith
qed

end
