(* ===== verification/ServiceProperties.thy ===== *)
theory ServiceProperties
  imports Scope FolderProperties AuthProperties WebhookProperties
begin

text \<open>
  Properties of the service as a whole: the routes do not overlap; without a session only
  registration and login write; the capture hosts and the API do not touch each other; and what the
  migrations declare holds in every state the server reaches.
\<close>

section \<open>Routes\<close>

text \<open>Two patterns that no path matches both differ in length or in a literal.\<close>

fun may_overlap :: "pattern_segment list \<Rightarrow> pattern_segment list \<Rightarrow> bool" where
  "may_overlap [] [] = True"
| "may_overlap (Literal a # ps) (Literal b # qs) = (a = b \<and> may_overlap ps qs)"
| "may_overlap (p # ps) (q # qs) = may_overlap ps qs"
| "may_overlap _ _ = False"

lemma match_overlap:
  "match_segments ps segs = Some x \<Longrightarrow> match_segments qs segs = Some y \<Longrightarrow> may_overlap ps qs"
proof (induction ps arbitrary: qs segs x y)
  case Nil
  then show ?case by (cases segs; cases qs; cases "hd qs") auto
next
  case (Cons p ps)
  from Cons.prems(1) obtain s ss where s: "segs = s # ss" by (cases segs; cases p) auto
  from Cons.prems(2) obtain q qs' where q: "qs = q # qs'" by (cases qs) (auto simp: s)
  show ?case using Cons.prems Cons.IH unfolding s q
    by (cases p; cases q) (auto split: if_splits)
qed

definition routes_apart :: "string \<times> pattern_segment list \<Rightarrow> string \<times> pattern_segment list \<Rightarrow> bool" where
  "routes_apart a b \<longleftrightarrow> fst a \<noteq> fst b \<or> \<not> may_overlap (snd a) (snd b)"

lemma routes_checked:
  "sorted_wrt routes_apart (map (\<lambda>r. parse_pattern (fst r)) (routes S A))"
  "list_all (\<lambda>r. fst (parse_pattern (fst r)) \<noteq> ''HEAD'') (routes S A)"
  by code_simp+

text \<open>
  No route shadows another: whatever the verb and the path of a request (with
  \<^verbatim>\<open>HEAD\<close> served by the \<^verbatim>\<open>GET\<close> routes), at most one entry of the
  route table matches it, so neither the order of registration nor the precedence of literal over
  wildcard segments ever decides which handler runs.
\<close>
lemma one_route_matches:
  assumes "i < length (routes S A)" "j < length (routes S A)"
    and "match_route verb segs (fst (routes S A ! i)) = Some vals"
    and "match_route verb segs (fst (routes S A ! j)) = Some other_vals"
  shows "i = j"
proof -
  let ?p = "\<lambda>k. parse_pattern (fst (routes S A ! k))"
  have m: "fst (?p k) = verb \<or> fst (?p k) = ''GET'' \<and> verb = ''HEAD''"
    "\<exists>x. match_segments (snd (?p k)) segs = Some x"
    if "match_route verb segs (fst (routes S A ! k)) = Some x" for k x
    using that by (auto simp: match_route_def split: prod.splits if_splits)
  have h: "fst (?p k) \<noteq> ''HEAD''" if "k < length (routes S A)" for k
    using routes_checked(2) [of S A] that by (simp add: list_all_length)
  have apart: "routes_apart (?p k) (?p l)" if "k < l" "l < length (routes S A)" for k l
    using sorted_wrt_nth_less [OF routes_checked(1) [of S A] that(1)] that by simp
  have v: "fst (?p i) = fst (?p j)"
    using m(1) [OF assms(3)] m(1) [OF assms(4)] h [OF assms(1)] h [OF assms(2)] by auto
  obtain x y where "match_segments (snd (?p i)) segs = Some x" "match_segments (snd (?p j)) segs = Some y"
    using m(2) [OF assms(3)] m(2) [OF assms(4)] by blast
  then have "may_overlap (snd (?p i)) (snd (?p j))" "may_overlap (snd (?p j)) (snd (?p i))"
    by (auto intro: match_overlap)
  with v apart [of i j] apart [of j i] assms(1,2) show ?thesis
    by (metis linorder_neqE_nat routes_apart_def)
qed

definition sampleS :: "string site" where
  "sampleS = \<lparr> st_lib = sampleL, st_ip = sampleI, st_argon = sampleK, st_domains = [''hooks.example''],
     st_version = ''1'', st_redirect = (\<lambda>verb path query. noContent) \<rparr>"

definition sampleA :: arrival where
  "sampleA = \<lparr> ar_now = 0, ar_time = 0, ar_salt = Inr ''0123456789abcdef'', ar_token = Inr ''xyz'',
     ar_random = (\<lambda>n. Inr [0]) \<rparr>"

lemma one_route_matches_witness:
  "(THE k. k < length (routes sampleS sampleA) \<and>
     match_route ''HEAD'' [''api'', ''v1'', ''teams'', ''1''] (fst (routes sampleS sampleA ! k)) \<noteq> None) = 10"
proof (rule the_equality)
  have m: "match_route ''HEAD'' [''api'', ''v1'', ''teams'', ''1''] (fst (routes sampleS sampleA ! 10)) = Some [(''id'', ''1'')]"
    by code_simp
  have l: "10 < length (routes sampleS sampleA)" by (simp add: routes_def Let_def)
  show "10 < length (routes sampleS sampleA) \<and>
     match_route ''HEAD'' [''api'', ''v1'', ''teams'', ''1''] (fst (routes sampleS sampleA ! 10)) \<noteq> None"
    using m l by simp
  show "k = 10" if k: "k < length (routes sampleS sampleA) \<and>
     match_route ''HEAD'' [''api'', ''v1'', ''teams'', ''1''] (fst (routes sampleS sampleA ! k)) \<noteq> None" for k
    using k one_route_matches [OF _ l _ m, of k] by auto
qed

section \<open>What a request may do\<close>

lemma run_target_anonymous:
  assumes "registered (keeping keeps_ok) (p, t)" "run_target S A r vals t sv = Some (resp, sv')" "isolated (sv_world sv)"
    and "\<And>token user. bearerToken (header_get (cr_header r) ''Authorization'') = Some token \<Longrightarrow>
      \<not> live_session (dbs (sv_world sv)) (now (stamp_of (sv_world sv))) (HashToken (st_lib S) token) user"
  shows "dbs (sv_world sv') = dbs (sv_world sv) \<or>
    p = ''POST /api/v1/auth/register'' \<or> p = ''POST /api/v1/auth/login''"
proof (cases t)
  case (Public h)
  with assms(1) have "runs unchanged (h q)" for q by (simp add: registered_def harmless_def)
  from runsD [OF this] assms(2,3) Public show ?thesis
    by (auto simp: run_target_def Let_def unchanged_def split: prod.splits)
next
  case (Authed h)
  let ?auth = "header_get (cr_header r) ''Authorization''"
  obtain q u where q: "authenticate (st_lib S) ?auth (sv_world sv) = (q, u)" by fastforce
  have "\<exists>e. q = Inl e"
  proof (cases q)
    case (Inr c)
    then obtain caller h where "q = Inr (caller, h)" by (cases c) simp
    with authenticate_Inr [of "st_lib S" ?auth "sv_world sv" caller h u] q assms(3,4) show ?thesis by blast
  qed simp
  with q Authed assms(2) have "sv_world sv' = u" by (auto simp: run_target_def Let_def requireAuth_def)
  then show ?thesis using unchangedD [OF authenticate_unchanged q assms(3)] by simp
qed (use assms(1) in \<open>simp_all add: registered_def\<close>)

text \<open>The paths of the two routes that write without a session.\<close>

lemma register_path:
  "match_route verb segs ''POST /api/v1/auth/register'' = Some vals \<Longrightarrow>
     verb = ''POST'' \<and> segs = [''api'', ''v1'', ''auth'', ''register'']"
  "match_route verb segs ''POST /api/v1/auth/login'' = Some vals \<Longrightarrow>
     verb = ''POST'' \<and> segs = [''api'', ''v1'', ''auth'', ''login'']"
proof -
  have p: "parse_pattern ''POST /api/v1/auth/register'' =
      (''POST'', [Literal ''api'', Literal ''v1'', Literal ''auth'', Literal ''register''])"
    "parse_pattern ''POST /api/v1/auth/login'' =
      (''POST'', [Literal ''api'', Literal ''v1'', Literal ''auth'', Literal ''login''])"
    by code_simp+
  have m: "match_segments (map Literal ls) segs = Some x \<Longrightarrow> segs = ls" for ls segs x
    by (induction ls arbitrary: segs x; case_tac segs) (auto split: if_splits)
  show "match_route verb segs ''POST /api/v1/auth/register'' = Some vals \<Longrightarrow>
      verb = ''POST'' \<and> segs = [''api'', ''v1'', ''auth'', ''register'']"
    "match_route verb segs ''POST /api/v1/auth/login'' = Some vals \<Longrightarrow>
      verb = ''POST'' \<and> segs = [''api'', ''v1'', ''auth'', ''login'']"
    using m [of "[''api'', ''v1'', ''auth'', ''register'']"] m [of "[''api'', ''v1'', ''auth'', ''login'']"]
    by (auto simp: match_route_def p split: if_splits)
qed

definition for_capture :: "'ip site \<Rightarrow> web_request \<Rightarrow> bool" where
  "for_capture S r \<longleftrightarrow> st_domains S \<noteq> [] \<and> isCaptureHost (st_lib S) (st_domains S) (cr_host r)"

text \<open>
  C22: A request to the API without the token of a live session writes nothing, whatever its verb,
  path, headers and body, except a \<^verbatim>\<open>POST\<close> to the registration and the login
  route: the route table leaves no other handler outside \<^verbatim>\<open>requireAuth\<close>, and
  the handlers outside it only read.
\<close>
theorem anonymous_request_writes_nothing:
  assumes "withCapture S A r sv = Some (resp, sv')" "isolated (sv_world sv)" "\<not> for_capture S r"
    and "\<And>token user. bearerToken (header_get (cr_header r) ''Authorization'') = Some token \<Longrightarrow>
      \<not> live_session (dbs (sv_world sv)) (now (stamp_of (sv_world sv))) (HashToken (st_lib S) token) user"
  shows "dbs (sv_world sv') = dbs (sv_world sv) \<or>
    cr_method r = ''POST'' \<and> path_segments (cr_path r) \<in>
      {[''api'', ''v1'', ''auth'', ''register''], [''api'', ''v1'', ''auth'', ''login'']}"
proof -
  from assms(1,3) have "api_handler S A r sv = Some (resp, sv')"
    by (simp add: withCapture_def for_capture_def split: if_splits)
  then show ?thesis
  proof (rule api_handler_cases)
    fix resp' assume "serve_mux S A r sv = Some (resp', sv')"
    then show ?thesis
    proof (cases rule: schema_store.serve_mux_cases)
      case (routed p t vals)
      from run_target_anonymous [OF routed(1,2) assms(2,4)] routed(3) show ?thesis
        by (auto dest: register_path)
    qed simp
  qed simp
qed

definition sample_web :: "string \<Rightarrow> string \<Rightarrow> string \<Rightarrow> web_request" where
  "sample_web verb path authorization = \<lparr> cr_method = verb, cr_host = ''api.example'', cr_path = path,
     cr_raw_query = [], cr_header = [(''Authorization'', [authorization])], cr_remote = ''10.1.1.1:80'',
     cr_body = ([], None), wr_length = 0, wr_query = (\<lambda>k. []), wr_body = BEmpty \<rparr>"

definition sample_service :: service where
  "sample_service = \<lparr> sv_world = session_world, sv_login = None, sv_register = None, sv_capture = None \<rparr>"

lemma sample_service_world [simp]: "sv_world sample_service = session_world"
  by (simp add: sample_service_def)

lemma api_routed:
  assumes "\<not> for_capture S r" "cr_method r \<noteq> ''OPTIONS''" "wr_length r \<le> int maxRequestBody"
    "cleanPath (cr_path r) = cr_path r"
    "find_route (cr_method r) (path_segments (cr_path r)) (routes S A) = Some (vals, t)"
  shows "withCapture S A r sv =
    map_option (\<lambda>(resp, sv). (resp\<lparr> rs_headers := corsHeaders @ rs_headers resp \<rparr>, sv)) (run_target S A r vals t sv)"
  using assms unfolding withCapture_def for_capture_def api_handler_def withCORS_def limitRequestBody_def serve_mux_def
  by (auto simp: Let_def split: option.split)

definition clear_request :: "string \<Rightarrow> web_request" where
  "clear_request authorization = sample_web ''DELETE'' ''/api/v1/webhooks/1/captures'' authorization"

lemma clear_request_run:
  "withCapture sampleS A (clear_request auth) sample_service =
     map_option (\<lambda>(resp, w). (resp\<lparr> rs_headers := corsHeaders @ rs_headers resp \<rparr>, sample_service\<lparr> sv_world := w \<rparr>))
       (requireAuth sampleL auth (returning (handleClearCaptures sampleL))
         (handler_request (clear_request auth) [(''id'', ''1'')]) session_world)"
proof -
  let ?r = "clear_request auth"
  have "\<not> for_capture sampleS ?r" "cleanPath (cr_path ?r) = cr_path ?r" "cr_method ?r = ''DELETE''"
    "path_segments (cr_path ?r) = [''api'', ''v1'', ''webhooks'', ''1'', ''captures'']"
    "header_get (cr_header ?r) ''Authorization'' = auth"
    by code_simp+
  moreover have "find_route ''DELETE'' [''api'', ''v1'', ''webhooks'', ''1'', ''captures''] (routes S A) =
      Some ([(''id'', ''1'')], Authed (returning (handleClearCaptures (st_lib S))))" for S :: "string site"
  proof -
    let ?segs = "[''api'', ''v1'', ''webhooks'', ''1'', ''captures'']"
    have "list_all (\<lambda>e. match_route ''DELETE'' ?segs (fst e) = None) (take 69 (routes S A))"
      "match_route ''DELETE'' ?segs (fst (routes S A ! 69)) = Some [(''id'', ''1'')]"
      by code_simp+
    moreover have "69 < length (routes S A)" "snd (routes S A ! 69) = Authed (returning (handleClearCaptures (st_lib S)))"
      by (simp_all add: routes_def Let_def)
    ultimately show ?thesis using find_route_nth [of 69 "routes S A" "''DELETE''" ?segs] by simp
  qed
  moreover have "wr_length ?r \<le> int maxRequestBody" "cr_method ?r \<noteq> ''OPTIONS''"
    by (simp_all add: clear_request_def sample_web_def)
  ultimately show ?thesis
    by (subst api_routed) (auto simp: run_target_def Let_def sampleS_def split: option.split)
qed

theorem anonymous_request_writes_nothing_witness:
  "\<exists>resp sv'. withCapture sampleS sampleA (clear_request ''Bearer old'') sample_service = Some (resp, sv') \<and>
     rs_status resp = 401 \<and> dbs (sv_world sv') = session_db"
proof -
  let ?r = "clear_request ''Bearer old''"
  have "map_option (\<lambda>x. rs_status (fst x)) (requireAuth sampleL ''Bearer old'' h q session_world) = Some 401" for h q
    by code_simp
  then have "map_option (\<lambda>x. rs_status (fst x)) (withCapture sampleS sampleA ?r sample_service) = Some 401"
    unfolding clear_request_run by (auto simp: option.map_comp o_def case_prod_beta)
  then obtain resp sv' where h: "withCapture sampleS sampleA ?r sample_service = Some (resp, sv')" "rs_status resp = 401"
    by auto
  have "\<not> for_capture sampleS ?r" "bearerToken (header_get (cr_header ?r) ''Authorization'') = Some ''old''"
    "HashToken (st_lib sampleS) ''old'' = ''hold''" "path_segments (cr_path ?r) = [''api'', ''v1'', ''webhooks'', ''1'', ''captures'']"
    by code_simp+
  moreover have "now (stamp_of session_world) = 1000" by code_simp
  moreover have "\<not> live_session session_db 1000 ''hold'' user" for user
    by (simp add: live_session_def session_db_def)
  ultimately have none: "\<And>token user. bearerToken (header_get (cr_header ?r) ''Authorization'') = Some token \<Longrightarrow>
      \<not> live_session (dbs (sv_world sample_service)) (now (stamp_of (sv_world sample_service))) (HashToken (st_lib sampleS) token) user"
    and "\<not> for_capture sampleS ?r" "path_segments (cr_path ?r) = [''api'', ''v1'', ''webhooks'', ''1'', ''captures'']"
    using session_quiet by auto
  with anonymous_request_writes_nothing [OF h(1) _ _ none] h session_quiet show ?thesis by auto
qed

section \<open>The schema in every reachable state\<close>

text \<open>
  C20: Whatever requests the server handles and however often expired sessions are swept, every
  database it reaches from a well-formed one is well formed: no row refers to one that is gone,
  the keys and unique indexes hold, and each value is in the range its column allows. That includes
  failing requests and requests whose connection breaks before or after a statement or a commit, and
  it holds amid other sessions as long as their statements keep the schema too.
\<close>
theorem reachable_databases_well_formed:
  assumes "reachable S sv sv'" "db_ok (dbs (sv_world sv))" "others_keep keeps_ok (sv_world sv)"
  shows "db_ok (dbs (sv_world sv'))"
  using schema_store.reachable_keeps [OF assms(1)] assms(2,3) by (simp add: keeping_def keeps_ok_def)

lemma short_text: "length s \<le> n \<Longrightarrow> rune_count s \<le> n" "s \<noteq> [] \<Longrightarrow> Suc 0 \<le> rune_count s"
  using rune_count_le_length [of s] rune_count_zero [of s] by (simp_all add: Suc_le_eq del: rune_count_zero)

lemma sample_names:
  "list_all (pg_name_ok 100) [''one'', ''two'', ''p1'', ''p2'', ''p3'', ''folder'', ''dev'', ''live'', ''get'', ''out'', ''ok'', ''hook'']"
  "list_all (pg_name_ok 200) [''host'', ''key'']"
  by code_simp+

lemma sample_db_ok: "db_ok session_db"
  using sample_names
  by (simp add: short_text RequestMethods_def APIKeyPlacements_def JWTPlacements_def JWTAlgorithms_def AuthTypes_def
    ToggleSettingValues_def ProxyModes_def ProxyTypes_def VariableSecret_def VariableRegular_def default_auth_def db_ok_defs session_db_def sample_db_def empty_db_def pkey_def refs_def opt_refs_def each_row_def
    unique_index_def checks_hold_def sample_folder_def sample_request_def sample_capture_def member_key_def grant_key_def
    settings_checks_def variable_checks_def proxy_checks_def example_checks_def endpoint_checks_def request_checks_def
    default_settings_def)

lemma sample_reaches: "\<exists>sv'. reachable sampleS sample_service sv'"
proof -
  have "\<exists>resp v. returning (handleClearCaptures sampleL) q w = Some (resp, v)" for q w
    by (simp add: returning_def)
  from requireAuth_some [of "returning (handleClearCaptures sampleL)", OF this] obtain resp v where
    "requireAuth sampleL ''Bearer tok'' (returning (handleClearCaptures sampleL))
       (handler_request (clear_request ''Bearer tok'') [(''id'', ''1'')]) session_world = Some (resp, v)" by blast
  then have "\<exists>resp sv'. withCapture sampleS sampleA (clear_request ''Bearer tok'') sample_service = Some (resp, sv')"
    by (simp add: clear_request_run)
  then show ?thesis
    unfolding reachable_def by (blast intro: server_step.request)
qed

theorem reachable_databases_well_formed_witness:
  "\<exists>sv'. reachable sampleS sample_service sv' \<and> db_ok (dbs (sv_world sv'))"
proof -
  obtain sv' where "reachable sampleS sample_service sv'" using sample_reaches by blast
  moreover have "others_keep keeps_ok (sv_world sample_service)"
    using session_quiet by (simp add: others_keep_def isolated_def keeps_ok_def)
  ultimately show ?thesis
    using reachable_databases_well_formed [of sampleS sample_service sv'] sample_db_ok session_quiet by auto
qed

section \<open>The boundaries of the projects\<close>

text \<open>
  C21: Projects do not leak into each other. In every state the server reaches from one where the
  folders form trees within their projects, requests lie in folders of their own project and every
  proxy a folder or a request names belongs to its project, all of that holds again. The schema does
  not demand it: only the checks before each write do, in the transactions that create and move and
  in the two update handlers. It holds through failures and lost connections, for a server no other
  session interleaves with.
\<close>
theorem project_boundaries_kept:
  assumes "reachable S sv sv'" "isolated (sv_world sv)" "db_ok (dbs (sv_world sv))" "in_scope (dbs (sv_world sv))"
  shows "in_scope (dbs (sv_world sv')) \<and> forest (folders (dbs (sv_world sv')))"
  using scope_store.reachable_keeps [OF assms(1)] assms(2-4)
  by (auto simp: scoped_def keeps_scope_def intro: forest_in_scope)

lemma sample_in_scope: "in_scope session_db"
proof (rule in_scopeI)
  show "forest (folders session_db)" using sample_forest by (simp add: session_db_def)
qed (auto simp: session_db_def sample_db_def sample_folder_def sample_request_def default_settings_def)

theorem project_boundaries_kept_witness:
  "\<exists>sv'. reachable sampleS sample_service sv' \<and> in_scope (dbs (sv_world sv')) \<and> forest (folders (dbs (sv_world sv')))"
proof -
  obtain sv' where r: "reachable sampleS sample_service sv'" using sample_reaches by blast
  from project_boundaries_kept [OF r] sample_db_ok sample_in_scope session_quiet r show ?thesis by auto
qed

section \<open>Capture hosts\<close>

text \<open>Statements after which only the captures may differ.\<close>

definition only_captures :: "db \<Rightarrow> db \<Rightarrow> bool" where
  "only_captures d e \<longleftrightarrow> (\<exists>t n. e = d\<lparr> webhook_captures := t, capture_seq := n \<rparr>)"

lemma only_captures_refl: "only_captures d d"
  unfolding only_captures_def by (rule exI [of _ "webhook_captures d"], rule exI [of _ "capture_seq d"]) simp

lemma only_captures_trans: "only_captures d e \<Longrightarrow> only_captures e f \<Longrightarrow> only_captures d f"
  unfolding only_captures_def by (elim exE) (simp, blast)

interpretation captures: db_rel only_captures
  by unfold_locales (rule only_captures_refl, rule only_captures_trans)

interpretation captured: step_rel "keeping only_captures"
  by (rule captures.step_rel_keeping)

lemma captures_InsertWebhookCapture: "preserves only_captures (InsertWebhookCapture p)"
  by (auto simp: preserves_def only_captures_def InsertWebhookCapture_def stmt_simps)

lemma captures_PruneWebhookCaptures: "preserves only_captures (PruneWebhookCaptures e n)"
  unfolding preserves_def
proof (intro allI impI)
  fix s d x d' assume "PruneWebhookCaptures e n s d = Inr (x, d')"
  then have "d' = d\<lparr> webhook_captures := webhook_captures d', capture_seq := capture_seq d \<rparr>"
    by (auto simp: PruneWebhookCaptures_def Let_def)
  then show "only_captures d d'" unfolding only_captures_def by blast
qed

lemma captures_lookup: "preserves only_captures (GetWebhookEndpointBySlug slug)"
  unfolding preserves_def using readonly_webhook_queries(4) [of slug] only_captures_refl by (metis readonly_def)

lemma captured_CaptureWebhook: "runs (keeping only_captures) (CaptureWebhook p keep)"
  unfolding CaptureWebhook_def capture_tx_def [abs_def]
  by (intro captured.runs_return captured.runs_bind captured.runs_sum captures.runs_exec captures.runs_inTx
    captures_InsertWebhookCapture captures_PruneWebhookCaptures)

lemma captured_handleCapture:
  assumes "handleCapture L I domains tm r lm w = (resp, lm', v)" shows "keeping only_captures w v"
  using assms unfolding handleCapture_def
  by (auto split: prod.splits if_splits sum.splits simp: captured.refl_R
    dest!: runsD [OF captures.runs_exec [OF captures_lookup]] runsD [OF captured_CaptureWebhook]
    elim: captured.trans_R)

text \<open>
  C23: A request to a capture domain or below one can do nothing but add and prune captures: every
  other table is as before, sessions and users among them, and the limiters of the API keep
  their tokens, so that a sender of webhooks cannot lock anyone out of the API.
\<close>
theorem capture_host_writes_captures_only:
  assumes "withCapture S A r sv = Some (resp, sv')" "for_capture S r" "isolated (sv_world sv)"
  shows "(\<exists>t n. dbs (sv_world sv') = (dbs (sv_world sv))\<lparr> webhook_captures := t, capture_seq := n \<rparr>) \<and>
    sv_login sv' = sv_login sv \<and> sv_register sv' = sv_register sv"
proof -
  from assms(1,2) obtain lm w where h: "handleCapture (st_lib S) (st_ip S) (st_domains S) (ar_now A)
      (capture_request.truncate r) (sv_capture sv) (sv_world sv) = (resp, lm, w)"
    and sv': "sv' = sv\<lparr> sv_world := w, sv_capture := lm \<rparr>"
    by (auto simp: withCapture_def for_capture_def capture_handler_def split: prod.splits)
  have "others_keep only_captures (sv_world sv)"
    using assms(3) only_captures_refl by (simp add: others_keep_def isolated_def)
  with captured_handleCapture [OF h] sv' show ?thesis by (simp add: keeping_def only_captures_def)
qed

theorem capture_host_writes_captures_only_witness:
  "\<exists>resp sv' r. withCapture sampleS sampleA r sample_service = Some (resp, sv') \<and> cr_host r = ''abcdefgh12.hooks.example'' \<and>
     users (dbs (sv_world sv')) = users session_db"
proof -
  let ?r = "(sample_web ''POST'' ''/'' ''Bearer tok'')\<lparr> cr_host := ''abcdefgh12.hooks.example'' \<rparr>"
  have c: "for_capture sampleS ?r" by code_simp
  then obtain resp sv' where h: "withCapture sampleS sampleA ?r sample_service = Some (resp, sv')"
    by (cases "handleCapture (st_lib sampleS) (st_ip sampleS) (st_domains sampleS) (ar_now sampleA)
        (capture_request.truncate ?r) (sv_capture sample_service) (sv_world sample_service)")
      (simp add: withCapture_def for_capture_def capture_handler_def)
  from capture_host_writes_captures_only [OF h c] session_quiet h show ?thesis
    by (intro exI [of _ resp] exI [of _ sv'] exI [of _ ?r]) auto
qed

end
