(* ===== verification/Middleware.thy ===== *)
theory Middleware
  imports Service
begin

text \<open>
  The middleware of \<^verbatim>\<open>internal/api/middleware.go\<close> with what Service leaves out: a
  handler writes to a \<^verbatim>\<open>ResponseWriter\<close> step by step, may panic in between, and log
  lines are written. Chained as \<^verbatim>\<open>routes.go\<close> does it, on handlers that return it is
  the chain of Service.
\<close>

section \<open>The response writer\<close>

text \<open>
  What a handler does to its \<^verbatim>\<open>http.ResponseWriter\<close>, and the writer of
  \<^verbatim>\<open>net/http\<close>: the first status counts and freezes the header, a body without a status
  sends 200, and a 204 or 304 takes no body. Nothing here sends informational (1xx) statuses.
\<close>

datatype write_op =
    SetHeader string string
  | AddHeader string string
  | WriteHeader nat
  | WriteBody payload

record conn =
  cn_header :: "(string \<times> string) list"
  cn_sent :: "(nat \<times> (string \<times> string) list) option"
  cn_body :: "payload list"

definition fresh_conn :: conn where
  "fresh_conn = \<lparr> cn_header = [], cn_sent = None, cn_body = [] \<rparr>"

definition bodyAllowed :: "nat \<Rightarrow> bool" where
  "bodyAllowed status \<longleftrightarrow> status \<noteq> 204 \<and> status \<noteq> 304"

definition send_header :: "nat \<Rightarrow> conn \<Rightarrow> conn" where
  "send_header status c = (case cn_sent c of
     None \<Rightarrow> c\<lparr> cn_sent := Some (status, cn_header c) \<rparr>
   | Some _ \<Rightarrow> c)"

fun conn_step :: "conn \<Rightarrow> write_op \<Rightarrow> conn" where
  "conn_step c (SetHeader k v) = c\<lparr> cn_header := filter (\<lambda>(n, _). n \<noteq> k) (cn_header c) @ [(k, v)] \<rparr>"
| "conn_step c (AddHeader k v) = c\<lparr> cn_header := cn_header c @ [(k, v)] \<rparr>"
| "conn_step c (WriteHeader status) = send_header status c"
| "conn_step c (WriteBody b) = (let c = send_header 200 c in
     case cn_sent c of
       None \<Rightarrow> c
     | Some (status, _) \<Rightarrow> if bodyAllowed status then c\<lparr> cn_body := cn_body c @ [b] \<rparr> else c)"

definition written :: "write_op list \<Rightarrow> conn" where
  "written ops = foldl conn_step fresh_conn ops"

section \<open>Handlers\<close>

datatype ending = Returned | AbortHandler | Panicked string

datatype level = LevelDebug | LevelWarn | LevelError

datatype log_line =
    HttpRequest level string string nat nat
  | RecoveredPanic string
  | UnhandledError string string string

record handled =
  rn_ops :: "write_op list"
  rn_end :: ending
  rn_log :: "log_line list"

type_synonym http_handler = "web_request \<Rightarrow> service \<Rightarrow> (handled \<times> service) option"

text \<open>
  What the client receives: of a handler that panics in the end, nothing, since
  \<^verbatim>\<open>net/http\<close> drops the connection.
\<close>

definition received :: "handled \<Rightarrow> (nat \<times> (string \<times> string) list \<times> payload list) option" where
  "received u = (if rn_end u = Returned then
       (let c = send_header 200 (written (rn_ops u)) in
        case cn_sent c of None \<Rightarrow> None | Some (status, h) \<Rightarrow> Some (status, h, cn_body c))
     else None)"

text \<open>A handler of Service as one that writes.\<close>

definition response_ops :: "response \<Rightarrow> write_op list" where
  "response_ops resp = map (\<lambda>(k, v). AddHeader k v) (rs_headers resp) @ [WriteHeader (rs_status resp)] @
     (if rs_payload resp = NoContent then [] else [WriteBody (rs_payload resp)])"

definition writing :: "(web_request \<Rightarrow> service \<Rightarrow> (response \<times> service) option) \<Rightarrow> http_handler" where
  "writing h r sv = (case h r sv of
     None \<Rightarrow> None
   | Some (resp, sv) \<Rightarrow> Some (\<lparr> rn_ops = response_ops resp, rn_end = Returned, rn_log = [] \<rparr>, sv))"

text \<open>\<^verbatim>\<open>writeError\<close> and \<^verbatim>\<open>serverError\<close> of \<^verbatim>\<open>json.go\<close>.\<close>

definition writeError_ops :: "nat \<Rightarrow> string \<Rightarrow> string \<Rightarrow> write_op list" where
  "writeError_ops status code message =
     [SetHeader ''Content-Type'' ''application/json; charset=utf-8'', WriteHeader status,
      WriteBody (rs_payload (writeError status code message))]"

definition serverError_ops :: "write_op list" where
  "serverError_ops = writeError_ops 500 codeInternal messageInternal"

section \<open>The middleware\<close>

definition chain :: "http_handler \<Rightarrow> (http_handler \<Rightarrow> http_handler) list \<Rightarrow> http_handler" where
  "chain h middleware = foldr (\<lambda>m h. m h) middleware h"

text \<open>
  \<^verbatim>\<open>statusRecorder\<close>: a later status is dropped, the first body sets 200, and the bytes the
  writer took are counted; \<open>len\<close> is the length of a body.
\<close>

record statusRecorder =
  rec_status :: nat
  rec_bytes :: nat

fun recorder_step :: "(payload \<Rightarrow> nat) \<Rightarrow> statusRecorder \<Rightarrow> write_op \<Rightarrow> write_op list \<times> statusRecorder" where
  "recorder_step len s (WriteHeader code) =
     (if rec_status s = 0 then ([WriteHeader code], s\<lparr> rec_status := code \<rparr>) else ([], s))"
| "recorder_step len s (WriteBody b) =
     (let s = (if rec_status s = 0 then s\<lparr> rec_status := 200 \<rparr> else s) in
      ([WriteBody b], s\<lparr> rec_bytes := rec_bytes s + (if bodyAllowed (rec_status s) then len b else 0) \<rparr>))"
| "recorder_step len s op = ([op], s)"

fun recorded :: "(payload \<Rightarrow> nat) \<Rightarrow> statusRecorder \<Rightarrow> write_op list \<Rightarrow> write_op list \<times> statusRecorder" where
  "recorded len s [] = ([], s)"
| "recorded len s (op # ops) = (case recorder_step len s op of
     (here, s) \<Rightarrow> (case recorded len s ops of (rest, s) \<Rightarrow> (here @ rest, s)))"

definition log_level :: "nat \<Rightarrow> level" where
  "log_level status = (if status \<ge> 500 then LevelError else if status \<ge> 400 then LevelWarn else LevelDebug)"

text \<open>A panic passes \<^verbatim>\<open>logRequests\<close> by: nothing is deferred there.\<close>

definition logRequests :: "(payload \<Rightarrow> nat) \<Rightarrow> http_handler \<Rightarrow> http_handler" where
  "logRequests len inner r sv = (case inner r sv of
     None \<Rightarrow> None
   | Some (u, sv) \<Rightarrow>
       (case recorded len \<lparr> rec_status = 0, rec_bytes = 0 \<rparr> (rn_ops u) of (ops, s) \<Rightarrow>
        let status = (if rec_status s = 0 then 200 else rec_status s);
            line = HttpRequest (log_level status) (cr_method r) (cr_path r) status (rec_bytes s) in
        Some (u\<lparr> rn_ops := ops, rn_log := rn_log u @ (if rn_end u = Returned then [line] else []) \<rparr>, sv)))"

definition recoverPanics :: "http_handler \<Rightarrow> http_handler" where
  "recoverPanics inner r sv = (case inner r sv of
     None \<Rightarrow> None
   | Some (u, sv) \<Rightarrow>
       (case rn_end u of
          Panicked p \<Rightarrow> Some (\<lparr> rn_ops = rn_ops u @ SetHeader ''Connection'' ''close'' # serverError_ops,
            rn_end = Returned,
            rn_log = rn_log u @ [RecoveredPanic p, UnhandledError (''panic: '' @ p) (cr_method r) (cr_path r)] \<rparr>, sv)
        | _ \<Rightarrow> Some (u, sv)))"

definition cors_ops :: "write_op list" where
  "cors_ops = [SetHeader ''Access-Control-Allow-Origin'' ''*'', AddHeader ''Vary'' ''Origin'']"

definition preflight_ops :: "write_op list" where
  "preflight_ops =
     [SetHeader ''Access-Control-Allow-Methods'' ''GET, POST, PUT, PATCH, DELETE, OPTIONS'',
      SetHeader ''Access-Control-Allow-Headers'' ''Content-Type, Authorization'',
      SetHeader ''Access-Control-Max-Age'' corsMaxAge,
      AddHeader ''Vary'' ''Access-Control-Request-Method'',
      AddHeader ''Vary'' ''Access-Control-Request-Headers'', WriteHeader 204]"

definition allow_origins :: "http_handler \<Rightarrow> http_handler" where
  "allow_origins inner r sv =
     (if cr_method r = ''OPTIONS'' \<and> header_get (cr_header r) ''Access-Control-Request-Method'' \<noteq> [] then
        Some (\<lparr> rn_ops = cors_ops @ preflight_ops, rn_end = Returned, rn_log = [] \<rparr>, sv)
      else (case inner r sv of
          None \<Rightarrow> None
        | Some (u, sv) \<Rightarrow> Some (u\<lparr> rn_ops := cors_ops @ rn_ops u \<rparr>, sv)))"

definition limit_length :: "http_handler \<Rightarrow> http_handler" where
  "limit_length inner r sv =
     (if wr_length r > int maxRequestBody then
        Some (\<lparr> rn_ops = writeError_ops 413 codeTooLarge (body_error_text (BodyTooLarge maxRequestBody)),
          rn_end = Returned, rn_log = [] \<rparr>, sv)
      else inner r sv)"

text \<open>The chain of \<^verbatim>\<open>routes.go\<close>, the first the outermost.\<close>

definition apiHandler :: "(payload \<Rightarrow> nat) \<Rightarrow> http_handler \<Rightarrow> http_handler" where
  "apiHandler len mux = chain mux [recoverPanics, allow_origins, logRequests len, limit_length]"

section \<open>What the recorder sees\<close>

text \<open>Statuses are never 0: \<^verbatim>\<open>net/http\<close> panics on one.\<close>

definition proper :: "write_op list \<Rightarrow> bool" where
  "proper ops \<longleftrightarrow> WriteHeader 0 \<notin> set ops"

definition agrees :: "(payload \<Rightarrow> nat) \<Rightarrow> statusRecorder \<Rightarrow> conn \<Rightarrow> bool" where
  "agrees len s c \<longleftrightarrow> rec_bytes s = sum_list (map len (cn_body c)) \<and>
     (case cn_sent c of None \<Rightarrow> rec_status s = 0 | Some (status, _) \<Rightarrow> rec_status s = status \<and> status \<noteq> 0)"

lemma recorder_step_agrees:
  assumes "agrees len s c" "op \<noteq> WriteHeader 0" "recorder_step len s op = (ops, t)"
  shows "foldl conn_step c ops = conn_step c op \<and> agrees len t (conn_step c op)"
  using assms by (cases op) (auto simp: agrees_def send_header_def Let_def split: if_splits option.splits)

text \<open>The writer ends up as without the recorder, and the recorder knows its status and size.\<close>

lemma recorded_agrees:
  assumes "agrees len s c" "proper ops" "recorded len s ops = (ops', t)"
  shows "foldl conn_step c ops' = foldl conn_step c ops \<and> agrees len t (foldl conn_step c ops)"
  using assms
proof (induction ops arbitrary: s c ops')
  case (Cons op ops)
  obtain here s1 where 1: "recorder_step len s op = (here, s1)" by fastforce
  obtain rest where 2: "recorded len s1 ops = (rest, t)" "ops' = here @ rest"
    using Cons.prems(3) 1 by (auto split: prod.splits)
  have op: "op \<noteq> WriteHeader 0" "proper ops" using Cons.prems(2) by (auto simp: proper_def)
  from recorder_step_agrees [OF Cons.prems(1) op(1) 1] have s1: "foldl conn_step c here = conn_step c op"
    "agrees len s1 (conn_step c op)" by simp_all
  from Cons.IH [OF s1(2) op(2) 2(1)] s1(1) show ?case by (simp add: 2(2))
qed simp

lemma recorded_written:
  assumes "proper ops" "recorded len \<lparr> rec_status = 0, rec_bytes = 0 \<rparr> ops = (ops', s)"
    "cn_sent c = None" "cn_body c = []"
  shows "foldl conn_step c ops' = foldl conn_step c ops"
  by (rule conjunct1 [OF recorded_agrees [OF _ assms(1,2)]]) (simp add: agrees_def assms(3,4))

text \<open>Status and body do not depend on the header set before.\<close>

definition sent_status :: "conn \<Rightarrow> nat option" where
  "sent_status c = map_option fst (cn_sent c)"

definition op_status :: "write_op \<Rightarrow> nat option" where
  "op_status op = (case op of WriteHeader status \<Rightarrow> Some status | WriteBody b \<Rightarrow> Some 200 | _ \<Rightarrow> None)"

lemma step_status: "sent_status (conn_step c op) = (case sent_status c of None \<Rightarrow> op_status op | Some n \<Rightarrow> Some n)"
  by (cases op; cases "cn_sent c") (auto simp: sent_status_def send_header_def op_status_def bodyAllowed_def)

lemma step_body: "cn_body (conn_step c op) = cn_body c @ (case op of
    WriteBody b \<Rightarrow> if bodyAllowed (case sent_status c of None \<Rightarrow> 200 | Some n \<Rightarrow> n) then [b] else [] | _ \<Rightarrow> [])"
  by (cases op; cases "cn_sent c") (auto simp: sent_status_def send_header_def)

lemma sent_status_written:
  assumes "sent_status c = sent_status d" "cn_body c = cn_body d"
  shows "sent_status (foldl conn_step c ops) = sent_status (foldl conn_step d ops) \<and>
    cn_body (foldl conn_step c ops) = cn_body (foldl conn_step d ops)"
  using assms
proof (induction ops arbitrary: c d)
  case (Cons op ops)
  have "sent_status (conn_step c op) = sent_status (conn_step d op)" "cn_body (conn_step c op) = cn_body (conn_step d op)"
    using Cons.prems by (simp_all add: step_status step_body split: write_op.split)
  from Cons.IH [OF this] show ?case by simp
qed simp

lemma cors_written: "sent_status (foldl conn_step fresh_conn cors_ops) = None" "cn_body (foldl conn_step fresh_conn cors_ops) = []"
  by (simp_all add: cors_ops_def fresh_conn_def sent_status_def)

lemma fresh_written: "sent_status fresh_conn = None" "cn_body fresh_conn = []" "cn_sent fresh_conn = None"
  by (simp_all add: fresh_conn_def sent_status_def)

lemma nothing_sent: "sent_status (foldl conn_step c ops) = None \<Longrightarrow> sent_status c = None \<and> cn_body (foldl conn_step c ops) = cn_body c"
proof (induction ops arbitrary: c)
  case (Cons op ops)
  from Cons.IH [of "conn_step c op"] Cons.prems show ?case
    by (auto simp: step_status step_body op_status_def simp del: conn_step.simps split: option.splits write_op.splits)
qed simp

section \<open>Panics\<close>

text \<open>
  C24: A handler of the API that panics with anything but \<^verbatim>\<open>http.ErrAbortHandler\<close> is answered:
  with the opaque 500 envelope if it had sent nothing, whatever the panic; otherwise the status it had
  sent stands and the envelope is appended to what it had written. Either way the panic is logged and
  the request is not: the line \<^verbatim>\<open>logRequests\<close> promises for each request is not written.
\<close>
theorem panic_answered:
  assumes "mux r sv = Some (u, sv')" "rn_end u = Panicked p" "proper (rn_ops u)"
    and "cr_method r \<noteq> ''OPTIONS''" "wr_length r \<le> int maxRequestBody"
    and sent: "sent_status (written (rn_ops u)) = st" "cn_body (written (rn_ops u)) = sofar"
  shows "\<exists>v h. apiHandler len mux r sv = Some (v, sv') \<and>
    rn_log v = rn_log u @ [RecoveredPanic p, UnhandledError (''panic: '' @ p) (cr_method r) (cr_path r)] \<and>
    received v = Some (case st of
        None \<Rightarrow> (500, h, [rs_payload (writeError 500 codeInternal messageInternal)])
      | Some status \<Rightarrow> (status, h, sofar @ (if bodyAllowed status then
          [rs_payload (writeError 500 codeInternal messageInternal)] else []))) \<and>
    (st = None \<longrightarrow> (''Connection'', ''close'') \<in> set h \<and>
      (''Content-Type'', ''application/json; charset=utf-8'') \<in> set h)"
proof -
  obtain ops s where rec: "recorded len \<lparr> rec_status = 0, rec_bytes = 0 \<rparr> (rn_ops u) = (ops, s)" by fastforce
  let ?c = "foldl conn_step fresh_conn cors_ops"
  let ?d = "foldl conn_step ?c (rn_ops u)"
  let ?v = "\<lparr> rn_ops = cors_ops @ ops @ SetHeader ''Connection'' ''close'' # serverError_ops, rn_end = Returned,
    rn_log = rn_log u @ [RecoveredPanic p, UnhandledError (''panic: '' @ p) (cr_method r) (cr_path r)] \<rparr>"
  have api: "apiHandler len mux r sv = Some (?v, sv')"
    using assms(1,2,4,5) rec
    by (simp add: apiHandler_def chain_def recoverPanics_def allow_origins_def logRequests_def limit_length_def)
  have "cn_sent ?c = None" using cors_written(1) by (simp add: sent_status_def)
  from recorded_written [OF assms(3) rec this cors_written(2)] have d: "foldl conn_step ?c ops = ?d" .
  have st: "sent_status ?d = st" "cn_body ?d = sofar"
    using sent_status_written [of ?c fresh_conn "rn_ops u"] cors_written fresh_written sent
    by (simp_all add: written_def)
  show ?thesis
  proof (cases st)
    case None
    then have "cn_sent ?d = None" using st(1) by (simp add: sent_status_def)
    moreover have "sofar = []"
      using nothing_sent [of fresh_conn "rn_ops u"] sent None by (simp add: written_def fresh_written)
    ultimately show ?thesis using api st None
      by (simp add: received_def written_def d serverError_ops_def writeError_ops_def send_header_def bodyAllowed_def)
  next
    case (Some status)
    then obtain hd where "cn_sent ?d = Some (status, hd)" using st(1) by (auto simp: sent_status_def)
    with api st Some show ?thesis
      by (simp add: received_def written_def d serverError_ops_def writeError_ops_def send_header_def)
  qed
qed

definition sample_get :: web_request where
  "sample_get = \<lparr> cr_method = ''GET'', cr_host = ''api.test'', cr_path = ''/api/v1/me'', cr_raw_query = [],
     cr_header = [], cr_remote = ''10.0.0.1:5'', cr_body = ([], None), wr_length = 0, wr_query = (\<lambda>_. []),
     wr_body = BEmpty \<rparr>"

definition sample_panic :: handled where
  "sample_panic = \<lparr> rn_ops = [SetHeader ''Content-Type'' ''text/plain''], rn_end = Panicked ''index out of range'',
     rn_log = [] \<rparr>"

theorem panic_answered_witness:
  "\<forall>sv. \<exists>v h. apiHandler (\<lambda>_. 1) (\<lambda>r sv. Some (sample_panic, sv)) sample_get sv = Some (v, sv) \<and>
    received v = Some (500, h, [rs_payload (writeError 500 codeInternal messageInternal)])"
proof
  fix sv
  have "rn_end sample_panic = Panicked ''index out of range''" "proper (rn_ops sample_panic)"
    "cr_method sample_get \<noteq> ''OPTIONS''" "wr_length sample_get \<le> int maxRequestBody"
    "sent_status (written (rn_ops sample_panic)) = None" "cn_body (written (rn_ops sample_panic)) = []"
    by (simp_all add: sample_panic_def proper_def sample_get_def written_def fresh_conn_def sent_status_def)
  from panic_answered [where mux = "\<lambda>r sv. Some (sample_panic, sv)" and sv = sv and len = "\<lambda>_. 1", OF refl this]
  show "\<exists>v h. apiHandler (\<lambda>_. 1) (\<lambda>r sv. Some (sample_panic, sv)) sample_get sv = Some (v, sv) \<and>
    received v = Some (500, h, [rs_payload (writeError 500 codeInternal messageInternal)])" by auto
qed

section \<open>Handlers that return\<close>

text \<open>
  On the handlers of Service the chain is \<open>api_handler\<close>: the client receives its response, and every
  request but a preflight is logged once, with the status it was answered with.
\<close>

definition payloads :: "response \<Rightarrow> payload list" where
  "payloads resp = (if rs_payload resp = NoContent \<or> \<not> bodyAllowed (rs_status resp) then [] else [rs_payload resp])"

lemma foldl_AddHeader:
  "foldl conn_step c (map (\<lambda>(k, v). AddHeader k v) hs) = c\<lparr> cn_header := cn_header c @ hs \<rparr>"
  by (induction hs arbitrary: c) auto

lemma recorded_append: "recorded len s (ops @ rest) = (case recorded len s ops of
    (here, s) \<Rightarrow> (case recorded len s rest of (there, s) \<Rightarrow> (here @ there, s)))"
  by (induction ops arbitrary: s) (auto split: prod.splits)

lemma recorded_headers: "recorded len s (map (\<lambda>(k, v). AddHeader k v) hs) = (map (\<lambda>(k, v). AddHeader k v) hs, s)"
  by (induction hs) auto

lemma recorded_response:
  assumes "rs_status resp \<noteq> 0"
  shows "recorded len \<lparr> rec_status = 0, rec_bytes = 0 \<rparr> (response_ops resp) =
    (response_ops resp, \<lparr> rec_status = rs_status resp, rec_bytes = sum_list (map len (payloads resp)) \<rparr>)"
  using assms by (simp add: response_ops_def recorded_append recorded_headers payloads_def)

lemma written_response:
  "foldl conn_step (foldl conn_step fresh_conn cors_ops) (response_ops resp) =
     \<lparr> cn_header = corsHeaders @ rs_headers resp, cn_sent = Some (rs_status resp, corsHeaders @ rs_headers resp),
       cn_body = payloads resp \<rparr>"
  by (simp add: response_ops_def foldl_AddHeader cors_ops_def fresh_conn_def corsHeaders_def send_header_def payloads_def)

lemma error_ops: "writeError_ops status code message =
    [SetHeader ''Content-Type'' ''application/json; charset=utf-8'', WriteHeader status,
     WriteBody (rs_payload (writeError status code message))]"
  by (simp add: writeError_ops_def)

lemma middleware_transparent:
  assumes "api_handler S A r sv = Some (resp, sv')" "rs_status resp \<noteq> 0"
  shows "\<exists>u. apiHandler len (writing (serve_mux S A)) r sv = Some (u, sv') \<and>
    received u = Some (rs_status resp, rs_headers resp, payloads resp) \<and>
    (rn_log u = [] \<and> cr_method r = ''OPTIONS'' \<or>
     rn_log u = [HttpRequest (log_level (rs_status resp)) (cr_method r) (cr_path r) (rs_status resp)
       (sum_list (map len (payloads resp)))])"
proof (cases "cr_method r = ''OPTIONS'' \<and> header_get (cr_header r) ''Access-Control-Request-Method'' \<noteq> []")
  case True
  with assms show ?thesis
    by (auto simp: api_handler_def withCORS_def apiHandler_def chain_def recoverPanics_def allow_origins_def
      received_def written_def cors_ops_def preflight_ops_def fresh_conn_def send_header_def preflight_def
      corsHeaders_def payloads_def)
next
  case cors: False
  show ?thesis
  proof (cases "wr_length r > int maxRequestBody")
    case True
    with assms cors show ?thesis
      by (auto simp: api_handler_def withCORS_def limitRequestBody_def apiHandler_def chain_def recoverPanics_def
        allow_origins_def limit_length_def logRequests_def error_ops received_def written_def cors_ops_def
        fresh_conn_def send_header_def corsHeaders_def payloads_def writeError_def writeJSON_def bodyAllowed_def)
  next
    case False
    with assms cors obtain inner where inner: "serve_mux S A r sv = Some (inner, sv')"
      "resp = inner\<lparr> rs_headers := corsHeaders @ rs_headers inner \<rparr>"
      by (auto simp: api_handler_def withCORS_def limitRequestBody_def split: option.splits if_splits)
    then have new: "rs_status inner \<noteq> 0" "payloads resp = payloads inner" using assms(2) by (simp_all add: payloads_def)
    let ?u = "\<lparr> rn_ops = cors_ops @ response_ops inner, rn_end = Returned,
      rn_log = [HttpRequest (log_level (rs_status resp)) (cr_method r) (cr_path r) (rs_status resp)
        (sum_list (map len (payloads resp)))] \<rparr>"
    have "apiHandler len (writing (serve_mux S A)) r sv = Some (?u, sv')"
      using recorded_response [OF new(1), of len] inner new cors False
      by (auto simp: apiHandler_def chain_def recoverPanics_def allow_origins_def limit_length_def logRequests_def writing_def Let_def)
    moreover have "received ?u = Some (rs_status resp, rs_headers resp, payloads resp)"
      using written_response [of inner] inner(2) new(2) by (simp add: received_def written_def send_header_def)
    ultimately show ?thesis by (intro exI [of _ ?u]) simp
  qed
qed

end
