(* ===== verification/Startup.thy ===== *)
theory Startup
  imports Net
begin

text \<open>
  How the server process starts and ends: \<^verbatim>\<open>internal/config/config.go\<close>,
  \<^verbatim>\<open>cmd/server/main.go\<close>, the pool of \<^verbatim>\<open>internal/db/pool.go\<close> and
  the migration commands of \<^verbatim>\<open>internal/db/migrate.go\<close>. Logging is left out.
\<close>

section \<open>Configuration\<close>

record Config =
  cf_env :: string
  cf_port :: int
  cf_database_url :: string
  cf_log_level :: string
  cf_hooks_domains :: "string list"

datatype slog_level = LevelDebug | LevelInfo | LevelWarn | LevelError

definition EnvDev :: string where "EnvDev = ''dev''"
definition EnvProd :: string where "EnvProd = ''prod''"

definition parseLevel :: "lib \<Rightarrow> string \<Rightarrow> string + slog_level" where
  "parseLevel L name =
     (if name = ''debug'' then Inr LevelDebug
      else if name = ''info'' then Inr LevelInfo
      else if name = ''warn'' \<or> name = ''warning'' then Inr LevelWarn
      else if name = ''error'' then Inr LevelError
      else Inl (''invalid LOG_LEVEL '' @ go_quote L name @ '': want debug, info, warn or error''))"

definition validate_config :: "lib \<Rightarrow> Config \<Rightarrow> string option" where
  "validate_config L c =
     (if TrimSpace (cf_database_url c) = [] then Some ''DATABASE_URL must not be empty''
      else if cf_env c \<noteq> EnvDev \<and> cf_env c \<noteq> EnvProd then
        Some (''invalid ENV '' @ go_quote L (cf_env c) @ '': want '' @ go_quote L EnvDev @ '' or '' @ go_quote L EnvProd)
      else if cf_port c < 1 \<or> cf_port c > 65535 then
        Some (''invalid PORT '' @ show_int (cf_port c) @ '': want 1-65535'')
      else (case parseLevel L (cf_log_level c) of Inl err \<Rightarrow> Some err | Inr _ \<Rightarrow> None))"

text \<open>\<open>parsed\<close> is what \<^verbatim>\<open>env.Parse\<close> makes of the environment.\<close>

definition Load :: "lib \<Rightarrow> string + Config \<Rightarrow> string + Config" where
  "Load L parsed = (case parsed of
     Inl err \<Rightarrow> Inl (''parse environment: '' @ err)
   | Inr cfg \<Rightarrow>
       (let cfg = cfg\<lparr> cf_env := ToLower (lower_uni L) (TrimSpace (cf_env cfg)),
                       cf_log_level := ToLower (lower_uni L) (TrimSpace (cf_log_level cfg)) \<rparr> in
        case normalizeHooksDomains L (cf_hooks_domains cfg) of
          Inl err \<Rightarrow> Inl err
        | Inr domains \<Rightarrow>
            (let cfg = cfg\<lparr> cf_hooks_domains := domains \<rparr> in
             case validate_config L cfg of Some err \<Rightarrow> Inl err | None \<Rightarrow> Inr cfg)))"

definition IsProd :: "Config \<Rightarrow> bool" where
  "IsProd c = (cf_env c = EnvProd)"

definition Addr :: "Config \<Rightarrow> string" where
  "Addr c = CHR '':'' # show_int (cf_port c)"

definition SlogLevel :: "lib \<Rightarrow> Config \<Rightarrow> slog_level" where
  "SlogLevel L c = (case parseLevel L (cf_log_level c) of Inl err \<Rightarrow> LevelInfo | Inr level \<Rightarrow> level)"

text \<open>The handler and the level of \<^verbatim>\<open>newLogger\<close>.\<close>

datatype log_format = JSONHandler | TextHandler

definition newLogger :: "lib \<Rightarrow> Config \<Rightarrow> log_format \<times> slog_level" where
  "newLogger L c = ((if IsProd c then JSONHandler else TextHandler), SlogLevel L c)"

section \<open>What the process does\<close>

datatype goose_command = Up | Down | Status

datatype boot_event =
    SetDialect
  | CreateFile string
  | ParseURL string
  | CreatePool
  | PingPool
  | ClosePool
  | OpenHandle
  | Goose goose_command
  | CloseHandle
  | StartCleanup
  | StopCleanup
  | Listen string
  | ShutdownServer

text \<open>
  The surroundings, as functions of what has happened so far: the error of the last event, and for
  a listening server whether the signal is what \<^verbatim>\<open>select\<close> sees first, and the error
  \<^verbatim>\<open>ListenAndServe\<close> ends with (none for \<^verbatim>\<open>http.ErrServerClosed\<close>).
\<close>

record surroundings =
  sr_error :: "boot_event list \<Rightarrow> string option"
  sr_signal :: "boot_event list \<Rightarrow> bool"
  sr_listen_error :: "boot_event list \<Rightarrow> string option"

type_synonym boot_result = "string option \<times> boot_event list"

definition step_to :: "surroundings \<Rightarrow> boot_event \<Rightarrow> boot_event list \<Rightarrow> boot_result" where
  "step_to E e tr = (sr_error E (tr @ [e]), tr @ [e])"

text \<open>\<open>if err := m; err != nil { return fmt.Errorf(prefix, err) }\<close>, and on with \<open>k\<close>.\<close>

definition check_step :: "string \<Rightarrow> boot_result \<Rightarrow> (boot_event list \<Rightarrow> boot_result) \<Rightarrow> boot_result" where
  "check_step msg m k = (case m of (Some err, tr) \<Rightarrow> (Some (msg @ err), tr) | (None, tr) \<Rightarrow> k tr)"

definition NewPool :: "surroundings \<Rightarrow> string \<Rightarrow> boot_event list \<Rightarrow> boot_result" where
  "NewPool E url tr =
     check_step ''parse DATABASE_URL: '' (step_to E (ParseURL url) tr) (\<lambda>tr.
     check_step ''create pool: '' (step_to E CreatePool tr) (\<lambda>tr.
     case step_to E PingPool tr of
       (Some err, tr) \<Rightarrow> (Some (''ping database: '' @ err), tr @ [ClosePool])
     | (None, tr) \<Rightarrow> (None, tr)))"

text \<open>An error of closing the handle is only logged.\<close>

definition withGoose :: "surroundings \<Rightarrow> goose_command \<Rightarrow> boot_event list \<Rightarrow> boot_result" where
  "withGoose E command tr =
     check_step ''set goose dialect: '' (step_to E SetDialect tr) (\<lambda>tr.
     case step_to E (Goose command) (tr @ [OpenHandle]) of (err, tr) \<Rightarrow>
       (map_option (\<lambda>e. ''run migrations: '' @ e) err, tr @ [CloseHandle]))"

definition MigrateUp :: "surroundings \<Rightarrow> boot_event list \<Rightarrow> boot_result" where
  "MigrateUp E = withGoose E Up"

definition MigrateDown :: "surroundings \<Rightarrow> boot_event list \<Rightarrow> boot_result" where
  "MigrateDown E = withGoose E Down"

definition MigrateStatus :: "surroundings \<Rightarrow> boot_event list \<Rightarrow> boot_result" where
  "MigrateStatus E = withGoose E Status"

definition CreateMigration :: "surroundings \<Rightarrow> string \<Rightarrow> boot_event list \<Rightarrow> boot_result" where
  "CreateMigration E name tr =
     check_step ''set goose dialect: '' (step_to E SetDialect tr) (\<lambda>tr.
     check_step ''create migration: '' (step_to E (CreateFile name) tr) (\<lambda>tr. (None, tr)))"

definition serve :: "surroundings \<Rightarrow> Config \<Rightarrow> boot_event list \<Rightarrow> boot_result" where
  "serve E cfg tr =
     (let tr = tr @ [Listen (Addr cfg)];
          listen_error = (\<lambda>tr. map_option (\<lambda>e. ''http server: '' @ e) (sr_listen_error E tr)) in
      if sr_signal E tr then
        check_step ''graceful shutdown: '' (step_to E ShutdownServer tr) (\<lambda>tr. (listen_error tr, tr))
      else (listen_error tr, tr))"

text \<open>Normal start-up; the deferred calls stop the session sweep before the pool is closed.\<close>

definition migrate_and_serve :: "surroundings \<Rightarrow> Config \<Rightarrow> boot_event list \<Rightarrow> boot_result" where
  "migrate_and_serve E cfg tr =
     check_step [] (MigrateUp E tr) (\<lambda>tr.
     case serve E cfg (tr @ [StartCleanup]) of (err, tr) \<Rightarrow> (err, tr @ [StopCleanup]))"

definition run_command :: "surroundings \<Rightarrow> lib \<Rightarrow> Config \<Rightarrow> string \<Rightarrow> boot_event list \<Rightarrow> boot_result" where
  "run_command E L cfg migrateCmd tr =
     (if migrateCmd = [] then migrate_and_serve E cfg tr
      else if migrateCmd = ''up'' then MigrateUp E tr
      else if migrateCmd = ''down'' then MigrateDown E tr
      else if migrateCmd = ''status'' then MigrateStatus E tr
      else (Some (''unknown -migrate value '' @ go_quote L migrateCmd @ '': want up, down, status or create''), tr))"

definition run_server :: "surroundings \<Rightarrow> lib \<Rightarrow> string + Config \<Rightarrow> string \<Rightarrow> string \<Rightarrow> boot_result" where
  "run_server E L parsed migrateCmd migrationName =
     (if migrateCmd = ''create'' then
        (if migrationName = [] then (Some ''-migrate=create requires -name'', [])
         else CreateMigration E migrationName [])
      else (case Load L parsed of
          Inl err \<Rightarrow> (Some err, [])
        | Inr cfg \<Rightarrow> check_step [] (NewPool E (cf_database_url cfg) []) (\<lambda>tr.
            case run_command E L cfg migrateCmd tr of (err, tr) \<Rightarrow> (err, tr @ [ClosePool]))))"

end
