(* ===== verification/StartupProperties.thy ===== *)
theory StartupProperties
  imports Startup Sample
begin

text \<open>
  What holds of every start of the server: the configurations that load, and the order in which the
  process opens, migrates, serves and closes.
\<close>

section \<open>What a configuration can be\<close>

text \<open>
  A configuration that loads is usable: the environment is one of the two, the port a TCP port,
  the log level known, so that \<open>SlogLevel\<close> never falls back, the database URL not blank, and the capture
  domains are distinct, not empty, and bare host names.
\<close>

lemma loaded_config:
  assumes "Load L parsed = Inr cfg"
  shows "cf_env cfg \<in> {EnvDev, EnvProd} \<and> 1 \<le> cf_port cfg \<and> cf_port cfg \<le> 65535 \<and>
    parseLevel L (cf_log_level cfg) = Inr (SlogLevel L cfg) \<and> TrimSpace (cf_database_url cfg) \<noteq> [] \<and>
    distinct (cf_hooks_domains cfg) \<and> (\<forall>d \<in> set (cf_hooks_domains cfg). d \<noteq> [] \<and> bare_host d)"
proof -
  from assms obtain raw domains where d: "normalizeHooksDomains L raw = Inr domains" "cf_hooks_domains cfg = domains"
      "validate_config L cfg = None"
    by (auto simp: Load_def Let_def split: sum.splits option.splits)
  have "distinct domains \<and> (\<forall>d \<in> set domains. d \<noteq> [] \<and> bare_host d)"
    using hooks_loop_spec d(1) by (auto simp: normalizeHooksDomains_def)
  with d(2,3) show ?thesis
    by (auto simp: validate_config_def SlogLevel_def split: if_splits sum.splits)
qed

section \<open>The order of start-up and shutdown\<close>

lemmas start_simps = run_server_def run_command_def migrate_and_serve_def serve_def NewPool_def MigrateUp_def
  MigrateDown_def MigrateStatus_def CreateMigration_def withGoose_def check_step_def step_to_def Let_def

text \<open>The pool that was opened is closed once, at the very end.\<close>

lemma pool_closed_last:
  assumes "run_server E L parsed migrateCmd migrationName = (r, tr)"
  shows "ClosePool \<in> set tr \<longleftrightarrow> (\<exists>url. Load L parsed = Inr url \<and> migrateCmd \<noteq> ''create'' \<and>
      sr_error E [ParseURL (cf_database_url url)] = None \<and>
      sr_error E [ParseURL (cf_database_url url), CreatePool] = None)"
    "ClosePool \<in> set tr \<Longrightarrow> \<exists>before. tr = before @ [ClosePool] \<and> ClosePool \<notin> set before"
  using assms by (auto simp: start_simps split: if_splits option.splits sum.splits)

text \<open>
  C15: The server listens only on a migrated database and a valid configuration, and leaves in order.
  Whenever it has listened, it was started without a migration command, the configuration loaded, the
  pool was opened and reached, every pending migration succeeded before, and after the listener ended,
  or the shutdown after a signal, the session sweep is stopped and the pool closed, in this order.
\<close>

theorem listens_when_migrated:
  assumes "run_server E L parsed migrateCmd migrationName = (r, tr)" "Listen addr \<in> set tr"
  shows "migrateCmd = [] \<and> (\<exists>cfg ending. Load L parsed = Inr cfg \<and> addr = Addr cfg \<and>
    tr = [ParseURL (cf_database_url cfg), CreatePool, PingPool, SetDialect, OpenHandle, Goose Up, CloseHandle,
      StartCleanup, Listen addr] @ ending @ [StopCleanup, ClosePool] \<and>
    ending \<in> {[], [ShutdownServer]} \<and>
    list_all (\<lambda>n. sr_error E (take n tr) = None) [1, 2, 3, 4, 6])"
  using assms by (auto simp: start_simps split: if_splits option.splits sum.splits)

definition sample_surroundings :: surroundings where
  "sample_surroundings = \<lparr> sr_error = (\<lambda>tr. None), sr_signal = (\<lambda>tr. True), sr_listen_error = (\<lambda>tr. None) \<rparr>"

definition sample_environment :: Config where
  "sample_environment = \<lparr> cf_env = '' Prod'', cf_port = 8080, cf_database_url = ''postgres://db'',
     cf_log_level = ''WARN'', cf_hooks_domains = ['' Hook.Example.com'', [], ''hook.example.com''] \<rparr>"

definition sample_loaded :: Config where
  "sample_loaded = \<lparr> cf_env = ''prod'', cf_port = 8080, cf_database_url = ''postgres://db'',
     cf_log_level = ''warn'', cf_hooks_domains = [''hook.example.com''] \<rparr>"

lemma sample_Load: "Load sampleL (Inr sample_environment) = Inr sample_loaded"
  by code_simp

lemma loaded_config_witness:
  "distinct (cf_hooks_domains sample_loaded) \<and> cf_env sample_loaded \<in> {EnvDev, EnvProd}"
  using loaded_config [OF sample_Load] by simp

lemma sample_start: "run_server sample_surroundings sampleL (Inr sample_environment) [] [] =
    (None, [ParseURL ''postgres://db'', CreatePool, PingPool, SetDialect, OpenHandle, Goose Up, CloseHandle,
      StartCleanup, Listen (Addr sample_loaded), ShutdownServer, StopCleanup, ClosePool])"
  by (simp add: start_simps sample_Load sample_surroundings_def) (simp add: sample_loaded_def)

theorem listens_when_migrated_witness:
  "Goose Up \<in> set (snd (run_server sample_surroundings sampleL (Inr sample_environment) [] []))"
  using listens_when_migrated [OF sample_start, of "Addr sample_loaded"] by (auto simp: sample_start)

end
