(* ===== verification/Upload.thy ===== *)
theory Upload
  imports Passwords
begin

text \<open>
  The deployment tool, \<^verbatim>\<open>cmd/upload/main.go\<close>: the SCP client, the check of the upload on
  the server and the rename into place. The server is whatever answers: its replies are functions of
  everything that has happened on the connection so far. Messages for the user are left out.
\<close>

section \<open>Strings\<close>

fun Contains :: "string \<Rightarrow> string \<Rightarrow> bool" where
  "Contains [] sub = (sub = [])"
| "Contains (c # s) sub = (is_prefix sub (c # s) \<or> Contains s sub)"

text \<open>\<^verbatim>\<open>strings.Fields\<close>: \<open>w\<close> is the field being read.\<close>

function fields_from :: "string \<Rightarrow> string \<Rightarrow> string list" where
  "fields_from w s =
     (if s = [] then (if w = [] then [] else [w])
      else if leading_space space_runes s \<noteq> None then
        (if w = [] then [] else [w]) @ fields_from [] (drop (rune_width s) s)
      else fields_from (w @ take (rune_width s) s) (drop (rune_width s) s))"
  by pat_completeness auto
termination
  by (relation "measure (length \<circ> snd)") (auto simp: rune_width_pos)

declare fields_from.simps [simp del]

definition Fields :: "string \<Rightarrow> string list" where
  "Fields s = fields_from [] s"

text \<open>\<^verbatim>\<open>path.Clean\<close> and \<^verbatim>\<open>path.Join\<close> of two elements.\<close>

definition path_step :: "bool \<Rightarrow> string list \<Rightarrow> string \<Rightarrow> string list" where
  "path_step rooted out seg =
     (if seg = [] \<or> seg = ''.'' then out
      else if seg = ''..'' then
        (if out \<noteq> [] \<and> last out \<noteq> ''..'' then butlast out else if rooted then out else out @ [seg])
      else out @ [seg])"

definition join_segments :: "string list \<Rightarrow> string" where
  "join_segments segs = (case segs of [] \<Rightarrow> [] | s # ss \<Rightarrow> s @ concat (map (\<lambda>t. CHR ''/'' # t) ss))"

definition path_Clean :: "string \<Rightarrow> string" where
  "path_Clean p =
     (let rooted = (p \<noteq> [] \<and> hd p = CHR ''/'');
          segs = foldl (path_step rooted) [] (split_on CHR ''/'' p)
      in if rooted then CHR ''/'' # join_segments segs
         else if segs = [] then ''.'' else join_segments segs)"

definition path_Join :: "string \<Rightarrow> string \<Rightarrow> string" where
  "path_Join a b =
     (if a = [] \<and> b = [] then []
      else path_Clean (if a = [] then b else if b = [] then a else a @ CHR ''/'' # b))"

text \<open>\<^verbatim>\<open>net.JoinHostPort\<close> and \<^verbatim>\<open>hex.EncodeToString\<close>.\<close>

definition JoinHostPort :: "string \<Rightarrow> string \<Rightarrow> string" where
  "JoinHostPort host port =
     (if CHR '':'' \<in> set host then CHR ''['' # host @ '']:'' @ port else host @ CHR '':'' # port)"

definition hex_digit :: "nat \<Rightarrow> char" where
  "hex_digit n = char_of (if n < 10 then 48 + n else 87 + n)"

definition hex_encode :: "string \<Rightarrow> string" where
  "hex_encode s = concat (map (\<lambda>c. [hex_digit (byte c div 16), hex_digit (byte c mod 16)]) s)"

section \<open>The connection\<close>

text \<open>What the client does, in order; a command goes through a session of its own.\<close>

datatype ssh_event =
    NewSession
  | StdinPipe
  | StdoutPipe
  | StartCommand string
  | CombinedOutput string
  | ReadByte
  | WriteBytes string
  | CloseStdin
  | WaitCommand
  | CloseSession

text \<open>
  The server, as seen after the events so far: the error of the last one, the byte it read, the
  output of the command it ran, and what the running command has written to its standard error.
\<close>

record server =
  sv_error :: "ssh_event list \<Rightarrow> string option"
  sv_byte :: "ssh_event list \<Rightarrow> char"
  sv_output :: "ssh_event list \<Rightarrow> string"
  sv_stderr :: "ssh_event list \<Rightarrow> string"

definition attempt :: "server \<Rightarrow> ssh_event \<Rightarrow> ssh_event list \<Rightarrow> string option \<times> ssh_event list" where
  "attempt S e tr = (sv_error S (tr @ [e]), tr @ [e])"

section \<open>Commands\<close>

definition shellQuote :: "string \<Rightarrow> string" where
  "shellQuote s = CHR 0x27 #
     concat (map (\<lambda>c. if c = CHR 0x27 then [CHR 0x27, CHR 0x5C, CHR 0x27, CHR 0x27] else [c]) s) @ [CHR 0x27]"

definition stderrSuffix :: "string \<Rightarrow> string" where
  "stderrSuffix stderr =
     (let text = TrimSpace stderr in if text \<noteq> [] then '' ('' @ text @ '')'' else [])"

text \<open>The output of a command, or the text of the error.\<close>

definition remoteOutput :: "server \<Rightarrow> string \<Rightarrow> ssh_event list \<Rightarrow> (string + string) \<times> ssh_event list" where
  "remoteOutput S command tr = (case attempt S NewSession tr of
     (Some err, tr) \<Rightarrow> (Inl (''opening ssh session: '' @ err), tr)
   | (None, tr) \<Rightarrow> (case attempt S (CombinedOutput command) tr of (err, tr) \<Rightarrow>
       let text = TrimSpace (sv_output S tr) in
       ((case err of Some err \<Rightarrow> Inl (err @ '': '' @ text) | None \<Rightarrow> Inr text),
        snd (attempt S CloseSession tr))))"

definition runRemote :: "server \<Rightarrow> string \<Rightarrow> ssh_event list \<Rightarrow> string option \<times> ssh_event list" where
  "runRemote S command tr = (case remoteOutput S command tr of
     (Inl err, tr) \<Rightarrow> (Some err, tr) | (Inr _, tr) \<Rightarrow> (None, tr))"

section \<open>The SCP client\<close>

text \<open>
  The status byte and the message that may follow. The loop ends at a newline or an error; a server
  may send neither, so it is partial.
\<close>

partial_function (option) ack_message ::
  "server \<Rightarrow> string \<Rightarrow> ssh_event list \<Rightarrow> (string \<times> ssh_event list) option" where
  "ack_message S message tr = (case attempt S ReadByte tr of (err, tr) \<Rightarrow>
     if err \<noteq> None \<or> sv_byte S tr = CHR 0x0A then Some (message, tr)
     else ack_message S (message @ [sv_byte S tr]) tr)"

definition readAck :: "server \<Rightarrow> ssh_event list \<Rightarrow> (string option \<times> ssh_event list) option" where
  "readAck S tr = (case attempt S ReadByte tr of
     (Some err, tr) \<Rightarrow> Some (Some (''no reply: '' @ err), tr)
   | (None, tr) \<Rightarrow>
       if sv_byte S tr = CHR 0x00 then Some (None, tr)
       else (case ack_message S [] tr of
           None \<Rightarrow> None
         | Some (message, tr) \<Rightarrow> Some (Some (TrimSpace message), tr)))"

definition ack :: "server \<Rightarrow> string \<Rightarrow> ssh_event list \<Rightarrow> (string option \<times> ssh_event list) option" where
  "ack S step tr = (case readAck S tr of
     None \<Rightarrow> None
   | Some (None, tr) \<Rightarrow> Some (None, tr)
   | Some (Some err, tr) \<Rightarrow> Some (Some (step @ '': '' @ err @ stderrSuffix (sv_stderr S tr)), tr))"

text \<open>\<open>if err := m; err != nil { return err }\<close>, and on with \<open>k\<close>.\<close>

definition or_return :: "(string option \<times> ssh_event list) option \<Rightarrow>
    (ssh_event list \<Rightarrow> (string option \<times> ssh_event list) option) \<Rightarrow> (string option \<times> ssh_event list) option" where
  "or_return m k = (case m of
     None \<Rightarrow> None | Some (Some err, tr) \<Rightarrow> Some (Some err, tr) | Some (None, tr) \<Rightarrow> k tr)"

text \<open>A file is what its reads return, and the error they end with, if any.\<close>

type_synonym file_reads = "string list \<times> string option"

fun send_chunks :: "server \<Rightarrow> string list \<Rightarrow> string option \<Rightarrow> ssh_event list \<Rightarrow> string option \<times> ssh_event list" where
  "send_chunks S [] read_err tr = (read_err, tr)"
| "send_chunks S (c # cs) read_err tr = (case attempt S (WriteBytes c) tr of
     (Some err, tr) \<Rightarrow> (Some err, tr) | (None, tr) \<Rightarrow> send_chunks S cs read_err tr)"

definition scp_command :: "string \<Rightarrow> string" where
  "scp_command dir = ''scp -t '' @ shellQuote dir"

definition file_header :: "int \<Rightarrow> string \<Rightarrow> string" where
  "file_header nbytes name = ''C0755 '' @ show_int nbytes @ '' '' @ name @ [CHR 0x0A]"

definition scp_session :: "server \<Rightarrow> string \<Rightarrow> string \<Rightarrow> int \<Rightarrow> file_reads \<Rightarrow> ssh_event list \<Rightarrow>
    (string option \<times> ssh_event list) option" where
  "scp_session S dir name nbytes content tr =
     or_return (Some (attempt S StdinPipe tr)) (\<lambda>tr.
     or_return (Some (attempt S StdoutPipe tr)) (\<lambda>tr.
     or_return (Some (case attempt S (StartCommand (scp_command dir)) tr of (err, tr) \<Rightarrow>
         (map_option (\<lambda>e. ''starting scp on the server: '' @ e) err, tr))) (\<lambda>tr.
     or_return (ack S ''waiting for the server'' tr) (\<lambda>tr.
     or_return (Some (attempt S (WriteBytes (file_header nbytes name)) tr)) (\<lambda>tr.
     or_return (ack S ''sending file header'' tr) (\<lambda>tr.
     or_return (Some (case send_chunks S (fst content) (snd content) tr of (err, tr) \<Rightarrow>
         (map_option (\<lambda>e. ''sending file: '' @ e) err, tr))) (\<lambda>tr.
     or_return (Some (attempt S (WriteBytes [CHR 0x00]) tr)) (\<lambda>tr.
     or_return (ack S ''finishing transfer'' tr) (\<lambda>tr.
     or_return (Some (attempt S CloseStdin tr)) (\<lambda>tr.
     Some (case attempt S WaitCommand tr of (err, tr) \<Rightarrow>
       (map_option (\<lambda>e. ''scp on the server: '' @ e @ stderrSuffix (sv_stderr S tr)) err, tr))))))))))))"

definition scpSend :: "server \<Rightarrow> string \<Rightarrow> string \<Rightarrow> int \<Rightarrow> file_reads \<Rightarrow> ssh_event list \<Rightarrow>
    (string option \<times> ssh_event list) option" where
  "scpSend S dir name nbytes content tr = (case attempt S NewSession tr of
     (Some err, tr) \<Rightarrow> Some (Some (''opening ssh session: '' @ err), tr)
   | (None, tr) \<Rightarrow> (case scp_session S dir name nbytes content tr of
       None \<Rightarrow> None
     | Some (err, tr) \<Rightarrow> Some (err, snd (attempt S CloseSession tr))))"

section \<open>The check on the server\<close>

text \<open>Slicing a string beyond its end panics.\<close>

datatype upload_error = Failed string | SlicePanic

definition slice_to :: "nat \<Rightarrow> string \<Rightarrow> string option" where
  "slice_to n s = (if n \<le> length s then Some (take n s) else None)"

definition sum_command :: "string \<Rightarrow> string" where
  "sum_command p = ''sha256sum '' @ shellQuote p"

definition remove_command :: "string \<Rightarrow> string" where
  "remove_command p = ''rm -f '' @ shellQuote p"

definition move_command :: "string \<Rightarrow> string \<Rightarrow> string" where
  "move_command p q = ''mv -f '' @ shellQuote p @ '' '' @ shellQuote q"

definition damaged :: "string \<Rightarrow> string \<Rightarrow> upload_error" where
  "damaged digest want = (case (slice_to 12 digest, slice_to 12 want) of
     (Some s, Some w) \<Rightarrow> Failed (''the uploaded file is damaged (sha256 '' @ s @ '', want '' @ w @
       ''); the live binary was not touched'')
   | _ \<Rightarrow> SlicePanic)"

definition verifyRemote :: "server \<Rightarrow> (string \<Rightarrow> string) \<Rightarrow> string \<Rightarrow> string \<Rightarrow> ssh_event list \<Rightarrow>
    upload_error option \<times> ssh_event list" where
  "verifyRemote S quote remotePath want tr = (case remoteOutput S (sum_command remotePath) tr of
     (Inl err, tr) \<Rightarrow>
       if Contains err ''not found'' then (None, tr)
       else (Some (Failed (''checking the upload on the server: '' @ err)), tr)
   | (Inr output, tr) \<Rightarrow> (case Fields output of
       [] \<Rightarrow> (Some (Failed (''checking the upload on the server: unexpected sha256sum output '' @ quote output)), tr)
     | digest # _ \<Rightarrow>
         if digest \<noteq> want then
           (case runRemote S (remove_command remotePath) tr of (_, tr) \<Rightarrow> (Some (damaged digest want), tr))
         else (None, tr)))"

section \<open>The upload\<close>

definition remoteName :: string where "remoteName = ''ghostman-server''"
definition tempName :: string where "tempName = ''.ghostman-server.upload''"
definition localBinary :: string where "localBinary = ''dist/ghostman-server''"

record deploy_config =
  dc_host :: string
  dc_port :: int
  dc_user :: string
  dc_password :: string
  dc_dir :: string

text \<open>The error of a connection attempt; for a \<^verbatim>\<open>knownhosts.KeyError\<close> the number of keys
  the file has for the host.\<close>

record dial_error =
  de_text :: string
  de_known_keys :: "nat option"

text \<open>
  The machine the tool runs on: what \<^verbatim>\<open>env.Parse\<close> returns, opening the binary (on
  failure, whether it does not exist), its size, reading it twice, the \<^verbatim>\<open>known_hosts\<close>
  file, and the connection (address, user, password).
\<close>

record machine =
  mc_env :: "string + deploy_config"
  mc_open :: "(bool \<times> string) option"
  mc_stat :: "string + int"
  mc_hashed :: file_reads
  mc_seek :: "string option"
  mc_home :: "string option"
  mc_known_hosts :: "string option"
  mc_dial :: "string \<Rightarrow> string \<Rightarrow> string \<Rightarrow> dial_error option"
  mc_sent :: file_reads
  mc_sha256 :: "string \<Rightarrow> string"
  mc_quote :: "string \<Rightarrow> string"

definition sha256File :: "machine \<Rightarrow> string + string" where
  "sha256File M = (case mc_hashed M of (chunks, read_err) \<Rightarrow> case read_err of
     Some err \<Rightarrow> Inl err
   | None \<Rightarrow> (case mc_seek M of
       Some err \<Rightarrow> Inl err
     | None \<Rightarrow> Inr (hex_encode (mc_sha256 M (concat chunks)))))"

definition knownHostsCallback :: "machine \<Rightarrow> string option" where
  "knownHostsCallback M = (case mc_home M of
     Some err \<Rightarrow> Some (''finding home directory for known_hosts: '' @ err)
   | None \<Rightarrow> map_option (\<lambda>err.
       ''reading ~/.ssh/known_hosts (connect once with ssh to create it): '' @ err) (mc_known_hosts M))"

definition dialError :: "dial_error \<Rightarrow> deploy_config \<Rightarrow> string \<Rightarrow> string" where
  "dialError err cfg addr = (case de_known_keys err of
     Some n \<Rightarrow>
       if n = 0 then
         dc_host cfg @ '' is not in ~/.ssh/known_hosts yet: connect once with `ssh -p '' @
         show_int (dc_port cfg) @ '' '' @ dc_user cfg @ ''@'' @ dc_host cfg @
         ''` and accept its key, then retry''
       else
         ''the host key of '' @ dc_host cfg @ '' has CHANGED since it was added to ~/.ssh/known_hosts. '' @
         ''This can mean the server was reinstalled, or that someone is intercepting the connection. '' @
         ''Refusing to upload; check with the server's owner before removing the old key''
   | None \<Rightarrow>
       if Contains (de_text err) ''unable to authenticate'' then
         ''connecting to '' @ addr @ '': the server rejected DEPLOY_USER / DEPLOY_PASSWORD''
       else ''connecting to '' @ addr @ '': '' @ de_text err)"

definition temp_path :: "deploy_config \<Rightarrow> string" where
  "temp_path cfg = path_Join (dc_dir cfg) tempName"

definition target_path :: "deploy_config \<Rightarrow> string" where
  "target_path cfg = path_Join (dc_dir cfg) remoteName"

text \<open>What happens on the connection: upload, check, rename.\<close>

definition upload_over :: "server \<Rightarrow> machine \<Rightarrow> deploy_config \<Rightarrow> int \<Rightarrow> string \<Rightarrow>
    (upload_error option \<times> ssh_event list) option" where
  "upload_over S M cfg nbytes localSum =
     (case scpSend S (dc_dir cfg) tempName nbytes (mc_sent M) [] of
        None \<Rightarrow> None
      | Some (Some err, tr) \<Rightarrow> Some (Some (Failed err), tr)
      | Some (None, tr) \<Rightarrow> (case verifyRemote S (mc_quote M) (temp_path cfg) localSum tr of
          (Some err, tr) \<Rightarrow> Some (Some err, tr)
        | (None, tr) \<Rightarrow> (case runRemote S (move_command (temp_path cfg) (target_path cfg)) tr of
            (Some err, tr) \<Rightarrow> Some (Some (Failed (''moving the upload into place: '' @ err)), tr)
          | (None, tr) \<Rightarrow> Some (None, tr))))"

text \<open>The printing of the first twelve digits of the local sum never panics: it has sixty-four.\<close>

definition run_upload :: "server \<Rightarrow> machine \<Rightarrow> (upload_error option \<times> ssh_event list) option" where
  "run_upload S M = (case mc_env M of
     Inl err \<Rightarrow> Some (Some (Failed
       (''reading deploy settings (set them in .env, see .env.example): '' @ err)), [])
   | Inr cfg \<Rightarrow> (case mc_open M of
       Some (missing, err) \<Rightarrow> Some (Some (Failed
         (if missing then localBinary @ '' not found: run `task build-linux` first'' else err)), [])
     | None \<Rightarrow> (case mc_stat M of
         Inl err \<Rightarrow> Some (Some (Failed err), [])
       | Inr nbytes \<Rightarrow> (case sha256File M of
           Inl err \<Rightarrow> Some (Some (Failed (''hashing '' @ localBinary @ '': '' @ err)), [])
         | Inr localSum \<Rightarrow> (case knownHostsCallback M of
             Some err \<Rightarrow> Some (Some (Failed err), [])
           | None \<Rightarrow>
               (let addr = JoinHostPort (dc_host cfg) (show_int (dc_port cfg)) in
                case mc_dial M addr (dc_user cfg) (dc_password cfg) of
                  Some err \<Rightarrow> Some (Some (Failed (dialError err cfg addr)), [])
                | None \<Rightarrow> upload_over S M cfg nbytes localSum))))))"

end
