(* ===== verification/RemoteFiles.thy ===== *)
theory RemoteFiles
  imports Upload "HOL-Library.Sublist"
begin

text \<open>
  The host the deployment tool talks to, as far as its documentation goes: how a POSIX shell reads a
  command line, which files \<^verbatim>\<open>scp -t\<close> writes for the bytes it is fed, and what
  \<^verbatim>\<open>sha256sum\<close>, \<^verbatim>\<open>rm -f\<close> and \<^verbatim>\<open>mv -f\<close> do to
  files. Nothing here knows what the tool sends.
\<close>

section \<open>The shell\<close>

text \<open>
  A POSIX shell's reading of a command line, as far as words, blanks, single quotes and backslashes go;
  \<open>None\<close> where the line has anything else the shell would interpret, or an open quote.
\<close>

definition sh_special :: "char \<Rightarrow> bool" where
  "sh_special c = (c \<in> set ''|&;<>()$*?[]#~=%!{}^'' \<or> c = CHR 0x22 \<or> c = CHR 0x60 \<or> c = CHR 0x0A)"

fun sh_plain :: "string option \<Rightarrow> string \<Rightarrow> string list option"
and sh_quoted :: "string \<Rightarrow> string \<Rightarrow> string list option" where
  "sh_plain w [] = Some (case w of None \<Rightarrow> [] | Some u \<Rightarrow> [u])"
| "sh_plain w (c # s) =
     (let u = (case w of None \<Rightarrow> [] | Some u \<Rightarrow> u) in
      if c = CHR '' '' \<or> c = CHR 0x09 then
        (case w of None \<Rightarrow> sh_plain None s | Some u \<Rightarrow> map_option ((#) u) (sh_plain None s))
      else if c = CHR 0x27 then sh_quoted u s
      else if c = CHR 0x5C then
        (case s of [] \<Rightarrow> None | d # s \<Rightarrow> if d = CHR 0x0A then None else sh_plain (Some (u @ [d])) s)
      else if sh_special c then None
      else sh_plain (Some (u @ [c])) s)"
| "sh_quoted u [] = None"
| "sh_quoted u (c # s) = (if c = CHR 0x27 then sh_plain (Some u) s else sh_quoted (u @ [c]) s)"

definition sh_words :: "string \<Rightarrow> string list option" where
  "sh_words s = sh_plain None s"

lemma sh_quoted_body:
  "sh_quoted u (concat (map (\<lambda>c. if c = CHR 0x27 then [CHR 0x27, CHR 0x5C, CHR 0x27, CHR 0x27] else [c]) s) @
     CHR 0x27 # t) = sh_plain (Some (u @ s)) t"
  by (induction s arbitrary: u) (auto simp: Let_def)

lemma sh_shellQuote: "sh_plain None (shellQuote s @ t) = sh_plain (Some s) t"
  using sh_quoted_body [of "[]" s t] by (simp add: shellQuote_def)

lemma sh_shellQuote_end: "sh_plain None (shellQuote s) = Some [s]"
  using sh_shellQuote [of s "[]"] by simp

lemma words_of_commands:
  "sh_words (scp_command dir) = Some [''scp'', ''-t'', dir]" "sh_words (sum_command p) = Some [''sha256sum'', p]"
  "sh_words (remove_command p) = Some [''rm'', ''-f'', p]" "sh_words (move_command p q) = Some [''mv'', ''-f'', p, q]"
  by (simp_all add: sh_words_def scp_command_def sum_command_def remove_command_def move_command_def
      sh_special_def sh_shellQuote sh_shellQuote_end)

section \<open>What a receiving scp writes\<close>

text \<open>
  The records of the SCP protocol: a line \<^verbatim>\<open>C<mode> <size> <name>\<close>, that many bytes and
  a status byte, and so on. \<open>sink_names\<close> are the names of the files the stream announces, \<open>None\<close>
  when it holds a line of another form.
\<close>

definition sink_record :: "string \<Rightarrow> (nat \<times> string) option" where
  "sink_record h = (case split_on CHR '' '' h of
     (c # mode) # nbytes # w # ws \<Rightarrow>
       if c = CHR ''C'' then map_option (\<lambda>n. (n, w @ concat (map ((#) CHR '' '') ws))) (digits_value 0 nbytes) else None
   | _ \<Rightarrow> None)"

function sink_names :: "string \<Rightarrow> string list option" where
  "sink_names s =
     (let h = takeWhile (\<lambda>c. c \<noteq> CHR 0x0A) s; rest = dropWhile (\<lambda>c. c \<noteq> CHR 0x0A) s in
      if rest = [] then Some []
      else (case sink_record h of None \<Rightarrow> None
        | Some (n, name) \<Rightarrow> map_option ((#) name) (sink_names (drop (Suc n) (tl rest)))))"
  by pat_completeness auto
termination
proof (relation "measure length", goal_cases)
  case (2 s h rest y n name)
  then have "length rest \<le> length s" "rest \<noteq> []" by (simp_all add: length_dropWhile_le)
  then show ?case by (cases rest) auto
qed simp

declare sink_names.simps [simp del]

text \<open>
  The processes that commands have started and that are not known to have ended, the latest first,
  with the bytes each was fed. A \<^verbatim>\<open>Wait\<close> without an error is the end of one.
\<close>

fun running_rev :: "(ssh_event list \<Rightarrow> string option) \<Rightarrow> ssh_event list \<Rightarrow> (string \<times> string) list" where
  "running_rev err [] = []"
| "running_rev err (e # before) = (case e of
     StartCommand c \<Rightarrow> (c, []) # running_rev err before
   | WriteBytes b \<Rightarrow> (case running_rev err before of [] \<Rightarrow> [] | (c, fed) # rest \<Rightarrow> (c, fed @ b) # rest)
   | WaitCommand \<Rightarrow> if err (rev before @ [WaitCommand]) = None then tl (running_rev err before) else running_rev err before
   | _ \<Rightarrow> running_rev err before)"

definition running :: "(ssh_event list \<Rightarrow> string option) \<Rightarrow> ssh_event list \<Rightarrow> (string \<times> string) list" where
  "running err tr = running_rev err (rev tr)"

lemma running_Nil [simp]: "running err [] = []"
  by (simp add: running_def)

lemma running_snoc:
  "running err (tr @ [e]) = (case e of
     StartCommand c \<Rightarrow> (c, []) # running err tr
   | WriteBytes b \<Rightarrow> (case running err tr of [] \<Rightarrow> [] | (c, fed) # rest \<Rightarrow> (c, fed @ b) # rest)
   | WaitCommand \<Rightarrow> if err (tr @ [WaitCommand]) = None then tl (running err tr) else running err tr
   | _ \<Rightarrow> running err tr)"
  by (cases e) (simp_all add: running_def)

text \<open>
  The files a process may write: a receiving scp those of its stream in its directory, or the
  directory's own path, should that not be a directory; any other command, and a stream scp may read
  otherwise, whatever there is.
\<close>

definition process_files :: "string \<times> string \<Rightarrow> string set" where
  "process_files process = (case sh_words (fst process) of
     Some [a, b, dir] \<Rightarrow>
       if a = ''scp'' \<and> b = ''-t'' then
         (case sink_names (snd process) of None \<Rightarrow> UNIV | Some names \<Rightarrow> insert (path_Clean dir) (path_Join dir ` set names))
       else UNIV
   | _ \<Rightarrow> UNIV)"

definition command_files :: "string \<Rightarrow> string set" where
  "command_files c = (case sh_words c of
     Some [a, p] \<Rightarrow> if a = ''sha256sum'' then {} else UNIV
   | Some [a, b, p] \<Rightarrow> if a = ''rm'' \<and> b = ''-f'' then {p} else UNIV
   | Some [a, b, p, q] \<Rightarrow> if a = ''mv'' \<and> b = ''-f'' then {p, q} else UNIV
   | _ \<Rightarrow> UNIV)"

definition touched :: "(ssh_event list \<Rightarrow> string option) \<Rightarrow> ssh_event list \<Rightarrow> ssh_event \<Rightarrow> string set" where
  "touched err tr e = (\<Union>x \<in> set (running err tr) \<union> set (running err (tr @ [e])). process_files x) \<union>
     (case e of CombinedOutput c \<Rightarrow> command_files c | _ \<Rightarrow> {})"

lemma files_of_commands:
  "command_files (sum_command p) = {}" "command_files (remove_command p) = {p}"
  "command_files (move_command p q) = {p, q}"
  by (simp_all add: command_files_def words_of_commands)

section \<open>The laws\<close>

text \<open>
  \<open>fs\<close> gives the files of the host after each history, by their paths; \<open>dirs\<close> are the paths that are
  directories. Only what happens on the connection changes a file, and only as \<open>touched\<close> says. With no
  other process running, \<^verbatim>\<open>mv -f\<close> onto a path that is no directory leaves the one
  file there or fails without effect on it, and a digest \<^verbatim>\<open>sha256sum\<close> prints, if
  it reports no error, is that of the file.
\<close>

definition remote_files :: "server \<Rightarrow> (string \<Rightarrow> string) \<Rightarrow> string set \<Rightarrow>
    (ssh_event list \<Rightarrow> string \<Rightarrow> string option) \<Rightarrow> bool" where
  "remote_files S sha dirs fs \<longleftrightarrow>
     (\<forall>tr e p. p \<notin> touched (sv_error S) tr e \<longrightarrow> fs (tr @ [e]) p = fs tr p) \<and>
     (\<forall>tr c p q. sh_words c = Some [''mv'', ''-f'', p, q] \<and> p \<noteq> q \<and> q \<notin> dirs \<and> running (sv_error S) tr = [] \<longrightarrow>
        fs (tr @ [CombinedOutput c]) q = fs tr p \<or>
        sv_error S (tr @ [CombinedOutput c]) \<noteq> None \<and> fs (tr @ [CombinedOutput c]) q = fs tr q) \<and>
     (\<forall>tr c p x digests. sh_words c = Some [''sha256sum'', p] \<and> running (sv_error S) tr = [] \<and>
        sv_error S (tr @ [CombinedOutput c]) = None \<and>
        Fields (TrimSpace (sv_output S (tr @ [CombinedOutput c]))) = hex_encode x # digests \<longrightarrow>
        (\<exists>content. fs tr p = Some content \<and> hex_encode (sha content) = hex_encode x))"

lemma remote_filesD:
  assumes "remote_files S sha dirs fs"
  shows "p \<notin> touched (sv_error S) tr e \<Longrightarrow> fs (tr @ [e]) p = fs tr p"
    and "p \<noteq> q \<Longrightarrow> q \<notin> dirs \<Longrightarrow> running (sv_error S) tr = [] \<Longrightarrow>
      fs (tr @ [CombinedOutput (move_command p q)]) q = fs tr p \<or>
      sv_error S (tr @ [CombinedOutput (move_command p q)]) \<noteq> None \<and>
      fs (tr @ [CombinedOutput (move_command p q)]) q = fs tr q"
    and "running (sv_error S) tr = [] \<Longrightarrow> sv_error S (tr @ [CombinedOutput (sum_command p)]) = None \<Longrightarrow>
      Fields (TrimSpace (sv_output S (tr @ [CombinedOutput (sum_command p)]))) = hex_encode x # digests \<Longrightarrow>
      \<exists>content. fs tr p = Some content \<and> hex_encode (sha content) = hex_encode x"
  using assms words_of_commands(2) [of p] words_of_commands(4) [of p q] unfolding remote_files_def by blast+

section \<open>Where the files lie\<close>

definition plain_name :: "string \<Rightarrow> bool" where
  "plain_name s \<longleftrightarrow> s \<noteq> [] \<and> s \<noteq> ''.'' \<and> s \<noteq> ''..'' \<and> CHR ''/'' \<notin> set s"

lemma split_on_nonempty [simp]: "split_on c s \<noteq> []"
  by (cases s) (auto split: list.split)

lemma split_on_snoc:
  "c \<notin> set t \<Longrightarrow> split_on c (s @ c # t) = split_on c s @ [t]"
  by (induction s) (auto simp: split_on_plain split: list.splits)

lemma segments_of_plain:
  assumes "plain_name s" shows "foldl (path_step rooted) out (split_on CHR ''/'' s) = out @ [s]"
  using assms by (simp add: plain_name_def split_on_plain path_step_def)

lemma join_segments_snoc:
  "join_segments (segs @ [s]) = (if segs = [] then s else join_segments segs @ CHR ''/'' # s)"
  by (cases segs) (simp_all add: join_segments_def)

text \<open>A plain name comes last in the path, and names of one directory stay apart.\<close>

lemma path_Join_plain:
  assumes "plain_name s"
  shows "\<exists>front. path_Join dir s = front @ s \<and> (\<forall>t. plain_name t \<longrightarrow> path_Join dir t = front @ t) \<and>
    path_Clean dir \<in> {front, butlast front, ''.''}"
proof (cases "dir = []")
  case True
  have "path_Join dir t = t" if "plain_name t" for t
    using that True segments_of_plain [OF that, of _ "[]"]
    by (cases t) (auto simp: path_Join_def path_Clean_def plain_name_def join_segments_def Let_def)
  moreover have "path_Clean [] = ''.''" by (simp add: path_Clean_def path_step_def Let_def)
  ultimately show ?thesis using assms True by (intro exI [of _ "[]"]) simp
next
  case False
  define rooted where "rooted \<longleftrightarrow> hd dir = CHR ''/''"
  define segs where "segs = foldl (path_step rooted) [] (split_on CHR ''/'' dir)"
  define front where "front = (if rooted then ''/'' else []) @ (if segs = [] then [] else join_segments segs @ ''/'')"
  have clean: "path_Clean p = (if rooted then CHR ''/'' # join_segments out else if out = [] then ''.'' else join_segments out)"
    if "p \<noteq> []" "hd p = hd dir" "foldl (path_step rooted) [] (split_on CHR ''/'' p) = out" for p out
    using that by (cases "hd dir = CHR ''/''") (simp_all add: path_Clean_def Let_def rooted_def)
  have j: "path_Join dir t = front @ t" if "plain_name t" for t
  proof -
    have t: "t \<noteq> []" "CHR ''/'' \<notin> set t" using that by (simp_all add: plain_name_def)
    have "foldl (path_step rooted) [] (split_on CHR ''/'' (dir @ CHR ''/'' # t)) = segs @ [t]"
      using segments_of_plain [OF that] t by (simp add: split_on_snoc segs_def split_on_plain)
    from clean [OF _ _ this] False t show ?thesis
      by (simp add: path_Join_def join_segments_snoc front_def)
  qed
  have "path_Clean dir \<in> {front, butlast front, ''.''}"
    using clean [OF False refl, of segs] by (auto simp: segs_def [symmetric] front_def butlast_append join_segments_def)
  with j assms show ?thesis by blast
qed

lemma names_plain: "plain_name tempName" "plain_name remoteName"
  by (simp_all add: plain_name_def tempName_def remoteName_def)

lemma places_differ:
  "temp_path cfg \<noteq> target_path cfg" "path_Clean (dc_dir cfg) \<noteq> target_path cfg"
proof -
  from path_Join_plain [OF names_plain(1), of "dc_dir cfg"] obtain front where
    f: "path_Join (dc_dir cfg) tempName = front @ tempName" "path_Join (dc_dir cfg) remoteName = front @ remoteName"
    "path_Clean (dc_dir cfg) \<in> {front, butlast front, ''.''}"
    using names_plain(2) by blast
  have "length (front @ tempName) \<noteq> length (front @ remoteName)" by (simp add: tempName_def remoteName_def)
  with f(1,2) show "temp_path cfg \<noteq> target_path cfg"
    unfolding temp_path_def target_path_def by metis
  from f(3) have "length (path_Clean (dc_dir cfg)) \<le> length front + 1" by auto
  moreover have "length (front @ remoteName) = length front + 15" by (simp add: remoteName_def)
  ultimately show "path_Clean (dc_dir cfg) \<noteq> target_path cfg"
    using f(2) unfolding target_path_def by auto
qed

end
