(* ===== verification/UploadProperties.thy ===== *)
theory UploadProperties
  imports RemoteFiles
begin

text \<open>
  What the deployment tool guarantees whatever the server answers: how its commands read on the other
  side, the transfer as a sequence of steps, and the binary that runs.
\<close>

section \<open>The shell\<close>

text \<open>
  C17: The shell on the server reads every command of the tool as the words that are meant, whatever
  characters \<^verbatim>\<open>DEPLOY_DIR\<close> has: quoting never lets a part of a path become an
  operator, an expansion or a second word.
\<close>

theorem commands_read_as_meant:
  "sh_words (scp_command dir) = Some [''scp'', ''-t'', dir]
   \<and> sh_words (sum_command p) = Some [''sha256sum'', p]
   \<and> sh_words (remove_command p) = Some [''rm'', ''-f'', p]
   \<and> sh_words (move_command p q) = Some [''mv'', ''-f'', p, q]"
  by (simp add: words_of_commands)

section \<open>The transfer\<close>

text \<open>A sequence of steps that all succeed, with every status byte zero.\<close>

fun all_well :: "server \<Rightarrow> ssh_event list \<Rightarrow> ssh_event list \<Rightarrow> bool" where
  "all_well S tr [] = True"
| "all_well S tr (e # es) = (sv_error S (tr @ [e]) = None \<and>
     (e = ReadByte \<longrightarrow> sv_byte S (tr @ [e]) = CHR 0x00) \<and> all_well S (tr @ [e]) es)"

lemma all_well_append: "all_well S tr (es @ fs) \<longleftrightarrow> all_well S tr es \<and> all_well S (tr @ es) fs"
  by (induction es arbitrary: tr) auto

definition transfer :: "string \<Rightarrow> string \<Rightarrow> int \<Rightarrow> string list \<Rightarrow> ssh_event list" where
  "transfer dir name nbytes chunks =
     [NewSession, StdinPipe, StdoutPipe, StartCommand (scp_command dir), ReadByte,
      WriteBytes (file_header nbytes name), ReadByte] @ map WriteBytes chunks @
     [WriteBytes [CHR 0x00], ReadByte, CloseStdin, WaitCommand]"

lemma attempt_ok: "attempt S e tr = (None, tr') \<longleftrightarrow> sv_error S (tr @ [e]) = None \<and> tr' = tr @ [e]"
  by (auto simp: attempt_def)

lemma readAck_ok: "readAck S tr = Some (None, tr') \<longleftrightarrow> all_well S tr [ReadByte] \<and> tr' = tr @ [ReadByte]"
  by (auto simp: readAck_def attempt_def split: option.splits)

lemma ack_ok: "ack S step tr = Some (None, tr') \<longleftrightarrow> all_well S tr [ReadByte] \<and> tr' = tr @ [ReadByte]"
  unfolding ack_def by (auto simp: readAck_ok [symmetric] simp del: all_well.simps split: option.splits)

lemma send_chunks_ok: "send_chunks S cs read_err tr = (None, tr') \<longleftrightarrow>
    read_err = None \<and> all_well S tr (map WriteBytes cs) \<and> tr' = tr @ map WriteBytes cs"
  by (induction cs arbitrary: tr) (auto simp: attempt_def split: option.splits)

lemma or_return_ok: "or_return m k = Some (None, tr') \<longleftrightarrow> (\<exists>tr. m = Some (None, tr) \<and> k tr = Some (None, tr'))"
  by (auto simp: or_return_def split: option.splits)

lemmas step_ok = attempt_ok ack_ok send_chunks_ok or_return_ok

lemma map_error_ok: "(case m of (err, tr) \<Rightarrow> (map_option (f tr) err, tr)) = (None, tr') \<longleftrightarrow> m = (None, tr')"
  by (cases m) auto

text \<open>
  C16: A transfer succeeds exactly when every step of it does: the header with the size and the name,
  the bytes of the file as they were read, one zero byte, an acknowledgement awaited before each part
  and after the last, and the command's exit. What has happened then is exactly that sequence.
\<close>

theorem transfer_exact:
  "scpSend S dir name nbytes (chunks, read_err) tr = Some (None, tr') \<longleftrightarrow>
     read_err = None \<and> all_well S tr (transfer dir name nbytes chunks) \<and>
     tr' = tr @ transfer dir name nbytes chunks @ [CloseSession]"
proof -
  have session: "scp_session S dir name nbytes (chunks, read_err) tr1 = Some (None, tr2) \<longleftrightarrow>
      read_err = None \<and> all_well S tr1 (tl (transfer dir name nbytes chunks)) \<and>
      tr2 = tr1 @ tl (transfer dir name nbytes chunks)" for tr1 tr2
    unfolding scp_session_def transfer_def
    by (simp add: step_ok map_error_ok) (auto simp: all_well_append)
  have "scpSend S dir name nbytes (chunks, read_err) tr = Some (None, tr') \<longleftrightarrow>
      sv_error S (tr @ [NewSession]) = None \<and> (\<exists>t. tr' = t @ [CloseSession] \<and>
        scp_session S dir name nbytes (chunks, read_err) (tr @ [NewSession]) = Some (None, t))"
    by (auto simp: scpSend_def attempt_def split: option.splits)
  then show ?thesis
    unfolding session by (auto simp: transfer_def)
qed

section \<open>What a run adds to the history\<close>

definition adds :: "(ssh_event \<Rightarrow> bool) \<Rightarrow> ssh_event list \<Rightarrow> ssh_event list \<Rightarrow> bool" where
  "adds P tr tr' \<longleftrightarrow> (\<exists>es. tr' = tr @ es \<and> list_all P es)"

lemma adds_refl [simp]: "adds P tr tr"
  by (simp add: adds_def)

lemma adds_trans: "adds P s t \<Longrightarrow> adds P t u \<Longrightarrow> adds P s u"
  by (auto simp: adds_def)

lemma adds_mono: "adds P s t \<Longrightarrow> (\<And>e. P e \<Longrightarrow> Q e) \<Longrightarrow> adds Q s t"
  by (auto simp: adds_def list_all_iff)

lemma adds_snoc [simp]: "adds P tr (tr @ [e]) \<longleftrightarrow> P e"
  by (auto simp: adds_def)

lemma adds_snoc_right: "adds P s t \<Longrightarrow> P e \<Longrightarrow> adds P s (t @ [e])"
  by (auto simp: adds_def)

lemma adds_keep:
  assumes "adds P s t" "\<And>tr e. P e \<Longrightarrow> f (tr @ [e]) = f tr"
  shows "f t = f s"
proof -
  have "list_all P es \<Longrightarrow> f (s @ es) = f s" for es
  proof (induction es rule: rev_induct)
    case (snoc e es)
    then show ?case using assms(2) [of e "s @ es"] by simp
  qed simp
  with assms(1) show ?thesis by (auto simp: adds_def)
qed

abbreviation no_command :: "ssh_event \<Rightarrow> bool" where
  "no_command e \<equiv> \<forall>c. e \<noteq> CombinedOutput c"

lemma ack_message_adds: "ack_message S m tr = Some y \<Longrightarrow> adds no_command tr (snd y)"
proof (induction S m tr y rule: ack_message.raw_induct [rotated, consumes 1, case_names read])
  case (read f S m tr y)
  show ?case
  proof (cases "sv_error S (tr @ [ReadByte]) \<noteq> None \<or> sv_byte S (tr @ [ReadByte]) = CHR 0x0A")
    case True
    with read(2) show ?thesis by (auto simp: attempt_def)
  next
    case False
    with read(2) have "f S (m @ [sv_byte S (tr @ [ReadByte])]) (tr @ [ReadByte]) = Some y"
      by (simp add: attempt_def)
    from read(1) [OF this] show ?thesis by (rule adds_trans [rotated]) simp
  qed
qed

lemma readAck_adds: "readAck S tr = Some (r, tr') \<Longrightarrow> adds no_command tr tr'"
  by (auto simp: readAck_def attempt_def split: option.splits if_splits dest!: ack_message_adds
      intro: adds_trans [of _ _ "tr @ [ReadByte]"])

lemma ack_adds: "ack S step tr = Some (r, tr') \<Longrightarrow> adds no_command tr tr'"
  by (auto simp: ack_def split: option.splits prod.splits dest: readAck_adds)

lemma send_chunks_adds: "send_chunks S cs read_err tr = (r, tr') \<Longrightarrow> adds no_command tr tr'"
proof (induction cs arbitrary: tr)
  case (Cons c cs)
  then show ?case
    by (auto simp: attempt_def split: option.splits intro: adds_trans [of _ _ "tr @ [WriteBytes c]"])
qed simp

lemma or_return_adds:
  assumes "or_return m k = Some (r, tr')" "\<And>r t. m = Some (r, t) \<Longrightarrow> adds P tr t"
    "\<And>t. k t = Some (r, tr') \<Longrightarrow> adds P t tr'"
  shows "adds P tr tr'"
  using assms by (auto simp: or_return_def split: option.splits intro: adds_trans)

lemma scp_session_adds:
  "scp_session S dir name nbytes content tr = Some (r, tr') \<Longrightarrow> adds no_command tr tr'"
  unfolding scp_session_def
  by (erule or_return_adds; (auto simp: attempt_def split: prod.splits dest: ack_adds send_chunks_adds)?)+

lemma scpSend_adds: "scpSend S dir name nbytes content tr = Some (r, tr') \<Longrightarrow> adds no_command tr tr'"
  by (auto simp: scpSend_def attempt_def split: option.splits dest!: scp_session_adds
      intro!: adds_snoc_right intro: adds_trans [of _ _ "tr @ [NewSession]"])

lemma remoteOutput_adds:
  "remoteOutput S c tr = (r, tr') \<Longrightarrow> adds (\<lambda>e. e \<in> {NewSession, CombinedOutput c, CloseSession}) tr tr'"
  by (auto simp: remoteOutput_def attempt_def Let_def adds_def split: option.splits)

lemma runRemote_adds:
  "runRemote S c tr = (r, tr') \<Longrightarrow> adds (\<lambda>e. e \<in> {NewSession, CombinedOutput c, CloseSession}) tr tr'"
  by (auto simp: runRemote_def split: prod.splits sum.splits dest: remoteOutput_adds)

lemma verifyRemote_adds:
  assumes "verifyRemote S q p want tr = (r, tr')"
  shows "adds (\<lambda>e. e \<in> {NewSession, CombinedOutput (sum_command p), CombinedOutput (remove_command p), CloseSession}) tr tr'"
proof -
  obtain out t where out: "remoteOutput S (sum_command p) tr = (out, t)" by fastforce
  obtain e u where rm: "runRemote S (remove_command p) t = (e, u)" by fastforce
  from remoteOutput_adds [OF out] runRemote_adds [OF rm] assms out rm show ?thesis
    by (auto simp: verifyRemote_def split: sum.splits list.splits if_splits
        intro: adds_mono adds_trans [of _ tr t])
qed

text \<open>The two ways of passing the check: the sums are equal, or the command fails with \<open>not found\<close>.\<close>

definition check_skipped :: "server \<Rightarrow> string \<Rightarrow> ssh_event list \<Rightarrow> bool" where
  "check_skipped S p tr \<longleftrightarrow> (\<exists>t err u. remoteOutput S (sum_command p) t = (Inl err, u) \<and>
     prefix u tr \<and> Contains err ''not found'')"

lemma check_skipped_later: "check_skipped S p t \<Longrightarrow> adds P t u \<Longrightarrow> check_skipped S p u"
  by (fastforce simp: check_skipped_def adds_def)

lemma verifyRemote_None:
  assumes "verifyRemote S q p want tr = (None, tr')"
  obtains (skipped) "check_skipped S p tr'"
  | (equal) digests where "tr' = tr @ [NewSession, CombinedOutput (sum_command p), CloseSession]"
      "sv_error S (tr @ [NewSession, CombinedOutput (sum_command p)]) = None"
      "Fields (TrimSpace (sv_output S (tr @ [NewSession, CombinedOutput (sum_command p)]))) = want # digests"
proof (cases "remoteOutput S (sum_command p) tr")
  case (Pair out t)
  show ?thesis
  proof (cases out)
    case (Inl err)
    with assms Pair have "Contains err ''not found''" "t = tr'"
      by (auto simp: verifyRemote_def split: if_splits)
    with Pair Inl have "check_skipped S p tr'" unfolding check_skipped_def by blast
    then show ?thesis by (rule skipped)
  next
    case (Inr answered)
    with assms Pair obtain digests where "t = tr'" "Fields answered = want # digests"
      by (auto simp: verifyRemote_def split: list.splits if_splits prod.splits)
    with Pair Inr show ?thesis
      by (intro equal [of digests]) (auto simp: remoteOutput_def attempt_def Let_def split: option.splits)
  qed
qed

lemma runRemote_cases:
  assumes "runRemote S c tr = (r, tr')"
  obtains (no_session) err where "r = Some err" "tr' = tr @ [NewSession]"
  | (ran) "tr' = tr @ [NewSession, CombinedOutput c, CloseSession]"
      "r = None \<longleftrightarrow> sv_error S (tr @ [NewSession, CombinedOutput c]) = None"
  using assms
  by (auto simp: runRemote_def remoteOutput_def attempt_def Let_def split: option.splits)

lemma move_is_no_check [simp]: "sum_command p' \<noteq> move_command p q" "remove_command p' \<noteq> move_command p q"
  "move_command p q \<noteq> sum_command p'" "move_command p q \<noteq> remove_command p'"
  by (simp_all add: move_command_def sum_command_def remove_command_def)

text \<open>
  What a run feeds the process it started: \<open>sends\<close> says that a part of it wrote \<open>s\<close>, or the
  beginning of it before an error, and ran no command.
\<close>

fun payload :: "ssh_event \<Rightarrow> string" where
  "payload (WriteBytes b) = b"
| "payload e = []"

definition fed :: "ssh_event list \<Rightarrow> string" where
  "fed es = concat (map payload es)"

fun feeds :: "ssh_event \<Rightarrow> bool" where
  "feeds (StartCommand c) = False"
| "feeds (CombinedOutput c) = False"
| "feeds e = True"

definition sends :: "string \<Rightarrow> ssh_event list \<Rightarrow> string option \<times> ssh_event list \<Rightarrow> bool" where
  "sends s tr y \<longleftrightarrow> (\<exists>es. snd y = tr @ es \<and> list_all feeds es \<and>
     (if fst y = None then fed es = s else prefix (fed es) s))"

lemma fed_simps [simp]: "fed [] = []" "fed (e # es) = payload e @ fed es" "fed (es @ fs) = fed es @ fed fs"
  by (simp_all add: fed_def)

lemma sends_event: "feeds e \<Longrightarrow> sends (payload e) tr (attempt S e tr)"
  by (auto simp: sends_def attempt_def)

lemma sends_error [simp]: "sends s tr (map_option f x, t) = sends s tr (x, t)"
  by (simp add: sends_def)

lemma or_return_sends:
  assumes "or_return m k = Some y" "\<And>x. m = Some x \<Longrightarrow> sends s tr x" "\<And>t. k t = Some y \<Longrightarrow> sends u t y"
  shows "sends (s @ u) tr y"
proof -
  from assms(1) obtain r t where m: "m = Some (r, t)" by (cases m) (auto simp: or_return_def)
  with assms(2) obtain es where es: "t = tr @ es" "list_all feeds es" "if r = None then fed es = s else prefix (fed es) s"
    by (fastforce simp: sends_def)
  show ?thesis
  proof (cases r)
    case None
    with assms(1,3) m obtain fs where "snd y = t @ fs" "list_all feeds fs"
      "if fst y = None then fed fs = u else prefix (fed fs) u"
      by (fastforce simp: or_return_def sends_def)
    with es None show ?thesis unfolding sends_def by (intro exI [of _ "es @ fs"]) (auto split: if_splits)
  next
    case (Some err)
    with assms(1) m have "y = (r, t)" by (simp add: or_return_def)
    with es Some show ?thesis by (auto simp: sends_def intro: prefix_prefix)
  qed
qed

lemma ack_message_sends: "ack_message S m tr = Some y \<Longrightarrow> \<exists>es. snd y = tr @ es \<and> list_all feeds es \<and> fed es = []"
proof (induction S m tr y rule: ack_message.raw_induct [rotated, consumes 1, case_names read])
  case (read f S m tr y)
  show ?case
  proof (cases "sv_error S (tr @ [ReadByte]) \<noteq> None \<or> sv_byte S (tr @ [ReadByte]) = CHR 0x0A")
    case True
    with read(2) show ?thesis by (auto simp: attempt_def intro!: exI [of _ "[ReadByte]"])
  next
    case False
    with read(2) have "f S (m @ [sv_byte S (tr @ [ReadByte])]) (tr @ [ReadByte]) = Some y"
      by (simp add: attempt_def)
    from read(1) [OF this] obtain es where "snd y = (tr @ [ReadByte]) @ es" "list_all feeds es" "fed es = []" by blast
    then show ?thesis by (intro exI [of _ "ReadByte # es"]) simp
  qed
qed

lemma readAck_sends: "readAck S tr = Some y \<Longrightarrow> sends [] tr y"
  unfolding sends_def
  by (auto simp: readAck_def attempt_def split: option.splits if_splits dest!: ack_message_sends
      intro: exI [of _ "[ReadByte]"])

lemma ack_sends: "ack S step tr = Some y \<Longrightarrow> sends [] tr y"
  by (auto simp: ack_def sends_def split: option.splits dest!: readAck_sends)

lemma send_chunks_sends: "sends (concat cs) tr (send_chunks S cs read_err tr)"
proof (induction cs arbitrary: tr)
  case (Cons c cs)
  show ?case
  proof (cases "sv_error S (tr @ [WriteBytes c])")
    case None
    from Cons [of "tr @ [WriteBytes c]"] obtain es where
      "snd (send_chunks S cs read_err (tr @ [WriteBytes c])) = (tr @ [WriteBytes c]) @ es" "list_all feeds es"
      "if fst (send_chunks S cs read_err (tr @ [WriteBytes c])) = None then fed es = concat cs else prefix (fed es) (concat cs)"
      by (auto simp: sends_def)
    with None show ?thesis
      unfolding sends_def by (intro exI [of _ "WriteBytes c # es"]) (simp add: attempt_def split: if_splits)
  next
    case (Some e)
    then show ?thesis unfolding sends_def by (intro exI [of _ "[WriteBytes c]"]) (simp add: attempt_def)
  qed
qed (simp add: sends_def)

lemma attempt_sends:
  "attempt S WaitCommand tr = y \<Longrightarrow> sends [] tr y"
  "send_chunks S cs read_err tr = y \<Longrightarrow> sends (concat cs) tr y"
  using sends_event [of WaitCommand tr S] send_chunks_sends by auto

text \<open>What the process that receives the file is fed: the record of one file, cut off anywhere.\<close>

definition scp_stream :: "string \<Rightarrow> int \<Rightarrow> string list \<Rightarrow> string" where
  "scp_stream name nbytes chunks = file_header nbytes name @ concat chunks @ [CHR 0x00]"

lemma or_return_Some: "or_return (Some (r, t)) k = (case r of None \<Rightarrow> k t | Some e \<Rightarrow> Some (Some e, t))"
  by (simp add: or_return_def split: option.split)

lemma scp_session_feeds:
  assumes "scp_session S dir name nbytes content tr = Some (r, tr')"
  shows "tr' = tr @ [StdinPipe] \<or> tr' = tr @ [StdinPipe, StdoutPipe] \<or>
    (\<exists>es. tr' = tr @ [StdinPipe, StdoutPipe, StartCommand (scp_command dir)] @ es \<and> list_all feeds es \<and>
       prefix (fed es) (scp_stream name nbytes (fst content)))"
proof -
  define rest where "rest = (\<lambda>tr. or_return (ack S ''waiting for the server'' tr) (\<lambda>tr.
     or_return (Some (attempt S (WriteBytes (file_header nbytes name)) tr)) (\<lambda>tr.
     or_return (ack S ''sending file header'' tr) (\<lambda>tr.
     or_return (Some (case send_chunks S (fst content) (snd content) tr of (err, tr) \<Rightarrow>
         (map_option (\<lambda>e. ''sending file: '' @ e) err, tr))) (\<lambda>tr.
     or_return (Some (attempt S (WriteBytes [CHR 0x00]) tr)) (\<lambda>tr.
     or_return (ack S ''finishing transfer'' tr) (\<lambda>tr.
     or_return (Some (attempt S CloseStdin tr)) (\<lambda>tr.
     Some (case attempt S WaitCommand tr of (err, tr) \<Rightarrow>
       (map_option (\<lambda>e. ''scp on the server: '' @ e @ stderrSuffix (sv_stderr S tr)) err, tr))))))))))"
  have "sends ([] @ file_header nbytes name @ [] @ concat (fst content) @ [CHR 0x00] @ [] @ [] @ []) t (r, tr')"
    if "rest t = Some (r, tr')" for t
    using that unfolding rest_def
    by (elim or_return_sends) (auto split: prod.splits dest: ack_sends attempt_sends
      intro: sends_event [where e = "WriteBytes b" for b, simplified] sends_event [of CloseStdin, simplified])
  then have sent: "sends (scp_stream name nbytes (fst content)) t (r, tr')" if "rest t = Some (r, tr')" for t
    using that by (simp add: scp_stream_def)
  have run: "or_return (Some (attempt S StdinPipe tr)) (\<lambda>tr. or_return (Some (attempt S StdoutPipe tr)) (\<lambda>tr.
      or_return (Some (case attempt S (StartCommand (scp_command dir)) tr of (err, tr) \<Rightarrow>
         (map_option (\<lambda>e. ''starting scp on the server: '' @ e) err, tr))) rest)) = Some (r, tr')"
    using assms unfolding scp_session_def rest_def .
  let ?t = "tr @ [StdinPipe, StdoutPipe, StartCommand (scp_command dir)]"
  from run consider "tr' = tr @ [StdinPipe]" | "tr' = tr @ [StdinPipe, StdoutPipe]" | "tr' = ?t" | "rest ?t = Some (r, tr')"
    by (auto simp: attempt_def or_return_Some split: option.splits)
  then show ?thesis
  proof cases
    case 3
    then show ?thesis by (intro disjI2 exI [of _ "[]"]) simp
  next
    case 4
    from sent [OF this] show ?thesis by (auto simp: sends_def split: if_splits)
  qed simp_all
qed

lemma digits_only: "digits_value a s = Some n \<Longrightarrow> c \<in> set s \<Longrightarrow> 48 \<le> byte c \<and> byte c \<le> 57"
  by (induction a s rule: digits_value.induct) (auto split: if_splits)

lemma show_nat_plain: "CHR '' '' \<notin> set (show_nat n)" "CHR 0x0A \<notin> set (show_nat n)"
  using digits_only [OF digits_value_show, of _ n] by force+

text \<open>The stream announces the one file, provided its bytes are not more than the header says.\<close>

lemma sink_names_stream:
  assumes "prefix s (scp_stream tempName nbytes chunks)" "int (length (concat chunks)) \<le> nbytes"
  shows "sink_names s = Some [] \<or> sink_names s = Some [tempName]"
proof -
  define h where "h = ''C0755 '' @ show_nat (nat nbytes) @ '' '' @ tempName"
  let ?body = "concat chunks @ [CHR 0x00]"
  have "show_int nbytes = show_nat (nat nbytes)" using assms(2) by (simp add: show_int_def)
  then have stream: "scp_stream tempName nbytes chunks = h @ CHR 0x0A # ?body"
    by (simp add: scp_stream_def file_header_def h_def)
  have line: "CHR 0x0A \<notin> set h" by (auto simp: h_def tempName_def show_nat_plain)
  have "split_on CHR '' '' h = [''C0755'', show_nat (nat nbytes), tempName]"
    using split_on_append [of "CHR '' ''" "''C0755''"] split_on_append [of "CHR '' ''" "show_nat (nat nbytes)" tempName]
    by (simp add: h_def show_nat_plain split_on_plain tempName_def)
  then have r: "sink_record h = Some (nat nbytes, tempName)"
    by (simp add: sink_record_def digits_value_show)
  have e: "sink_names [] = Some []" by (simp add: sink_names.simps [of "[]"])
  from assms(1) consider "prefix s h" | b where "s = h @ CHR 0x0A # b" "prefix b ?body"
    unfolding stream prefix_append prefix_Cons by (auto simp: prefix_Cons)
  then show ?thesis
  proof cases
    case 1
    then have "CHR 0x0A \<notin> set s" using line set_mono_prefix by blast
    then have "dropWhile (\<lambda>c. c \<noteq> CHR 0x0A) s = []" by auto
    then show ?thesis by (simp add: sink_names.simps [of s])
  next
    case (2 b)
    then have "length b \<le> Suc (nat nbytes)" using assms(2) by (auto dest: prefix_length_le)
    then have "drop (Suc (nat nbytes)) b = []" by simp
    moreover have "takeWhile (\<lambda>c. c \<noteq> CHR 0x0A) s = h" "dropWhile (\<lambda>c. c \<noteq> CHR 0x0A) s = CHR 0x0A # b"
      unfolding 2(1) using line by (subst takeWhile_append2 dropWhile_append2, auto)+
    ultimately show ?thesis using r e by (simp add: sink_names.simps [of s] Let_def)
  qed
qed

lemma running_feeding:
  assumes "running err tr = [(c, [])]" "list_all feeds es"
  shows "running err (tr @ es) \<in> {[], [(c, fed es)]}"
  using assms(2)
proof (induction es rule: rev_induct)
  case Nil
  then show ?case using assms(1) by simp
next
  case (snoc e es)
  with running_snoc [of err "tr @ es" e, unfolded append_assoc] show ?case
    by (cases e) (auto split: if_splits)
qed

definition sending_files :: "deploy_config \<Rightarrow> string set" where
  "sending_files cfg = {path_Clean (dc_dir cfg), temp_path cfg}"

text \<open>At any point of the transfer, only the temporary file is within reach of the receiving process.\<close>

lemma running_in_transfer:
  assumes "scpSend S (dc_dir cfg) tempName nbytes content [] = Some (r, tr)" "prefix t tr"
    and "int (length (concat (fst content))) \<le> nbytes"
  shows "(\<Union>x \<in> set (running (sv_error S) t). process_files x) \<subseteq> sending_files cfg"
proof -
  let ?c = "scp_command (dc_dir cfg)"
  have files: "process_files (?c, s) \<subseteq> sending_files cfg" if "prefix s (scp_stream tempName nbytes (fst content))" for s
    using sink_names_stream [OF that assms(3)]
    by (auto simp: process_files_def words_of_commands sending_files_def temp_path_def)
  have early: "running (sv_error S) t = []" if "prefix t [NewSession, StdinPipe, StdoutPipe, CloseSession]" for t
    using that by (auto simp: prefix_Cons running_def split: if_splits)
  have fed: "(\<Union>x \<in> set (running (sv_error S) t). process_files x) \<subseteq> sending_files cfg"
    if "prefix t ([NewSession, StdinPipe, StdoutPipe, StartCommand ?c] @ es)" "list_all feeds es"
      "prefix (fed es) (scp_stream tempName nbytes (fst content))" for t es
  proof (cases "prefix t [NewSession, StdinPipe, StdoutPipe]")
    case True
    then show ?thesis using early [of t] by (auto simp: prefix_Cons)
  next
    case False
    with that(1) obtain us where us: "t = [NewSession, StdinPipe, StdoutPipe, StartCommand ?c] @ us" "prefix us es"
      by (auto simp: prefix_Cons prefix_append)
    then obtain vs where "es = us @ vs" by (auto simp: prefix_def)
    with that(2,3) have u: "list_all feeds us" "prefix (fed us) (scp_stream tempName nbytes (fst content))"
      by (auto simp: prefix_def)
    have "running (sv_error S) [NewSession, StdinPipe, StdoutPipe, StartCommand ?c] = [(?c, [])]"
      by (simp add: running_def)
    from running_feeding [OF this u(1)] files [OF u(2)] show ?thesis unfolding us(1) by auto
  qed
  from assms(1) consider "tr = [NewSession]" |
    r' tr' where "scp_session S (dc_dir cfg) tempName nbytes content [NewSession] = Some (r', tr')" "tr = tr' @ [CloseSession]"
    by (auto simp: scpSend_def attempt_def split: option.splits)
  then show ?thesis
  proof cases
    case 1
    then show ?thesis using early [of t] assms(2) by (auto simp: prefix_Cons)
  next
    case (2 r' tr')
    from scp_session_feeds [OF 2(1)] show ?thesis
    proof (elim disjE exE conjE)
      assume "tr' = [NewSession] @ [StdinPipe]"
      then show ?thesis using assms(2) 2(2) by (auto simp: prefix_Cons running_def)
    next
      assume "tr' = [NewSession] @ [StdinPipe, StdoutPipe]"
      then show ?thesis using assms(2) 2(2) early [of t] by simp
    next
      fix es
      assume es: "tr' = [NewSession] @ [StdinPipe, StdoutPipe, StartCommand ?c] @ es" "list_all feeds es"
        "prefix (fed es) (scp_stream tempName nbytes (fst content))"
      with 2(2) have "tr = [NewSession, StdinPipe, StdoutPipe, StartCommand ?c] @ (es @ [CloseSession])" by simp
      with fed [of t "es @ [CloseSession]"] assms(2) es(2,3) show ?thesis by simp
    qed
  qed
qed
lemma target_out_of_reach: "target_path cfg \<notin> sending_files cfg"
  using places_differ [of cfg] by (auto simp: sending_files_def)

lemma target_kept_in_transfer:
  assumes "remote_files S sha dirs fs" "scpSend S (dc_dir cfg) tempName nbytes content [] = Some (r, tr)"
    and "int (length (concat (fst content))) \<le> nbytes"
  shows "fs tr (target_path cfg) = fs [] (target_path cfg)"
proof -
  have "prefix t tr \<Longrightarrow> fs t (target_path cfg) = fs [] (target_path cfg)" for t
  proof (induction t rule: rev_induct)
    case (snoc e t)
    note reach = running_in_transfer [OF assms(2) _ assms(3)]
    have t: "prefix t tr" using snoc.prems by (rule append_prefixD)
    have "e \<in> set tr" using snoc.prems by (auto simp: prefix_def)
    then have "\<forall>c. e \<noteq> CombinedOutput c"
      using scpSend_adds [OF assms(2)] by (auto simp: adds_def list_all_iff)
    then have "target_path cfg \<notin> touched (sv_error S) t e"
      using reach [OF t] reach [OF snoc.prems] target_out_of_reach [of cfg]
      by (auto simp: touched_def split: ssh_event.split)
    with remote_filesD(1) [OF assms(1)] snoc.IH [OF t] show ?case by simp
  qed simp
  from this [of tr] show ?thesis by simp
qed

lemma idle_after_transfer:
  assumes "scpSend S dir name nbytes content [] = Some (None, tr)"
  shows "running (sv_error S) tr = []"
proof -
  obtain chunks read_err where c: "content = (chunks, read_err)" by fastforce
  let ?start = "[NewSession, StdinPipe, StdoutPipe, StartCommand (scp_command dir)]"
  let ?es = "[ReadByte, WriteBytes (file_header nbytes name), ReadByte] @ map WriteBytes chunks @
     [WriteBytes [CHR 0x00], ReadByte, CloseStdin]"
  have sent: "all_well S [] (transfer dir name nbytes chunks)" "tr = transfer dir name nbytes chunks @ [CloseSession]"
    using transfer_exact [of S dir name nbytes chunks read_err "[]" tr] assms by (simp_all add: c)
  have t: "transfer dir name nbytes chunks = (?start @ ?es) @ [WaitCommand]" by (simp add: transfer_def)
  have start: "running (sv_error S) ?start = [(scp_command dir, [])]" by (simp add: running_def)
  have feeding: "list_all feeds ?es" by (simp add: list_all_iff)
  define u where "u = ?start @ ?es"
  have "running (sv_error S) u \<in> {[], [(scp_command dir, fed ?es)]}"
    unfolding u_def by (rule running_feeding [OF start feeding])
  moreover have "sv_error S (u @ [WaitCommand]) = None"
    using sent(1) unfolding t u_def [symmetric] all_well_append by simp
  ultimately have "running (sv_error S) (u @ [WaitCommand]) = []"
    unfolding running_snoc by auto
  then have "running (sv_error S) ((u @ [WaitCommand]) @ [CloseSession]) = []"
    unfolding running_snoc by simp
  then show ?thesis unfolding sent(2) t u_def .
qed

text \<open>With nothing else running, a part of a run whose commands spare a file leaves it as it is.\<close>

definition spares :: "string \<Rightarrow> ssh_event \<Rightarrow> bool" where
  "spares p e \<longleftrightarrow> e \<in> {NewSession, CloseSession} \<or> (\<exists>c. e = CombinedOutput c \<and> p \<notin> command_files c)"

lemma idle_keeps:
  assumes "remote_files S sha dirs fs" "running (sv_error S) s = []" "adds (spares p) s t"
  shows "running (sv_error S) t = [] \<and> fs t p = fs s p"
proof -
  have "list_all (spares p) es \<Longrightarrow> running (sv_error S) (s @ es) = [] \<and> fs (s @ es) p = fs s p" for es
  proof (induction es rule: rev_induct)
    case (snoc e es)
    then have e: "spares p e" and IH: "running (sv_error S) (s @ es) = []" "fs (s @ es) p = fs s p" by auto
    have r: "running (sv_error S) ((s @ es) @ [e]) = []"
      using e IH(1) unfolding running_snoc by (auto simp: spares_def)
    then have "p \<notin> touched (sv_error S) (s @ es) e"
      using e IH(1) by (auto simp: touched_def spares_def)
    from remote_filesD(1) [OF assms(1) this, unfolded append_assoc] r IH(2) show ?case by simp
  qed (simp add: assms(2))
  with assms(3) show ?thesis by (auto simp: adds_def)
qed

lemma upload_over_cases:
  assumes "upload_over S M cfg nbytes want = Some (r, tr)"
  obtains (unsent) sent where "scpSend S (dc_dir cfg) tempName nbytes (mc_sent M) [] = Some (sent, tr)" "r \<noteq> None"
  | (refused) s err where "scpSend S (dc_dir cfg) tempName nbytes (mc_sent M) [] = Some (None, s)"
      "verifyRemote S (mc_quote M) (temp_path cfg) want s = (Some err, tr)" "r \<noteq> None"
  | (moved) s t err where "scpSend S (dc_dir cfg) tempName nbytes (mc_sent M) [] = Some (None, s)"
      "verifyRemote S (mc_quote M) (temp_path cfg) want s = (None, t)"
      "runRemote S (move_command (temp_path cfg) (target_path cfg)) t = (err, tr)" "r = None \<longleftrightarrow> err = None"
proof -
  from assms obtain sent s where s: "scpSend S (dc_dir cfg) tempName nbytes (mc_sent M) [] = Some (sent, s)"
    by (auto simp: upload_over_def split: option.splits)
  obtain checked t where t: "verifyRemote S (mc_quote M) (temp_path cfg) want s = (checked, t)" by fastforce
  obtain err u where u: "runRemote S (move_command (temp_path cfg) (target_path cfg)) t = (err, u)" by fastforce
  show ?thesis
  proof (cases sent)
    case (Some e)
    with assms s have "tr = s" "r \<noteq> None" by (auto simp: upload_over_def)
    with s unsent show ?thesis by simp
  next
    case None
    note s' = s [unfolded None]
    show ?thesis
    proof (cases checked)
      case (Some e)
      with assms s' t have "tr = t" "r \<noteq> None" by (auto simp: upload_over_def)
      with s' t Some refused show ?thesis by simp
    next
      case None
      with assms s' t u have "tr = u" "r = None \<longleftrightarrow> err = None" by (auto simp: upload_over_def split: option.splits)
      with s' t u None moved show ?thesis by simp
    qed
  qed
qed

section \<open>The binary that runs\<close>

lemma checked_move:
  assumes files: "remote_files S sha dirs fs" and idle: "running (sv_error S) s = []"
    and check: "sv_error S (s @ [NewSession, CombinedOutput (sum_command temp)]) = None"
      "Fields (TrimSpace (sv_output S (s @ [NewSession, CombinedOutput (sum_command temp)]))) = hex_encode x # digests"
    and t: "t = s @ [NewSession, CombinedOutput (sum_command temp), CloseSession]"
    and tr: "tr = t @ [NewSession, CombinedOutput (move_command temp target), CloseSession]"
    and places: "temp \<noteq> target" "target \<notin> dirs"
  shows "(\<exists>c. fs tr target = Some c \<and> hex_encode (sha c) = hex_encode x) \<or>
    sv_error S (t @ [NewSession, CombinedOutput (move_command temp target)]) \<noteq> None \<and> fs tr target = fs s target"
proof -
  let ?mv = "CombinedOutput (move_command temp target)"
  have sum: "spares p (CombinedOutput (sum_command temp))" for p by (simp add: spares_def files_of_commands)
  have sess: "spares p NewSession" "spares p CloseSession" for p by (simp_all add: spares_def)
  have s1: "adds (spares p) s (s @ [NewSession])" for p using sess by simp
  have t1: "adds (spares p) s (t @ [NewSession])" for p
    unfolding t adds_def using sum sess by simp
  have closes: "adds (spares target) u (u @ [CloseSession])" for u using sess by simp
  note i1 = idle_keeps [OF files idle s1] and i2 = idle_keeps [OF files idle t1]
  obtain c where c: "fs (s @ [NewSession]) temp = Some c" "hex_encode (sha c) = hex_encode x"
    using remote_filesD(3) [OF files, of "s @ [NewSession]" temp x digests] i1 check by auto
  then have "fs (t @ [NewSession]) temp = Some c" using i1 i2 by simp
  moreover have "running (sv_error S) ((t @ [NewSession]) @ [?mv]) = []" using i2 unfolding running_snoc by simp
  from idle_keeps [OF files this closes]
  have "fs tr target = fs ((t @ [NewSession]) @ [?mv]) target" by (simp add: tr)
  ultimately show ?thesis
    using remote_filesD(2) [OF files places, of "t @ [NewSession]"] c(2) i2 by auto
qed

text \<open>
  C14: A damaged upload never replaces the live binary. However the upload ends, the file at the target
  path is the one that was there before, or one with the SHA-256 of the local binary, unless the check
  was skipped because running \<^verbatim>\<open>sha256sum\<close> failed with \<open>not found\<close>; and when the tool
  reports success, it is the latter. This rests on what \<^verbatim>\<open>scp -t\<close>,
  \<^verbatim>\<open>sha256sum\<close>, \<^verbatim>\<open>rm -f\<close> and \<^verbatim>\<open>mv -f\<close> do to
  files (\<open>remote_files\<close>), not on where the tool writes; on a target that is no directory; and on a
  binary that does not grow between the moment its size is read and the moment it is sent, since scp
  would take the surplus for the record of another file.
\<close>

theorem live_binary_undamaged:
  assumes "run_upload S M = Some (r, tr)" "mc_env M = Inr cfg"
    and "remote_files S (mc_sha256 M) dirs fs" "target_path cfg \<notin> dirs"
    and "\<forall>n. mc_stat M = Inr n \<longrightarrow> int (length (concat (fst (mc_sent M)))) \<le> n"
  shows "fs tr (target_path cfg) = fs [] (target_path cfg) \<and> r \<noteq> None
    \<or> (\<exists>c. fs tr (target_path cfg) = Some c \<and>
        hex_encode (mc_sha256 M c) = hex_encode (mc_sha256 M (concat (fst (mc_hashed M)))))
    \<or> check_skipped S (temp_path cfg) tr"
proof (cases "tr = [] \<and> r \<noteq> None")
  case False
  let ?target = "target_path cfg" let ?temp = "temp_path cfg"
  let ?want = "hex_encode (mc_sha256 M (concat (fst (mc_hashed M))))"
  from False assms(1,2) obtain nbytes where over: "upload_over S M cfg nbytes ?want = Some (r, tr)"
    and n: "mc_stat M = Inr nbytes"
    by (auto simp: run_upload_def sha256File_def Let_def split: sum.splits option.splits prod.splits)
  note transfer = target_kept_in_transfer [OF assms(3) _ assms(5) [rule_format, OF n]]
  from over show ?thesis
  proof (cases rule: upload_over_cases)
    case unsent
    with transfer show ?thesis by blast
  next
    case (refused s err)
    have "adds (spares ?target) s tr"
      by (rule adds_mono [OF verifyRemote_adds [OF refused(2)]])
        (use places_differ(1) [of cfg] in \<open>auto simp: spares_def files_of_commands\<close>)
    with idle_keeps [OF assms(3) idle_after_transfer [OF refused(1)] this] transfer [OF refused(1)] refused(3)
    show ?thesis by simp
  next
    case (moved s t err)
    note idle = idle_after_transfer [OF moved(1)]
    have st: "adds (spares ?target) s t"
      by (rule adds_mono [OF verifyRemote_adds [OF moved(2)]])
        (use places_differ(1) [of cfg] in \<open>auto simp: spares_def files_of_commands\<close>)
    from moved(3) show ?thesis
    proof (cases rule: runRemote_cases)
      case (no_session e)
      with st have "adds (spares ?target) s tr" by (simp add: adds_snoc_right spares_def)
      with idle_keeps [OF assms(3) idle this] transfer [OF moved(1)] no_session moved(4) show ?thesis by simp
    next
      case ran
      from moved(2) show ?thesis
      proof (cases rule: verifyRemote_None)
        case skipped
        then have "check_skipped S ?temp tr" using runRemote_adds [OF moved(3)] by (rule check_skipped_later)
        then show ?thesis by blast
      next
        case (equal digests)
        with checked_move [OF assms(3) idle equal(2,3) equal(1) ran(1) places_differ(1) assms(4)]
          transfer [OF moved(1)] ran(2) moved(4)
        show ?thesis by auto
      qed
    qed
  qed
qed auto

definition sample_config :: deploy_config where
  "sample_config = \<lparr> dc_host = ''srv'', dc_port = 22, dc_user = ''u'', dc_password = ''p'', dc_dir = ''/opt/it's'' \<rparr>"

definition sample_machine :: machine where
  "sample_machine = \<lparr> mc_env = Inr sample_config, mc_open = None, mc_stat = Inr 3,
     mc_hashed = ([''new''], None), mc_seek = None, mc_home = None, mc_known_hosts = None,
     mc_dial = (\<lambda>a u p. None), mc_sent = ([''n'', ''ew''], None), mc_sha256 = (\<lambda>c. c), mc_quote = (\<lambda>s. s) \<rparr>"

definition sample_server :: "string \<Rightarrow> server" where
  "sample_server answered = \<lparr> sv_error = (\<lambda>tr. None), sv_byte = (\<lambda>tr. CHR 0x00),
     sv_output = (\<lambda>tr. answered), sv_stderr = (\<lambda>tr. []) \<rparr>"

lemma sample_paths: "temp_path sample_config = ''/opt/it's/.ghostman-server.upload''"
  "target_path sample_config = ''/opt/it's/ghostman-server''"
  by code_simp+

lemma sample_hex: "hex_encode ''new'' = ''6e6577''" "hex_encode ''binary'' = ''62696e617279''"
  by (simp_all add: hex_encode_def hex_digit_def char_of_eq_iff)

lemma sample_digest: "Fields (TrimSpace (hex_encode ''new'')) = [hex_encode ''new'']"
  unfolding sample_hex by code_simp

text \<open>
  A host with files: an old binary at the target, the upload once scp has received all of it and
  ended, and \<^verbatim>\<open>rm\<close> and \<^verbatim>\<open>mv\<close> as they are. It knows one digest.
\<close>

definition shell_effect :: "string \<Rightarrow> (string \<rightharpoonup> string) \<Rightarrow> (string \<rightharpoonup> string)" where
  "shell_effect c f = (case sh_words c of
     Some [a, b, p] \<Rightarrow> if a = ''rm'' \<and> b = ''-f'' then f(p := None) else f
   | Some [a, b, p, q] \<Rightarrow> if a = ''mv'' \<and> b = ''-f'' \<and> f p \<noteq> None then f(p := None, q := f p) else f
   | _ \<Rightarrow> f)"

fun sample_files_rev :: "ssh_event list \<Rightarrow> string \<rightharpoonup> string" where
  "sample_files_rev [] = [target_path sample_config \<mapsto> ''old'']"
| "sample_files_rev (e # before) = (case e of
     WaitCommand \<Rightarrow>
       if running_rev (\<lambda>_. None) before = [(scp_command (dc_dir sample_config), scp_stream tempName 3 [''n'', ''ew''])]
       then (sample_files_rev before)(temp_path sample_config \<mapsto> ''new'') else sample_files_rev before
   | CombinedOutput c \<Rightarrow> shell_effect c (sample_files_rev before)
   | _ \<Rightarrow> sample_files_rev before)"

definition sample_files :: "ssh_event list \<Rightarrow> string \<rightharpoonup> string" where
  "sample_files tr = sample_files_rev (rev tr)"

lemma sample_files_snoc:
  "sample_files (tr @ [e]) = (case e of
     WaitCommand \<Rightarrow>
       if running (\<lambda>_. None) tr = [(scp_command (dc_dir sample_config), scp_stream tempName 3 [''n'', ''ew''])]
       then (sample_files tr)(temp_path sample_config \<mapsto> ''new'') else sample_files tr
   | CombinedOutput c \<Rightarrow> shell_effect c (sample_files tr)
   | _ \<Rightarrow> sample_files tr)"
  by (cases e) (simp_all add: sample_files_def running_def)

definition command_error :: "(string \<rightharpoonup> string) \<Rightarrow> string \<Rightarrow> string option" where
  "command_error f c = (case sh_words c of
     Some [a, p] \<Rightarrow> if f p = Some ''new'' then None else Some ''Process exited with status 1''
   | Some [a, b, p, q] \<Rightarrow> if f p = None then Some ''Process exited with status 1'' else None
   | _ \<Rightarrow> None)"

definition sample_host :: server where
  "sample_host = \<lparr> sv_error = (\<lambda>tr. if tr = [] then None else (case last tr of
       CombinedOutput c \<Rightarrow> command_error (sample_files (butlast tr)) c | _ \<Rightarrow> None)),
     sv_byte = (\<lambda>tr. CHR 0x00), sv_output = (\<lambda>tr. hex_encode ''new''), sv_stderr = (\<lambda>tr. []) \<rparr>"

lemma sample_host_answers:
  "sv_error sample_host (tr @ [e]) = (case e of CombinedOutput c \<Rightarrow> command_error (sample_files tr) c | _ \<Rightarrow> None)"
  "sv_byte sample_host tr = CHR 0x00" "sv_output sample_host tr = hex_encode ''new''"
  by (cases e) (simp_all add: sample_host_def)

lemma running_sample: "running (sv_error sample_host) tr = running (\<lambda>_. None) tr"
proof (induction tr rule: rev_induct)
  case (snoc e tr)
  then show ?case by (cases e) (simp_all add: running_snoc sample_host_answers)
qed simp

lemma sample_stream_files:
  "process_files (scp_command (dc_dir sample_config), scp_stream tempName 3 [''n'', ''ew'']) =
     {path_Clean (dc_dir sample_config), temp_path sample_config}"
proof -
  have "sink_names (scp_stream tempName 3 [''n'', ''ew'']) = Some [tempName]" by code_simp
  then show ?thesis by (simp add: process_files_def words_of_commands temp_path_def)
qed

lemma shell_effect_files: "p \<notin> command_files c \<Longrightarrow> shell_effect c f p = f p"
  by (auto simp: shell_effect_def command_files_def split: option.splits list.splits if_splits)

lemma sample_follows: "remote_files sample_host (\<lambda>c. c) {} sample_files"
  unfolding remote_files_def
proof (intro conjI allI impI; (elim conjE)?)
  fix tr e p
  assume p: "p \<notin> touched (sv_error sample_host) tr e"
  show "sample_files (tr @ [e]) p = sample_files tr p"
  proof (cases e)
    case WaitCommand
    with p show ?thesis
      using sample_stream_files by (auto simp: sample_files_snoc touched_def running_sample)
  qed (use p in \<open>auto simp: sample_files_snoc touched_def shell_effect_files\<close>)
next
  fix tr c p q
  assume "sh_words c = Some [''mv'', ''-f'', p, q]" "p \<noteq> q"
  then show "sample_files (tr @ [CombinedOutput c]) q = sample_files tr p \<or>
      sv_error sample_host (tr @ [CombinedOutput c]) \<noteq> None \<and>
      sample_files (tr @ [CombinedOutput c]) q = sample_files tr q"
    by (simp add: sample_files_snoc shell_effect_def sample_host_answers command_error_def)
next
  fix tr c p x digests
  assume "sh_words c = Some [''sha256sum'', p]" "sv_error sample_host (tr @ [CombinedOutput c]) = None"
    "Fields (TrimSpace (sv_output sample_host (tr @ [CombinedOutput c]))) = hex_encode x # digests"
  then show "\<exists>content. sample_files tr p = Some content \<and> hex_encode content = hex_encode x"
    by (auto simp: sample_host_answers command_error_def sample_digest split: if_splits)
qed

definition sample_sent :: "ssh_event list" where
  "sample_sent = transfer (dc_dir sample_config) tempName 3 [''n'', ''ew''] @ [CloseSession]"

definition sample_history :: "ssh_event list" where
  "sample_history = sample_sent @
     [NewSession, CombinedOutput (sum_command (temp_path sample_config)), CloseSession,
      NewSession, CombinedOutput (move_command (temp_path sample_config) (target_path sample_config)), CloseSession]"

lemma sample_well: "\<forall>e \<in> set es. no_command e \<Longrightarrow> all_well sample_host tr es"
  by (induction es arbitrary: tr) (auto simp: sample_host_answers split: ssh_event.split)

lemma sample_files_sent: "sample_files sample_sent = [target_path sample_config \<mapsto> ''old'', temp_path sample_config \<mapsto> ''new'']"
  by (simp add: sample_files_def sample_sent_def transfer_def scp_stream_def)

lemma sample_files_after:
  "sample_files (sample_sent @ [NewSession]) = sample_files sample_sent"
  "sample_files (sample_sent @ [NewSession, CombinedOutput (sum_command p), CloseSession, NewSession]) = sample_files sample_sent"
  by (simp_all add: sample_files_def shell_effect_def words_of_commands)

lemma sample_run: "run_upload sample_host sample_machine = Some (None, sample_history)"
proof -
  let ?temp = "temp_path sample_config" and ?target = "target_path sample_config"
  let ?checked = "sample_sent @ [NewSession, CombinedOutput (sum_command ?temp), CloseSession]"
  have "all_well sample_host [] (transfer (dc_dir sample_config) tempName 3 [''n'', ''ew''])"
    by (rule sample_well) (auto simp: transfer_def)
  then have sent: "scpSend sample_host (dc_dir sample_config) tempName 3 ([''n'', ''ew''], None) [] = Some (None, sample_sent)"
    by (simp add: transfer_exact sample_sent_def)
  have e: "sv_error sample_host (sample_sent @ [NewSession]) = None"
    "sv_error sample_host (sample_sent @ [NewSession, CombinedOutput (sum_command ?temp)]) = None"
    "sv_error sample_host (?checked @ [NewSession]) = None"
    "sv_error sample_host (?checked @ [NewSession, CombinedOutput (move_command ?temp ?target)]) = None"
    using sample_host_answers(1) [of sample_sent NewSession] sample_host_answers(1) [of ?checked NewSession]
      sample_host_answers(1) [of "sample_sent @ [NewSession]" "CombinedOutput (sum_command ?temp)"]
      sample_host_answers(1) [of "?checked @ [NewSession]" "CombinedOutput (move_command ?temp ?target)"]
      sample_files_after sample_files_sent
    by (simp_all add: command_error_def words_of_commands)
  have check: "verifyRemote sample_host (\<lambda>s. s) ?temp (hex_encode ''new'') sample_sent = (None, ?checked)"
    using e(1,2) by (simp add: verifyRemote_def remoteOutput_def attempt_def Let_def sample_host_answers(3) sample_digest)
  have "runRemote sample_host (move_command ?temp ?target) ?checked = (None, sample_history)"
    using e(3,4) by (simp add: runRemote_def remoteOutput_def attempt_def Let_def sample_history_def)
  with sent check show ?thesis
    by (simp add: run_upload_def sample_machine_def sha256File_def knownHostsCallback_def upload_over_def Let_def)
qed

lemma sample_files_end: "sample_files sample_history (target_path sample_config) = Some ''new''"
proof -
  have "sample_history = ((sample_sent @ [NewSession, CombinedOutput (sum_command (temp_path sample_config)), CloseSession, NewSession]) @
      [CombinedOutput (move_command (temp_path sample_config) (target_path sample_config))]) @ [CloseSession]"
    by (simp add: sample_history_def)
  then show ?thesis
    unfolding \<open>sample_history = _\<close> sample_files_snoc ssh_event.case sample_files_after sample_files_sent
      shell_effect_def words_of_commands
    by (simp add: sample_paths)
qed

theorem live_binary_undamaged_witness:
  "\<exists>c. sample_files sample_history (target_path sample_config) = Some c \<and> hex_encode c = hex_encode ''new''"
proof -
  have "\<not> Contains (''Process exited with status 1'' @ '': '' @ TrimSpace (hex_encode ''new'')) ''not found''"
    unfolding sample_hex by code_simp
  moreover have "err = ''Process exited with status 1'' @ '': '' @ TrimSpace (hex_encode ''new'')"
    if "remoteOutput sample_host (sum_command p) t = (Inl err, u)" for p t err u
    using that sample_host_answers(1) [of "t @ [NewSession]" "CombinedOutput (sum_command p)"]
    by (auto simp: remoteOutput_def attempt_def Let_def sample_host_answers command_error_def words_of_commands
      split: option.splits if_splits)
  ultimately have "\<not> check_skipped sample_host p tr" for p tr unfolding check_skipped_def by metis
  with live_binary_undamaged [OF sample_run, of sample_config "{}" sample_files] sample_follows show ?thesis
    by (auto simp: sample_machine_def)
qed

section \<open>Ends that are no success\<close>

text \<open>
  C18: A word shorter than twelve characters where the sum was expected crashes the tool. That is
  exactly when it panics: the command succeeded, and the first field of what it wrote to its two
  outputs is short, a shell's warning, say. The upload has been removed by then, even if it was good.
\<close>

theorem short_report_panics:
  assumes "12 \<le> length want"
  shows "verifyRemote S quote p want tr = (Some SlicePanic, tr') \<longleftrightarrow>
    (\<exists>out t w ws err. remoteOutput S (sum_command p) tr = (Inr out, t) \<and> Fields out = w # ws \<and>
       w \<noteq> want \<and> length w < 12 \<and> runRemote S (remove_command p) t = (err, tr'))"
proof (cases "remoteOutput S (sum_command p) tr")
  case (Pair out t)
  have crash: "damaged w want = SlicePanic \<longleftrightarrow> length w < 12" for w
    using assms by (simp add: damaged_def slice_to_def)
  show ?thesis
  proof (cases out)
    case (Inl err)
    with Pair show ?thesis by (simp add: verifyRemote_def)
  next
    case (Inr answered)
    obtain err u where rm: "runRemote S (remove_command p) t = (err, u)" by fastforce
    show ?thesis
    proof (cases "Fields answered")
      case Nil
      with Pair Inr show ?thesis by (simp add: verifyRemote_def)
    next
      case (Cons w ws)
      with Pair Inr rm crash [of w] show ?thesis by (auto simp: verifyRemote_def)
    qed
  qed
qed

lemma sample_warning: "Fields (TrimSpace (''bash: C '' @ hex_encode ''binary'')) = [''bash:'', ''C'', hex_encode ''binary'']"
  unfolding sample_hex by code_simp

theorem short_report_panics_witness:
  "verifyRemote (sample_server (''bash: C '' @ hex_encode ''binary''))
     (\<lambda>s. s) ''up'' (hex_encode ''binary'') [] =
   (Some SlicePanic, [NewSession, CombinedOutput (sum_command ''up''), CloseSession,
      NewSession, CombinedOutput (remove_command ''up''), CloseSession])"
proof -
  have "12 \<le> length (hex_encode ''binary'')" "hex_encode ''binary'' \<noteq> ''bash:''" by (simp_all add: sample_hex)
  moreover have "sv_output (sample_server answered) tr = answered" "sv_error (sample_server answered) tr = None"
    for answered tr by (simp_all add: sample_server_def)
  ultimately show ?thesis
    using sample_warning
    by (simp add: short_report_panics remoteOutput_def runRemote_def attempt_def Let_def)
qed

text \<open>
  The tool returns. If whatever the server sends ends or has a line break in it at some point, so
  does reading the message of a status byte, and with it the run, whatever else goes wrong.
\<close>

lemma upload_returns:
  assumes "\<And>tr. \<exists>n. sv_error S (tr @ replicate (Suc n) ReadByte) \<noteq> None \<or>
    sv_byte S (tr @ replicate (Suc n) ReadByte) = CHR 0x0A"
  shows "\<exists>r. run_upload S M = Some r"
proof -
  have message: "\<exists>y. ack_message S m tr = Some y"
    if "sv_error S (tr @ replicate (Suc n) ReadByte) \<noteq> None \<or> sv_byte S (tr @ replicate (Suc n) ReadByte) = CHR 0x0A"
    for m tr n
    using that
  proof (induction n arbitrary: m tr)
    case 0
    then show ?case by (subst ack_message.simps) (auto simp: attempt_def)
  next
    case (Suc n)
    then have "\<exists>y. ack_message S (m @ [sv_byte S (tr @ [ReadByte])]) (tr @ [ReadByte]) = Some y"
      by (intro Suc.IH) simp
    then show ?case by (subst ack_message.simps) (auto simp: attempt_def)
  qed
  have ack: "ack S step tr \<noteq> None" for step tr
  proof -
    obtain n where "sv_error S ((tr @ [ReadByte]) @ replicate (Suc n) ReadByte) \<noteq> None \<or>
        sv_byte S ((tr @ [ReadByte]) @ replicate (Suc n) ReadByte) = CHR 0x0A"
      using assms by blast
    then obtain y where "ack_message S [] (tr @ [ReadByte]) = Some y" using message by blast
    then show ?thesis by (cases y) (auto simp: ack_def readAck_def attempt_def split: option.splits)
  qed
  have chain: "m \<noteq> None \<Longrightarrow> (\<And>t. k t \<noteq> None) \<Longrightarrow> or_return m k \<noteq> None" for m k
    by (auto simp: or_return_def split: option.splits)
  have session: "scp_session S dir name n content tr \<noteq> None" for dir name n content tr
    unfolding scp_session_def by (intro chain ack option.distinct(2))
  have "scpSend S dir name n content tr \<noteq> None" for dir name n content tr
    using session [of dir name n content "tr @ [NewSession]"]
    by (auto simp: scpSend_def attempt_def split: option.splits)
  then have "upload_over S M cfg n digest \<noteq> None" for cfg n digest
    by (auto simp: upload_over_def split: prod.splits option.splits)
  then show ?thesis
    by (auto simp: run_upload_def Let_def split: sum.splits option.splits prod.splits)
qed

text \<open>A server whose connection breaks at once.\<close>

lemma upload_returns_witness:
  "\<exists>r. run_upload \<lparr> sv_error = (\<lambda>tr. Some ''EOF''), sv_byte = (\<lambda>tr. CHR 0x00), sv_output = (\<lambda>tr. []),
     sv_stderr = (\<lambda>tr. []) \<rparr> sample_machine = Some r"
  by (rule upload_returns) simp

end
