(* ===== verification/Progress.thy ===== *)
theory Progress
  imports RateLimit
begin

text \<open>
  What the deployment tool shows while it uploads, \<^verbatim>\<open>cmd/upload/progress.go\<close>. Times
  are nanoseconds; each operation returns the text it prints. The floating-point speed is a rational
  number here, and byte counts are below the \<open>2 ^ 53\<close> that \<^verbatim>\<open>float64\<close> holds exactly. The
  mutex makes every operation one step.
\<close>

section \<open>Formatting\<close>

text \<open>Rounding to the nearest integer, a half to the even neighbour, as \<^verbatim>\<open>%.1f\<close> does.\<close>

definition round_half_even :: "rat \<Rightarrow> int" where
  "round_half_even x =
     (let n = \<lfloor>x\<rfloor>; r = x - of_int n in
      if r < 1 / 2 \<or> (r = 1 / 2 \<and> even n) then n else n + 1)"

definition one_decimal :: "rat \<Rightarrow> string" where
  "one_decimal x = (let n = round_half_even (10 * x) in
     show_int (n div 10) @ CHR ''.'' # show_int (n mod 10))"

definition formatBytes :: "int \<Rightarrow> string" where
  "formatBytes n =
     (if 1048576 \<le> n then one_decimal (of_int n / 1048576) @ '' MiB''
      else if 1024 \<le> n then one_decimal (of_int n / 1024) @ '' KiB''
      else show_int n @ '' B'')"

text \<open>\<^verbatim>\<open>Duration.Round\<close> and \<^verbatim>\<open>Duration.String\<close> of durations that are not
  negative.\<close>

definition millisecond :: int where "millisecond = 1000000"
definition minute :: int where "minute = 60 * second"

definition duration_Round :: "int \<Rightarrow> int \<Rightarrow> int" where
  "duration_Round d m = (let r = d mod m in if r + r < m then d - r else d + m - r)"

definition roundDuration :: "int \<Rightarrow> int" where
  "roundDuration d =
     (if d < second then duration_Round d millisecond
      else if d < minute then duration_Round d (100 * millisecond)
      else duration_Round d second)"

text \<open>The last \<open>prec\<close> digits of a number, and a fraction without its trailing zeros.\<close>

fun last_digits :: "nat \<Rightarrow> int \<Rightarrow> string" where
  "last_digits 0 v = []"
| "last_digits (Suc prec) v = last_digits prec (v div 10) @ [digit_char (nat (v mod 10))]"

definition fraction :: "nat \<Rightarrow> int \<Rightarrow> string" where
  "fraction prec v =
     (let ds = rev (dropWhile (\<lambda>c. c = CHR ''0'') (rev (last_digits prec v))) in
      if ds = [] then [] else CHR ''.'' # ds)"

definition duration_String :: "int \<Rightarrow> string" where
  "duration_String d =
     (if d = 0 then ''0s''
      else if d < 1000 then show_int d @ ''ns''
      else if d < millisecond then show_int (d div 1000) @ fraction 3 d @ [CHR 0xC2, CHR 0xB5, CHR ''s'']
      else if d < second then show_int (d div millisecond) @ fraction 6 d @ ''ms''
      else (let s = d div second; m = s div 60; h = m div 60 in
        (if 0 < h then show_int h @ ''h'' else []) @
        (if 0 < m then show_int (m mod 60) @ ''m'' else []) @
        show_int (s mod 60) @ fraction 9 d @ ''s''))"

section \<open>The progress of an upload\<close>

definition barWidth :: int where "barWidth = 24"
definition redrawEvery :: int where "redrawEvery = 150 * millisecond"
definition lineEveryPercent :: int where "lineEveryPercent = 10"

text \<open>\<open>pr_last_draw\<close> is \<open>None\<close> for the zero \<^verbatim>\<open>time.Time\<close>.\<close>

record progress =
  pr_total :: int
  pr_interactive :: bool
  pr_start :: int
  pr_done :: int
  pr_last_draw :: "int option"
  pr_last_percent :: int
  pr_drawn :: bool

definition newProgress :: "int \<Rightarrow> bool \<Rightarrow> int \<Rightarrow> progress" where
  "newProgress nbytes terminal tm = \<lparr> pr_total = nbytes, pr_interactive = terminal, pr_start = tm,
     pr_done = 0, pr_last_draw = None, pr_last_percent = - 1, pr_drawn = False \<rparr>"

definition bar :: "int \<Rightarrow> string" where
  "bar percent =
     (let filled = percent * barWidth div 100 in
      replicate (nat filled) CHR ''='' @
      (if filled < barWidth then CHR ''>'' # replicate (nat (barWidth - filled - 1)) CHR '' '' else []))"

definition pad_left :: "nat \<Rightarrow> string \<Rightarrow> string" where
  "pad_left n s = replicate (n - length s) CHR '' '' @ s"

definition progress_line :: "int \<Rightarrow> int \<Rightarrow> progress \<Rightarrow> string" where
  "progress_line tm percent p =
     (let elapsed = seconds (tm - pr_start p);
          speed = (if 0 < elapsed then of_int (pr_done p) / elapsed else 0);
          eta = (if 0 < speed \<and> pr_done p < pr_total p then
                   duration_String (roundDuration \<lfloor>of_int (pr_total p - pr_done p) / speed * of_int second\<rfloor>)
                 else if pr_total p \<le> pr_done p then ''0s'' else ''--'')
      in CHR ''['' # bar percent @ ''] '' @ pad_left 3 (show_int percent) @ ''%  '' @ formatBytes (pr_done p) @
         '' / '' @ formatBytes (pr_total p) @ ''  '' @ formatBytes \<lfloor>speed\<rfloor> @ ''/s  ETA '' @ eta)"

definition render :: "int \<Rightarrow> bool \<Rightarrow> progress \<Rightarrow> string list \<times> progress" where
  "render tm force p =
     (let percent = (if 0 < pr_total p then pr_done p * 100 div pr_total p else 100);
          step = percent div lineEveryPercent * lineEveryPercent in
      if pr_interactive p then
        (if \<not> force \<and> (case pr_last_draw p of None \<Rightarrow> False | Some t \<Rightarrow> tm - t < redrawEvery) then ([], p)
         else ([CHR 0x0D # ''  '' @ progress_line tm percent p @ ''   ''],
               p\<lparr> pr_last_draw := Some tm, pr_drawn := True \<rparr>))
      else if step = pr_last_percent p then ([], p)
      else ([''  '' @ progress_line tm percent p @ [CHR 0x0A]], p\<lparr> pr_last_percent := step \<rparr>))"

definition progress_add :: "int \<Rightarrow> int \<Rightarrow> progress \<Rightarrow> string list \<times> progress" where
  "progress_add tm n p = render tm False (p\<lparr> pr_done := pr_done p + n \<rparr>)"

definition end_of_bar :: "progress \<Rightarrow> string list" where
  "end_of_bar p = (if pr_interactive p \<and> pr_drawn p then [[CHR 0x0A]] else [])"

definition progress_finish :: "int \<Rightarrow> progress \<Rightarrow> string list \<times> progress" where
  "progress_finish tm p = (case render tm True (p\<lparr> pr_done := pr_total p \<rparr>) of
     (out, p) \<Rightarrow> (out @ end_of_bar p, p))"

definition progress_abort :: "progress \<Rightarrow> string list" where
  "progress_abort p = end_of_bar p"

text \<open>The reads of the file, each with its time and the number of bytes; an empty read is not counted.\<close>

fun counted_reads :: "(int \<times> int) list \<Rightarrow> progress \<Rightarrow> string list \<times> progress" where
  "counted_reads [] p = ([], p)"
| "counted_reads ((tm, n) # rs) p =
     (if 0 < n then
        (case progress_add tm n p of (out, p) \<Rightarrow>
           (case counted_reads rs p of (out2, p) \<Rightarrow> (out @ out2, p)))
      else counted_reads rs p)"

section \<open>Lemmas\<close>

text \<open>The bar keeps its width up to the last percent.\<close>

lemma length_bar: "0 \<le> percent \<Longrightarrow> percent \<le> 100 \<Longrightarrow> length (bar percent) = 24"
  by (auto simp: bar_def barWidth_def Let_def)

text \<open>Off a terminal, what is printed is one line per step of ten percent.\<close>

definition percent_done :: "progress \<Rightarrow> int" where
  "percent_done p = pr_done p * 100 div pr_total p"

definition in_steps :: "progress \<Rightarrow> bool" where
  "in_steps p \<longleftrightarrow> \<not> pr_interactive p \<and> 0 \<le> pr_done p \<and> pr_done p \<le> pr_total p \<and> 0 < pr_total p \<and>
     (pr_last_percent p = - 1 \<or> 0 \<le> pr_last_percent p \<and> pr_last_percent p mod 10 = 0 \<and>
        pr_last_percent p \<le> percent_done p)"

definition lines_so_far :: "progress \<Rightarrow> int" where
  "lines_so_far p = (if pr_last_percent p = - 1 then 0 else pr_last_percent p div 10 + 1)"

lemma lines_so_far_done [simp]: "lines_so_far (p\<lparr> pr_done := n \<rparr>) = lines_so_far p"
  by (simp add: lines_so_far_def)

lemma percent_bounds: "in_steps p \<Longrightarrow> 0 \<le> percent_done p \<and> percent_done p \<le> 100"
proof -
  assume p: "in_steps p"
  then have "pr_done p * 100 \<le> 100 * pr_total p" "0 \<le> pr_done p * 100" "0 < pr_total p"
    by (simp_all add: in_steps_def)
  then show ?thesis
    unfolding percent_done_def
    by (metis pos_imp_zdiv_nonneg_iff zdiv_mono1 nonzero_mult_div_cancel_right order_less_irrefl)
qed

lemma in_steps_more:
  assumes "in_steps p" "pr_done p \<le> n" "n \<le> pr_total p"
  shows "in_steps (p\<lparr> pr_done := n \<rparr>)"
proof -
  have "pr_done p * 100 div pr_total p \<le> n * 100 div pr_total p"
    using assms by (intro zdiv_mono1) (auto simp: in_steps_def)
  with assms show ?thesis by (auto simp: in_steps_def percent_done_def)
qed

lemma render_steps:
  assumes "in_steps p" "render tm force p = (out, q)"
  shows "in_steps q" "pr_done q = pr_done p" "pr_total q = pr_total p"
    "pr_last_percent q = percent_done p div 10 * 10"
    "int (length out) \<le> lines_so_far q - lines_so_far p"
proof -
  have q: "q = p\<lparr> pr_last_percent := percent_done p div 10 * 10 \<rparr>"
    "out = (if percent_done p div 10 * 10 = pr_last_percent p then []
       else [''  '' @ progress_line tm (percent_done p) p @ [CHR 0x0A]])"
    using assms by (auto simp: render_def in_steps_def percent_done_def lineEveryPercent_def Let_def split: if_splits)
  have b: "0 \<le> percent_done p" "percent_done p \<le> 100" using percent_bounds assms(1) by auto
  from assms(1) b show "in_steps q" by (auto simp: q in_steps_def percent_done_def)
  show "pr_done q = pr_done p" "pr_total q = pr_total p" "pr_last_percent q = percent_done p div 10 * 10"
    by (simp_all add: q)
  show "int (length out) \<le> lines_so_far q - lines_so_far p"
  proof -
    have "0 \<le> percent_done p div 10" using b(1) by (rule pos_imp_zdiv_nonneg_iff [THEN iffD2, rotated]) simp
    moreover have "pr_last_percent p mod 10 = 0 \<Longrightarrow> pr_last_percent p \<le> percent_done p \<Longrightarrow>
        percent_done p div 10 * 10 \<noteq> pr_last_percent p \<Longrightarrow> 1 \<le> percent_done p div 10 - pr_last_percent p div 10"
      using zdiv_mono1 [of "pr_last_percent p" "percent_done p" 10] by fastforce
    ultimately show ?thesis using assms(1) by (auto simp: q lines_so_far_def in_steps_def)
  qed
qed

lemma counted_steps:
  assumes "in_steps p" "pr_done p + (\<Sum>(tm, n) \<leftarrow> rs. max 0 n) \<le> pr_total p" "counted_reads rs p = (out, q)"
  shows "in_steps q \<and> pr_total q = pr_total p \<and> int (length out) \<le> lines_so_far q - lines_so_far p"
  using assms
proof (induction rs arbitrary: p out)
  case (Cons r rs)
  obtain tm n where r: "r = (tm, n)" by fastforce
  have rest: "0 \<le> (\<Sum>(tm, n) \<leftarrow> rs. max 0 n)" by (induction rs) auto
  show ?case
  proof (cases "0 < n")
    case False
    with Cons r show ?thesis by simp
  next
    case True
    obtain out1 p1 where a: "progress_add tm n p = (out1, p1)" by fastforce
    with Cons.prems True r obtain out2 where b: "counted_reads rs p1 = (out2, q)" "out = out1 @ out2"
      by (auto split: prod.splits)
    have "in_steps (p\<lparr> pr_done := pr_done p + n \<rparr>)"
      using Cons.prems(1,2) True r rest by (intro in_steps_more) auto
    from render_steps [OF this a [unfolded progress_add_def]]
    have "in_steps p1" "pr_done p1 = pr_done p + n" "pr_total p1 = pr_total p"
      "int (length out1) \<le> lines_so_far p1 - lines_so_far p"
      by simp_all
    with Cons.IH [OF \<open>in_steps p1\<close> _ b(1)] Cons.prems(2) True r b(2) show ?thesis by simp
  qed
qed simp

text \<open>
  Where standard output is no terminal, an upload prints at most eleven lines of progress, however
  many reads it takes; the last of them is the one of a hundred percent.
\<close>

lemma progress_lines_bounded:
  assumes "0 < nbytes" "(\<Sum>(tm, n) \<leftarrow> rs. max 0 n) \<le> nbytes"
    and "counted_reads rs (newProgress nbytes False start) = (out1, p)" "progress_finish tm p = (out2, q)"
  shows "length (out1 @ out2) \<le> 11 \<and> pr_last_percent q = 100 \<and> pr_done q = nbytes"
proof -
  have "in_steps (newProgress nbytes False start)" "lines_so_far (newProgress nbytes False start) = 0"
    using assms(1) by (simp_all add: in_steps_def lines_so_far_def newProgress_def)
  with counted_steps [OF _ _ assms(3)] assms(2)
  have p: "in_steps p" "pr_total p = nbytes" "int (length out1) \<le> lines_so_far p"
    by (simp_all add: newProgress_def)
  obtain out3 q' where r: "render tm True (p\<lparr> pr_done := pr_total p \<rparr>) = (out3, q')" by fastforce
  have full: "in_steps (p\<lparr> pr_done := pr_total p \<rparr>)"
    using p by (intro in_steps_more) (auto simp: in_steps_def)
  note s = render_steps [OF full r]
  have "percent_done (p\<lparr> pr_done := pr_total p \<rparr>) = 100"
    using assms(1) p(2) by (simp add: percent_done_def)
  with s(2,4) p(2) have "pr_last_percent q' = 100" "pr_done q' = nbytes" by simp_all
  moreover from this(1) s(5) p(3) have "int (length (out1 @ out3)) \<le> 11"
    by (simp add: lines_so_far_def [of q'])
  moreover have "out2 = out3" "q = q'"
    using assms(4) r s(1) by (auto simp: progress_finish_def end_of_bar_def in_steps_def)
  ultimately show ?thesis by simp
qed

lemma progress_lines_bounded_witness:
  "length (fst (counted_reads [(1, 3), (2, 0), (3, 4)] (newProgress 7 False 0)) @
     fst (progress_finish 4 (snd (counted_reads [(1, 3), (2, 0), (3, 4)] (newProgress 7 False 0))))) \<le> 11"
proof -
  obtain out1 p where a: "counted_reads [(1, 3), (2, 0), (3, 4)] (newProgress 7 False 0) = (out1, p)" by fastforce
  obtain out2 q where b: "progress_finish 4 p = (out2, q)" by fastforce
  from progress_lines_bounded [OF _ _ a b] a b show ?thesis by simp
qed

end
