(* ===== verification/Spec2Isabelle.thy ===== *)
theory Spec2Isabelle
  imports AccessProperties TeamProperties ProjectProperties FolderProperties OrderProperties
    ServiceProperties Middleware StartupProperties UploadProperties Progress
begin

text \<open>
  Ghostman is the sync server of an HTTP client: users work in teams on projects that hold folders,
  requests with examples, environments with variables, proxies and webhook endpoints. This
  development models the server under \<^verbatim>\<open>src/cmd\<close> and \<^verbatim>\<open>src/internal\<close>
  and proves what it promises to its clients.

  The program and its parts. \<^verbatim>\<open>cmd/server\<close> loads the configuration, opens the
  connection pool, applies the migrations and serves HTTP. The host of a request decides between two
  sides that share nothing but the database: a webhook capture domain records the request
  (\<^verbatim>\<open>internal/api/capture.go\<close>), any other host reaches the JSON API. There a route
  table selects a handler; behind the bearer check nearly every handler runs the same course: parse
  the path and the body, ask \<^verbatim>\<open>internal/authz\<close> whether the caller may, run one query or
  one transaction of \<^verbatim>\<open>internal/db\<close>, and answer. The state of the server is the PostgreSQL
  database and three rate limiters. \<^verbatim>\<open>cmd/upload\<close> is the deployment tool.

  How the state is modelled. A database (\<open>db\<close>, theory Schema) is the list of rows of each table, the
  rows being the structs of \<^verbatim>\<open>internal/db/models.go\<close>. A query is a function of the
  database and of the values of \<^verbatim>\<open>gen_random_uuid()\<close> and \<^verbatim>\<open>now()\<close>, and
  checks what the migrations declare: keys, references, cascades, checks, integer ranges and text
  encoding. A \<open>world\<close> (theory World) adds the environment: for every statement whether it is carried
  out, refused, or carried out with the acknowledgement lost, and what other sessions write before it.
  \<open>exec\<close> runs one statement, \<open>inTx\<close> is \<^verbatim>\<open>Store.inTx\<close>. Handlers are functions from a
  request and a world to a response and a world; every early return is a branch.

  The theories, by what they model.
  \<^item> Prelude, GoText, Json, Base64, Net, Http: the routines of Go's standard library the code uses
    (UTF-8, trimming, decoding into structs, header and host syntax, numbers) and
    \<^verbatim>\<open>internal/api/json.go\<close>, \<^verbatim>\<open>client_ip.go\<close>.
  \<^item> Schema, World: rows, errors (\<open>goerr\<close> with \<^verbatim>\<open>errors.Is\<close> and
    \<^verbatim>\<open>errors.As\<close>), cascades, statements and transactions.
  \<^item> TeamQueries, ProjectQueries, FolderQueries, RequestQueries, EnvironmentQueries, WebhookQueries: the
    files \<^verbatim>\<open>internal/db/*.sql.go\<close>, one definition per query.
  \<^item> Authz: \<^verbatim>\<open>internal/authz/authz.go\<close>, and the access policy it implements.
  \<^item> Teams, Invitations, Projects, Folders, Requests, Environments, ProxiesExamples, Webhooks, Capture,
    Auth: the handlers of the file of \<^verbatim>\<open>internal/api\<close> with that name and the
    transactions of \<^verbatim>\<open>internal/db\<close> they call; Rows and NodeSettings the parsers of
    \<^verbatim>\<open>key_value_rows.go\<close>, \<^verbatim>\<open>multipart_rows.go\<close>,
    \<^verbatim>\<open>request_body.go\<close> and \<^verbatim>\<open>node_*.go\<close>.
  \<^item> Passwords and RateLimit: \<^verbatim>\<open>internal/auth\<close> and \<^verbatim>\<open>internal/ratelimit\<close>.
  \<^item> Service: \<^verbatim>\<open>routes.go\<close>, \<^verbatim>\<open>middleware.go\<close>,
    \<^verbatim>\<open>server.go\<close> and the host switch; its steps are \<open>server_step\<close>, its states
    \<open>reachable\<close>.
  \<^item> Middleware: the response writer, \<^verbatim>\<open>statusRecorder\<close>, logging and panic
    recovery, for handlers that write step by step and may panic in between.
    \<open>middleware_transparent\<close> justifies that Service leaves them out: on its handlers, which return,
    the client receives the response of \<open>api_handler\<close>.
  \<^item> Startup: \<^verbatim>\<open>internal/config\<close>, \<^verbatim>\<open>cmd/server/main.go\<close>,
    \<^verbatim>\<open>internal/db/pool.go\<close>, \<^verbatim>\<open>migrate.go\<close>. Upload and Progress:
    \<^verbatim>\<open>cmd/upload\<close>. Both record what happens as a list of events, and their surroundings
    are arbitrary functions of it. RemoteFiles is the host the upload talks to, as documented: how its
    shell reads a line, and which files the commands it runs may write.

  What the lemmas show.
  \<^item> Reorder holds the contract of every ordered list as a locale, interpreted on each of the six tables
    that have an order; OrderProperties and ProjectProperties draw the reordering properties from it.
  \<^item> FolderTree keeps the folders of a project a forest through every move and computes what a delete
    takes along; FolderProperties states it of the handlers.
  \<^item> World has the rules for runs of statements: \<open>step_rel\<close> for any relation that chains,
    \<open>db_rel\<close> for a property of the database that other sessions keep too. StoreInterface states the
    interface \<^verbatim>\<open>internal/api/store.go\<close> as contracts over such a relation:
    \<open>statements_keep\<close> asks it of each statement, \<open>store_keeps\<close> of each method of
    \<^verbatim>\<open>Store\<close>, and the one gives the other; from \<open>store_keeps\<close> it follows for every handler
    there and for every state of the server in ServiceRuns.
  \<^item> The contract is met three times. Wellformed and Kept do it for the constraints the migrations declare,
    amid other sessions that keep them; Scope for the boundaries of projects, which only the checks in
    front of the writes protect. ServiceProperties concludes for every reachable state, and shows that
    the capture side writes captures only. Answered meets it a third time, for an invitation that was
    accepted: no run reopens it, so that TeamProperties can speak of every later state.
  \<^item> AccessProperties relates the checks of \<^verbatim>\<open>authz\<close> to the policy, and shows that what
    is missing and what is foreign look the same; TeamProperties, ProjectProperties, AuthProperties,
    WebhookProperties, StartupProperties and UploadProperties are about their components.
  \<^item> Each property is followed by a witness that applies it to a concrete input, most of them on the
    database of Sample.

  Bounds and termination. The slug loop of \<^verbatim>\<open>webhooks.go\<close> may run forever on a bad
  random source and is a partial function; \<open>create_webhook_returns\<close> says when it ends, after at most
  fifty reads. The same holds of
  the message of an SCP status byte (\<open>upload_returns\<close>). The creation of an endpoint tries five slugs, a
  measure. The recursive query of \<^verbatim>\<open>IsDescendant\<close> ends because the rows not yet in the
  result decrease; the subtree of a delete is grown as many rounds as there are folders, which reaches
  the deepest one. Integers are mathematical integers with the ranges of their columns and Go types
  checked where a value enters (\<open>int32_ok\<close>, \<^verbatim>\<open>ParseInt64\<close>); random bytes are 8-bit words.

  Parameters. The record \<open>lib\<close> has the functions of packages that are not part of the repository (UUID
  text, time text, quoting, Unicode case, mail addresses, SHA-256, driver messages), \<open>iplib\<close> the parsing
  of IP addresses, \<open>argon\<close> the password hash; salts, tokens, slugs' bytes, the clocks and the answer of
  \<^verbatim>\<open>ServeMux\<close> to an unclean path are arguments. Laws about them are hypotheses of the
  properties that need them, and each such property has a witness with concrete functions. So are the
  laws of RemoteFiles, which say what \<^verbatim>\<open>scp -t\<close>, \<^verbatim>\<open>sha256sum\<close>,
  \<^verbatim>\<open>rm -f\<close> and \<^verbatim>\<open>mv -f\<close> do to files, whoever runs them; that the live
  binary is spared follows from what the tool sends.

  Not modelled. Transactions run as if serializable: the interleavings that \<^verbatim>\<open>READ
  COMMITTED\<close> allows inside them, and the row locks taken against those, have no effect here.
  Token buckets and upload speeds are rational numbers where the code has \<^verbatim>\<open>float64\<close>.
  Log lines of single handlers, timing, time-outs of the HTTP server, the key order of
  \<^verbatim>\<open>jsonb\<close>, gaps of the capture sequence, \<^verbatim>\<open>CONNECT\<close> requests and
  the absent body of a \<^verbatim>\<open>HEAD\<close> answer are left out. \<^verbatim>\<open>db.go\<close> and
  \<^verbatim>\<open>api/store.go\<close> declare types and interfaces only, \<^verbatim>\<open>app_meta.sql.go\<close>
  is not called, and \<^verbatim>\<open>testdb.go\<close> serves the tests.
\<close>

end
